(* ===== verification/Prelude.thy ===== *)
theory Prelude
  imports Main "HOL-Library.Word" "HOL-Library.AList"
begin

text \<open>
  What every component of the proxy shares: the fixed-width integer types of the code, the
  outcome of an operation that may throw or abort, lookup tables (partial maps and
  association lists), and the decimal rendering the code gets from \<open>fmt::format\<close>.
\<close>

section \<open>Integers\<close>

text \<open>
  \<open>uint64_t\<close>, \<open>uint32_t\<close> and \<open>uint16_t\<close> are words, so increments wrap as they do in the
  code. Times are nanoseconds; a \<open>std::chrono::nanoseconds\<close> is an \<open>int\<close> here, except where
  its 64-bit width decides the result (theory \<open>Crypto\<close>).
\<close>

type_synonym u64 = "64 word"
type_synonym u32 = "32 word"
type_synonym u16 = "16 word"
type_synonym nanos = int

text \<open>\<open>std::chrono::duration_cast<std::chrono::seconds>\<close>: division that truncates towards zero.\<close>

definition duration_cast_seconds :: "nanos \<Rightarrow> int" where
  "duration_cast_seconds t = sgn t * (\<bar>t\<bar> div 1000000000)"

section \<open>Outcomes\<close>

text \<open>
  An operation of the proxy changes the state and then returns (\<open>Ok\<close>), throws the exception
  \<open>roq::NotReady\<close> with a text, leaving the state it had reached (\<open>Throw\<close>), or calls
  \<open>log::fatal\<close>, which ends the process (\<open>Fatal\<close>).
\<close>

datatype 'a result = Ok 'a | Throw string 'a | Fatal string

fun and_then :: "'a result \<Rightarrow> ('a \<Rightarrow> 'a result) \<Rightarrow> 'a result" where
  "and_then (Ok s) f = f s"
| "and_then (Throw e s) f = Throw e s"
| "and_then (Fatal e) f = Fatal e"

text \<open>
  A constructor returns what it has built (\<open>Built\<close>), calls \<open>log::fatal\<close> (\<open>Broken\<close>), or throws (\<open>Thrown\<close>).
\<close>

datatype 'a built = Built 'a | Broken string | Thrown

fun built_then :: "'a built \<Rightarrow> ('a \<Rightarrow> 'b built) \<Rightarrow> 'b built" where
  "built_then (Built x) f = f x"
| "built_then (Broken what) f = Broken what"
| "built_then Thrown f = Thrown"

text \<open>A call that returns or throws.\<close>

definition may_throw :: "bool \<Rightarrow> unit built" where
  "may_throw it_returns = (if it_returns then Built () else Thrown)"

lemma built_then_Built [simp]: "built_then m f = Built y \<longleftrightarrow> (\<exists>x. m = Built x \<and> f x = Built y)"
  by (cases m) auto

lemma may_throw_Built [simp]: "may_throw b = Built x \<longleftrightarrow> b"
  by (simp add: may_throw_def)

text \<open>A sequence of statements: each runs in the state the one before it returned.\<close>

fun in_order :: "('a \<Rightarrow> 'a result) list \<Rightarrow> 'a \<Rightarrow> 'a result" where
  "in_order [] s = Ok s"
| "in_order (f # fs) s = and_then (f s) (in_order fs)"

text \<open>
  \<open>leaves P r\<close>: whatever state the operation leaves behind satisfies \<open>P\<close>, whether it returned
  or threw. \<open>returns P r\<close> says in addition that it neither threw nor aborted.
\<close>

fun leaves :: "('a \<Rightarrow> bool) \<Rightarrow> 'a result \<Rightarrow> bool" where
  "leaves P (Ok s) \<longleftrightarrow> P s"
| "leaves P (Throw e s) \<longleftrightarrow> P s"
| "leaves P (Fatal e) \<longleftrightarrow> True"

fun returns :: "('a \<Rightarrow> bool) \<Rightarrow> 'a result \<Rightarrow> bool" where
  "returns P (Ok s) \<longleftrightarrow> P s"
| "returns P (Throw e s) \<longleftrightarrow> False"
| "returns P (Fatal e) \<longleftrightarrow> False"

fun throws :: "'a result \<Rightarrow> bool" where
  "throws (Throw e s) \<longleftrightarrow> True"
| "throws (Ok s) \<longleftrightarrow> False"
| "throws (Fatal e) \<longleftrightarrow> False"

text \<open>\<open>lands P r\<close>: the operation did not throw, and if it returned, its state satisfies \<open>P\<close>.\<close>

fun lands :: "('a \<Rightarrow> bool) \<Rightarrow> 'a result \<Rightarrow> bool" where
  "lands P (Ok s) \<longleftrightarrow> P s"
| "lands P (Throw e s) \<longleftrightarrow> False"
| "lands P (Fatal e) \<longleftrightarrow> True"

named_theorems leaves_intro \<open>introduction rules for \<open>leaves\<close>\<close>

lemma leaves_and_then [leaves_intro]:
  assumes "leaves P m" and "\<And>s. m = Ok s \<Longrightarrow> P s \<Longrightarrow> leaves P (f s)"
  shows "leaves P (and_then m f)"
  using assms by (cases m) auto

lemma leaves_mono: "leaves P m \<Longrightarrow> (\<And>s. P s \<Longrightarrow> Q s) \<Longrightarrow> leaves Q m"
  by (cases m) auto

lemma leaves_conj: "leaves (\<lambda>s. P s \<and> Q s) m \<longleftrightarrow> leaves P m \<and> leaves Q m"
  by (cases m) auto

lemma leaves_OkD: "leaves P m \<Longrightarrow> m = Ok s \<Longrightarrow> P s"
  by simp

lemma leaves_in_order:
  assumes "\<And>f s. f \<in> set fs \<Longrightarrow> P s \<Longrightarrow> leaves P (f s)"
  shows "P s \<Longrightarrow> leaves P (in_order fs s)"
  using assms by (induction fs arbitrary: s) (auto intro!: leaves_and_then)

text \<open>A relation between the state before and after, which operations in a row keep if each of them does.\<close>

locale kept =
  fixes rel :: "'a \<Rightarrow> 'a \<Rightarrow> bool"
  assumes same: "rel s s"
    and twice: "rel s t \<Longrightarrow> rel t u \<Longrightarrow> rel s u"
begin

lemma starting: "rel s t \<Longrightarrow> leaves (rel t) m \<Longrightarrow> leaves (rel s) m"
  by (cases m) (auto intro: twice)

lemma and_then:
  assumes "leaves (rel s) m" and "\<And>t. leaves (rel t) (f t)"
  shows "leaves (rel s) (and_then m f)"
  using assms(1) by (cases m) (auto intro: starting [OF _ assms(2)])

lemma in_order: "(\<And>f t. f \<in> set fs \<Longrightarrow> leaves (rel t) (f t)) \<Longrightarrow> leaves (rel s) (in_order fs s)"
  by (induction fs arbitrary: s) (auto intro!: and_then simp: same)

end

lemma lands_leaves: "lands P m \<Longrightarrow> leaves P m"
  by (cases m) auto

lemma lands_not_throws: "lands P m \<Longrightarrow> \<not> throws m"
  by (cases m) auto

lemma lands_mono: "lands P m \<Longrightarrow> (\<And>s. P s \<Longrightarrow> Q s) \<Longrightarrow> lands Q m"
  by (cases m) auto

lemma lands_and_then:
  assumes "lands P m" and "\<And>s. P s \<Longrightarrow> lands Q (f s)"
  shows "lands Q (and_then m f)"
  using assms by (cases m) auto

lemma lands_in_order:
  assumes "\<And>f s. f \<in> set fs \<Longrightarrow> P s \<Longrightarrow> lands P (f s)"
  shows "P s \<Longrightarrow> lands P (in_order fs s)"
  using assms by (induction fs arbitrary: s) (auto intro!: lands_and_then)

lemma and_then_eq_Ok [simp]:
  "and_then m f = Ok s' \<longleftrightarrow> (\<exists>s. m = Ok s \<and> f s = Ok s')"
  by (cases m) auto

lemma throws_and_then [simp]:
  "throws (and_then m f) \<longleftrightarrow> throws m \<or> (\<exists>s. m = Ok s \<and> throws (f s))"
  by (cases m) auto

lemma not_throws_Ok [simp]: "\<not> throws (Ok s)"
  by simp

lemma and_then_assoc: "and_then (and_then m f) g = and_then m (\<lambda>s. and_then (f s) g)"
  by (cases m) auto

lemma and_then_Ok_right [simp]: "and_then m Ok = m"
  by (cases m) auto

section \<open>Lookup tables\<close>

text \<open>
  \<open>utils::unordered_map\<close> is a partial map where the code only looks keys up, and an association
  list where it also walks over the entries; the order of the list stands for the order of
  iteration, which the container leaves open. \<open>try_emplace\<close> and \<open>emplace\<close> keep an entry that is
  already there.
\<close>

definition try_emplace :: "('k \<rightharpoonup> 'v) \<Rightarrow> 'k \<Rightarrow> 'v \<Rightarrow> ('k \<rightharpoonup> 'v)" where
  "try_emplace m k v = (if m k = None then m(k \<mapsto> v) else m)"

definition erase_key :: "('k \<rightharpoonup> 'v) \<Rightarrow> 'k \<Rightarrow> ('k \<rightharpoonup> 'v)" where
  "erase_key m k = m(k := None)"

definition emplace_list :: "('k \<times> 'v) list \<Rightarrow> 'k \<Rightarrow> 'v \<Rightarrow> ('k \<times> 'v) list" where
  "emplace_list al k v = (if map_of al k = None then al @ [(k, v)] else al)"

lemma try_emplace_apply:
  "try_emplace m k v x = (if x = k \<and> m k = None then Some v else m x)"
  by (simp add: try_emplace_def)

lemma erase_key_apply [simp]: "erase_key m k x = (if x = k then None else m x)"
  by (simp add: erase_key_def)

lemma map_of_emplace_list:
  "map_of (emplace_list al k v) x = (if x = k \<and> map_of al k = None then Some v else map_of al x)"
  by (auto simp: emplace_list_def map_add_def split: option.splits)

lemma emplace_list_not_Nil [simp]: "emplace_list al k v \<noteq> []"
  by (cases al) (auto simp: emplace_list_def)

lemma distinct_emplace_list:
  "distinct (map fst al) \<Longrightarrow> distinct (map fst (emplace_list al k v))"
  by (auto simp: emplace_list_def map_of_eq_None_iff image_iff)

lemma map_of_delete: "map_of (AList.delete k al) x = (if x = k then None else map_of al x)"
  by (simp add: AList.delete_conv')

lemma map_of_map_entry_apply:
  "map_of (AList.map_entry k f al) x = (if x = k then map_option f (map_of al k) else map_of al x)"
  by (simp add: map_of_map_entry split: option.splits)

lemma map_of_ran_snd: "map_of al k = Some v \<Longrightarrow> v \<in> snd ` set al"
  by (force dest: map_of_SomeD)

lemma map_fst_map_entry [simp]: "map fst (AList.map_entry k f al) = map fst al"
  by (induction al) auto

text \<open>Two tables that are each other's converse, as the code keeps them in pairs.\<close>

definition converse_maps :: "('a \<rightharpoonup> 'b) \<Rightarrow> ('b \<rightharpoonup> 'a) \<Rightarrow> bool" where
  "converse_maps f g \<longleftrightarrow> (\<forall>a b. f a = Some b \<longleftrightarrow> g b = Some a)"

lemma converse_maps_empty [simp]: "converse_maps Map.empty Map.empty"
  by (simp add: converse_maps_def)

lemma converse_mapsD: "converse_maps f g \<Longrightarrow> f a = Some b \<longleftrightarrow> g b = Some a"
  by (simp add: converse_maps_def)

lemma converse_maps_None: "converse_maps f g \<Longrightarrow> f a = None \<Longrightarrow> g b \<noteq> Some a"
  by (auto simp: converse_mapsD [symmetric])

lemma converse_maps_upd:
  assumes "converse_maps f g" and "f a = None" and "g b = None"
  shows "converse_maps (f(a \<mapsto> b)) (g(b \<mapsto> a))"
  unfolding converse_maps_def
proof (intro allI)
  fix x y
  from assms show "(f(a \<mapsto> b)) x = Some y \<longleftrightarrow> (g(b \<mapsto> a)) y = Some x"
    using converse_mapsD [OF assms(1), of x y] by (cases "x = a"; cases "y = b") auto
qed

lemma converse_maps_del:
  assumes "converse_maps f g" and "g b = Some a"
  shows "converse_maps (erase_key f a) (erase_key g b)"
  unfolding converse_maps_def
proof (intro allI)
  fix x y
  have "f a = Some b" using assms by (simp add: converse_mapsD)
  then show "erase_key f a x = Some y \<longleftrightarrow> erase_key g b y = Some x"
    using converse_mapsD [OF assms(1), of x y] assms(2) by (cases "x = a"; cases "y = b") auto
qed

section \<open>Decimal numbers\<close>

text \<open>What \<open>fmt::format("{}", n)\<close> prints for an unsigned integer.\<close>

definition digit :: "nat \<Rightarrow> char" where
  "digit n = char_of (48 + n)"

fun decimal :: "nat \<Rightarrow> string" where
  "decimal n = (if n < 10 then [digit n] else decimal (n div 10) @ [digit (n mod 10)])"

declare decimal.simps [simp del]

definition decimal_int :: "int \<Rightarrow> string" where
  "decimal_int i = (if i < 0 then ''-'' @ decimal (nat (- i)) else decimal (nat i))"

lemma of_char_digit: "n < 10 \<Longrightarrow> of_char (digit n) = (48 + n :: nat)"
  by (simp add: digit_def)

lemma digit_inject: "m < 10 \<Longrightarrow> n < 10 \<Longrightarrow> digit m = digit n \<Longrightarrow> m = n"
  by (drule arg_cong [where f = "of_char :: char \<Rightarrow> nat"]) (simp add: of_char_digit)

lemma decimal_not_Nil [simp]: "decimal n \<noteq> []"
  by (subst decimal.simps) simp

lemma decimal_digits: "c \<in> set (decimal n) \<Longrightarrow> \<exists>d < 10. c = digit d"
proof (induction n rule: decimal.induct)
  case (1 n)
  show ?case
  proof (cases "n < 10")
    case True
    with "1.prems" show ?thesis by (auto simp: decimal.simps [of n])
  next
    case False
    with "1.prems" have "c \<in> set (decimal (n div 10)) \<or> c = digit (n mod 10)"
      by (auto simp: decimal.simps [of n])
    moreover have "n mod 10 < 10" by simp
    ultimately show ?thesis using "1.IH" [OF False] by blast
  qed
qed

lemma decimal_no_colon: "CHR '':'' \<notin> set (decimal n)"
proof
  assume "CHR '':'' \<in> set (decimal n)"
  then obtain d where d: "d < 10" "CHR '':'' = digit d" by (blast dest: decimal_digits)
  then have "of_char (CHR '':'') = (48 + d :: nat)" using of_char_digit by metis
  with d(1) show False by simp
qed

lemma decimal_inject: "decimal m = decimal n \<Longrightarrow> m = n"
proof (induction m arbitrary: n rule: decimal.induct)
  case (1 m)
  have shape: "decimal k = (if k < 10 then [] else decimal (k div 10)) @ [digit (k mod 10)]" for k
    by (simp add: decimal.simps [of k])
  from "1.prems" have last: "digit (m mod 10) = digit (n mod 10)"
    and front: "(if m < 10 then [] else decimal (m div 10)) = (if n < 10 then [] else decimal (n div 10))"
    unfolding shape [of m] shape [of n] by simp_all
  from last have "m mod 10 = n mod 10" by (auto intro: digit_inject)
  moreover have "m div 10 = n div 10"
  proof (cases "m < 10")
    case True
    with front have "n < 10" by (metis decimal_not_Nil)
    with True show ?thesis by simp
  next
    case False
    with front "1.IH" show ?thesis by (auto split: if_splits)
  qed
  ultimately show ?case by (metis mult_div_mod_eq)
qed

end
