(* ===== verification/Crypto.thy ===== *)
theory Crypto
  imports Prelude
begin

text \<open>
  \<open>tools/crypto.hpp\<close> and \<open>tools/crypto.cpp\<close>: how a client's password is checked against the secret
  on file. SHA-256, HMAC, base64 and the number parser come from roq-utils: they are the arguments
  \<open>signature\<close> (secret and raw data to the base64 text of the digest) and \<open>from_chars\<close>.
\<close>

section \<open>The validator\<close>

datatype crypto_method = METHOD_UNDEFINED | HMAC_SHA256 | HMAC_SHA256_TS

text \<open>\<open>None\<close> is \<open>log::fatal\<close>.\<close>

definition parse_method :: "string \<Rightarrow> crypto_method option" where
  "parse_method auth_method =
     (if auth_method = [] then Some METHOD_UNDEFINED
      else if auth_method = ''hmac_sha256'' then Some HMAC_SHA256
      else if auth_method = ''hmac_sha256_ts'' then Some HMAC_SHA256_TS
      else None)"

text \<open>
  \<open>std::chrono\<close> keeps nanoseconds in an \<open>int64_t\<close>. The conversion of the client's milliseconds and
  the two subtractions happen at that width. A signed overflow is undefined in C++; the model has what the instructions
  of the machine leave, the two's complement. The property of the check within 2^62 ns
  does not depend on this choice, since its bounds exclude an overflow; the one of the wrap-around is about it.
\<close>

definition i64 :: "int \<Rightarrow> int" where
  "i64 x = signed_take_bit 63 x"

definition milliseconds :: "int \<Rightarrow> nanos" where
  "milliseconds t = i64 (t * 1000000)"

definition time_distance :: "nanos \<Rightarrow> nanos \<Rightarrow> nanos" where
  "time_distance sending now = (if sending < now then i64 (now - sending) else i64 (sending - now))"

definition validate ::
  "(string \<Rightarrow> string \<Rightarrow> string) \<Rightarrow> (string \<Rightarrow> int) \<Rightarrow> crypto_method \<Rightarrow> nanos \<Rightarrow> nanos \<Rightarrow>
     string \<Rightarrow> string \<Rightarrow> string \<Rightarrow> bool" where
  "validate signature from_chars method tolerance now password secret raw_data =
     (case method of
        METHOD_UNDEFINED \<Rightarrow> password = secret
      | HMAC_SHA256 \<Rightarrow> signature secret raw_data = password
      | HMAC_SHA256_TS \<Rightarrow>
          if CHR ''.'' \<notin> set raw_data then False
          else
            let tmp = from_chars (takeWhile (\<lambda>c. c \<noteq> CHR ''.'') raw_data);
                sending_time_utc = milliseconds tmp;
                diff = time_distance sending_time_utc now
            in if diff > tolerance then False
               else if signature secret raw_data \<noteq> password then False
               else True)"

section \<open>What it accepts\<close>

lemma i64_id: "- (2 ^ 63) \<le> x \<Longrightarrow> x < 2 ^ 63 \<Longrightarrow> i64 x = x"
  by (simp add: i64_def signed_take_bit_int_eq_self)

lemma milliseconds_exact:
  "\<bar>t\<bar> \<le> 9223372036854 \<Longrightarrow> milliseconds t = t * 1000000"
  unfolding milliseconds_def by (rule i64_id) auto

lemma time_distance_exact:
  assumes "\<bar>sending\<bar> < 2 ^ 62" and "\<bar>now\<bar> < 2 ^ 62"
  shows "time_distance sending now = \<bar>now - sending\<bar>"
  using assms by (auto simp: time_distance_def i64_id)

text \<open>
  C35. Timestamped authentication: for a timestamp and a clock within 2^62 ns of the epoch (the
  years 1824 to 2116), a logon is accepted exactly when the raw data carries a period, its
  timestamp is within the tolerance of the proxy's clock, on either side, and the password is the
  signature of the whole raw data.
\<close>

theorem validate_timestamp:
  assumes "\<bar>from_chars (takeWhile (\<lambda>c. c \<noteq> CHR ''.'') raw)\<bar> \<le> 4611686018427" and "\<bar>now\<bar> < 2 ^ 62"
  shows "validate signature from_chars HMAC_SHA256_TS tolerance now password secret raw \<longleftrightarrow>
    CHR ''.'' \<in> set raw \<and>
    \<bar>now - from_chars (takeWhile (\<lambda>c. c \<noteq> CHR ''.'') raw) * 1000000\<bar> \<le> tolerance \<and>
    signature secret raw = password"
proof -
  let ?t = "from_chars (takeWhile (\<lambda>c. c \<noteq> CHR ''.'') raw)"
  have "milliseconds ?t = ?t * 1000000" using assms(1) by (intro milliseconds_exact) simp
  moreover have "\<bar>?t * 1000000\<bar> < 2 ^ 62" using assms(1) by (simp add: abs_mult)
  ultimately show ?thesis
    using assms(2) by (auto simp: validate_def time_distance_exact)
qed

theorem validate_timestamp_witness:
  "validate (\<lambda>secret raw. secret @ raw) (\<lambda>s. 1700000000000) HMAC_SHA256_TS 5000000000
     1700000003000000000 ''k1700000000000.n'' ''k'' ''1700000000000.n''"
  using validate_timestamp [of "\<lambda>s. 1700000000000" "''1700000000000.n''" "1700000003000000000"
      "\<lambda>secret raw. secret @ raw" "5000000000" "''k1700000000000.n''" "''k''"]
  by simp

text \<open>
  C36. The tolerance does not bound the timestamp: whatever the tolerance (zero or more), a
  timestamp in the year 1677 passes the check at a clock of the year 2023, because the 64-bit
  difference wraps to a negative number; only the signature is then checked.
\<close>

theorem validate_timestamp_wraps:
  assumes "0 \<le> tolerance"
  shows "\<exists>timestamp < 0. \<forall>signature password secret raw. CHR ''.'' \<in> set raw \<longrightarrow>
    validate signature (\<lambda>s. timestamp) HMAC_SHA256_TS tolerance 1700000000000000000 password secret raw =
      (signature secret raw = password)"
proof (intro exI [of _ "- 9223372036854"] conjI allI impI)
  fix signature :: "string \<Rightarrow> string \<Rightarrow> string" and password secret raw
  assume period: "CHR ''.'' \<in> set raw"
  have "milliseconds (- 9223372036854) = - 9223372036854000000"
    by (subst milliseconds_exact) auto
  moreover have "time_distance (- 9223372036854000000) 1700000000000000000 = - 7523372036855551616"
    by (simp add: time_distance_def i64_def signed_take_bit_eq_take_bit_shift take_bit_eq_mod)
  ultimately have "time_distance (milliseconds (- 9223372036854)) 1700000000000000000 \<le> tolerance"
    using assms by simp
  then show "validate signature (\<lambda>s. - 9223372036854) HMAC_SHA256_TS tolerance 1700000000000000000
      password secret raw = (signature secret raw = password)"
    using period by (simp add: validate_def)
qed simp

theorem validate_timestamp_wraps_witness:
  "\<exists>timestamp < 0. validate (\<lambda>secret raw. secret) (\<lambda>s. timestamp) HMAC_SHA256_TS 5000000000
     1700000000000000000 ''k'' ''k'' ''x.n''"
proof -
  obtain t where t: "t < 0" and *: "\<forall>signature password secret raw. CHR ''.'' \<in> set raw \<longrightarrow>
    validate signature (\<lambda>s. t) HMAC_SHA256_TS 5000000000 1700000000000000000 password secret raw =
      (signature secret raw = password)"
    using validate_timestamp_wraps [of 5000000000] by auto
  from * have "validate (\<lambda>secret raw. secret) (\<lambda>s. t) HMAC_SHA256_TS 5000000000
     1700000000000000000 ''k'' ''k'' ''x.n''" by simp
  with t show ?thesis by blast
qed

lemma validate_plain: "validate f g METHOD_UNDEFINED tol now password secret raw \<longleftrightarrow> password = secret"
  by (simp add: validate_def)

lemma validate_hmac:
  "validate f g HMAC_SHA256 tol now password secret raw \<longleftrightarrow> f secret raw = password"
  by (simp add: validate_def)

lemma validate_ts_signature:
  "validate f g HMAC_SHA256_TS tol now password secret raw \<Longrightarrow> f secret raw = password"
  by (simp add: validate_def Let_def split: if_splits)

end
