(* ===== verification/Shared_State.thy ===== *)
theory Shared_State
  imports Crypto
begin

text \<open>
  \<open>shared.hpp\<close>, \<open>shared.cpp\<close> and \<open>error.cpp\<close>: the state that the sessions and the controller share.
  It holds the users who may log on, which session each logged-on user has, the sessions waiting
  to be removed, and the two counters that number sessions and requests.
\<close>

section \<open>Error texts\<close>

definition error_not_logged_on :: string where
  "error_not_logged_on = ''NOT_LOGGED_ON''"

definition error_already_logged_on :: string where
  "error_already_logged_on = ''ALREADY_LOGGED_ON''"

definition error_invalid_password :: string where
  "error_invalid_password = ''INVALID_PASSWORD''"

definition error_invalid_username :: string where
  "error_invalid_username = ''INVALID_USERNAME''"

lemmas error_texts =
  error_not_logged_on_def error_already_logged_on_def error_invalid_password_def error_invalid_username_def

section \<open>State and operations\<close>

record shared =
  next_session_id :: u64
  user_table :: "string \<rightharpoonup> string \<times> u32"
  username_to_session :: "string \<rightharpoonup> u64"
  session_to_username :: "u64 \<rightharpoonup> string"
  sessions_to_remove :: "u64 list"
  regex_symbols :: "string list"
  next_request_id :: u64

text \<open>\<open>config.users\<close>: username, password and strategy id of each entry, in iteration order.\<close>

definition create_user_table :: "(string \<times> string \<times> u32) list \<Rightarrow> (string \<rightharpoonup> string \<times> u32)" where
  "create_user_table users =
     fold (\<lambda>(username, password, strategy_id) m. try_emplace m username (password, strategy_id)) users Map.empty"

text \<open>The members after the construction; the request counter starts at the clock, in nanoseconds.\<close>

definition new_shared :: "(string \<times> string \<times> u32) list \<Rightarrow> string list \<Rightarrow> nanos \<Rightarrow> shared" where
  "new_shared users symbols now =
     \<lparr>next_session_id = 0, user_table = create_user_table users,
      username_to_session = Map.empty, session_to_username = Map.empty, sessions_to_remove = [],
      regex_symbols = symbols, next_request_id = word_of_int now\<rparr>"

text \<open>
  The constructor, its members in their order: \<open>utils::regex::Pattern\<close> throws for a text that is not a regular
  expression (\<open>compiles\<close> is what that library accepts, and a pattern stands for itself), and \<open>Crypto\<close> calls
  \<open>log::fatal\<close> for an unknown method.
\<close>

definition create_regex_symbols :: "(string \<Rightarrow> bool) \<Rightarrow> string list \<Rightarrow> string list built" where
  "create_regex_symbols compiles symbols = (if list_all compiles symbols then Built symbols else Thrown)"

definition create_shared ::
  "(string \<Rightarrow> bool) \<Rightarrow> string \<Rightarrow> (string \<times> string \<times> u32) list \<Rightarrow> string list \<Rightarrow> nanos \<Rightarrow> (shared \<times> crypto_method) built" where
  "create_shared compiles auth_method users symbols now =
     built_then (create_regex_symbols compiles symbols) (\<lambda>patterns.
       case parse_method auth_method of
         None \<Rightarrow> Broken (''Unexpected: auth_method='' @ auth_method)
       | Some mth \<Rightarrow> Built (new_shared users patterns now, mth))"

text \<open>\<open>Shared::include\<close>; regular expressions are roq-utils', so matching is an argument.\<close>

definition include_symbol :: "(string \<Rightarrow> string \<Rightarrow> bool) \<Rightarrow> string \<Rightarrow> shared \<Rightarrow> bool" where
  "include_symbol regex_match symbol sh = list_ex (\<lambda>regex. regex_match regex symbol) (regex_symbols sh)"

definition add_user :: "string \<Rightarrow> string \<Rightarrow> u32 \<Rightarrow> shared \<Rightarrow> shared" where
  "add_user username password strategy_id sh =
     sh\<lparr>user_table := (try_emplace (user_table sh) username ([], 0))(username \<mapsto> (password, strategy_id))\<rparr>"

definition remove_user :: "string \<Rightarrow> shared \<Rightarrow> shared" where
  "remove_user username sh = sh\<lparr>user_table := erase_key (user_table sh) username\<rparr>"

text \<open>
  \<open>session_logon_helper\<close>: \<open>Inl\<close> is the error text, \<open>Inr\<close> the strategy id handed out through the
  reference parameter. \<open>valid\<close> is \<open>crypto_.validate\<close> on the password, the secret and the raw data.
\<close>

definition session_logon ::
  "(string \<Rightarrow> string \<Rightarrow> string \<Rightarrow> bool) \<Rightarrow> u64 \<Rightarrow> string \<Rightarrow> string \<Rightarrow> string \<Rightarrow> shared \<Rightarrow> (string + u32) \<times> shared" where
  "session_logon valid session_id username password raw_data sh =
     (case user_table sh username of
        None \<Rightarrow> (Inl error_invalid_username, sh)
      | Some (secret, strategy_id) \<Rightarrow>
          if \<not> valid password secret raw_data then (Inl error_invalid_password, sh)
          else case username_to_session sh username of
            Some other \<Rightarrow> (Inl error_already_logged_on, sh)
          | None \<Rightarrow>
              (Inr strategy_id,
               sh\<lparr>username_to_session := try_emplace (username_to_session sh) username session_id,
                  session_to_username := try_emplace (session_to_username sh) session_id username\<rparr>))"

text \<open>\<open>session_logout_helper\<close>: \<open>Some\<close> is the error text.\<close>

definition session_logout :: "u64 \<Rightarrow> shared \<Rightarrow> string option \<times> shared" where
  "session_logout session_id sh =
     (case session_to_username sh session_id of
        None \<Rightarrow> (Some error_not_logged_on, sh)
      | Some username \<Rightarrow>
          (None, sh\<lparr>username_to_session := erase_key (username_to_session sh) username,
                    session_to_username := erase_key (session_to_username sh) session_id\<rparr>))"

definition session_remove_helper :: "u64 \<Rightarrow> shared \<Rightarrow> shared" where
  "session_remove_helper session_id sh =
     (case session_to_username sh session_id of
        None \<Rightarrow> sh
      | Some username \<Rightarrow>
          sh\<lparr>username_to_session := erase_key (username_to_session sh) username,
             session_to_username := erase_key (session_to_username sh) session_id\<rparr>)"

definition session_remove :: "u64 \<Rightarrow> shared \<Rightarrow> shared" where
  "session_remove session_id sh =
     session_remove_helper session_id
       (sh\<lparr>sessions_to_remove := List.insert session_id (sessions_to_remove sh)\<rparr>)"

text \<open>
  \<open>session_cleanup\<close> walks over the sessions to remove, undoes their logon and calls the manager back;
  the walk returns the ids it called back with, in order.
\<close>

definition session_cleanup :: "shared \<Rightarrow> u64 list \<times> shared" where
  "session_cleanup sh =
     (sessions_to_remove sh,
      (fold session_remove_helper (sessions_to_remove sh) sh)\<lparr>sessions_to_remove := []\<rparr>)"

definition session_find :: "string \<Rightarrow> shared \<Rightarrow> u64 option" where
  "session_find username sh = username_to_session sh username"

text \<open>\<open>Shared::create_request_id\<close>: \<open>"proxy-{}"\<close> of the incremented counter.\<close>

definition counter_id :: "u64 \<Rightarrow> string" where
  "counter_id n = ''proxy-'' @ decimal (unat n)"

definition create_request_id :: "shared \<Rightarrow> string \<times> shared" where
  "create_request_id sh =
     (let n = next_request_id sh + 1 in (counter_id n, sh\<lparr>next_request_id := n\<rparr>))"

section \<open>The logon tables agree\<close>

definition logons_agree :: "shared \<Rightarrow> bool" where
  "logons_agree sh \<longleftrightarrow>
     converse_maps (username_to_session sh) (session_to_username sh)"

named_theorems shared_simps \<open>the operations on the shared state\<close>

lemmas shared_op_defs [shared_simps] =
  add_user_def remove_user_def session_logout_def session_remove_helper_def session_remove_def create_request_id_def

lemma logons_agree_create [simp]: "logons_agree (new_shared users symbols now)"
  by (simp add: logons_agree_def new_shared_def)

lemma logons_agree_cong:
  "username_to_session sh' = username_to_session sh \<Longrightarrow> session_to_username sh' = session_to_username sh \<Longrightarrow>
   logons_agree sh' \<longleftrightarrow> logons_agree sh"
  by (simp add: logons_agree_def)

lemma logons_agree_add_user [simp]: "logons_agree (add_user u p i sh) \<longleftrightarrow> logons_agree sh"
  by (rule logons_agree_cong) (simp_all add: shared_simps)

lemma logons_agree_remove_user [simp]: "logons_agree (remove_user u sh) \<longleftrightarrow> logons_agree sh"
  by (rule logons_agree_cong) (simp_all add: shared_simps)

lemma logons_agree_create_request_id [simp]:
  "logons_agree (snd (create_request_id sh)) \<longleftrightarrow> logons_agree sh"
  by (rule logons_agree_cong) (simp_all add: shared_simps Let_def)

lemma logons_agree_logon:
  assumes "logons_agree sh" and "session_to_username sh sid = None"
  shows "logons_agree (snd (session_logon valid sid user pw raw sh))"
  using assms
  by (auto simp: logons_agree_def session_logon_def try_emplace_def converse_maps_upd split: option.splits)

lemma logons_agree_remove_helper:
  "logons_agree sh \<Longrightarrow> logons_agree (session_remove_helper sid sh)"
  by (auto simp: session_remove_helper_def logons_agree_def converse_maps_del split: option.splits)

lemma logons_agree_logout:
  "logons_agree sh \<Longrightarrow> logons_agree (snd (session_logout sid sh))"
  using logons_agree_remove_helper [of sh sid]
  by (auto simp: session_logout_def session_remove_helper_def split: option.splits)

lemma logons_agree_remove:
  assumes "logons_agree sh"
  shows "logons_agree (session_remove sid sh)"
proof -
  let ?sh = "sh\<lparr>sessions_to_remove := List.insert sid (sessions_to_remove sh)\<rparr>"
  have "logons_agree ?sh" using assms by (simp add: logons_agree_def)
  then show ?thesis unfolding session_remove_def by (rule logons_agree_remove_helper)
qed

lemma fold_remove_helper:
  "logons_agree sh \<Longrightarrow> logons_agree (fold session_remove_helper sids sh)"
  by (induction sids arbitrary: sh) (auto simp: logons_agree_remove_helper)

lemma logons_agree_cleanup:
  "logons_agree sh \<Longrightarrow> logons_agree (snd (session_cleanup sh))"
  using fold_remove_helper [of sh "sessions_to_remove sh"]
  by (simp add: session_cleanup_def logons_agree_def)

section \<open>Who may log on\<close>

lemma session_logon_result:
  "fst (session_logon valid sid user pw raw sh) =
     (case user_table sh user of
        None \<Rightarrow> Inl error_invalid_username
      | Some (secret, strategy) \<Rightarrow>
          if \<not> valid pw secret raw then Inl error_invalid_password
          else if username_to_session sh user \<noteq> None then Inl error_already_logged_on
          else Inr strategy)"
  by (auto simp: session_logon_def split: option.splits)

lemma session_logon_failure:
  "fst (session_logon valid sid user pw raw sh) = Inl e \<Longrightarrow> snd (session_logon valid sid user pw raw sh) = sh"
  by (auto simp: session_logon_def split: option.splits if_splits)

lemma session_logon_success:
  assumes "fst (session_logon valid sid user pw raw sh) = Inr strategy"
    and "session_to_username sh sid = None"
  shows "snd (session_logon valid sid user pw raw sh) =
    sh\<lparr>username_to_session := (username_to_session sh)(user \<mapsto> sid),
       session_to_username := (session_to_username sh)(sid \<mapsto> user)\<rparr>"
  using assms by (auto simp: session_logon_def try_emplace_def split: option.splits if_splits)

text \<open>
  A logon succeeds exactly when the user is on file, the password passes the configured check
  against the user's secret, and no session has the user logged on; it hands out the user's
  strategy id, and the user and the session are then bound to each other and to nobody else.
\<close>

theorem logon_binds_user_and_session:
  assumes "logons_agree sh" and "session_to_username sh sid = None"
  shows "(fst (session_logon valid sid user pw raw sh) = Inr strategy \<longleftrightarrow>
      (\<exists>secret. user_table sh user = Some (secret, strategy) \<and> valid pw secret raw \<and>
         username_to_session sh user = None)) \<and>
    (fst (session_logon valid sid user pw raw sh) = Inr strategy \<longrightarrow>
      (let sh' = snd (session_logon valid sid user pw raw sh) in
       (\<forall>other. username_to_session sh' other = Some sid \<longleftrightarrow> other = user) \<and>
       (\<forall>other. session_to_username sh' other = Some user \<longleftrightarrow> other = sid) \<and> logons_agree sh'))"
proof (intro conjI impI)
  show "fst (session_logon valid sid user pw raw sh) = Inr strategy \<longleftrightarrow>
      (\<exists>secret. user_table sh user = Some (secret, strategy) \<and> valid pw secret raw \<and>
         username_to_session sh user = None)"
    by (auto simp: session_logon_result split: option.splits)
next
  assume ok: "fst (session_logon valid sid user pw raw sh) = Inr strategy"
  then have free: "username_to_session sh user = None"
    by (auto simp: session_logon_result split: option.splits if_splits)
  have "logons_agree (snd (session_logon valid sid user pw raw sh))"
    using assms by (rule logons_agree_logon)
  moreover note session_logon_success [OF ok assms(2)]
  ultimately show "let sh' = snd (session_logon valid sid user pw raw sh) in
       (\<forall>other. username_to_session sh' other = Some sid \<longleftrightarrow> other = user) \<and>
       (\<forall>other. session_to_username sh' other = Some user \<longleftrightarrow> other = sid) \<and> logons_agree sh'"
    using assms free
    by (auto simp: logons_agree_def Let_def converse_mapsD dest: converse_maps_None)
qed

theorem logon_binds_user_and_session_witness:
  "let sh = new_shared [(''alice'', ''s3'', 7)] [] 0;
       (r, sh') = session_logon (\<lambda>pw secret raw. pw = secret) 1 ''alice'' ''s3'' [] sh
   in r = Inr 7 \<and> session_to_username sh' 1 = Some ''alice'' \<and>
      fst (session_logon (\<lambda>pw secret raw. pw = secret) 2 ''alice'' ''s3'' [] sh') = Inl error_already_logged_on"
proof -
  let ?sh = "new_shared [(''alice'', ''s3'', 7)] [] 0"
  let ?valid = "\<lambda>pw secret raw. pw = secret"
  have none: "session_to_username ?sh 1 = None" by (simp add: new_shared_def)
  have ok: "fst (session_logon ?valid 1 ''alice'' ''s3'' [] ?sh) = Inr 7"
    by (simp add: session_logon_result new_shared_def create_user_table_def try_emplace_def)
  then have "session_to_username (snd (session_logon ?valid 1 ''alice'' ''s3'' [] ?sh)) 1 = Some ''alice''"
    using logon_binds_user_and_session [OF logons_agree_create none, of ?valid _ _ _ 7] ok by (simp add: Let_def)
  moreover have "fst (session_logon ?valid 2 ''alice'' ''s3'' [] (snd (session_logon ?valid 1 ''alice'' ''s3'' [] ?sh)))
      = Inl error_already_logged_on"
    by (simp add: session_logon_result session_logon_success [OF ok none])
      (simp add: new_shared_def create_user_table_def try_emplace_def)
  ultimately show ?thesis using ok by (simp add: Let_def case_prod_beta)
qed

text \<open>
  A logon followed by the removal of its session is undone: the logon tables are the ones
  from before, and the user can log on again; the session is on the list of sessions to remove.
\<close>

theorem logon_then_remove:
  assumes "logons_agree sh" and "session_to_username sh sid = None"
  shows "let sh' = session_remove sid (snd (session_logon valid sid user pw raw sh)) in
    username_to_session sh' = username_to_session sh \<and>
    session_to_username sh' = session_to_username sh \<and>
    sid \<in> set (sessions_to_remove sh') \<and>
    (\<forall>other. fst (session_logon valid other user pw raw sh') = fst (session_logon valid sid user pw raw sh))"
proof (cases "fst (session_logon valid sid user pw raw sh)")
  case (Inl e)
  from session_logon_failure [OF this] assms(2) show ?thesis
    by (simp add: session_remove_def session_remove_helper_def session_logon_result Let_def
        split: option.split)
next
  case (Inr strategy)
  then have "username_to_session sh user = None"
    by (auto simp: session_logon_result split: option.splits if_splits)
  with session_logon_success [OF Inr assms(2)] assms(2) show ?thesis
    by (auto simp: session_remove_def session_remove_helper_def session_logon_result erase_key_def Let_def fun_upd_idem
        split: option.split)
qed

theorem logon_then_remove_witness:
  "let sh = new_shared [(''alice'', ''s3'', 7)] [] 0;
       sh' = session_remove 1 (snd (session_logon (\<lambda>pw secret raw. pw = secret) 1 ''alice'' ''s3'' [] sh))
   in 1 \<in> set (sessions_to_remove sh') \<and>
      fst (session_logon (\<lambda>pw secret raw. pw = secret) 2 ''alice'' ''s3'' [] sh') = Inr 7"
proof -
  let ?sh = "new_shared [(''alice'', ''s3'', 7)] [] 0"
  let ?valid = "\<lambda>pw secret raw. pw = secret"
  have none: "session_to_username ?sh 1 = None" by (simp add: new_shared_def)
  have "fst (session_logon ?valid 1 ''alice'' ''s3'' [] ?sh) = Inr 7"
    by (simp add: session_logon_result new_shared_def create_user_table_def try_emplace_def)
  with logon_then_remove [OF logons_agree_create none, of ?valid "''alice''" "''s3''" "[]"]
  show ?thesis by (simp add: Let_def)
qed

section \<open>Request ids\<close>

lemma counter_id_inject [simp]: "counter_id m = counter_id n \<longleftrightarrow> m = n"
  by (auto simp: counter_id_def dest: decimal_inject intro: word_unat_eq_iff [THEN iffD2])

lemma counter_id_no_colon: "CHR '':'' \<notin> set (counter_id n)"
  using decimal_no_colon by (auto simp: counter_id_def)

text \<open>The id that the \<open>k\<close>-th next call of \<open>create_request_id\<close> returns.\<close>

definition nth_request_id :: "nat \<Rightarrow> shared \<Rightarrow> string" where
  "nth_request_id k sh = fst (create_request_id (((snd \<circ> create_request_id) ^^ k) sh))"

lemma next_request_id_iter:
  "next_request_id (((snd \<circ> create_request_id) ^^ k) sh) = next_request_id sh + of_nat k"
  by (induction k) (simp_all add: create_request_id_def Let_def)

text \<open>
  Request ids repeat only when the 64-bit counter has gone all the way round: two calls of
  \<open>create_request_id\<close> return the same id exactly when the number of calls between them is a
  multiple of 2^64.
\<close>

theorem request_ids_distinct:
  "nth_request_id i sh = nth_request_id j sh \<longleftrightarrow> i mod 2 ^ 64 = j mod 2 ^ 64"
proof -
  have "nth_request_id k sh = counter_id (next_request_id sh + 1 + of_nat k)" for k
    by (simp add: nth_request_id_def next_request_id_iter create_request_id_def Let_def add_ac)
  then have "nth_request_id i sh = nth_request_id j sh \<longleftrightarrow> (of_nat i :: u64) = of_nat j"
    by simp
  also have "\<dots> \<longleftrightarrow> i mod 2 ^ 64 = j mod 2 ^ 64"
    by (simp add: word_of_nat_eq_iff take_bit_eq_mod)
  finally show ?thesis .
qed

end
