(* ===== verification/Req_Ids.thy ===== *)
theory Req_Ids
  imports Shared_State
begin

text \<open>
  The proxy renames requests. Upstream, a request of a client carries an id that the proxy chose; a
  table per kind of request remembers which session and which of the session's own ids it stands
  for. This theory holds the two ways to choose an id (\<open>create_request_id\<close> of \<open>controller.cpp\<close>, and
  the counter of \<open>Shared\<close>), the tables (\<open>Controller::subscriptions_\<close> of \<open>controller.hpp\<close>) and the
  operations on one table: \<open>find_req_id\<close>, \<open>add_req_id\<close>, \<open>remove_req_id\<close> and \<open>clear_req_ids\<close>.
\<close>

section \<open>Ids made from the client's id\<close>

text \<open>\<open>create_request_id(client_id, cl_ord_id)\<close>: \<open>"proxy-{}:{}"\<close>.\<close>

definition client_request_id :: "string \<Rightarrow> string \<Rightarrow> string" where
  "client_request_id client_id cl_ord_id = ''proxy-'' @ client_id @ '':'' @ cl_ord_id"

text \<open>
  \<open>get_client_cl_ord_id\<close>: the text after the first colon. An id without a colon fails an assertion
  in a debug build, and is returned as it is otherwise.
\<close>

definition get_client_cl_ord_id :: "string \<Rightarrow> string" where
  "get_client_cl_ord_id cl_ord_id =
     (if cl_ord_id = [] then cl_ord_id
      else if CHR '':'' \<in> set cl_ord_id then tl (dropWhile (\<lambda>c. c \<noteq> CHR '':'') cl_ord_id)
      else cl_ord_id)"

text \<open>
  The interface of an id scheme: a client's name and the client's id make the upstream id, and the
  client's id can be read off it. It holds for the names in \<open>ok\<close>.
\<close>

locale id_scheme =
  fixes make :: "string \<Rightarrow> string \<Rightarrow> string"
    and client_part :: "string \<Rightarrow> string"
    and ok :: "string \<Rightarrow> bool"
  assumes client_part_make: "ok c \<Longrightarrow> client_part (make c i) = i"
    and make_owner: "ok c \<Longrightarrow> ok d \<Longrightarrow> make c i = make d j \<Longrightarrow> c = d"
begin

lemma make_inject: "ok c \<Longrightarrow> ok d \<Longrightarrow> make c i = make d j \<longleftrightarrow> c = d \<and> i = j"
  by (metis client_part_make make_owner)

lemma different_owners_differ: "ok c \<Longrightarrow> ok d \<Longrightarrow> c \<noteq> d \<Longrightarrow> make c i \<noteq> make d j"
  by (simp add: make_inject)

end

definition colon_free :: "string \<Rightarrow> bool" where
  "colon_free s \<longleftrightarrow> CHR '':'' \<notin> set s"

lemma colon_free_decimal [simp]: "colon_free (decimal n)"
  by (simp add: colon_free_def decimal_no_colon)

lemma colon_free_Nil [simp]: "colon_free []"
  by (simp add: colon_free_def)

lemma dropWhile_colon: "colon_free p \<Longrightarrow> dropWhile (\<lambda>c. c \<noteq> CHR '':'') (p @ CHR '':'' # s) = CHR '':'' # s"
  by (induction p) (auto simp: colon_free_def)

lemma takeWhile_colon: "colon_free p \<Longrightarrow> takeWhile (\<lambda>c. c \<noteq> CHR '':'') (p @ CHR '':'' # s) = p"
  by (induction p) (auto simp: colon_free_def)

lemma client_request_id_split:
  "client_request_id c i = (''proxy-'' @ c) @ CHR '':'' # i"
  by (simp add: client_request_id_def)

lemma colon_free_prefix: "colon_free c \<Longrightarrow> colon_free (''proxy-'' @ c)"
  by (auto simp: colon_free_def)

interpretation client_ids: id_scheme client_request_id get_client_cl_ord_id colon_free
proof unfold_locales
  fix c i
  assume "colon_free c"
  then show "get_client_cl_ord_id (client_request_id c i) = i"
    unfolding client_request_id_split get_client_cl_ord_id_def
    by (simp add: dropWhile_colon [OF colon_free_prefix, simplified])
next
  fix c d i j
  assume ok: "colon_free c" "colon_free d" and eq: "client_request_id c i = client_request_id d j"
  from eq have "takeWhile (\<lambda>x. x \<noteq> CHR '':'') (client_request_id c i) =
    takeWhile (\<lambda>x. x \<noteq> CHR '':'') (client_request_id d j)" by simp
  then have "''proxy-'' @ c = ''proxy-'' @ d"
    unfolding client_request_id_split by (simp only: takeWhile_colon colon_free_prefix ok)
  then show "c = d" by simp
qed

lemma client_request_id_has_colon: "CHR '':'' \<in> set (client_request_id c i)"
  by (simp add: client_request_id_def)

text \<open>
  The upstream ids of orders name their owner: the client's own id comes back out of the id
  made from it, ids of different clients or different orders differ, and no such id equals one
  that the counter of \<open>Shared\<close> makes. Client names are decimal strategy ids.
\<close>

theorem client_ids_roundtrip:
  "get_client_cl_ord_id (client_request_id (decimal m) i) = i \<and>
   (client_request_id (decimal m) i = client_request_id (decimal n) j \<longleftrightarrow> m = n \<and> i = j) \<and>
   client_request_id (decimal m) i \<noteq> counter_id k"
  using client_ids.client_part_make [OF colon_free_decimal, of m i]
    client_ids.make_inject [OF colon_free_decimal colon_free_decimal, of m i n j]
    client_request_id_has_colon [of "decimal m" i] counter_id_no_colon [of k]
  by (auto dest: decimal_inject)

section \<open>One table\<close>

text \<open>
  \<open>struct Mapping\<close>: upstream id to session, client's id and keep-alive flag, and, per session, client's
  id to upstream id. The inner table of the second is the one the code walks over.
\<close>

type_synonym route = "u64 \<times> string \<times> bool"

record mapping =
  server_to_client :: "string \<rightharpoonup> route"
  client_to_server :: "u64 \<rightharpoonup> (string \<times> string) list"

definition empty_mapping :: mapping where
  "empty_mapping = \<lparr>server_to_client = Map.empty, client_to_server = Map.empty\<rparr>"

text \<open>\<open>mapping.client_to_server[session_id]\<close>: the operator makes an empty inner table if there is none.\<close>

definition inner_table :: "u64 \<Rightarrow> mapping \<Rightarrow> (string \<times> string) list" where
  "inner_table sid m = (case client_to_server m sid of None \<Rightarrow> [] | Some al \<Rightarrow> al)"

definition touch :: "u64 \<Rightarrow> mapping \<Rightarrow> mapping" where
  "touch sid m = m\<lparr>client_to_server := (client_to_server m)(sid \<mapsto> inner_table sid m)\<rparr>"

definition find_client_req_id :: "u64 \<Rightarrow> string \<Rightarrow> mapping \<Rightarrow> string option" where
  "find_client_req_id sid req_id m = map_of (inner_table sid m) req_id"

definition emplace_client :: "u64 \<Rightarrow> string \<Rightarrow> string \<Rightarrow> mapping \<Rightarrow> mapping" where
  "emplace_client sid req_id request_id m =
     m\<lparr>client_to_server := (client_to_server m)(sid \<mapsto> emplace_list (inner_table sid m) req_id request_id)\<rparr>"

definition emplace_server :: "string \<Rightarrow> route \<Rightarrow> mapping \<Rightarrow> mapping" where
  "emplace_server request_id r m = m\<lparr>server_to_client := try_emplace (server_to_client m) request_id r\<rparr>"

definition erase_server :: "string \<Rightarrow> mapping \<Rightarrow> mapping" where
  "erase_server request_id m = m\<lparr>server_to_client := erase_key (server_to_client m) request_id\<rparr>"

definition erase_client :: "u64 \<Rightarrow> mapping \<Rightarrow> mapping" where
  "erase_client sid m = m\<lparr>client_to_server := erase_key (client_to_server m) sid\<rparr>"

definition add_req_id :: "string \<Rightarrow> string \<Rightarrow> u64 \<Rightarrow> bool \<Rightarrow> mapping \<Rightarrow> mapping" where
  "add_req_id req_id request_id sid keep_alive m =
     emplace_server request_id (sid, req_id, keep_alive) (emplace_client sid req_id request_id m)"

text \<open>\<open>remove_req_id\<close> also tells whether there was anything to remove; the callers only log that.\<close>

definition remove_req_id :: "string \<Rightarrow> mapping \<Rightarrow> bool \<times> mapping" where
  "remove_req_id req_id m =
     (if req_id = [] then (True, m)
      else case server_to_client m req_id of
        None \<Rightarrow> (False, m)
      | Some (sid, client_req_id, keep_alive) \<Rightarrow>
          (True,
           erase_server req_id
             (case client_to_server m sid of
                None \<Rightarrow> m
              | Some al \<Rightarrow>
                  let al' = AList.delete client_req_id al
                  in if al' = [] then erase_client sid m
                     else m\<lparr>client_to_server := (client_to_server m)(sid \<mapsto> al')\<rparr>)))"

text \<open>\<open>clear_req_ids\<close> with a callback that leaves the tables alone.\<close>

definition clear_req_ids :: "u64 \<Rightarrow> mapping \<Rightarrow> mapping" where
  "clear_req_ids sid m =
     (case client_to_server m sid of
        None \<Rightarrow> m
      | Some al \<Rightarrow> erase_client sid (fold erase_server (map snd al) m))"

definition set_keep_alive :: "string \<Rightarrow> bool \<Rightarrow> mapping \<Rightarrow> mapping option" where
  "set_keep_alive request_id keep_alive m =
     (case server_to_client m request_id of
        None \<Rightarrow> None
      | Some (sid, req_id, _) \<Rightarrow>
          Some (m\<lparr>server_to_client := (server_to_client m)(request_id \<mapsto> (sid, req_id, keep_alive))\<rparr>))"

section \<open>Lookups after each operation\<close>

named_theorems table_simps \<open>lookups in a table after an operation on it\<close>

lemma server_touch [table_simps]: "server_to_client (touch sid m) = server_to_client m"
  by (simp add: touch_def)

lemma inner_touch [table_simps]: "inner_table sid' (touch sid m) = inner_table sid' m"
  by (simp add: touch_def inner_table_def)

lemma find_client_touch [table_simps]: "find_client_req_id sid' cid (touch sid m) = find_client_req_id sid' cid m"
  by (simp add: find_client_req_id_def table_simps)

lemma server_erase_server [table_simps]:
  "server_to_client (erase_server rid m) = erase_key (server_to_client m) rid"
  by (simp add: erase_server_def)

lemma client_erase_server [table_simps]: "client_to_server (erase_server rid m) = client_to_server m"
  by (simp add: erase_server_def)

lemma inner_erase_server [table_simps]: "inner_table sid (erase_server rid m) = inner_table sid m"
  by (simp add: inner_table_def table_simps)

lemma find_client_erase_server [table_simps]:
  "find_client_req_id sid cid (erase_server rid m) = find_client_req_id sid cid m"
  by (simp add: find_client_req_id_def table_simps)

lemma server_erase_client [table_simps]: "server_to_client (erase_client sid m) = server_to_client m"
  by (simp add: erase_client_def)

lemma client_erase_client [table_simps]:
  "client_to_server (erase_client sid m) = erase_key (client_to_server m) sid"
  by (simp add: erase_client_def)

lemma inner_erase_client [table_simps]:
  "inner_table sid' (erase_client sid m) = (if sid' = sid then [] else inner_table sid' m)"
  by (simp add: inner_table_def table_simps)

lemma find_client_erase_client [table_simps]:
  "find_client_req_id sid' cid (erase_client sid m) = (if sid' = sid then None else find_client_req_id sid' cid m)"
  by (simp add: find_client_req_id_def table_simps)

lemma server_add [table_simps]:
  "server_to_client (add_req_id cid rid sid ka m) = try_emplace (server_to_client m) rid (sid, cid, ka)"
  by (simp add: add_req_id_def emplace_server_def emplace_client_def)

lemma inner_add [table_simps]:
  "inner_table sid' (add_req_id cid rid sid ka m) =
     (if sid' = sid then emplace_list (inner_table sid m) cid rid else inner_table sid' m)"
  by (simp add: add_req_id_def emplace_server_def emplace_client_def inner_table_def)

lemma find_client_add [table_simps]:
  "find_client_req_id sid' cid' (add_req_id cid rid sid ka m) =
     (if sid' = sid \<and> cid' = cid \<and> find_client_req_id sid cid m = None then Some rid
      else find_client_req_id sid' cid' m)"
  by (simp add: find_client_req_id_def table_simps map_of_emplace_list)

lemma server_remove [table_simps]:
  "server_to_client (snd (remove_req_id rid m)) =
     (if rid = [] then server_to_client m else erase_key (server_to_client m) rid)"
  by (auto simp: remove_req_id_def table_simps erase_key_def Let_def split: option.split)

lemma inner_remove:
  assumes "rid \<noteq> []" and "server_to_client m rid = Some (sid, cid, ka)"
  shows "inner_table sid' (snd (remove_req_id rid m)) =
     (if sid' = sid then AList.delete cid (inner_table sid m) else inner_table sid' m)"
  using assms
  by (auto simp: remove_req_id_def table_simps Let_def inner_table_def erase_server_def erase_client_def
      split: option.split)

lemma find_client_remove [table_simps]:
  "find_client_req_id sid' cid' (snd (remove_req_id rid m)) =
     (case server_to_client m rid of
        Some (sid, cid, ka) \<Rightarrow>
          if rid \<noteq> [] \<and> sid' = sid \<and> cid' = cid then None else find_client_req_id sid' cid' m
      | None \<Rightarrow> find_client_req_id sid' cid' m)"
proof (cases "rid \<noteq> [] \<and> server_to_client m rid \<noteq> None")
  case True
  then obtain sid cid ka where "server_to_client m rid = Some (sid, cid, ka)" by auto
  with True show ?thesis by (simp add: find_client_req_id_def inner_remove map_of_delete)
next
  case False
  then show ?thesis by (auto simp: remove_req_id_def split: option.split)
qed

lemma fold_erase_server [table_simps]:
  "server_to_client (fold erase_server rids m) = (\<lambda>rid. if rid \<in> set rids then None else server_to_client m rid)"
  "client_to_server (fold erase_server rids m) = client_to_server m"
  by (induction rids arbitrary: m) (auto simp: table_simps)

lemma server_clear [table_simps]:
  "server_to_client (clear_req_ids sid m) =
     (\<lambda>rid. if rid \<in> snd ` set (inner_table sid m) then None else server_to_client m rid)"
  by (auto simp: clear_req_ids_def inner_table_def table_simps split: option.split)

lemma client_clear [table_simps]:
  "client_to_server (clear_req_ids sid m) = erase_key (client_to_server m) sid"
  by (auto simp: clear_req_ids_def table_simps erase_key_def split: option.split)

lemma inner_clear [table_simps]:
  "inner_table sid' (clear_req_ids sid m) = (if sid' = sid then [] else inner_table sid' m)"
  by (simp add: inner_table_def table_simps)

lemma find_client_clear [table_simps]:
  "find_client_req_id sid' cid (clear_req_ids sid m) = (if sid' = sid then None else find_client_req_id sid' cid m)"
  by (simp add: find_client_req_id_def table_simps)

section \<open>When the two directions agree\<close>

text \<open>
  \<open>backed\<close>: every route belongs to the id its session used for it. An order status request without
  an id of its own has a route and no entry in the other direction; \<open>anonymous\<close> says whether the
  table may hold such routes. \<open>tables_agree\<close>: the two directions hold the same requests.
\<close>

definition backed :: "bool \<Rightarrow> mapping \<Rightarrow> bool" where
  "backed anonymous m \<longleftrightarrow>
     (\<forall>rid sid cid ka. server_to_client m rid = Some (sid, cid, ka) \<longrightarrow>
        find_client_req_id sid cid m = Some rid \<or> anonymous \<and> cid = [])"

definition tables_agree :: "mapping \<Rightarrow> bool" where
  "tables_agree m \<longleftrightarrow>
     server_to_client m [] = None \<and>
     (\<forall>sid. distinct (map fst (inner_table sid m))) \<and>
     (\<forall>rid sid cid. find_client_req_id sid cid m = Some rid \<longleftrightarrow> (\<exists>ka. server_to_client m rid = Some (sid, cid, ka)))"

lemma backedI:
  "(\<And>rid sid cid ka. server_to_client m rid = Some (sid, cid, ka) \<Longrightarrow>
     find_client_req_id sid cid m = Some rid \<or> anonymous \<and> cid = []) \<Longrightarrow> backed anonymous m"
  by (simp add: backed_def)

lemma backedD:
  "backed anonymous m \<Longrightarrow> server_to_client m rid = Some (sid, cid, ka) \<Longrightarrow>
     find_client_req_id sid cid m = Some rid \<or> anonymous \<and> cid = []"
  unfolding backed_def by blast

lemma backed_empty [simp]: "backed anonymous empty_mapping"
  by (simp add: backed_def empty_mapping_def)

lemma backed_touch [simp]: "backed anonymous (touch sid m) \<longleftrightarrow> backed anonymous m"
  by (simp add: backed_def table_simps)

lemma backed_erase_server: "backed anonymous m \<Longrightarrow> backed anonymous (erase_server rid m)"
  by (auto simp: table_simps intro!: backedI dest: backedD split: if_splits)

lemma backed_add:
  assumes "backed anonymous m" and "find_client_req_id sid cid m = None"
  shows "backed anonymous (add_req_id cid rid sid ka m)"
  using assms
  by (auto simp: table_simps try_emplace_apply intro!: backedI dest: backedD split: if_splits)

lemma backed_remove:
  assumes "backed anonymous m"
  shows "backed anonymous (snd (remove_req_id rid m))"
proof (rule backedI)
  fix rid' sid cid ka
  assume r: "server_to_client (snd (remove_req_id rid m)) rid' = Some (sid, cid, ka)"
  then have old: "server_to_client m rid' = Some (sid, cid, ka)" and ne: "rid = [] \<or> rid' \<noteq> rid"
    by (auto simp: table_simps split: if_splits)
  from backedD [OF assms old]
  show "find_client_req_id sid cid (snd (remove_req_id rid m)) = Some rid' \<or> anonymous \<and> cid = []"
  proof
    assume c: "find_client_req_id sid cid m = Some rid'"
    show ?thesis
    proof (cases "server_to_client m rid")
      case None
      with c show ?thesis by (simp add: table_simps)
    next
      case (Some r)
      then obtain sid2 cid2 ka2 where "server_to_client m rid = Some (sid2, cid2, ka2)" by (cases r) auto
      with backedD [OF assms this] c ne show ?thesis by (auto simp: table_simps)
    qed
  qed simp
qed

lemma backed_clear:
  assumes "backed anonymous m"
  shows "backed anonymous (clear_req_ids sid m)"
proof (rule backedI)
  fix rid sid' cid ka
  assume "server_to_client (clear_req_ids sid m) rid = Some (sid', cid, ka)"
  then have old: "server_to_client m rid = Some (sid', cid, ka)"
    and out: "rid \<notin> snd ` set (inner_table sid m)"
    by (auto simp: table_simps split: if_splits)
  from backedD [OF assms old]
  show "find_client_req_id sid' cid (clear_req_ids sid m) = Some rid \<or> anonymous \<and> cid = []"
    using out by (auto simp: table_simps find_client_req_id_def dest: map_of_ran_snd)
qed

lemma set_keep_alive_Some:
  "set_keep_alive rid ka m = Some m' \<longleftrightarrow>
     (\<exists>sid cid old. server_to_client m rid = Some (sid, cid, old) \<and>
        m' = m\<lparr>server_to_client := (server_to_client m)(rid \<mapsto> (sid, cid, ka))\<rparr>)"
  by (auto simp: set_keep_alive_def split: option.splits)

lemma find_client_server_update [table_simps]:
  "find_client_req_id sid cid (m\<lparr>server_to_client := f\<rparr>) = find_client_req_id sid cid m"
  by (simp add: find_client_req_id_def inner_table_def)

lemma backed_set_keep_alive:
  "backed anonymous m \<Longrightarrow> set_keep_alive rid ka m = Some m' \<Longrightarrow> backed anonymous m'"
  by (auto simp: set_keep_alive_Some table_simps intro!: backedI dest: backedD split: if_splits)

section \<open>What a table promises\<close>

text \<open>
  The contract of a request table, over the abstract table it implements: a partial map from upstream
  id to route. \<open>issued\<close> is what a session's own id stands for. A fresh request is added under an id
  that no other request has, removed by its upstream id, and dropped with its session.
\<close>

locale request_table =
  fixes routes :: "'t \<Rightarrow> string \<rightharpoonup> route"
    and issued :: "'t \<Rightarrow> u64 \<Rightarrow> string \<rightharpoonup> string"
    and add :: "string \<Rightarrow> string \<Rightarrow> u64 \<Rightarrow> bool \<Rightarrow> 't \<Rightarrow> 't"
    and remove :: "string \<Rightarrow> 't \<Rightarrow> 't"
    and clear :: "u64 \<Rightarrow> 't \<Rightarrow> 't"
    and agrees :: "'t \<Rightarrow> bool"
  assumes issued_iff: "agrees t \<Longrightarrow> issued t sid cid = Some rid \<longleftrightarrow> (\<exists>ka. routes t rid = Some (sid, cid, ka))"
    and add_agrees: "agrees t \<Longrightarrow> rid \<noteq> [] \<Longrightarrow> routes t rid = None \<Longrightarrow> issued t sid cid = None \<Longrightarrow>
          agrees (add cid rid sid ka t)"
    and add_routes: "agrees t \<Longrightarrow> rid \<noteq> [] \<Longrightarrow> routes t rid = None \<Longrightarrow> issued t sid cid = None \<Longrightarrow>
          routes (add cid rid sid ka t) = (routes t)(rid \<mapsto> (sid, cid, ka))"
    and remove_agrees: "agrees t \<Longrightarrow> agrees (remove rid t)"
    and remove_routes: "agrees t \<Longrightarrow> routes (remove rid t) = (routes t)(rid := None)"
    and clear_agrees: "agrees t \<Longrightarrow> agrees (clear sid t)"
    and clear_routes: "agrees t \<Longrightarrow> routes (clear sid t) =
          (\<lambda>rid. case routes t rid of None \<Rightarrow> None | Some r \<Rightarrow> if fst r = sid then None else Some r)"
begin

lemma one_route_per_request:
  "agrees t \<Longrightarrow> routes t rid = Some (sid, cid, ka) \<Longrightarrow> routes t rid' = Some (sid, cid, ka') \<Longrightarrow> rid' = rid"
  by (metis issued_iff option.inject)

lemma reply_finds_requester:
  "agrees t \<Longrightarrow> rid \<noteq> [] \<Longrightarrow> routes t rid = None \<Longrightarrow> issued t sid cid = None \<Longrightarrow>
     routes (add cid rid sid ka t) rid = Some (sid, cid, ka)"
  by (simp add: add_routes)

lemma add_then_remove:
  "agrees t \<Longrightarrow> rid \<noteq> [] \<Longrightarrow> routes t rid = None \<Longrightarrow> issued t sid cid = None \<Longrightarrow>
     routes (remove rid (add cid rid sid ka t)) = routes t"
  by (simp add: add_routes add_agrees remove_routes fun_upd_idem)

lemma cleared_session_has_no_route:
  "agrees t \<Longrightarrow> routes (clear sid t) rid = Some (sid', cid, ka) \<Longrightarrow> sid' \<noteq> sid"
  by (auto simp: clear_routes split: option.splits if_splits)

lemma removed_id_is_free:
  "agrees t \<Longrightarrow> routes t rid = Some (sid, cid, ka) \<Longrightarrow> issued (remove rid t) sid cid = None"
proof (rule ccontr)
  assume a: "agrees t" "routes t rid = Some (sid, cid, ka)" and "issued (remove rid t) sid cid \<noteq> None"
  then obtain rid' ka' where "routes (remove rid t) rid' = Some (sid, cid, ka')"
    using issued_iff [OF remove_agrees [OF a(1)]] by fastforce
  then have "rid' \<noteq> rid" "routes t rid' = Some (sid, cid, ka')"
    using remove_routes [OF a(1)] by (auto split: if_splits)
  with a show False using one_route_per_request by blast
qed

end

lemma tables_agreeD:
  assumes "tables_agree m"
  shows "server_to_client m [] = None" and "distinct (map fst (inner_table sid m))"
    and "find_client_req_id sid cid m = Some rid \<longleftrightarrow> (\<exists>ka. server_to_client m rid = Some (sid, cid, ka))"
  using assms by (auto simp: tables_agree_def)

lemma tables_agree_empty [simp]: "tables_agree empty_mapping"
  by (simp add: tables_agree_def empty_mapping_def find_client_req_id_def inner_table_def)

lemma tables_agree_add:
  assumes "tables_agree m" and "rid \<noteq> []" and "server_to_client m rid = None"
    and "find_client_req_id sid cid m = None"
  shows "tables_agree (add_req_id cid rid sid ka m)"
  unfolding tables_agree_def
proof (intro conjI allI)
  show "server_to_client (add_req_id cid rid sid ka m) [] = None"
    using assms by (auto simp: table_simps try_emplace_apply tables_agreeD)
  show "distinct (map fst (inner_table sid' (add_req_id cid rid sid ka m)))" for sid'
    using assms by (auto simp: table_simps tables_agreeD distinct_emplace_list)
  show "find_client_req_id sid' cid' (add_req_id cid rid sid ka m) = Some rid' \<longleftrightarrow>
      (\<exists>ka'. server_to_client (add_req_id cid rid sid ka m) rid' = Some (sid', cid', ka'))" for rid' sid' cid'
    using assms(2-4) tables_agreeD(3) [OF assms(1), of sid' cid' rid']
    by (auto simp: table_simps try_emplace_apply)
qed

lemma tables_agree_remove:
  assumes "tables_agree m"
  shows "tables_agree (snd (remove_req_id rid m))"
proof (cases "rid \<noteq> [] \<and> server_to_client m rid \<noteq> None")
  case False
  then have "snd (remove_req_id rid m) = m"
    by (cases "server_to_client m rid") (auto simp: remove_req_id_def)
  with assms show ?thesis by simp
next
  case True
  then obtain sid cid ka where r: "rid \<noteq> []" "server_to_client m rid = Some (sid, cid, ka)" by auto
  then have c: "find_client_req_id sid cid m = Some rid" using tables_agreeD(3) [OF assms] by blast
  show ?thesis
    unfolding tables_agree_def
  proof (intro conjI allI)
    show "server_to_client (snd (remove_req_id rid m)) [] = None"
      using tables_agreeD(1) [OF assms] by (simp add: table_simps)
    show "distinct (map fst (inner_table sid' (snd (remove_req_id rid m))))" for sid'
      using tables_agreeD(2) [OF assms] by (simp add: inner_remove [OF r] distinct_delete)
    show "find_client_req_id sid' cid' (snd (remove_req_id rid m)) = Some rid' \<longleftrightarrow>
        (\<exists>ka'. server_to_client (snd (remove_req_id rid m)) rid' = Some (sid', cid', ka'))" for rid' sid' cid'
      using r c tables_agreeD(3) [OF assms, of sid' cid' rid'] by (auto simp: table_simps)
  qed
qed

lemma cleared_ids:
  assumes "tables_agree m" and "server_to_client m rid = Some (sid', cid, ka)"
  shows "rid \<in> snd ` set (inner_table sid m) \<longleftrightarrow> sid' = sid"
proof
  assume "rid \<in> snd ` set (inner_table sid m)"
  then obtain cid' where "(cid', rid) \<in> set (inner_table sid m)" by auto
  then have "find_client_req_id sid cid' m = Some rid"
    using tables_agreeD(2) [OF assms(1)] by (simp add: find_client_req_id_def)
  with assms show "sid' = sid" by (simp add: tables_agreeD)
next
  assume "sid' = sid"
  with assms have "find_client_req_id sid cid m = Some rid" by (auto simp: tables_agreeD)
  then show "rid \<in> snd ` set (inner_table sid m)"
    unfolding find_client_req_id_def by (rule map_of_ran_snd)
qed

lemma clear_routes_eq:
  assumes "tables_agree m"
  shows "server_to_client (clear_req_ids sid m) =
    (\<lambda>rid. case server_to_client m rid of None \<Rightarrow> None | Some r \<Rightarrow> if fst r = sid then None else Some r)"
proof
  fix rid
  show "server_to_client (clear_req_ids sid m) rid =
    (case server_to_client m rid of None \<Rightarrow> None | Some r \<Rightarrow> if fst r = sid then None else Some r)"
  proof (cases "server_to_client m rid")
    case None
    then show ?thesis by (simp add: table_simps)
  next
    case (Some r)
    obtain a b c where r: "r = (a, b, c)" by (cases r)
    with Some cleared_ids [OF assms, of rid a b c sid] show ?thesis by (simp add: server_clear)
  qed
qed

lemma tables_agree_clear:
  assumes "tables_agree m"
  shows "tables_agree (clear_req_ids sid m)"
  unfolding tables_agree_def
proof (intro conjI allI)
  show "server_to_client (clear_req_ids sid m) [] = None"
    using tables_agreeD(1) [OF assms] by (simp add: table_simps)
  show "distinct (map fst (inner_table sid' (clear_req_ids sid m)))" for sid'
    using tables_agreeD(2) [OF assms] by (simp add: table_simps)
  show "find_client_req_id sid' cid (clear_req_ids sid m) = Some rid \<longleftrightarrow>
      (\<exists>ka. server_to_client (clear_req_ids sid m) rid = Some (sid', cid, ka))" for rid sid' cid
    using tables_agreeD(3) [OF assms, of sid' cid rid]
    by (auto simp: clear_routes_eq [OF assms] find_client_clear split: option.splits if_splits)
qed

interpretation req_ids: request_table server_to_client "\<lambda>m sid cid. find_client_req_id sid cid m" add_req_id
  "\<lambda>rid m. snd (remove_req_id rid m)" clear_req_ids tables_agree
proof unfold_locales
  show "server_to_client (snd (remove_req_id rid m)) = (server_to_client m)(rid := None)"
    if "tables_agree m" for rid m
    using tables_agreeD(1) [OF that] by (auto simp: table_simps erase_key_def)
qed (auto simp: tables_agreeD tables_agree_add tables_agree_remove tables_agree_clear clear_routes_eq
    server_add try_emplace_def)

section \<open>Refinement\<close>

text \<open>
  Runs of a table's operations, and the same runs on the abstract table. An \<open>Open\<close> is admissible when
  its upstream id is fresh and the session does not use the client's id already, which is what the
  request handlers check before they add.
\<close>

datatype table_op = Open string string u64 bool | Close string | Drop u64

fun run_op :: "table_op \<Rightarrow> mapping \<Rightarrow> mapping" where
  "run_op (Open cid rid sid ka) m = add_req_id cid rid sid ka m"
| "run_op (Close rid) m = snd (remove_req_id rid m)"
| "run_op (Drop sid) m = clear_req_ids sid m"

fun spec_op :: "table_op \<Rightarrow> (string \<rightharpoonup> route) \<Rightarrow> (string \<rightharpoonup> route)" where
  "spec_op (Open cid rid sid ka) r = r(rid \<mapsto> (sid, cid, ka))"
| "spec_op (Close rid) r = r(rid := None)"
| "spec_op (Drop sid) r = (\<lambda>rid. case r rid of None \<Rightarrow> None | Some x \<Rightarrow> if fst x = sid then None else Some x)"

fun admissible :: "table_op list \<Rightarrow> mapping \<Rightarrow> bool" where
  "admissible [] m = True"
| "admissible (Open cid rid sid ka # ops) m =
     (rid \<noteq> [] \<and> server_to_client m rid = None \<and> find_client_req_id sid cid m = None \<and>
      admissible ops (run_op (Open cid rid sid ka) m))"
| "admissible (op # ops) m = admissible ops (run_op op m)"

lemma run_op_refines:
  assumes "tables_agree m" and "admissible [op] m"
  shows "tables_agree (run_op op m)" and "server_to_client (run_op op m) = spec_op op (server_to_client m)"
  using assms
  by (cases op; simp add: req_ids.add_agrees req_ids.add_routes req_ids.remove_agrees req_ids.remove_routes
      req_ids.clear_agrees req_ids.clear_routes)+

lemma admissible_Cons: "admissible (op # ops) m \<longleftrightarrow> admissible [op] m \<and> admissible ops (run_op op m)"
  by (cases op) auto

text \<open>
  C32. The two-way tables of the proxy implement one partial map from upstream id to requester: after
  any admissible sequence of opening, closing and session-wide dropping of requests, the routes are
  those of the abstract map, and the two directions still agree.
\<close>

theorem request_tables_refine:
  assumes "tables_agree m" and "admissible ops m"
  shows "server_to_client (fold run_op ops m) = fold spec_op ops (server_to_client m) \<and>
    tables_agree (fold run_op ops m)"
  using assms
proof (induction ops arbitrary: m)
  case Nil
  then show ?case by simp
next
  case (Cons op ops)
  then have adm: "admissible [op] m" "admissible ops (run_op op m)" by (auto simp: admissible_Cons [of op ops])
  from run_op_refines [OF Cons.prems(1) adm(1)] Cons.IH [OF _ adm(2)] show ?case by simp
qed

theorem request_tables_refine_witness:
  "let ops = [Open ''a'' ''p1'' 1 True, Open ''a'' ''p2'' 2 False, Close ''p2'', Open ''b'' ''p3'' 2 False, Drop 1]
   in admissible ops empty_mapping \<and>
      server_to_client (fold run_op ops empty_mapping) = [''p3'' \<mapsto> (2, ''b'', False)]"
proof -
  let ?ops = "[Open ''a'' ''p1'' 1 True, Open ''a'' ''p2'' 2 False, Close ''p2'', Open ''b'' ''p3'' 2 False, Drop 1]"
  have adm: "admissible ?ops empty_mapping"
    by (simp add: table_simps try_emplace_def) (simp add: empty_mapping_def find_client_req_id_def inner_table_def)
  have "fold spec_op ?ops Map.empty = [''p3'' \<mapsto> (2, ''b'', False)]"
    by (auto simp: fun_eq_iff split: option.splits)
  with request_tables_refine [OF tables_agree_empty adm] adm show ?thesis
    by (simp add: empty_mapping_def)
qed

end
