(* ===== verification/Fix_Messages.thy ===== *)
theory Fix_Messages
  imports Prelude
begin

text \<open>
  The FIX messages the proxy decodes, rewrites, builds and forwards. The codec structs live in the
  roq-codec library; each record here holds the fields that the proxy's own code reads or writes,
  under the names it uses for them. The fields that the proxy copies without looking at them are one
  component, the tag/value list \<open>rest\<close>: a message the proxy builds itself leaves them
  value-initialised, which is the empty list. A value that is only copied (a side, a price) is its
  text.

  An enumeration lists the values that the proxy's code names; every other value is the last
  constructor, with the value's text, and \<open>{}\<close> is that constructor with the empty text.
\<close>

type_synonym opaque = string
type_synonym fields = "(nat \<times> string) list"

section \<open>Enumerations\<close>

datatype party_id_source = PROPRIETARY_CUSTOM_CODE | Other_party_id_source string
datatype party_role = CLIENT_ID | Other_party_role string
datatype encrypt_method = ENCRYPT_NONE | Other_encrypt_method string
datatype user_request_type = LOG_ON_USER | LOG_OFF_USER | Other_user_request_type string
datatype user_status = LOGGED_IN | NOT_LOGGED_IN | Other_user_status string
datatype security_request_result = VALID_REQUEST | INVALID_OR_UNSUPPORTED | Other_security_request_result string
datatype security_response_type = ACCEPT_SECURITY_PROPOSAL_AS_IS | REJECT_SECURITY_PROPOSAL | Other_security_response_type string
datatype md_req_rej_reason = UNSUPPORTED_SCOPE | UNSUPPORTED_SUBSCRIPTION_REQUEST_TYPE | DUPLICATE_MD_REQ_ID | Other_md_req_rej_reason string
datatype ord_status = ORD_REJECTED | Other_ord_status string
datatype exec_type = PENDING_NEW | PENDING_REPLACE | PENDING_CANCEL | EXEC_REJECTED | EXEC_ORDER_STATUS | Other_exec_type string
datatype ord_rej_reason = ORD_REJ_OTHER | Other_ord_rej_reason string
datatype cxl_rej_reason = CXL_REJ_OTHER | CXL_REJ_DUPLICATE_CL_ORD_ID | Other_cxl_rej_reason string
datatype cxl_rej_response_to = TO_ORDER_CANCEL_REQUEST | TO_ORDER_CANCEL_REPLACE_REQUEST | Other_cxl_rej_response_to string
datatype mass_cancel_response = CANCEL_REQUEST_REJECTED | Other_mass_cancel_response string
datatype mass_cancel_reject_reason = MASS_CANCEL_REJECT_OTHER | Other_mass_cancel_reject_reason string
datatype pos_req_result = POS_VALID | POS_INVALID_OR_UNSUPPORTED | Other_pos_req_result string
datatype pos_req_status = POS_REJECTED | Other_pos_req_status string
datatype trade_request_result = TRADE_RESULT_OTHER | Other_trade_request_result string
datatype trade_request_status = TRADE_STATUS_REJECTED | Other_trade_request_status string
datatype session_reject_reason = SESSION_REJECT_OTHER | Other_session_reject_reason string
datatype business_reject_reason = BUSINESS_REJECT_OTHER | UNSUPPORTED_MESSAGE_TYPE | Other_business_reject_reason string

text \<open>The code switches over every value of this one.\<close>

datatype subscription_request_type = SRT_UNDEFINED | SRT_UNKNOWN | SNAPSHOT | SNAPSHOT_UPDATES | UNSUBSCRIBE

text \<open>
  \<open>roq::fix::MsgType\<close>: the types that some \<open>switch\<close> of the proxy treats in its own way. The types that
  the proxy only ever sends to a \<open>default:\<close> or to a \<open>break\<close> are \<open>MT_OTHER\<close>.
\<close>

datatype msg_type =
    MT_TEST_REQUEST | MT_RESEND_REQUEST | MT_REJECT | MT_HEARTBEAT | MT_LOGON | MT_LOGOUT
  | MT_BUSINESS_MESSAGE_REJECT | MT_USER_REQUEST | MT_USER_RESPONSE
  | MT_TRADING_SESSION_STATUS_REQUEST
  | MT_SECURITY_LIST_REQUEST | MT_SECURITY_LIST
  | MT_SECURITY_DEFINITION_REQUEST | MT_SECURITY_DEFINITION
  | MT_SECURITY_STATUS_REQUEST | MT_SECURITY_STATUS
  | MT_MARKET_DATA_REQUEST | MT_MARKET_DATA_REQUEST_REJECT
  | MT_MARKET_DATA_SNAPSHOT_FULL_REFRESH | MT_MARKET_DATA_INCREMENTAL_REFRESH
  | MT_ORDER_STATUS_REQUEST | MT_ORDER_MASS_STATUS_REQUEST | MT_NEW_ORDER_SINGLE
  | MT_ORDER_CANCEL_REQUEST | MT_ORDER_CANCEL_REPLACE_REQUEST | MT_ORDER_MASS_CANCEL_REQUEST
  | MT_ORDER_CANCEL_REJECT | MT_ORDER_MASS_CANCEL_REPORT | MT_EXECUTION_REPORT
  | MT_REQUEST_FOR_POSITIONS | MT_REQUEST_FOR_POSITIONS_ACK | MT_POSITION_REPORT
  | MT_TRADE_CAPTURE_REPORT_REQUEST | MT_TRADE_CAPTURE_REPORT_REQUEST_ACK | MT_TRADE_CAPTURE_REPORT
  | MT_OTHER string

section \<open>Message bodies\<close>

record party =
  party_id :: string
  party_id_source :: party_id_source
  party_role :: party_role

subsection \<open>Session messages\<close>

record logon =
  lg_encrypt_method :: encrypt_method
  lg_heart_bt_int :: u16
  lg_raw_data :: string
  lg_reset_seq_num_flag :: bool
  lg_next_expected_msg_seq_num :: u64
  lg_username :: string
  lg_password :: string

record logout =
  lo_text :: string

record heartbeat =
  hb_test_req_id :: string

record test_request =
  tr_test_req_id :: string

record resend_request =
  rr_rest :: fields

record reject =
  rj_ref_seq_num :: u64
  rj_text :: string
  rj_ref_msg_type :: msg_type
  rj_session_reject_reason :: session_reject_reason

record business_message_reject =
  bmr_ref_seq_num :: u64
  bmr_ref_msg_type :: msg_type
  bmr_business_reject_ref_id :: string
  bmr_business_reject_reason :: business_reject_reason
  bmr_text :: string

subsection \<open>Users\<close>

record user_request =
  urq_user_request_id :: string
  urq_user_request_type :: user_request_type
  urq_username :: string
  urq_password :: string
  urq_new_password :: string

record user_response =
  urs_user_request_id :: string
  urs_username :: string
  urs_user_status :: user_status
  urs_rest :: fields

subsection \<open>Security and market data\<close>

record trading_session_status_request =
  tss_trad_ses_req_id :: string
  tss_rest :: fields

record security_list_request =
  slr_security_req_id :: string
  slr_subscription_request_type :: subscription_request_type
  slr_rest :: fields

record security_list =
  sl_security_req_id :: string
  sl_security_response_id :: string
  sl_security_request_result :: security_request_result
  sl_rest :: fields

record security_definition_request =
  sdr_security_req_id :: string
  sdr_symbol :: string
  sdr_security_exchange :: string
  sdr_subscription_request_type :: subscription_request_type
  sdr_rest :: fields

record security_definition =
  sd_security_req_id :: string
  sd_security_response_id :: string
  sd_security_response_type :: security_response_type
  sd_symbol :: string
  sd_security_exchange :: string
  sd_rest :: fields

record security_status_request =
  ssr_security_status_req_id :: string
  ssr_symbol :: string
  ssr_security_exchange :: string
  ssr_subscription_request_type :: subscription_request_type
  ssr_rest :: fields

record security_status =
  ss_security_status_req_id :: string
  ss_symbol :: string
  ss_security_exchange :: string
  ss_unsolicited_indicator :: bool
  ss_rest :: fields

record market_data_request =
  mdr_md_req_id :: string
  mdr_subscription_request_type :: subscription_request_type
  mdr_rest :: fields

record market_data_request_reject =
  mrj_md_req_id :: string
  mrj_md_req_rej_reason :: md_req_rej_reason
  mrj_text :: string

record market_data_snapshot_full_refresh =
  mds_md_req_id :: string
  mds_rest :: fields

record market_data_incremental_refresh =
  mdi_md_req_id :: string
  mdi_rest :: fields

subsection \<open>Orders\<close>

record order_status_request =
  osr_ord_status_req_id :: string
  osr_cl_ord_id :: string
  osr_no_party_ids :: "party list"
  osr_account :: string
  osr_symbol :: string
  osr_security_exchange :: string
  osr_side :: opaque
  osr_rest :: fields

record new_order_single =
  nos_cl_ord_id :: string
  nos_no_party_ids :: "party list"
  nos_account :: string
  nos_exec_inst :: opaque
  nos_symbol :: string
  nos_security_exchange :: string
  nos_side :: opaque
  nos_order_qty :: opaque
  nos_price :: opaque
  nos_stop_px :: opaque
  nos_time_in_force :: opaque
  nos_rest :: fields

record order_cancel_replace_request =
  ocr_orig_cl_ord_id :: string
  ocr_cl_ord_id :: string
  ocr_no_party_ids :: "party list"
  ocr_account :: string
  ocr_rest :: fields

record order_cancel_request =
  ocn_orig_cl_ord_id :: string
  ocn_cl_ord_id :: string
  ocn_no_party_ids :: "party list"
  ocn_account :: string
  ocn_rest :: fields

record order_mass_status_request =
  oms_mass_status_req_id :: string
  oms_no_party_ids :: "party list"
  oms_account :: string
  oms_symbol :: string
  oms_security_exchange :: string
  oms_side :: opaque
  oms_rest :: fields

record order_mass_cancel_request =
  omc_cl_ord_id :: string
  omc_mass_cancel_request_type :: opaque
  omc_symbol :: string
  omc_security_exchange :: string
  omc_side :: opaque
  omc_no_party_ids :: "party list"
  omc_rest :: fields

record order_cancel_reject =
  ocj_order_id :: string
  ocj_cl_ord_id :: string
  ocj_orig_cl_ord_id :: string
  ocj_ord_status :: ord_status
  ocj_account :: string
  ocj_cxl_rej_response_to :: cxl_rej_response_to
  ocj_cxl_rej_reason :: cxl_rej_reason
  ocj_text :: string
  ocj_rest :: fields

record order_mass_cancel_report =
  omr_cl_ord_id :: string
  omr_order_id :: string
  omr_mass_cancel_request_type :: opaque
  omr_mass_cancel_response :: mass_cancel_response
  omr_mass_cancel_reject_reason :: mass_cancel_reject_reason
  omr_symbol :: string
  omr_security_exchange :: string
  omr_side :: opaque
  omr_text :: string
  omr_no_party_ids :: "party list"
  omr_rest :: fields

record execution_report =
  er_order_id :: string
  er_cl_ord_id :: string
  er_orig_cl_ord_id :: string
  er_ord_status_req_id :: string
  er_mass_status_req_id :: string
  er_tot_num_reports :: u32
  er_last_rpt_requested :: bool
  er_no_party_ids :: "party list"
  er_exec_id :: string
  er_exec_type :: exec_type
  er_ord_status :: ord_status
  er_ord_rej_reason :: ord_rej_reason
  er_account :: string
  er_symbol :: string
  er_security_exchange :: string
  er_side :: opaque
  er_order_qty :: opaque
  er_price :: opaque
  er_stop_px :: opaque
  er_time_in_force :: opaque
  er_exec_inst :: opaque
  er_leaves_qty :: opaque
  er_cum_qty :: opaque
  er_avg_px :: opaque
  er_text :: string
  er_rest :: fields

subsection \<open>Positions and trades\<close>

record request_for_positions =
  rfp_pos_req_id :: string
  rfp_subscription_request_type :: subscription_request_type
  rfp_no_party_ids :: "party list"
  rfp_account :: string
  rfp_account_type :: opaque
  rfp_rest :: fields

record request_for_positions_ack =
  rpa_pos_maint_rpt_id :: string
  rpa_pos_req_id :: string
  rpa_total_num_pos_reports :: u32
  rpa_unsolicited_indicator :: bool
  rpa_pos_req_result :: pos_req_result
  rpa_pos_req_status :: pos_req_status
  rpa_no_party_ids :: "party list"
  rpa_account :: string
  rpa_account_type :: opaque
  rpa_text :: string
  rpa_rest :: fields

record position_report =
  prp_pos_req_id :: string
  prp_pos_req_result :: pos_req_result
  prp_rest :: fields

record trade_capture_report_request =
  tcq_trade_request_id :: string
  tcq_trade_request_type :: opaque
  tcq_subscription_request_type :: subscription_request_type
  tcq_cl_ord_id :: string
  tcq_no_party_ids :: "party list"
  tcq_symbol :: string
  tcq_security_exchange :: string
  tcq_rest :: fields

record trade_capture_report_request_ack =
  tca_trade_request_id :: string
  tca_trade_request_type :: opaque
  tca_trade_request_result :: trade_request_result
  tca_trade_request_status :: trade_request_status
  tca_symbol :: string
  tca_security_exchange :: string
  tca_text :: string
  tca_rest :: fields

record trade_capture_report =
  tcr_trade_request_id :: string
  tcr_last_rpt_requested :: bool
  tcr_rest :: fields

section \<open>Messages and frames\<close>

text \<open>A decoded message: its codec struct, or the type of a message the proxy has no struct for.\<close>

datatype msg =
    Logon logon
  | Logout logout
  | Heartbeat heartbeat
  | Test_Request test_request
  | Resend_Request resend_request
  | Reject reject
  | Business_Message_Reject business_message_reject
  | User_Request user_request
  | User_Response user_response
  | Trading_Session_Status_Request trading_session_status_request
  | Security_List_Request security_list_request
  | Security_List security_list
  | Security_Definition_Request security_definition_request
  | Security_Definition security_definition
  | Security_Status_Request security_status_request
  | Security_Status security_status
  | Market_Data_Request market_data_request
  | Market_Data_Request_Reject market_data_request_reject
  | Market_Data_Snapshot_Full_Refresh market_data_snapshot_full_refresh
  | Market_Data_Incremental_Refresh market_data_incremental_refresh
  | Order_Status_Request order_status_request
  | New_Order_Single new_order_single
  | Order_Cancel_Replace_Request order_cancel_replace_request
  | Order_Cancel_Request order_cancel_request
  | Order_Mass_Status_Request order_mass_status_request
  | Order_Mass_Cancel_Request order_mass_cancel_request
  | Order_Cancel_Reject order_cancel_reject
  | Order_Mass_Cancel_Report order_mass_cancel_report
  | Execution_Report execution_report
  | Request_For_Positions request_for_positions
  | Request_For_Positions_Ack request_for_positions_ack
  | Position_Report position_report
  | Trade_Capture_Report_Request trade_capture_report_request
  | Trade_Capture_Report_Request_Ack trade_capture_report_request_ack
  | Trade_Capture_Report trade_capture_report
  | Other_Message string

text \<open>\<open>T::MSG_TYPE\<close>.\<close>

fun msg_type_of :: "msg \<Rightarrow> msg_type" where
  "msg_type_of (Logon _) = MT_LOGON"
| "msg_type_of (Logout _) = MT_LOGOUT"
| "msg_type_of (Heartbeat _) = MT_HEARTBEAT"
| "msg_type_of (Test_Request _) = MT_TEST_REQUEST"
| "msg_type_of (Resend_Request _) = MT_RESEND_REQUEST"
| "msg_type_of (Reject _) = MT_REJECT"
| "msg_type_of (Business_Message_Reject _) = MT_BUSINESS_MESSAGE_REJECT"
| "msg_type_of (User_Request _) = MT_USER_REQUEST"
| "msg_type_of (User_Response _) = MT_USER_RESPONSE"
| "msg_type_of (Trading_Session_Status_Request _) = MT_TRADING_SESSION_STATUS_REQUEST"
| "msg_type_of (Security_List_Request _) = MT_SECURITY_LIST_REQUEST"
| "msg_type_of (Security_List _) = MT_SECURITY_LIST"
| "msg_type_of (Security_Definition_Request _) = MT_SECURITY_DEFINITION_REQUEST"
| "msg_type_of (Security_Definition _) = MT_SECURITY_DEFINITION"
| "msg_type_of (Security_Status_Request _) = MT_SECURITY_STATUS_REQUEST"
| "msg_type_of (Security_Status _) = MT_SECURITY_STATUS"
| "msg_type_of (Market_Data_Request _) = MT_MARKET_DATA_REQUEST"
| "msg_type_of (Market_Data_Request_Reject _) = MT_MARKET_DATA_REQUEST_REJECT"
| "msg_type_of (Market_Data_Snapshot_Full_Refresh _) = MT_MARKET_DATA_SNAPSHOT_FULL_REFRESH"
| "msg_type_of (Market_Data_Incremental_Refresh _) = MT_MARKET_DATA_INCREMENTAL_REFRESH"
| "msg_type_of (Order_Status_Request _) = MT_ORDER_STATUS_REQUEST"
| "msg_type_of (New_Order_Single _) = MT_NEW_ORDER_SINGLE"
| "msg_type_of (Order_Cancel_Replace_Request _) = MT_ORDER_CANCEL_REPLACE_REQUEST"
| "msg_type_of (Order_Cancel_Request _) = MT_ORDER_CANCEL_REQUEST"
| "msg_type_of (Order_Mass_Status_Request _) = MT_ORDER_MASS_STATUS_REQUEST"
| "msg_type_of (Order_Mass_Cancel_Request _) = MT_ORDER_MASS_CANCEL_REQUEST"
| "msg_type_of (Order_Cancel_Reject _) = MT_ORDER_CANCEL_REJECT"
| "msg_type_of (Order_Mass_Cancel_Report _) = MT_ORDER_MASS_CANCEL_REPORT"
| "msg_type_of (Execution_Report _) = MT_EXECUTION_REPORT"
| "msg_type_of (Request_For_Positions _) = MT_REQUEST_FOR_POSITIONS"
| "msg_type_of (Request_For_Positions_Ack _) = MT_REQUEST_FOR_POSITIONS_ACK"
| "msg_type_of (Position_Report _) = MT_POSITION_REPORT"
| "msg_type_of (Trade_Capture_Report_Request _) = MT_TRADE_CAPTURE_REPORT_REQUEST"
| "msg_type_of (Trade_Capture_Report_Request_Ack _) = MT_TRADE_CAPTURE_REPORT_REQUEST_ACK"
| "msg_type_of (Trade_Capture_Report _) = MT_TRADE_CAPTURE_REPORT"
| "msg_type_of (Other_Message t) = MT_OTHER t"

text \<open>
  \<open>roq::fix::Header\<close>, without the protocol version, which is the constant \<open>FIX_44\<close>. A frame is what
  \<open>roq::fix::Reader\<close> hands to the parser and what \<open>encode\<close> puts on a connection.
\<close>

record header =
  hd_msg_type :: msg_type
  hd_sender_comp_id :: string
  hd_target_comp_id :: string
  hd_msg_seq_num :: u64
  hd_sending_time :: nanos

type_synonym frame = "header \<times> msg"

end
