(* ===== verification/Settings.thy ===== *)
theory Settings
  imports Crypto
begin

text \<open>
  The settings of the program (\<open>settings.hpp\<close>, \<open>settings.cpp\<close>) and where they come from. The classes
  \<open>flags::Auth\<close>, \<open>flags::Server\<close>, \<open>flags::Client\<close> and \<open>flags::Flags\<close> are generated from the JSON files under
  \<open>flags\<close>; what they have read from the command line is the input here. The members of a group carry the
  prefix that the JSON file gives to its flags. A \<open>std::chrono\<close> duration is in nanoseconds.
\<close>

section \<open>The flags\<close>

text \<open>Each record adds a group to those before.\<close>

record flags_auth =
  auth_uri :: string
  auth_decode_buffer_size :: u32
  auth_encode_buffer_size :: u32
  auth_ping_freq :: nanos

record flags_server = flags_auth +
  server_target_comp_id :: string
  server_sender_comp_id :: string
  server_username :: string
  server_password :: string
  server_auth_method :: string
  server_decode_buffer_size :: u32
  server_encode_buffer_size :: u32
  server_ping_freq :: nanos
  server_request_timeout :: nanos
  server_debug :: bool

record flags_client = flags_server +
  client_listen_address :: string
  client_comp_id :: string
  client_auth_method :: string
  client_auth_timestamp_tolerance :: nanos
  client_logon_timeout :: nanos
  client_logon_heartbeat_min :: nanos
  client_logon_heartbeat_max :: nanos
  client_heartbeat_freq :: nanos
  client_decode_buffer_size :: u32
  client_encode_buffer_size :: u32

text \<open>The flags of \<open>flags.json\<close> that are used.\<close>

record flags = flags_client +
  flag_config_file :: string
  flag_enable_order_mass_cancel :: bool
  flag_disable_remove_cl_ord_id :: bool
  flag_fix_debug :: bool

section \<open>The settings\<close>

record settings = flags_client +
  config_file :: string
  net_connection_timeout :: nanos
  net_tls_validate_certificate :: bool
  test_enable_order_mass_cancel :: bool
  test_disable_remove_cl_ord_id :: bool
  test_fix_debug :: bool

definition connection_timeout :: nanos where
  "connection_timeout = 5000000000"

definition tls_validate_certificate :: bool where
  "tls_validate_certificate \<longleftrightarrow> False"

text \<open>\<open>Settings::create\<close>.\<close>

definition settings_create :: "flags \<Rightarrow> settings" where
  "settings_create f =
     flags_client.extend (flags_client.truncate f)
       (settings.fields
         (flag_config_file f)
         connection_timeout
         tls_validate_certificate
         (flag_enable_order_mass_cancel f)
         (flag_disable_remove_cl_ord_id f)
         (flag_fix_debug f))"

section \<open>The configuration of the connections\<close>

text \<open>
  What is handed to the network library: \<open>io::net::ConnectionFactory::Config\<close> and
  \<open>io::net::ConnectionManager::Config\<close> for the upstream session, \<open>web::socket::Client::Config\<close> for the
  authentication session. Members that are \<open>{}\<close> in the code are left out.
\<close>

record connection_config =
  cc_uris :: "string list"
  cc_validate_certificate :: bool
  cc_connection_timeout :: nanos
  cc_always_reconnect :: bool

record web_socket_config = connection_config +
  ws_ping_frequency :: nanos
  ws_decode_buffer_size :: u32
  ws_encode_buffer_size :: u32

definition create_connection_manager :: "'a settings_scheme \<Rightarrow> string \<Rightarrow> connection_config" where
  "create_connection_manager st uri =
     \<lparr>cc_uris = [uri],
      cc_validate_certificate = net_tls_validate_certificate st,
      cc_connection_timeout = net_connection_timeout st,
      cc_always_reconnect = True\<rparr>"

definition create_connection :: "'a settings_scheme \<Rightarrow> string \<Rightarrow> web_socket_config" where
  "create_connection st uri =
     \<lparr>cc_uris = [uri],
      cc_validate_certificate = net_tls_validate_certificate st,
      cc_connection_timeout = net_connection_timeout st,
      cc_always_reconnect = True,
      ws_ping_frequency = auth_ping_freq st,
      ws_decode_buffer_size = auth_decode_buffer_size st,
      ws_encode_buffer_size = auth_encode_buffer_size st\<rparr>"

text \<open>
  \<open>create_auth_session\<close>, \<open>create_server_session\<close> (\<open>controller.cpp\<close>) and \<open>create_listener\<close>
  (\<open>client/listener.cpp\<close>): there is no authentication session and no listener without an address, and exactly one
  upstream session; \<open>Inl\<close> is \<open>log::fatal\<close>.
\<close>

definition create_auth_session :: "'a settings_scheme \<Rightarrow> web_socket_config option" where
  "create_auth_session st = (if auth_uri st = [] then None else Some (create_connection st (auth_uri st)))"

definition create_server_session :: "'a settings_scheme \<Rightarrow> string list \<Rightarrow> string + connection_config" where
  "create_server_session st connections =
     (case connections of [connection] \<Rightarrow> Inr (create_connection_manager st connection)
      | _ \<Rightarrow> Inl ''Unexpected: only supporting a single upstream fix-bridge'')"

definition create_listener :: "'a settings_scheme \<Rightarrow> string option" where
  "create_listener st = (if client_listen_address st = [] then None else Some (client_listen_address st))"

text \<open>The settings are those of the flags, but for the two constants.\<close>

lemma settings_create_fields [simp]:
  "auth_uri (settings_create f) = auth_uri f"
  "client_listen_address (settings_create f) = client_listen_address f"
  "client_auth_method (settings_create f) = client_auth_method f"
  "config_file (settings_create f) = flag_config_file f"
  "test_disable_remove_cl_ord_id (settings_create f) = flag_disable_remove_cl_ord_id f"
  by (simp_all add: settings_create_def flags_client.defs settings.defs)

end
