(* ===== verification/Proxy_State.thy ===== *)
theory Proxy_State
  imports Req_Ids Fix_Messages Settings
begin

text \<open>
  The state of the whole proxy: the upstream session (\<open>server/session.hpp\<close>), the client sessions
  (\<open>client/session.hpp\<close>, kept by \<open>client/manager.hpp\<close>), the tables of the controller
  (\<open>controller.hpp\<close>) and what has been put on the connections. The C++ objects hold references to
  each other; here every operation takes the whole state and returns it. The clocks are read at the
  start of an event and stand still until its end.
\<close>

section \<open>Settings and foreign code\<close>

text \<open>
  What stays as it is after the construction: the settings, \<open>Crypto::method_\<close>, and the functions of other
  libraries that the proxy calls, which are \<open>is_valid()\<close> of a codec struct, \<open>utils::codec::Base64::is_valid\<close> with
  the web-safe alphabet, \<open>utils::is_order_complete\<close> of an order status, the signature of \<open>Crypto\<close> and
  \<open>std::from_chars\<close> as roq-utils wraps it.
\<close>

record env = settings +
  auth_method :: crypto_method
  is_valid :: "msg \<Rightarrow> bool"
  valid_req_id :: "string \<Rightarrow> bool"
  is_order_complete :: "ord_status \<Rightarrow> bool"
  signature :: "string \<Rightarrow> string \<Rightarrow> string"
  from_chars :: "string \<Rightarrow> int"

section \<open>Sessions\<close>

text \<open>\<open>client::Session::State\<close> and \<open>server::Session::State\<close>, in the order of their declaration.\<close>

datatype client_state = WAITING_LOGON | WAITING_CREATE_ROUTE | READY | WAITING_REMOVE_ROUTE | ZOMBIE

datatype server_state = DISCONNECTED | LOGON_SENT | SERVER_READY

fun client_state_rank :: "client_state \<Rightarrow> nat" where
  "client_state_rank WAITING_LOGON = 0"
| "client_state_rank WAITING_CREATE_ROUTE = 1"
| "client_state_rank READY = 2"
| "client_state_rank WAITING_REMOVE_ROUTE = 3"
| "client_state_rank ZOMBIE = 4"

fun server_state_rank :: "server_state \<Rightarrow> nat" where
  "server_state_rank DISCONNECTED = 0"
| "server_state_rank LOGON_SENT = 1"
| "server_state_rank SERVER_READY = 2"

lemma client_state_rank_inject: "client_state_rank a = client_state_rank b \<longleftrightarrow> a = b"
  by (cases a; cases b) auto

lemma server_state_rank_inject: "server_state_rank a = server_state_rank b \<longleftrightarrow> a = b"
  by (cases a; cases b) auto

instantiation client_state :: linorder
begin

definition less_eq_client_state :: "client_state \<Rightarrow> client_state \<Rightarrow> bool" where
  "less_eq_client_state a b \<longleftrightarrow> client_state_rank a \<le> client_state_rank b"

definition less_client_state :: "client_state \<Rightarrow> client_state \<Rightarrow> bool" where
  "less_client_state a b \<longleftrightarrow> client_state_rank a < client_state_rank b"

instance
  by standard (auto simp: less_eq_client_state_def less_client_state_def client_state_rank_inject)

end

instantiation server_state :: linorder
begin

definition less_eq_server_state :: "server_state \<Rightarrow> server_state \<Rightarrow> bool" where
  "less_eq_server_state a b \<longleftrightarrow> server_state_rank a \<le> server_state_rank b"

definition less_server_state :: "server_state \<Rightarrow> server_state \<Rightarrow> bool" where
  "less_server_state a b \<longleftrightarrow> server_state_rank a < server_state_rank b"

instance
  by standard (auto simp: less_eq_server_state_def less_server_state_def server_state_rank_inject)

end

lemmas state_order =
  less_eq_client_state_def less_client_state_def less_eq_server_state_def less_server_state_def

record client_session =
  cs_state :: client_state
  cs_outbound :: u64
  cs_inbound :: u64
  cs_comp_id :: string
  cs_username :: string
  cs_party_id :: string
  cs_logon_timeout :: nanos
  cs_user_response_timeout :: nanos
  cs_next_heartbeat :: nanos
  cs_waiting_for_heartbeat :: bool

record server_session =
  sv_state :: server_state
  sv_outbound :: u64
  sv_inbound :: u64
  sv_next_heartbeat :: nanos

text \<open>The members of \<open>server::Session\<close> before the first connection.\<close>

definition new_server_session :: server_session where
  "new_server_session = \<lparr>sv_state = DISCONNECTED, sv_outbound = 0, sv_inbound = 0, sv_next_heartbeat = 0\<rparr>"

text \<open>The constructor of \<open>client::Session\<close>; \<open>create_logon_timeout\<close> reads the system clock.\<close>

definition new_client_session :: "env \<Rightarrow> nanos \<Rightarrow> client_session" where
  "new_client_session e now =
     \<lparr>cs_state = WAITING_LOGON, cs_outbound = 0, cs_inbound = 0, cs_comp_id = [], cs_username = [],
      cs_party_id = [], cs_logon_timeout = now + client_logon_timeout e, cs_user_response_timeout = 0,
      cs_next_heartbeat = 0, cs_waiting_for_heartbeat = False\<rparr>"

section \<open>The controller\<close>

text \<open>The tables of \<open>Controller::subscriptions_\<close>.\<close>

datatype mapping_ref =
    SECURITY_REQ_ID | SECURITY_STATUS_REQ_ID | TRAD_SES_REQ_ID | MD_REQ_ID | ORD_STATUS_REQ_ID
  | MASS_STATUS_REQ_ID | POS_REQ_ID | TRADE_REQUEST_ID | CL_ORD_ID | MASS_CANCEL_CL_ORD_ID

text \<open>What the proxy does to its connections, in order.\<close>

datatype wire =
    To_Client u64 header msg
  | Close_Client u64
  | To_Server header msg
  | Close_Server
  | To_Auth string

record sys =
  shared :: shared
  server :: server_session
  sessions :: "(u64 \<times> client_session) list"
  next_garbage_collection :: nanos
  controller_ready :: bool
  client_to_session :: "string \<rightharpoonup> u64"
  session_to_client :: "u64 \<rightharpoonup> string"
  user_server_to_client :: "string \<rightharpoonup> u64"
  user_client_to_server :: "u64 \<rightharpoonup> string"
  mappings :: "mapping_ref \<Rightarrow> mapping"
  cl_ord_state :: "string \<rightharpoonup> ord_status"
  total_num_pos_reports :: u32
  clock_system :: nanos
  clock_realtime :: nanos
  out :: "wire list"

text \<open>The members of the controller after its construction, with the shared state as it has been created.\<close>

definition new_sys :: "shared \<Rightarrow> nanos \<Rightarrow> sys" where
  "new_sys sh now =
     \<lparr>shared = sh, server = new_server_session, sessions = [],
      next_garbage_collection = 0, controller_ready = False,
      client_to_session = Map.empty, session_to_client = Map.empty,
      user_server_to_client = Map.empty, user_client_to_server = Map.empty,
      mappings = (\<lambda>_. empty_mapping), cl_ord_state = Map.empty, total_num_pos_reports = 0,
      clock_system = now, clock_realtime = now, out = []\<rparr>"

definition create_sys :: "(string \<times> string \<times> u32) list \<Rightarrow> string list \<Rightarrow> nanos \<Rightarrow> sys" where
  "create_sys users symbols now = new_sys (new_shared users symbols now) now"

section \<open>Access\<close>

definition session_of :: "u64 \<Rightarrow> sys \<Rightarrow> client_session option" where
  "session_of sid s = map_of (sessions s) sid"

definition update_session :: "u64 \<Rightarrow> (client_session \<Rightarrow> client_session) \<Rightarrow> sys \<Rightarrow> sys" where
  "update_session sid f s = s\<lparr>sessions := AList.map_entry sid f (sessions s)\<rparr>"

text \<open>\<open>client::Session::operator()(State)\<close>.\<close>

definition set_state :: "u64 \<Rightarrow> client_state \<Rightarrow> sys \<Rightarrow> sys" where
  "set_state sid st = update_session sid (\<lambda>c. c\<lparr>cs_state := st\<rparr>)"

text \<open>\<open>client::Manager::find\<close>: the callback runs on the session, if there is one.\<close>

definition with_session :: "u64 \<Rightarrow> (client_session \<Rightarrow> sys \<Rightarrow> sys result) \<Rightarrow> sys \<Rightarrow> sys result" where
  "with_session sid f s = (case session_of sid s of None \<Rightarrow> Ok s | Some c \<Rightarrow> f c s)"

text \<open>\<open>Manager::get_all_sessions\<close>: the callback runs on every session; it does not change the table.\<close>

abbreviation get_all_sessions :: "(u64 \<Rightarrow> sys \<Rightarrow> sys result) \<Rightarrow> sys \<Rightarrow> sys result" where
  "get_all_sessions callback s \<equiv> in_order (map callback (map fst (sessions s))) s"

text \<open>
  The templates of \<open>Shared\<close>: \<open>session_logon\<close> and \<open>session_logout\<close> call \<open>success\<close> when the helper has no error,
  and \<open>failure\<close> with the error otherwise.
\<close>

abbreviation shared_session_logon ::
  "(string \<Rightarrow> string \<Rightarrow> string \<Rightarrow> bool) \<Rightarrow> u64 \<Rightarrow> string \<Rightarrow> string \<Rightarrow> string \<Rightarrow> (u32 \<Rightarrow> sys \<Rightarrow> sys result) \<Rightarrow>
     (string \<Rightarrow> sys \<Rightarrow> sys result) \<Rightarrow> sys \<Rightarrow> sys result" where
  "shared_session_logon valid sid username password raw_data success failure s \<equiv>
     (case session_logon valid sid username password raw_data (shared s) of
        (Inr strategy_id, sh) \<Rightarrow> success strategy_id (s\<lparr>shared := sh\<rparr>)
      | (Inl reason, sh) \<Rightarrow> failure reason (s\<lparr>shared := sh\<rparr>))"

abbreviation shared_session_logout ::
  "u64 \<Rightarrow> (sys \<Rightarrow> sys result) \<Rightarrow> (string \<Rightarrow> sys \<Rightarrow> sys result) \<Rightarrow> sys \<Rightarrow> sys result" where
  "shared_session_logout sid success failure s \<equiv>
     (case session_logout sid (shared s) of
        (None, sh) \<Rightarrow> success (s\<lparr>shared := sh\<rparr>)
      | (Some reason, sh) \<Rightarrow> failure reason (s\<lparr>shared := sh\<rparr>))"

definition update_mapping :: "mapping_ref \<Rightarrow> (mapping \<Rightarrow> mapping) \<Rightarrow> sys \<Rightarrow> sys" where
  "update_mapping r f s = s\<lparr>mappings := (mappings s)(r := f (mappings s r))\<rparr>"

definition update_shared :: "(shared \<Rightarrow> shared) \<Rightarrow> sys \<Rightarrow> sys" where
  "update_shared f s = s\<lparr>shared := f (shared s)\<rparr>"

definition fresh_request_id :: "sys \<Rightarrow> string" where
  "fresh_request_id s = fst (create_request_id (shared s))"

definition take_request_id :: "sys \<Rightarrow> sys" where
  "take_request_id = update_shared (snd \<circ> create_request_id)"

definition emit :: "wire \<Rightarrow> sys \<Rightarrow> sys" where
  "emit x s = s\<lparr>out := out s @ [x]\<rparr>"

section \<open>What an access leaves alone\<close>

lemma update_session_fields [simp]:
  "shared (update_session sid f s) = shared s"
  "server (update_session sid f s) = server s"
  "next_garbage_collection (update_session sid f s) = next_garbage_collection s"
  "controller_ready (update_session sid f s) = controller_ready s"
  "client_to_session (update_session sid f s) = client_to_session s"
  "session_to_client (update_session sid f s) = session_to_client s"
  "user_server_to_client (update_session sid f s) = user_server_to_client s"
  "user_client_to_server (update_session sid f s) = user_client_to_server s"
  "mappings (update_session sid f s) = mappings s"
  "cl_ord_state (update_session sid f s) = cl_ord_state s"
  "total_num_pos_reports (update_session sid f s) = total_num_pos_reports s"
  "clock_system (update_session sid f s) = clock_system s"
  "clock_realtime (update_session sid f s) = clock_realtime s"
  "out (update_session sid f s) = out s"
  by (simp_all add: update_session_def)

lemma set_state_fields [simp]:
  "shared (set_state sid st s) = shared s"
  "server (set_state sid st s) = server s"
  "next_garbage_collection (set_state sid st s) = next_garbage_collection s"
  "controller_ready (set_state sid st s) = controller_ready s"
  "client_to_session (set_state sid st s) = client_to_session s"
  "session_to_client (set_state sid st s) = session_to_client s"
  "user_server_to_client (set_state sid st s) = user_server_to_client s"
  "user_client_to_server (set_state sid st s) = user_client_to_server s"
  "mappings (set_state sid st s) = mappings s"
  "cl_ord_state (set_state sid st s) = cl_ord_state s"
  "total_num_pos_reports (set_state sid st s) = total_num_pos_reports s"
  "clock_system (set_state sid st s) = clock_system s"
  "clock_realtime (set_state sid st s) = clock_realtime s"
  "out (set_state sid st s) = out s"
  by (simp_all add: set_state_def)

lemma update_mapping_fields [simp]:
  "shared (update_mapping r f s) = shared s"
  "server (update_mapping r f s) = server s"
  "sessions (update_mapping r f s) = sessions s"
  "next_garbage_collection (update_mapping r f s) = next_garbage_collection s"
  "controller_ready (update_mapping r f s) = controller_ready s"
  "client_to_session (update_mapping r f s) = client_to_session s"
  "session_to_client (update_mapping r f s) = session_to_client s"
  "user_server_to_client (update_mapping r f s) = user_server_to_client s"
  "user_client_to_server (update_mapping r f s) = user_client_to_server s"
  "cl_ord_state (update_mapping r f s) = cl_ord_state s"
  "total_num_pos_reports (update_mapping r f s) = total_num_pos_reports s"
  "clock_system (update_mapping r f s) = clock_system s"
  "clock_realtime (update_mapping r f s) = clock_realtime s"
  "out (update_mapping r f s) = out s"
  by (simp_all add: update_mapping_def)

lemma update_shared_fields [simp]:
  "server (update_shared g s) = server s"
  "sessions (update_shared g s) = sessions s"
  "next_garbage_collection (update_shared g s) = next_garbage_collection s"
  "controller_ready (update_shared g s) = controller_ready s"
  "client_to_session (update_shared g s) = client_to_session s"
  "session_to_client (update_shared g s) = session_to_client s"
  "user_server_to_client (update_shared g s) = user_server_to_client s"
  "user_client_to_server (update_shared g s) = user_client_to_server s"
  "mappings (update_shared g s) = mappings s"
  "cl_ord_state (update_shared g s) = cl_ord_state s"
  "total_num_pos_reports (update_shared g s) = total_num_pos_reports s"
  "clock_system (update_shared g s) = clock_system s"
  "clock_realtime (update_shared g s) = clock_realtime s"
  "out (update_shared g s) = out s"
  by (simp_all add: update_shared_def)

lemma take_request_id_fields [simp]:
  "server (take_request_id s) = server s"
  "sessions (take_request_id s) = sessions s"
  "next_garbage_collection (take_request_id s) = next_garbage_collection s"
  "controller_ready (take_request_id s) = controller_ready s"
  "client_to_session (take_request_id s) = client_to_session s"
  "session_to_client (take_request_id s) = session_to_client s"
  "user_server_to_client (take_request_id s) = user_server_to_client s"
  "user_client_to_server (take_request_id s) = user_client_to_server s"
  "mappings (take_request_id s) = mappings s"
  "cl_ord_state (take_request_id s) = cl_ord_state s"
  "total_num_pos_reports (take_request_id s) = total_num_pos_reports s"
  "clock_system (take_request_id s) = clock_system s"
  "clock_realtime (take_request_id s) = clock_realtime s"
  "out (take_request_id s) = out s"
  by (simp_all add: take_request_id_def)

lemma emit_fields [simp]:
  "shared (emit x s) = shared s"
  "server (emit x s) = server s"
  "sessions (emit x s) = sessions s"
  "next_garbage_collection (emit x s) = next_garbage_collection s"
  "controller_ready (emit x s) = controller_ready s"
  "client_to_session (emit x s) = client_to_session s"
  "session_to_client (emit x s) = session_to_client s"
  "user_server_to_client (emit x s) = user_server_to_client s"
  "user_client_to_server (emit x s) = user_client_to_server s"
  "mappings (emit x s) = mappings s"
  "cl_ord_state (emit x s) = cl_ord_state s"
  "total_num_pos_reports (emit x s) = total_num_pos_reports s"
  "clock_system (emit x s) = clock_system s"
  "clock_realtime (emit x s) = clock_realtime s"
  by (simp_all add: emit_def)

lemma session_of_update_session [simp]:
  "session_of sid' (update_session sid f s) =
     (if sid' = sid then map_option f (session_of sid s) else session_of sid' s)"
  by (simp add: session_of_def update_session_def map_of_map_entry_apply)

lemma session_of_set_state [simp]:
  "session_of sid' (set_state sid st s) =
     (if sid' = sid then map_option (\<lambda>c. c\<lparr>cs_state := st\<rparr>) (session_of sid s) else session_of sid' s)"
  by (simp add: set_state_def)

lemma session_of_cong: "sessions s' = sessions s \<Longrightarrow> session_of sid s' = session_of sid s"
  by (simp add: session_of_def)

lemma session_of_other [simp]:
  "session_of sid (update_mapping r h s) = session_of sid s"
  "session_of sid (update_shared g s) = session_of sid s"
  "session_of sid (take_request_id s) = session_of sid s"
  "session_of sid (emit x s) = session_of sid s"
  by (simp_all add: session_of_def)

lemma mappings_update_mapping [simp]:
  "mappings (update_mapping r f s) = (mappings s)(r := f (mappings s r))"
  by (simp add: update_mapping_def)

lemma shared_update_shared [simp]: "shared (update_shared g s) = g (shared s)"
  by (simp add: update_shared_def)

lemma shared_take_request_id [simp]: "shared (take_request_id s) = snd (create_request_id (shared s))"
  by (simp add: take_request_id_def)

lemma out_emit [simp]: "out (emit x s) = out s @ [x]"
  by (simp add: emit_def)

lemma with_session_Some [simp]: "session_of sid s = Some c \<Longrightarrow> with_session sid f s = f c s"
  by (simp add: with_session_def)

lemma with_session_None [simp]: "session_of sid s = None \<Longrightarrow> with_session sid f s = Ok s"
  by (simp add: with_session_def)

end
