(* ===== verification/Client_Link.thy ===== *)
theory Client_Link
  imports Proxy_State
begin

text \<open>
  How messages leave the proxy and how a client session ends: the outbound half of
  \<open>server/session.cpp\<close>, the outbound half of \<open>client/session.cpp\<close> with its teardown, and the
  controller's handlers for them (\<open>controller.cpp\<close>: \<open>Disconnected\<close> of a client session,
  \<open>dispatch_to_server\<close>, \<open>dispatch_to_client\<close>).
\<close>

section \<open>Error texts\<close>

text \<open>The constants of \<open>client/session.cpp\<close>.\<close>

abbreviation ERROR_GOODBYE :: string where
  "ERROR_GOODBYE \<equiv> ''goodbye''"

abbreviation ERROR_MISSING_HEARTBEAT :: string where
  "ERROR_MISSING_HEARTBEAT \<equiv> ''MISSING HEARTBEAT''"

abbreviation ERROR_NO_LOGON :: string where
  "ERROR_NO_LOGON \<equiv> ''NO LOGON''"

abbreviation ERROR_UNEXPECTED_LOGON :: string where
  "ERROR_UNEXPECTED_LOGON \<equiv> ''UNEXPECTED LOGON''"

abbreviation ERROR_UNEXPECTED_MSG_TYPE :: string where
  "ERROR_UNEXPECTED_MSG_TYPE \<equiv> ''UNEXPECTED MSG_TYPE''"

abbreviation ERROR_UNKNOWN_TARGET_COMP_ID :: string where
  "ERROR_UNKNOWN_TARGET_COMP_ID \<equiv> ''UNKNOWN TARGET_COMP_ID''"

abbreviation ERROR_UNSUPPORTED_MSG_TYPE :: string where
  "ERROR_UNSUPPORTED_MSG_TYPE \<equiv> ''UNSUPPORTED MSG_TYPE''"

abbreviation ERROR_UNSUPPORTED_PARTY_IDS :: string where
  "ERROR_UNSUPPORTED_PARTY_IDS \<equiv> ''UNSUPPORTED PARTY_IDS''"

abbreviation ERROR_USER_RESPONSE_TIMEOUT :: string where
  "ERROR_USER_RESPONSE_TIMEOUT \<equiv> ''USER_RESPONSE_TIMEOUT''"

abbreviation ERROR_INVALID_REQ_ID :: string where
  "ERROR_INVALID_REQ_ID \<equiv> ''INVALID_REQ_ID''"

abbreviation ERROR_INVALID_MD_REQ_ID :: string where
  "ERROR_INVALID_MD_REQ_ID \<equiv> ''INVALID_MD_REQ_ID''"

abbreviation ERROR_INVALID_CL_ORD_ID :: string where
  "ERROR_INVALID_CL_ORD_ID \<equiv> ''INVALID_CL_ORD_ID''"

abbreviation ERROR_INVALID_ORIG_CL_ORD_ID :: string where
  "ERROR_INVALID_ORIG_CL_ORD_ID \<equiv> ''INVALID_ORIG_CL_ORD_ID''"

abbreviation ERROR_INVALID_LOGON_ENCRYPT_METHOD :: string where
  "ERROR_INVALID_LOGON_ENCRYPT_METHOD \<equiv> ''INVALID_LOGON_ENCRYPT_METHOD''"

abbreviation ERROR_INVALID_LOGON_HEART_BT_INT :: string where
  "ERROR_INVALID_LOGON_HEART_BT_INT \<equiv> ''INVALID_LOGON_HEART_BT_INT''"

abbreviation ERROR_INVALID_LOGON_RESET_SEQ_NUM_FLAG :: string where
  "ERROR_INVALID_LOGON_RESET_SEQ_NUM_FLAG \<equiv> ''INVALID_LOGON_RESET_SEQ_NUM_FLAG''"

section \<open>To the server\<close>

definition server_ready :: "sys \<Rightarrow> bool" where
  "server_ready s \<longleftrightarrow> sv_state (server s) = SERVER_READY"

definition server_send_helper :: "env \<Rightarrow> msg \<Rightarrow> sys \<Rightarrow> sys" where
  "server_send_helper e m s =
     (let seq = sv_outbound (server s) + 1;
          h = \<lparr>hd_msg_type = msg_type_of m, hd_sender_comp_id = server_sender_comp_id e,
                hd_target_comp_id = server_target_comp_id e, hd_msg_seq_num = seq,
                hd_sending_time = clock_realtime s\<rparr>
      in emit (To_Server h m) (s\<lparr>server := (server s)\<lparr>sv_outbound := seq\<rparr>\<rparr>))"

text \<open>\<open>send\<close> of a \<open>Trace\<close>, that is of a message that does not come from the session itself.\<close>

definition server_send :: "env \<Rightarrow> msg \<Rightarrow> sys \<Rightarrow> sys result" where
  "server_send e m s = (if \<not> server_ready s then Throw ''not ready'' s else Ok (server_send_helper e m s))"

text \<open>
  \<open>server::Session::operator()\<close>, overloaded for the thirteen messages that the controller has for the server:
  each overload sends its message.
\<close>

definition server_request :: "env \<Rightarrow> msg \<Rightarrow> sys \<Rightarrow> sys result" where
  "server_request e m s = server_send e m s"

definition dispatch_to_server :: "env \<Rightarrow> msg \<Rightarrow> sys \<Rightarrow> sys result" where
  "dispatch_to_server e m s = server_request e m s"

lemma dispatch_to_server_sends:
  "dispatch_to_server e m s =
     (if \<not> server_ready s then Throw ''not ready'' s else Ok (server_send_helper e m s))"
  by (simp add: dispatch_to_server_def server_request_def server_send_def)

definition server_send_logon :: "env \<Rightarrow> sys \<Rightarrow> sys" where
  "server_send_logon e s =
     server_send_helper e
       (Logon \<lparr>lg_encrypt_method = ENCRYPT_NONE,
               lg_heart_bt_int = word_of_int (duration_cast_seconds (server_ping_freq e)),
               lg_raw_data = [], lg_reset_seq_num_flag = True,
               lg_next_expected_msg_seq_num = sv_inbound (server s) + 1,
               lg_username = server_username e, lg_password = server_password e\<rparr>) s"

definition server_send_logout :: "env \<Rightarrow> string \<Rightarrow> sys \<Rightarrow> sys" where
  "server_send_logout e text = server_send_helper e (Logout \<lparr>lo_text = text\<rparr>)"

definition server_send_heartbeat :: "env \<Rightarrow> string \<Rightarrow> sys \<Rightarrow> sys" where
  "server_send_heartbeat e test_req_id = server_send_helper e (Heartbeat \<lparr>hb_test_req_id = test_req_id\<rparr>)"

definition server_send_test_request :: "env \<Rightarrow> nanos \<Rightarrow> sys \<Rightarrow> sys" where
  "server_send_test_request e now =
     server_send_helper e (Test_Request \<lparr>tr_test_req_id = decimal_int now\<rparr>)"

section \<open>To a client\<close>

definition session_ready :: "client_session \<Rightarrow> bool" where
  "session_ready c \<longleftrightarrow> cs_state c = READY"

text \<open>\<open>client::Session::send\<close>, with the realtime clock for the sending time in all its uses.\<close>

definition client_send :: "env \<Rightarrow> msg \<Rightarrow> u64 \<Rightarrow> sys \<Rightarrow> sys" where
  "client_send e m sid s =
     (case session_of sid s of
        None \<Rightarrow> s
      | Some c \<Rightarrow>
          let seq = cs_outbound c + 1;
              h = \<lparr>hd_msg_type = msg_type_of m, hd_sender_comp_id = client_comp_id e,
                    hd_target_comp_id = cs_comp_id c, hd_msg_seq_num = seq,
                    hd_sending_time = clock_realtime s\<rparr>
          in emit (To_Client sid h m) (update_session sid (\<lambda>c. c\<lparr>cs_outbound := seq\<rparr>) s))"

text \<open>
  \<open>Controller::dispatch_to_client\<close>, and \<open>client::Session::operator()\<close> for every message the controller
  passes on except \<open>UserResponse\<close>: they all send it to a session that is ready and drop it otherwise.
\<close>

definition client_receive :: "env \<Rightarrow> msg \<Rightarrow> u64 \<Rightarrow> client_session \<Rightarrow> sys \<Rightarrow> sys" where
  "client_receive e m sid c s = (if session_ready c then client_send e m sid s else s)"

definition dispatch_to_client :: "env \<Rightarrow> msg \<Rightarrow> u64 \<Rightarrow> sys \<Rightarrow> sys" where
  "dispatch_to_client e m sid s =
     (case session_of sid s of None \<Rightarrow> s | Some c \<Rightarrow> client_receive e m sid c s)"

lemma dispatch_to_client_sends:
  "dispatch_to_client e m sid s =
     (case session_of sid s of None \<Rightarrow> s | Some c \<Rightarrow> if session_ready c then client_send e m sid s else s)"
  by (simp add: dispatch_to_client_def client_receive_def split: option.split)

section \<open>The end of a client session\<close>

text \<open>
  The callback that \<open>clear_req_ids\<close> runs for every market data request of a session that has gone.
  The walk is over the requests in the order of the inner table; when the callback throws, the rest
  of the table stays.
\<close>

definition unsubscribe_market_data :: "env \<Rightarrow> string \<Rightarrow> sys \<Rightarrow> sys result" where
  "unsubscribe_market_data e req_id s =
     (if \<not> controller_ready s then Ok s
      else dispatch_to_server e
        (Market_Data_Request \<lparr>mdr_md_req_id = req_id, mdr_subscription_request_type = UNSUBSCRIBE, mdr_rest = []\<rparr>) s)"

fun clear_walk :: "(string \<Rightarrow> sys \<Rightarrow> sys result) \<Rightarrow> mapping_ref \<Rightarrow> string list \<Rightarrow> sys \<Rightarrow> sys result" where
  "clear_walk callback r [] s = Ok s"
| "clear_walk callback r (req_id # req_ids) s =
     and_then (callback req_id s)
       (\<lambda>s. clear_walk callback r req_ids (update_mapping r (erase_server req_id) s))"

definition clear_req_ids_with :: "(string \<Rightarrow> sys \<Rightarrow> sys result) \<Rightarrow> mapping_ref \<Rightarrow> u64 \<Rightarrow> sys \<Rightarrow> sys result" where
  "clear_req_ids_with callback r sid s =
     (case client_to_server (mappings s r) sid of
        None \<Rightarrow> Ok s
      | Some al \<Rightarrow>
          and_then (clear_walk callback r (map snd al) s)
            (\<lambda>s. Ok (update_mapping r (erase_client sid) s)))"

text \<open>\<open>clear_req_ids(mapping, session_id)\<close>, with the callback that does nothing.\<close>

definition clear_table :: "mapping_ref \<Rightarrow> u64 \<Rightarrow> sys \<Rightarrow> sys result" where
  "clear_table r sid s = Ok (update_mapping r (clear_req_ids sid) s)"

text \<open>The last part of the handler: the session's route at the bridge, if it has one.\<close>

definition release_user :: "env \<Rightarrow> u64 \<Rightarrow> sys \<Rightarrow> sys result" where
  "release_user e sid s =
     (case session_to_client s sid of
        None \<Rightarrow> Ok s
      | Some username \<Rightarrow>
          and_then
            (if controller_ready s then
               let user_request_id = fresh_request_id s;
                   user_request =
                     \<lparr>urq_user_request_id = user_request_id, urq_user_request_type = LOG_OFF_USER,
                      urq_username = username, urq_password = [], urq_new_password = []\<rparr>
               in and_then (dispatch_to_server e (User_Request user_request) (take_request_id s))
                    (\<lambda>s. Ok (s\<lparr>user_server_to_client := try_emplace (user_server_to_client s) user_request_id sid,
                               user_client_to_server := try_emplace (user_client_to_server s) sid user_request_id\<rparr>))
             else Ok s)
            (\<lambda>s. Ok (s\<lparr>client_to_session := erase_key (client_to_session s) username,
                       session_to_client := erase_key (session_to_client s) sid\<rparr>)))"

text \<open>\<open>Controller::operator()(Trace<client::Session::Disconnected>)\<close>.\<close>

definition on_client_disconnected :: "env \<Rightarrow> u64 \<Rightarrow> sys \<Rightarrow> sys result" where
  "on_client_disconnected e sid =
     in_order
       [clear_table SECURITY_REQ_ID sid,
        clear_table SECURITY_STATUS_REQ_ID sid,
        clear_table TRAD_SES_REQ_ID sid,
        clear_req_ids_with (unsubscribe_market_data e) MD_REQ_ID sid,
        clear_table ORD_STATUS_REQ_ID sid,
        clear_table MASS_STATUS_REQ_ID sid,
        clear_table POS_REQ_ID sid,
        clear_table TRADE_REQUEST_ID sid,
        clear_table CL_ORD_ID sid,
        clear_table MASS_CANCEL_CL_ORD_ID sid,
        release_user e sid]"

definition bury :: "u64 \<Rightarrow> sys \<Rightarrow> sys" where
  "bury sid s = update_shared (session_remove sid) (set_state sid ZOMBIE s)"

definition make_zombie :: "env \<Rightarrow> u64 \<Rightarrow> sys \<Rightarrow> sys result" where
  "make_zombie e sid =
     with_session sid (\<lambda>c s.
       case cs_state c of
         WAITING_LOGON \<Rightarrow> Ok (bury sid s)
       | ZOMBIE \<Rightarrow> Ok s
       | _ \<Rightarrow> and_then (on_client_disconnected e sid s) (\<lambda>s. Ok (bury sid s)))"

definition close :: "env \<Rightarrow> u64 \<Rightarrow> sys \<Rightarrow> sys result" where
  "close e sid =
     with_session sid (\<lambda>c s.
       if cs_state c \<noteq> ZOMBIE then make_zombie e sid (emit (Close_Client sid) s) else Ok s)"

definition send_and_close :: "env \<Rightarrow> msg \<Rightarrow> u64 \<Rightarrow> sys \<Rightarrow> sys result" where
  "send_and_close e m sid s = close e sid (client_send e m sid s)"

definition force_disconnect :: "env \<Rightarrow> u64 \<Rightarrow> sys \<Rightarrow> sys result" where
  "force_disconnect e sid =
     with_session sid (\<lambda>c s. case cs_state c of ZOMBIE \<Rightarrow> Ok s | _ \<Rightarrow> close e sid s)"

section \<open>Rejects\<close>

definition send_reject_and_close :: "env \<Rightarrow> header \<Rightarrow> session_reject_reason \<Rightarrow> string \<Rightarrow> u64 \<Rightarrow> sys \<Rightarrow> sys result" where
  "send_reject_and_close e h reason text =
     send_and_close e
       (Reject \<lparr>rj_ref_seq_num = hd_msg_seq_num h, rj_text = text, rj_ref_msg_type = hd_msg_type h,
                rj_session_reject_reason = reason\<rparr>)"

definition send_business_message_reject ::
  "env \<Rightarrow> header \<Rightarrow> string \<Rightarrow> business_reject_reason \<Rightarrow> string \<Rightarrow> u64 \<Rightarrow> sys \<Rightarrow> sys" where
  "send_business_message_reject e h ref_id reason text =
     client_send e
       (Business_Message_Reject
          \<lparr>bmr_ref_seq_num = hd_msg_seq_num h, bmr_ref_msg_type = hd_msg_type h,
           bmr_business_reject_ref_id = ref_id, bmr_business_reject_reason = reason, bmr_text = text\<rparr>)"

end
