(* ===== verification/Controller_Upstream.thy ===== *)
theory Controller_Upstream
  imports Client_Link
begin

text \<open>
  The controller's handlers for the messages of the upstream session (\<open>controller.cpp\<close>: the
  operators taking a \<open>Trace\<close> of a codec struct only) and the user and order tables they keep. A reply
  carries the id that the proxy chose; the handler looks up whose request it was, puts the client's
  own id back and passes the reply on, and forgets the request when no more replies are due.
\<close>

section \<open>Helpers\<close>

definition get_client_from_parties :: "party list \<Rightarrow> string" where
  "get_client_from_parties party_ids =
     (case party_ids of
        [item] \<Rightarrow>
          if party_id item \<noteq> [] \<and> party_id_source item = PROPRIETARY_CUSTOM_CODE \<and> party_role item = CLIENT_ID
          then party_id item else []
      | _ \<Rightarrow> [])"

definition is_pending :: "exec_type \<Rightarrow> bool" where
  "is_pending t \<longleftrightarrow> t = PENDING_NEW \<or> t = PENDING_REPLACE \<or> t = PENDING_CANCEL"

definition find_req_id :: "mapping_ref \<Rightarrow> string \<Rightarrow> sys \<Rightarrow> route option" where
  "find_req_id r req_id s = server_to_client (mappings s r) req_id"

text \<open>\<open>remove_req_id(mapping, req_id)\<close>, whose result the callers only log.\<close>

definition forget_req_id :: "mapping_ref \<Rightarrow> string \<Rightarrow> sys \<Rightarrow> sys" where
  "forget_req_id r req_id = update_mapping r (\<lambda>m. snd (remove_req_id req_id m))"

definition ensure_cl_ord_id :: "string \<Rightarrow> ord_status \<Rightarrow> sys \<Rightarrow> sys" where
  "ensure_cl_ord_id cl_ord_id status s =
     (if cl_ord_id = [] then s else s\<lparr>cl_ord_state := (cl_ord_state s)(cl_ord_id \<mapsto> status)\<rparr>)"

definition remove_cl_ord_id :: "env \<Rightarrow> string \<Rightarrow> sys \<Rightarrow> sys" where
  "remove_cl_ord_id e cl_ord_id s =
     (if cl_ord_id = [] then s
      else if test_disable_remove_cl_ord_id e then s
      else s\<lparr>cl_ord_state := erase_key (cl_ord_state s) cl_ord_id\<rparr>)"

definition user_add :: "string \<Rightarrow> u64 \<Rightarrow> sys \<Rightarrow> sys result" where
  "user_add username sid s =
     (if client_to_session s username \<noteq> None then Fatal ''Unexpected''
      else if session_to_client s sid \<noteq> None then Fatal ''Unexpected''
      else Ok (s\<lparr>client_to_session := (client_to_session s)(username \<mapsto> sid),
                 session_to_client := (session_to_client s)(sid \<mapsto> username)\<rparr>))"

definition user_remove :: "string \<Rightarrow> bool \<Rightarrow> sys \<Rightarrow> sys result" where
  "user_remove username session_is_ready s =
     (case client_to_session s username of
        Some sid \<Rightarrow>
          Ok (s\<lparr>session_to_client := erase_key (session_to_client s) sid,
                client_to_session := erase_key (client_to_session s) username\<rparr>)
      | None \<Rightarrow> if session_is_ready then Fatal ''Unexpected'' else Ok s)"

definition user_is_locked :: "string \<Rightarrow> sys \<Rightarrow> bool" where
  "user_is_locked username s \<longleftrightarrow> client_to_session s username \<noteq> None"

definition broadcast :: "env \<Rightarrow> msg \<Rightarrow> string \<Rightarrow> sys \<Rightarrow> sys" where
  "broadcast e m client_id s =
     (case client_to_session s client_id of
        None \<Rightarrow> s
      | Some sid \<Rightarrow> dispatch_to_client e m sid s)"

section \<open>The upstream connection\<close>

definition on_server_ready :: "sys \<Rightarrow> sys" where
  "on_server_ready s = s\<lparr>controller_ready := True\<rparr>"

definition on_server_disconnected :: "env \<Rightarrow> sys \<Rightarrow> sys result" where
  "on_server_disconnected e s =
     get_all_sessions (force_disconnect e) (s\<lparr>controller_ready := False\<rparr>)"

section \<open>Business reject\<close>

fun business_reject_mapping :: "msg_type \<Rightarrow> mapping_ref option" where
  "business_reject_mapping MT_TRADE_CAPTURE_REPORT_REQUEST = Some TRADE_REQUEST_ID"
| "business_reject_mapping MT_ORDER_MASS_STATUS_REQUEST = Some MASS_STATUS_REQ_ID"
| "business_reject_mapping MT_REQUEST_FOR_POSITIONS = Some POS_REQ_ID"
| "business_reject_mapping MT_NEW_ORDER_SINGLE = Some CL_ORD_ID"
| "business_reject_mapping MT_ORDER_CANCEL_REQUEST = Some CL_ORD_ID"
| "business_reject_mapping MT_ORDER_CANCEL_REPLACE_REQUEST = Some CL_ORD_ID"
| "business_reject_mapping MT_ORDER_STATUS_REQUEST = Some ORD_STATUS_REQ_ID"
| "business_reject_mapping MT_MARKET_DATA_REQUEST = Some MD_REQ_ID"
| "business_reject_mapping MT_MARKET_DATA_SNAPSHOT_FULL_REFRESH = Some MD_REQ_ID"
| "business_reject_mapping MT_MARKET_DATA_INCREMENTAL_REFRESH = Some MD_REQ_ID"
| "business_reject_mapping MT_MARKET_DATA_REQUEST_REJECT = Some MD_REQ_ID"
| "business_reject_mapping MT_SECURITY_DEFINITION_REQUEST = Some SECURITY_REQ_ID"
| "business_reject_mapping MT_SECURITY_STATUS_REQUEST = Some SECURITY_STATUS_REQ_ID"
| "business_reject_mapping MT_TRADING_SESSION_STATUS_REQUEST = Some TRAD_SES_REQ_ID"
| "business_reject_mapping MT_SECURITY_LIST_REQUEST = Some SECURITY_REQ_ID"
| "business_reject_mapping _ = None"

definition on_business_message_reject :: "env \<Rightarrow> business_message_reject \<Rightarrow> sys \<Rightarrow> sys" where
  "on_business_message_reject e v s =
     (case business_reject_mapping (bmr_ref_msg_type v) of
        None \<Rightarrow> s
      | Some r \<Rightarrow>
          (case find_req_id r (bmr_business_reject_ref_id v) s of
             None \<Rightarrow> s
           | Some (sid, req_id, keep_alive) \<Rightarrow>
               dispatch_to_client e (Business_Message_Reject (v\<lparr>bmr_business_reject_ref_id := req_id\<rparr>)) sid s))"

section \<open>Users\<close>

text \<open>\<open>client::Session::operator()(Trace<UserResponse>)\<close>.\<close>

definition session_user_response :: "env \<Rightarrow> user_response \<Rightarrow> u64 \<Rightarrow> sys \<Rightarrow> sys result" where
  "session_user_response e v sid =
     with_session sid (\<lambda>c s0.
       let s = update_session sid (\<lambda>c. c\<lparr>cs_user_response_timeout := 0\<rparr>) s0 in
       case cs_state c of
         WAITING_LOGON \<Rightarrow> Ok s
       | WAITING_CREATE_ROUTE \<Rightarrow>
           (case urs_user_status v of
              LOGGED_IN \<Rightarrow>
                Ok (set_state sid READY
                     (client_send e
                       (Logon \<lparr>lg_encrypt_method = ENCRYPT_NONE,
                               lg_heart_bt_int = word_of_int (duration_cast_seconds (client_heartbeat_freq e)),
                               lg_raw_data = [], lg_reset_seq_num_flag = False,
                               lg_next_expected_msg_seq_num = 0, lg_username = [], lg_password = []\<rparr>) sid s))
            | _ \<Rightarrow> make_zombie e sid s)
       | READY \<Rightarrow> Ok s
       | WAITING_REMOVE_ROUTE \<Rightarrow>
           (case urs_user_status v of
              NOT_LOGGED_IN \<Rightarrow>
                shared_session_logout sid (send_and_close e (Logout \<lparr>lo_text = ERROR_GOODBYE\<rparr>) sid)
                  (\<lambda>reason. make_zombie e sid) s
            | _ \<Rightarrow> make_zombie e sid s)
       | ZOMBIE \<Rightarrow> Ok s)"

definition on_user_response :: "env \<Rightarrow> user_response \<Rightarrow> sys \<Rightarrow> sys result" where
  "on_user_response e v s =
     (case user_server_to_client s (urs_user_request_id v) of
        None \<Rightarrow> Fatal ''Unexpected''
      | Some sid \<Rightarrow>
          (case session_of sid s of
             None \<Rightarrow> user_remove (urs_username v) False s
           | Some c \<Rightarrow>
               and_then
                 (case urs_user_status v of
                    LOGGED_IN \<Rightarrow> user_add (urs_username v) sid s
                  | NOT_LOGGED_IN \<Rightarrow> user_remove (urs_username v) (session_ready c) s
                  | _ \<Rightarrow> Ok s)
                 (\<lambda>s. session_user_response e v sid
                   (s\<lparr>user_client_to_server := erase_key (user_client_to_server s) sid,
                      user_server_to_client :=
                        erase_key (user_server_to_client s) (urs_user_request_id v)\<rparr>))))"

section \<open>Securities and market data\<close>

definition on_security_list :: "env \<Rightarrow> security_list \<Rightarrow> sys \<Rightarrow> sys" where
  "on_security_list e v s =
     (case find_req_id SECURITY_REQ_ID (sl_security_req_id v) s of
        None \<Rightarrow> s
      | Some (sid, req_id, keep_alive) \<Rightarrow>
          let failure = sl_security_request_result v \<noteq> VALID_REQUEST;
              remove = failure \<or> \<not> keep_alive;
              s = dispatch_to_client e (Security_List (v\<lparr>sl_security_req_id := req_id\<rparr>)) sid s
          in if remove then forget_req_id SECURITY_REQ_ID (sl_security_req_id v) s else s)"

definition on_security_definition :: "env \<Rightarrow> security_definition \<Rightarrow> sys \<Rightarrow> sys" where
  "on_security_definition e v s =
     (case find_req_id SECURITY_REQ_ID (sd_security_req_id v) s of
        None \<Rightarrow> s
      | Some (sid, req_id, keep_alive) \<Rightarrow>
          let failure = sd_security_response_type v \<noteq> ACCEPT_SECURITY_PROPOSAL_AS_IS;
              remove = failure \<or> \<not> keep_alive;
              s = dispatch_to_client e (Security_Definition (v\<lparr>sd_security_req_id := req_id\<rparr>)) sid s
          in if remove then forget_req_id SECURITY_REQ_ID (sd_security_req_id v) s else s)"

definition on_security_status :: "env \<Rightarrow> security_status \<Rightarrow> sys \<Rightarrow> sys" where
  "on_security_status e v s =
     (case find_req_id SECURITY_STATUS_REQ_ID (ss_security_status_req_id v) s of
        None \<Rightarrow> s
      | Some (sid, req_id, keep_alive) \<Rightarrow>
          let remove = \<not> keep_alive;
              s = dispatch_to_client e (Security_Status (v\<lparr>ss_security_status_req_id := req_id\<rparr>)) sid s
          in if remove then forget_req_id SECURITY_STATUS_REQ_ID (ss_security_status_req_id v) s else s)"

definition on_market_data_request_reject :: "env \<Rightarrow> market_data_request_reject \<Rightarrow> sys \<Rightarrow> sys" where
  "on_market_data_request_reject e v s =
     (case find_req_id MD_REQ_ID (mrj_md_req_id v) s of
        None \<Rightarrow> s
      | Some (sid, req_id, keep_alive) \<Rightarrow>
          forget_req_id MD_REQ_ID (mrj_md_req_id v)
            (dispatch_to_client e (Market_Data_Request_Reject (v\<lparr>mrj_md_req_id := req_id\<rparr>)) sid s))"

definition on_market_data_snapshot :: "env \<Rightarrow> market_data_snapshot_full_refresh \<Rightarrow> sys \<Rightarrow> sys" where
  "on_market_data_snapshot e v s =
     (case find_req_id MD_REQ_ID (mds_md_req_id v) s of
        None \<Rightarrow> s
      | Some (sid, req_id, keep_alive) \<Rightarrow>
          let remove = \<not> keep_alive;
              s = dispatch_to_client e (Market_Data_Snapshot_Full_Refresh (v\<lparr>mds_md_req_id := req_id\<rparr>)) sid s
          in if remove then forget_req_id MD_REQ_ID (mds_md_req_id v) s else s)"

definition on_market_data_incremental :: "env \<Rightarrow> market_data_incremental_refresh \<Rightarrow> sys \<Rightarrow> sys" where
  "on_market_data_incremental e v s =
     (case find_req_id MD_REQ_ID (mdi_md_req_id v) s of
        None \<Rightarrow> s
      | Some (sid, req_id, keep_alive) \<Rightarrow>
          dispatch_to_client e (Market_Data_Incremental_Refresh (v\<lparr>mdi_md_req_id := req_id\<rparr>)) sid s)"

section \<open>Orders\<close>

definition on_order_cancel_reject :: "env \<Rightarrow> order_cancel_reject \<Rightarrow> sys \<Rightarrow> sys" where
  "on_order_cancel_reject e v s =
     (let req_id = ocj_cl_ord_id v;
          s = (case find_req_id CL_ORD_ID req_id s of
                 None \<Rightarrow> s
               | Some (sid, client_req_id, keep_alive) \<Rightarrow>
                   dispatch_to_client e
                     (Order_Cancel_Reject
                        (v\<lparr>ocj_cl_ord_id := client_req_id,
                           ocj_orig_cl_ord_id := get_client_cl_ord_id (ocj_orig_cl_ord_id v)\<rparr>)) sid s)
      in forget_req_id CL_ORD_ID req_id s)"

definition on_order_mass_cancel_report :: "env \<Rightarrow> order_mass_cancel_report \<Rightarrow> sys \<Rightarrow> sys" where
  "on_order_mass_cancel_report e v s =
     (let req_id = omr_cl_ord_id v;
          s = (case find_req_id MASS_CANCEL_CL_ORD_ID req_id s of
                 None \<Rightarrow> s
               | Some (sid, client_req_id, keep_alive) \<Rightarrow>
                   dispatch_to_client e (Order_Mass_Cancel_Report (v\<lparr>omr_cl_ord_id := client_req_id\<rparr>)) sid s)
      in forget_req_id MASS_CANCEL_CL_ORD_ID req_id s)"

text \<open>
  \<open>ExecutionReport\<close> in its three parts: the reply to an order status request, to an order mass status
  request, and the report of an order action. \<open>v\<close> is the report with the client's order ids.
\<close>

definition on_order_status_report :: "env \<Rightarrow> string \<Rightarrow> execution_report \<Rightarrow> sys \<Rightarrow> sys" where
  "on_order_status_report e cl_ord_id v s0 =
     (let s = ensure_cl_ord_id cl_ord_id (er_ord_status v) s0;
          req_id = er_ord_status_req_id v
      in case find_req_id ORD_STATUS_REQ_ID req_id s of
           None \<Rightarrow> s
         | Some (sid, client_req_id, keep_alive) \<Rightarrow>
             forget_req_id ORD_STATUS_REQ_ID req_id
               (dispatch_to_client e (Execution_Report (v\<lparr>er_ord_status_req_id := client_req_id\<rparr>)) sid s))"

definition on_mass_status_report :: "env \<Rightarrow> string \<Rightarrow> execution_report \<Rightarrow> sys \<Rightarrow> sys" where
  "on_mass_status_report e cl_ord_id v s0 =
     (let s = ensure_cl_ord_id cl_ord_id (er_ord_status v) s0;
          req_id = er_mass_status_req_id v
      in case find_req_id MASS_STATUS_REQ_ID req_id s of
           None \<Rightarrow> s
         | Some (sid, client_req_id, keep_alive) \<Rightarrow>
             let s = dispatch_to_client e (Execution_Report (v\<lparr>er_mass_status_req_id := client_req_id\<rparr>)) sid s
             in if er_last_rpt_requested v then forget_req_id MASS_STATUS_REQ_ID req_id s else s)"

definition on_order_action_report ::
  "env \<Rightarrow> string \<Rightarrow> string \<Rightarrow> string \<Rightarrow> execution_report \<Rightarrow> sys \<Rightarrow> sys" where
  "on_order_action_report e client_id cl_ord_id orig_cl_ord_id v s =
     (let pending = is_pending (er_exec_type v);
          s = (if er_exec_type v = EXEC_REJECTED then
                 (case find_req_id CL_ORD_ID cl_ord_id s of
                    None \<Rightarrow> s
                  | Some (sid, client_req_id, keep_alive) \<Rightarrow> dispatch_to_client e (Execution_Report v) sid s)
               else
                 let s = (if is_order_complete e (er_ord_status v) then remove_cl_ord_id e cl_ord_id s
                          else if pending then ensure_cl_ord_id cl_ord_id (er_ord_status v) s
                          else s);
                     s = (if \<not> pending \<and> orig_cl_ord_id \<noteq> [] then remove_cl_ord_id e orig_cl_ord_id s else s)
                 in broadcast e (Execution_Report v) client_id s)
      in if \<not> pending then forget_req_id CL_ORD_ID cl_ord_id s else s)"

definition on_execution_report :: "env \<Rightarrow> execution_report \<Rightarrow> sys \<Rightarrow> sys" where
  "on_execution_report e v0 =
     (let cl_ord_id = er_cl_ord_id v0;
          orig_cl_ord_id = er_orig_cl_ord_id v0;
          client_id = get_client_from_parties (er_no_party_ids v0);
          v = v0\<lparr>er_cl_ord_id := get_client_cl_ord_id cl_ord_id,
                 er_orig_cl_ord_id := get_client_cl_ord_id orig_cl_ord_id\<rparr>
      in if er_ord_status_req_id v \<noteq> [] then on_order_status_report e cl_ord_id v
         else if er_mass_status_req_id v \<noteq> [] then on_mass_status_report e cl_ord_id v
         else on_order_action_report e client_id cl_ord_id orig_cl_ord_id v)"

section \<open>Positions and trades\<close>

definition on_request_for_positions_ack :: "env \<Rightarrow> request_for_positions_ack \<Rightarrow> sys \<Rightarrow> sys" where
  "on_request_for_positions_ack e v s0 =
     (case find_req_id POS_REQ_ID (rpa_pos_req_id v) s0 of
        None \<Rightarrow> s0
      | Some (sid, req_id, keep_alive) \<Rightarrow>
          let failure = rpa_pos_req_result v \<noteq> POS_VALID \<or> rpa_pos_req_status v = POS_REJECTED;
              remove = (if failure then True else rpa_total_num_pos_reports v = 0);
              s = s0\<lparr>total_num_pos_reports := (if failure then 0 else rpa_total_num_pos_reports v)\<rparr>;
              s = dispatch_to_client e (Request_For_Positions_Ack (v\<lparr>rpa_pos_req_id := req_id\<rparr>)) sid s
          in if remove then forget_req_id POS_REQ_ID (rpa_pos_req_id v) s else s)"

definition on_position_report :: "env \<Rightarrow> position_report \<Rightarrow> sys \<Rightarrow> sys" where
  "on_position_report e v s0 =
     (let s = (if total_num_pos_reports s0 \<noteq> 0
               then s0\<lparr>total_num_pos_reports := total_num_pos_reports s0 - 1\<rparr> else s0)
      in case find_req_id POS_REQ_ID (prp_pos_req_id v) s of
           None \<Rightarrow> s
         | Some (sid, req_id, keep_alive) \<Rightarrow>
             let failure = prp_pos_req_result v \<noteq> POS_VALID;
                 remove = (if failure then True
                           else if total_num_pos_reports s = 0 then \<not> keep_alive
                           else False);
                 s = dispatch_to_client e (Position_Report (v\<lparr>prp_pos_req_id := req_id\<rparr>)) sid s
             in if remove then forget_req_id POS_REQ_ID (prp_pos_req_id v) s else s)"

definition on_trade_capture_report_request_ack :: "env \<Rightarrow> trade_capture_report_request_ack \<Rightarrow> sys \<Rightarrow> sys" where
  "on_trade_capture_report_request_ack e v s =
     (case find_req_id TRADE_REQUEST_ID (tca_trade_request_id v) s of
        None \<Rightarrow> s
      | Some (sid, req_id, keep_alive) \<Rightarrow>
          let remove = \<not> keep_alive;
              s = dispatch_to_client e (Trade_Capture_Report_Request_Ack (v\<lparr>tca_trade_request_id := req_id\<rparr>)) sid s
          in if remove then forget_req_id TRADE_REQUEST_ID (tca_trade_request_id v) s else s)"

definition on_trade_capture_report :: "env \<Rightarrow> trade_capture_report \<Rightarrow> sys \<Rightarrow> sys" where
  "on_trade_capture_report e v s =
     (case find_req_id TRADE_REQUEST_ID (tcr_trade_request_id v) s of
        None \<Rightarrow> s
      | Some (sid, req_id, keep_alive) \<Rightarrow>
          let remove = (if \<not> tcr_last_rpt_requested v then False else \<not> keep_alive);
              s = dispatch_to_client e (Trade_Capture_Report (v\<lparr>tcr_trade_request_id := req_id\<rparr>)) sid s
          in if remove then forget_req_id TRADE_REQUEST_ID (tcr_trade_request_id v) s else s)"

section \<open>The interface to the upstream session\<close>

text \<open>
  The controller as the \<open>Handler\<close> of \<open>server::Session\<close>: one overload for each of these messages, and none for
  any other (beside those for \<open>Ready\<close> and \<open>Disconnected\<close>).
\<close>

fun controller_from_server :: "env \<Rightarrow> msg \<Rightarrow> sys \<Rightarrow> sys result" where
  "controller_from_server e (Business_Message_Reject v) s = Ok (on_business_message_reject e v s)"
| "controller_from_server e (User_Response v) s = on_user_response e v s"
| "controller_from_server e (Security_List v) s = Ok (on_security_list e v s)"
| "controller_from_server e (Security_Definition v) s = Ok (on_security_definition e v s)"
| "controller_from_server e (Security_Status v) s = Ok (on_security_status e v s)"
| "controller_from_server e (Market_Data_Request_Reject v) s = Ok (on_market_data_request_reject e v s)"
| "controller_from_server e (Market_Data_Snapshot_Full_Refresh v) s = Ok (on_market_data_snapshot e v s)"
| "controller_from_server e (Market_Data_Incremental_Refresh v) s = Ok (on_market_data_incremental e v s)"
| "controller_from_server e (Order_Cancel_Reject v) s = Ok (on_order_cancel_reject e v s)"
| "controller_from_server e (Order_Mass_Cancel_Report v) s = Ok (on_order_mass_cancel_report e v s)"
| "controller_from_server e (Execution_Report v) s = Ok (on_execution_report e v s)"
| "controller_from_server e (Request_For_Positions_Ack v) s = Ok (on_request_for_positions_ack e v s)"
| "controller_from_server e (Position_Report v) s = Ok (on_position_report e v s)"
| "controller_from_server e (Trade_Capture_Report_Request_Ack v) s = Ok (on_trade_capture_report_request_ack e v s)"
| "controller_from_server e (Trade_Capture_Report v) s = Ok (on_trade_capture_report e v s)"
| "controller_from_server e _ s = Ok s"

end
