(* ===== verification/Controller_Requests.thy ===== *)
theory Controller_Requests
  imports Controller_Upstream
begin

text \<open>
  The controller's handlers for the messages of a client session (\<open>controller.cpp\<close>: the operators that
  also take a session id). Each checks the request, gives it an id that is unique upstream, sends it,
  and only then enters it into the table, so that a request that cannot be sent leaves no trace; a
  request that fails a check is answered by a reject that the proxy builds itself.
\<close>

section \<open>Error texts\<close>

abbreviation ERROR_VALIDATION :: string where
  "ERROR_VALIDATION \<equiv> ''VALIDATION''"

abbreviation ERROR_DUPLICATE_CL_ORD_ID :: string where
  "ERROR_DUPLICATE_CL_ORD_ID \<equiv> ''DUPLICATE_CL_ORD_ID''"

abbreviation ERROR_DUPLICATE_ORD_STATUS_REQ_ID :: string where
  "ERROR_DUPLICATE_ORD_STATUS_REQ_ID \<equiv> ''DUPLICATE_ORD_STATUS_REQ_ID''"

abbreviation ERROR_DUPLICATE_MASS_STATUS_REQ_ID :: string where
  "ERROR_DUPLICATE_MASS_STATUS_REQ_ID \<equiv> ''DUPLICATE_MASS_STATUS_REQ_ID''"

abbreviation ERROR_UNKNOWN_SUBSCRIPTION_REQUEST_TYPE :: string where
  "ERROR_UNKNOWN_SUBSCRIPTION_REQUEST_TYPE \<equiv> ''UNKNOWN_SUBSCRIPTION_REQUEST_TYPE''"

abbreviation ERROR_DUPLICATE_MD_REQ_ID :: string where
  "ERROR_DUPLICATE_MD_REQ_ID \<equiv> ''DUPLICATE_MD_REQ_ID''"

abbreviation ERROR_UNKNOWN_MD_REQ_ID :: string where
  "ERROR_UNKNOWN_MD_REQ_ID \<equiv> ''UNKNOWN_MD_REQ_ID''"

abbreviation ERROR_DUPLICATED_POS_REQ_ID :: string where
  "ERROR_DUPLICATED_POS_REQ_ID \<equiv> ''DUPLICATED_POS_REQ_ID''"

abbreviation ERROR_UNKNOWN_POS_REQ_ID :: string where
  "ERROR_UNKNOWN_POS_REQ_ID \<equiv> ''UNKNOWN_POS_REQ_ID''"

abbreviation ERROR_DUPLICATE_TRADE_REQUEST_ID :: string where
  "ERROR_DUPLICATE_TRADE_REQUEST_ID \<equiv> ''DUPLICATE_TRADE_REQUEST_ID''"

abbreviation ERROR_UNKNOWN_TRADE_REQUEST_ID :: string where
  "ERROR_UNKNOWN_TRADE_REQUEST_ID \<equiv> ''UNKNOWN_TRADE_REQUEST_ID''"

section \<open>Helpers\<close>

definition get_subscription_request_type :: "subscription_request_type \<Rightarrow> subscription_request_type" where
  "get_subscription_request_type t = (if t = SRT_UNDEFINED then SNAPSHOT else t)"

text \<open>
  \<open>auto &client_to_server = mapping.client_to_server[session_id]\<close>, which makes an inner table if there
  is none, and the lookup of the client's id in it.
\<close>

definition open_table :: "mapping_ref \<Rightarrow> u64 \<Rightarrow> sys \<Rightarrow> sys" where
  "open_table r sid = update_mapping r (touch sid)"

definition req_id_in_use :: "mapping_ref \<Rightarrow> u64 \<Rightarrow> string \<Rightarrow> sys \<Rightarrow> bool" where
  "req_id_in_use r sid req_id s \<longleftrightarrow> find_client_req_id sid req_id (mappings s r) \<noteq> None"

definition add_route :: "mapping_ref \<Rightarrow> string \<Rightarrow> string \<Rightarrow> u64 \<Rightarrow> bool \<Rightarrow> sys \<Rightarrow> sys" where
  "add_route r req_id request_id sid keep_alive = update_mapping r (add_req_id req_id request_id sid keep_alive)"

text \<open>
  The lambda \<open>dispatch\<close> of the handlers for \<open>SecurityListRequest\<close>, \<open>SecurityDefinitionRequest\<close>,
  \<open>SecurityStatusRequest\<close> and \<open>MarketDataRequest\<close>, which differ in the table and in the struct that
  carries the new id (\<open>mk\<close>).
\<close>

definition dispatch_subscription ::
  "env \<Rightarrow> mapping_ref \<Rightarrow> u64 \<Rightarrow> string \<Rightarrow> bool \<Rightarrow> (string \<Rightarrow> msg) \<Rightarrow> bool \<Rightarrow> sys \<Rightarrow> sys result" where
  "dispatch_subscription e r sid req_id already mk keep_alive s =
     (let request_id = fresh_request_id s
      in and_then (dispatch_to_server e (mk request_id) (take_request_id s))
           (\<lambda>s. Ok (if already then forget_req_id r request_id s
                    else add_route r req_id request_id sid keep_alive s)))"

text \<open>The switch at the end of every handler with a subscription type.\<close>

definition subscription_switch ::
  "subscription_request_type \<Rightarrow> bool \<Rightarrow> (sys \<Rightarrow> sys result) \<Rightarrow> (sys \<Rightarrow> sys result) \<Rightarrow> (sys \<Rightarrow> sys result) \<Rightarrow>
     (bool \<Rightarrow> sys \<Rightarrow> sys result) \<Rightarrow> sys \<Rightarrow> sys result" where
  "subscription_switch t already reject_type reject_duplicate reject_unknown send =
     (case t of
        SRT_UNDEFINED \<Rightarrow> reject_type
      | SRT_UNKNOWN \<Rightarrow> reject_type
      | SNAPSHOT \<Rightarrow> if already then reject_duplicate else send False
      | SNAPSHOT_UPDATES \<Rightarrow> if already then reject_duplicate else send True
      | UNSUBSCRIBE \<Rightarrow> if already then send False else reject_unknown)"

section \<open>Users\<close>

definition on_user_request :: "env \<Rightarrow> user_request \<Rightarrow> u64 \<Rightarrow> sys \<Rightarrow> sys result" where
  "on_user_request e v sid s0 =
     (let proceed = (\<lambda>s.
            let tmp = (case user_client_to_server s sid of None \<Rightarrow> [] | Some x \<Rightarrow> x)
            in if tmp = [] then
                 dispatch_to_server e (User_Request v)
                   (s\<lparr>user_client_to_server := (user_client_to_server s)(sid \<mapsto> urq_user_request_id v),
                      user_server_to_client :=
                        try_emplace (user_server_to_client s) (urq_user_request_id v) sid\<rparr>)
               else Fatal ''Unexpected'')
      in case urq_user_request_type v of
           LOG_ON_USER \<Rightarrow> if user_is_locked (urq_username v) s0 then Throw ''locked'' s0 else proceed s0
         | LOG_OFF_USER \<Rightarrow> proceed s0
         | _ \<Rightarrow> Fatal ''Unexpected'')"

section \<open>Securities\<close>

definition reject_security_list :: "env \<Rightarrow> security_list_request \<Rightarrow> u64 \<Rightarrow> sys \<Rightarrow> sys result" where
  "reject_security_list e v sid s =
     Ok (dispatch_to_client e
          (Security_List \<lparr>sl_security_req_id = slr_security_req_id v,
                          sl_security_response_id = fresh_request_id s,
                          sl_security_request_result = INVALID_OR_UNSUPPORTED, sl_rest = []\<rparr>)
          sid (take_request_id s))"

definition on_security_list_request :: "env \<Rightarrow> security_list_request \<Rightarrow> u64 \<Rightarrow> sys \<Rightarrow> sys result" where
  "on_security_list_request e v sid s0 =
     (let req_id = slr_security_req_id v; reject = reject_security_list e v sid
      in if \<not> is_valid e (Security_List_Request v) then reject s0
         else
           let s = open_table SECURITY_REQ_ID sid s0;
               already = req_id_in_use SECURITY_REQ_ID sid req_id s
           in subscription_switch (get_subscription_request_type (slr_subscription_request_type v)) already
                reject reject reject
                (dispatch_subscription e SECURITY_REQ_ID sid req_id already
                  (\<lambda>request_id. Security_List_Request (v\<lparr>slr_security_req_id := request_id\<rparr>))) s)"

definition reject_security_definition :: "env \<Rightarrow> security_definition_request \<Rightarrow> u64 \<Rightarrow> sys \<Rightarrow> sys result" where
  "reject_security_definition e v sid s =
     Ok (dispatch_to_client e
          (Security_Definition \<lparr>sd_security_req_id = sdr_security_req_id v,
                                sd_security_response_id = fresh_request_id s,
                                sd_security_response_type = REJECT_SECURITY_PROPOSAL,
                                sd_symbol = sdr_symbol v, sd_security_exchange = sdr_security_exchange v,
                                sd_rest = []\<rparr>)
          sid (take_request_id s))"

definition on_security_definition_request :: "env \<Rightarrow> security_definition_request \<Rightarrow> u64 \<Rightarrow> sys \<Rightarrow> sys result" where
  "on_security_definition_request e v sid s0 =
     (let req_id = sdr_security_req_id v; reject = reject_security_definition e v sid
      in if \<not> is_valid e (Security_Definition_Request v) then reject s0
         else
           let s = open_table SECURITY_REQ_ID sid s0;
               already = req_id_in_use SECURITY_REQ_ID sid req_id s
           in subscription_switch (get_subscription_request_type (sdr_subscription_request_type v)) already
                reject reject reject
                (dispatch_subscription e SECURITY_REQ_ID sid req_id already
                  (\<lambda>request_id. Security_Definition_Request (v\<lparr>sdr_security_req_id := request_id\<rparr>))) s)"

definition reject_security_status :: "env \<Rightarrow> security_status_request \<Rightarrow> u64 \<Rightarrow> sys \<Rightarrow> sys result" where
  "reject_security_status e v sid s =
     Ok (dispatch_to_client e
          (Security_Status \<lparr>ss_security_status_req_id = ssr_security_status_req_id v,
                            ss_symbol = ssr_symbol v, ss_security_exchange = ssr_security_exchange v,
                            ss_unsolicited_indicator = False, ss_rest = []\<rparr>)
          sid s)"

definition on_security_status_request :: "env \<Rightarrow> security_status_request \<Rightarrow> u64 \<Rightarrow> sys \<Rightarrow> sys result" where
  "on_security_status_request e v sid s0 =
     (let req_id = ssr_security_status_req_id v; reject = reject_security_status e v sid
      in if \<not> is_valid e (Security_Status_Request v) then reject s0
         else
           let s = open_table SECURITY_STATUS_REQ_ID sid s0;
               already = req_id_in_use SECURITY_STATUS_REQ_ID sid req_id s
           in subscription_switch (get_subscription_request_type (ssr_subscription_request_type v)) already
                reject reject reject
                (dispatch_subscription e SECURITY_STATUS_REQ_ID sid req_id already
                  (\<lambda>request_id. Security_Status_Request (v\<lparr>ssr_security_status_req_id := request_id\<rparr>))) s)"

section \<open>Market data\<close>

definition reject_market_data ::
  "env \<Rightarrow> market_data_request \<Rightarrow> u64 \<Rightarrow> md_req_rej_reason \<Rightarrow> string \<Rightarrow> sys \<Rightarrow> sys result" where
  "reject_market_data e v sid reason text s =
     Ok (dispatch_to_client e
          (Market_Data_Request_Reject \<lparr>mrj_md_req_id = mdr_md_req_id v, mrj_md_req_rej_reason = reason,
                                       mrj_text = text\<rparr>)
          sid s)"

text \<open>This handler switches over the type as it is: a missing type is not a snapshot here.\<close>

definition on_market_data_request :: "env \<Rightarrow> market_data_request \<Rightarrow> u64 \<Rightarrow> sys \<Rightarrow> sys result" where
  "on_market_data_request e v sid s0 =
     (let req_id = mdr_md_req_id v; reject = reject_market_data e v sid
      in if \<not> is_valid e (Market_Data_Request v) then reject UNSUPPORTED_SCOPE ERROR_VALIDATION s0
         else
           let s = open_table MD_REQ_ID sid s0;
               already = req_id_in_use MD_REQ_ID sid req_id s
           in subscription_switch (mdr_subscription_request_type v) already
                (reject UNSUPPORTED_SUBSCRIPTION_REQUEST_TYPE ERROR_UNKNOWN_SUBSCRIPTION_REQUEST_TYPE)
                (reject DUPLICATE_MD_REQ_ID ERROR_DUPLICATE_MD_REQ_ID)
                (reject UNSUPPORTED_SUBSCRIPTION_REQUEST_TYPE ERROR_UNKNOWN_MD_REQ_ID)
                (dispatch_subscription e MD_REQ_ID sid req_id already
                  (\<lambda>request_id. Market_Data_Request (v\<lparr>mdr_md_req_id := request_id\<rparr>))) s)"

section \<open>Orders\<close>

text \<open>
  The execution report of a reject, with the fields that all three handlers set to the same values;
  \<open>{0.0, {}}\<close> is \<open>''0.0''\<close>, and every field that a handler does not set is \<open>{}\<close>.
\<close>

definition rejected_report :: "string \<Rightarrow> ord_rej_reason \<Rightarrow> string \<Rightarrow> execution_report" where
  "rejected_report request_id reason text =
     \<lparr>er_order_id = request_id, er_cl_ord_id = [], er_orig_cl_ord_id = [], er_ord_status_req_id = [],
      er_mass_status_req_id = [], er_tot_num_reports = 0, er_last_rpt_requested = False,
      er_no_party_ids = [], er_exec_id = request_id, er_exec_type = EXEC_ORDER_STATUS,
      er_ord_status = ORD_REJECTED, er_ord_rej_reason = reason, er_account = [], er_symbol = [],
      er_security_exchange = [], er_side = [], er_order_qty = [], er_price = [], er_stop_px = [],
      er_time_in_force = [], er_exec_inst = [], er_leaves_qty = ''0.0'', er_cum_qty = ''0.0'',
      er_avg_px = ''0.0'', er_text = text, er_rest = []\<rparr>"

definition reject_order_status ::
  "env \<Rightarrow> order_status_request \<Rightarrow> u64 \<Rightarrow> ord_rej_reason \<Rightarrow> string \<Rightarrow> sys \<Rightarrow> sys result" where
  "reject_order_status e v sid reason text s =
     Ok (dispatch_to_client e
          (Execution_Report
             ((rejected_report (fresh_request_id s) reason text)
                \<lparr>er_cl_ord_id := osr_cl_ord_id v, er_ord_status_req_id := osr_ord_status_req_id v,
                 er_last_rpt_requested := True, er_no_party_ids := osr_no_party_ids v,
                 er_account := osr_account v, er_symbol := osr_symbol v,
                 er_security_exchange := osr_security_exchange v, er_side := osr_side v\<rparr>))
          sid (take_request_id s))"

definition on_order_status_request :: "env \<Rightarrow> order_status_request \<Rightarrow> u64 \<Rightarrow> sys \<Rightarrow> sys result" where
  "on_order_status_request e v sid s0 =
     (if \<not> is_valid e (Order_Status_Request v) then reject_order_status e v sid ORD_REJ_OTHER ERROR_VALIDATION s0
      else
        let req_id = osr_ord_status_req_id v;
            s = open_table ORD_STATUS_REQ_ID sid s0
        in if req_id \<noteq> [] \<and> req_id_in_use ORD_STATUS_REQ_ID sid req_id s
           then reject_order_status e v sid ORD_REJ_OTHER ERROR_DUPLICATE_ORD_STATUS_REQ_ID s
           else
             let client_id = get_client_from_parties (osr_no_party_ids v);
                 request_id = client_request_id client_id req_id;
                 cl_ord_id = client_request_id client_id (osr_cl_ord_id v)
             in and_then
                  (dispatch_to_server e
                     (Order_Status_Request (v\<lparr>osr_ord_status_req_id := request_id, osr_cl_ord_id := cl_ord_id\<rparr>)) s)
                  (\<lambda>s. Ok (update_mapping ORD_STATUS_REQ_ID
                        (\<lambda>m. emplace_server request_id (sid, req_id, False)
                           (if req_id \<noteq> [] then emplace_client sid req_id request_id m else m)) s)))"

definition reject_new_order ::
  "env \<Rightarrow> new_order_single \<Rightarrow> u64 \<Rightarrow> ord_rej_reason \<Rightarrow> string \<Rightarrow> sys \<Rightarrow> sys result" where
  "reject_new_order e v sid reason text s =
     Ok (dispatch_to_client e
          (Execution_Report
             ((rejected_report (fresh_request_id s) reason text)
                \<lparr>er_cl_ord_id := nos_cl_ord_id v, er_no_party_ids := nos_no_party_ids v,
                 er_account := nos_account v, er_symbol := nos_symbol v,
                 er_security_exchange := nos_security_exchange v, er_side := nos_side v,
                 er_order_qty := nos_order_qty v, er_price := nos_price v, er_stop_px := nos_stop_px v,
                 er_time_in_force := nos_time_in_force v, er_exec_inst := nos_exec_inst v\<rparr>))
          sid (take_request_id s))"

definition on_new_order_single :: "env \<Rightarrow> new_order_single \<Rightarrow> u64 \<Rightarrow> sys \<Rightarrow> sys result" where
  "on_new_order_single e v sid s0 =
     (if \<not> is_valid e (New_Order_Single v) then reject_new_order e v sid ORD_REJ_OTHER ERROR_VALIDATION s0
      else
        let req_id = nos_cl_ord_id v;
            s = open_table CL_ORD_ID sid s0;
            client_id = get_client_from_parties (nos_no_party_ids v)
        in if req_id_in_use CL_ORD_ID sid req_id s
           then reject_new_order e v sid ORD_REJ_OTHER ERROR_DUPLICATE_CL_ORD_ID s
           else
             let request_id = client_request_id client_id (nos_cl_ord_id v)
             in and_then
                  (dispatch_to_server e (New_Order_Single (v\<lparr>nos_cl_ord_id := request_id\<rparr>)) s)
                  (\<lambda>s. Ok (add_route CL_ORD_ID req_id request_id sid True s)))"

text \<open>\<open>ORDER_ID_NONE\<close>.\<close>

definition order_id_none :: string where
  "order_id_none = ''NONE''"

definition reject_replace ::
  "env \<Rightarrow> order_cancel_replace_request \<Rightarrow> u64 \<Rightarrow> ord_status \<Rightarrow> cxl_rej_reason \<Rightarrow> string \<Rightarrow> sys \<Rightarrow> sys result" where
  "reject_replace e v sid status reason text s =
     Ok (dispatch_to_client e
          (Order_Cancel_Reject
             \<lparr>ocj_order_id = order_id_none, ocj_cl_ord_id = ocr_cl_ord_id v,
              ocj_orig_cl_ord_id = ocr_orig_cl_ord_id v, ocj_ord_status = status,
              ocj_account = ocr_account v, ocj_cxl_rej_response_to = TO_ORDER_CANCEL_REPLACE_REQUEST,
              ocj_cxl_rej_reason = reason, ocj_text = text, ocj_rest = []\<rparr>)
          sid s)"

definition on_order_cancel_replace_request ::
  "env \<Rightarrow> order_cancel_replace_request \<Rightarrow> u64 \<Rightarrow> sys \<Rightarrow> sys result" where
  "on_order_cancel_replace_request e v sid s0 =
     (if \<not> is_valid e (Order_Cancel_Replace_Request v)
      then reject_replace e v sid ORD_REJECTED CXL_REJ_OTHER ERROR_VALIDATION s0
      else
        let req_id = ocr_cl_ord_id v;
            s = open_table CL_ORD_ID sid s0;
            client_id = get_client_from_parties (ocr_no_party_ids v)
        in if req_id_in_use CL_ORD_ID sid req_id s
           then reject_replace e v sid ORD_REJECTED CXL_REJ_DUPLICATE_CL_ORD_ID ERROR_DUPLICATE_CL_ORD_ID s
           else
             let request_id = client_request_id client_id req_id;
                 orig_cl_ord_id = client_request_id client_id (ocr_orig_cl_ord_id v)
             in and_then
                  (dispatch_to_server e
                     (Order_Cancel_Replace_Request
                        (v\<lparr>ocr_cl_ord_id := request_id, ocr_orig_cl_ord_id := orig_cl_ord_id\<rparr>)) s)
                  (\<lambda>s. Ok (add_route CL_ORD_ID req_id request_id sid True s)))"

definition reject_cancel ::
  "env \<Rightarrow> order_cancel_request \<Rightarrow> u64 \<Rightarrow> ord_status \<Rightarrow> cxl_rej_reason \<Rightarrow> string \<Rightarrow> sys \<Rightarrow> sys result" where
  "reject_cancel e v sid status reason text s =
     Ok (dispatch_to_client e
          (Order_Cancel_Reject
             \<lparr>ocj_order_id = order_id_none, ocj_cl_ord_id = ocn_cl_ord_id v,
              ocj_orig_cl_ord_id = ocn_orig_cl_ord_id v, ocj_ord_status = status,
              ocj_account = ocn_account v, ocj_cxl_rej_response_to = TO_ORDER_CANCEL_REQUEST,
              ocj_cxl_rej_reason = reason, ocj_text = text, ocj_rest = []\<rparr>)
          sid s)"

definition on_order_cancel_request :: "env \<Rightarrow> order_cancel_request \<Rightarrow> u64 \<Rightarrow> sys \<Rightarrow> sys result" where
  "on_order_cancel_request e v sid s0 =
     (if \<not> is_valid e (Order_Cancel_Request v)
      then reject_cancel e v sid ORD_REJECTED CXL_REJ_OTHER ERROR_VALIDATION s0
      else
        let req_id = ocn_cl_ord_id v;
            s = open_table CL_ORD_ID sid s0;
            client_id = get_client_from_parties (ocn_no_party_ids v)
        in if req_id_in_use CL_ORD_ID sid req_id s
           then reject_cancel e v sid ORD_REJECTED CXL_REJ_DUPLICATE_CL_ORD_ID ERROR_DUPLICATE_ORD_STATUS_REQ_ID s
           else
             let request_id = client_request_id client_id (ocn_cl_ord_id v);
                 orig_cl_ord_id = client_request_id client_id (ocn_orig_cl_ord_id v)
             in and_then
                  (dispatch_to_server e
                     (Order_Cancel_Request
                        (v\<lparr>ocn_cl_ord_id := request_id, ocn_orig_cl_ord_id := orig_cl_ord_id\<rparr>)) s)
                  (\<lambda>s. Ok (add_route CL_ORD_ID req_id request_id sid True s)))"

definition reject_mass_status ::
  "env \<Rightarrow> order_mass_status_request \<Rightarrow> u64 \<Rightarrow> ord_rej_reason \<Rightarrow> string \<Rightarrow> sys \<Rightarrow> sys result" where
  "reject_mass_status e v sid reason text s =
     Ok (dispatch_to_client e
          (Execution_Report
             ((rejected_report (fresh_request_id s) reason text)
                \<lparr>er_mass_status_req_id := oms_mass_status_req_id v, er_last_rpt_requested := True,
                 er_no_party_ids := oms_no_party_ids v, er_account := oms_account v,
                 er_symbol := oms_symbol v, er_security_exchange := oms_security_exchange v,
                 er_side := oms_side v\<rparr>))
          sid (take_request_id s))"

definition on_order_mass_status_request :: "env \<Rightarrow> order_mass_status_request \<Rightarrow> u64 \<Rightarrow> sys \<Rightarrow> sys result" where
  "on_order_mass_status_request e v sid s0 =
     (if \<not> is_valid e (Order_Mass_Status_Request v)
      then reject_mass_status e v sid ORD_REJ_OTHER ERROR_VALIDATION s0
      else
        let req_id = oms_mass_status_req_id v;
            s = open_table MASS_STATUS_REQ_ID sid s0
        in if req_id_in_use MASS_STATUS_REQ_ID sid req_id s
           then reject_mass_status e v sid ORD_REJ_OTHER ERROR_DUPLICATE_MASS_STATUS_REQ_ID s
           else
             let client_id = get_client_from_parties (oms_no_party_ids v);
                 request_id = client_request_id client_id req_id
             in and_then
                  (dispatch_to_server e
                     (Order_Mass_Status_Request (v\<lparr>oms_mass_status_req_id := request_id\<rparr>)) s)
                  (\<lambda>s. Ok (add_route MASS_STATUS_REQ_ID req_id request_id sid False s)))"

definition reject_mass_cancel ::
  "env \<Rightarrow> order_mass_cancel_request \<Rightarrow> u64 \<Rightarrow> mass_cancel_reject_reason \<Rightarrow> string \<Rightarrow> sys \<Rightarrow> sys result" where
  "reject_mass_cancel e v sid reason text s =
     Ok (dispatch_to_client e
          (Order_Mass_Cancel_Report
             \<lparr>omr_cl_ord_id = omc_cl_ord_id v, omr_order_id = omc_cl_ord_id v,
              omr_mass_cancel_request_type = omc_mass_cancel_request_type v,
              omr_mass_cancel_response = CANCEL_REQUEST_REJECTED, omr_mass_cancel_reject_reason = reason,
              omr_symbol = omc_symbol v, omr_security_exchange = omc_security_exchange v,
              omr_side = omc_side v, omr_text = text, omr_no_party_ids = omc_no_party_ids v, omr_rest = []\<rparr>)
          sid s)"

definition on_order_mass_cancel_request :: "env \<Rightarrow> order_mass_cancel_request \<Rightarrow> u64 \<Rightarrow> sys \<Rightarrow> sys result" where
  "on_order_mass_cancel_request e v sid s0 =
     (if \<not> is_valid e (Order_Mass_Cancel_Request v)
      then reject_mass_cancel e v sid MASS_CANCEL_REJECT_OTHER ERROR_VALIDATION s0
      else
        let req_id = omc_cl_ord_id v;
            s = open_table MASS_CANCEL_CL_ORD_ID sid s0
        in if req_id_in_use MASS_CANCEL_CL_ORD_ID sid req_id s
           then reject_mass_cancel e v sid MASS_CANCEL_REJECT_OTHER ERROR_DUPLICATE_CL_ORD_ID s
           else
             let client_id = get_client_from_parties (omc_no_party_ids v);
                 request_id = client_request_id client_id req_id
             in and_then
                  (dispatch_to_server e
                     (Order_Mass_Cancel_Request (v\<lparr>omc_cl_ord_id := request_id\<rparr>)) s)
                  (\<lambda>s. Ok (add_route MASS_CANCEL_CL_ORD_ID req_id request_id sid False s)))"

section \<open>Positions and trades\<close>

definition reject_positions :: "env \<Rightarrow> request_for_positions \<Rightarrow> u64 \<Rightarrow> string \<Rightarrow> sys \<Rightarrow> sys result" where
  "reject_positions e v sid text s =
     Ok (dispatch_to_client e
          (Request_For_Positions_Ack
             \<lparr>rpa_pos_maint_rpt_id = fresh_request_id s, rpa_pos_req_id = rfp_pos_req_id v,
              rpa_total_num_pos_reports = 0, rpa_unsolicited_indicator = False,
              rpa_pos_req_result = POS_INVALID_OR_UNSUPPORTED, rpa_pos_req_status = POS_REJECTED,
              rpa_no_party_ids = rfp_no_party_ids v, rpa_account = rfp_account v,
              rpa_account_type = rfp_account_type v, rpa_text = text, rpa_rest = []\<rparr>)
          sid (take_request_id s))"

text \<open>The lambda \<open>dispatch\<close>: an unsubscribe reuses the id of the request and clears its keep-alive flag.\<close>

definition dispatch_positions :: "env \<Rightarrow> request_for_positions \<Rightarrow> u64 \<Rightarrow> bool \<Rightarrow> sys \<Rightarrow> sys result" where
  "dispatch_positions e v sid keep_alive s =
     (let req_id = rfp_pos_req_id v;
          known = find_client_req_id sid req_id (mappings s POS_REQ_ID);
          request_id = (case known of Some r \<Rightarrow> r | None \<Rightarrow> fresh_request_id s);
          s = (case known of Some r \<Rightarrow> s | None \<Rightarrow> take_request_id s)
      in and_then
           (dispatch_to_server e (Request_For_Positions (v\<lparr>rfp_pos_req_id := request_id\<rparr>)) s)
           (\<lambda>s. case known of
                Some r \<Rightarrow>
                  (case set_keep_alive request_id keep_alive (mappings s POS_REQ_ID) of
                     Some m \<Rightarrow> Ok (update_mapping POS_REQ_ID (\<lambda>_. m) s)
                   | None \<Rightarrow> Fatal ''Unexpected'')
              | None \<Rightarrow> Ok (add_route POS_REQ_ID req_id request_id sid keep_alive s)))"

definition on_request_for_positions :: "env \<Rightarrow> request_for_positions \<Rightarrow> u64 \<Rightarrow> sys \<Rightarrow> sys result" where
  "on_request_for_positions e v sid s0 =
     (let reject = reject_positions e v sid
      in if \<not> is_valid e (Request_For_Positions v) then reject ERROR_VALIDATION s0
         else
           let s = open_table POS_REQ_ID sid s0;
               already = req_id_in_use POS_REQ_ID sid (rfp_pos_req_id v) s
           in subscription_switch (get_subscription_request_type (rfp_subscription_request_type v)) already
                (reject ERROR_UNKNOWN_SUBSCRIPTION_REQUEST_TYPE)
                (reject ERROR_DUPLICATED_POS_REQ_ID)
                (reject ERROR_UNKNOWN_POS_REQ_ID)
                (dispatch_positions e v sid) s)"

definition reject_trades :: "env \<Rightarrow> trade_capture_report_request \<Rightarrow> u64 \<Rightarrow> string \<Rightarrow> sys \<Rightarrow> sys result" where
  "reject_trades e v sid text s =
     Ok (dispatch_to_client e
          (Trade_Capture_Report_Request_Ack
             \<lparr>tca_trade_request_id = tcq_trade_request_id v, tca_trade_request_type = tcq_trade_request_type v,
              tca_trade_request_result = TRADE_RESULT_OTHER, tca_trade_request_status = TRADE_STATUS_REJECTED,
              tca_symbol = tcq_symbol v, tca_security_exchange = tcq_security_exchange v,
              tca_text = text, tca_rest = []\<rparr>)
          sid (take_request_id s))"

text \<open>The lambda \<open>dispatch\<close>: the id is made from the client's, so an unsubscribe finds the request again.\<close>

definition dispatch_trades :: "env \<Rightarrow> trade_capture_report_request \<Rightarrow> u64 \<Rightarrow> bool \<Rightarrow> bool \<Rightarrow> sys \<Rightarrow> sys result" where
  "dispatch_trades e v sid already keep_alive s =
     (let req_id = tcq_trade_request_id v;
          client_id = get_client_from_parties (tcq_no_party_ids v);
          request_id = client_request_id client_id req_id
      in and_then
           (dispatch_to_server e (Trade_Capture_Report_Request (v\<lparr>tcq_trade_request_id := request_id\<rparr>)) s)
           (\<lambda>s. Ok (if already then forget_req_id TRADE_REQUEST_ID request_id s
                    else add_route TRADE_REQUEST_ID req_id request_id sid keep_alive s)))"

definition on_trade_capture_report_request ::
  "env \<Rightarrow> trade_capture_report_request \<Rightarrow> u64 \<Rightarrow> sys \<Rightarrow> sys result" where
  "on_trade_capture_report_request e v sid s0 =
     (let reject = reject_trades e v sid
      in if \<not> is_valid e (Trade_Capture_Report_Request v) then reject ERROR_VALIDATION s0
         else
           let s = open_table TRADE_REQUEST_ID sid s0;
               already = req_id_in_use TRADE_REQUEST_ID sid (tcq_trade_request_id v) s
           in subscription_switch (get_subscription_request_type (tcq_subscription_request_type v)) already
                (reject ERROR_UNKNOWN_SUBSCRIPTION_REQUEST_TYPE)
                (reject ERROR_DUPLICATE_TRADE_REQUEST_ID)
                (reject ERROR_UNKNOWN_TRADE_REQUEST_ID)
                (dispatch_trades e v sid already) s)"

section \<open>The interface to the client sessions\<close>

text \<open>
  The controller as the \<open>Handler\<close> of \<open>client::Session\<close>: one overload for each of these messages, and none for
  any other (beside the one for \<open>Disconnected\<close>).
\<close>

fun controller_from_client :: "env \<Rightarrow> msg \<Rightarrow> u64 \<Rightarrow> sys \<Rightarrow> sys result" where
  "controller_from_client e (User_Request v) sid = on_user_request e v sid"
| "controller_from_client e (Security_List_Request v) sid = on_security_list_request e v sid"
| "controller_from_client e (Security_Definition_Request v) sid = on_security_definition_request e v sid"
| "controller_from_client e (Security_Status_Request v) sid = on_security_status_request e v sid"
| "controller_from_client e (Market_Data_Request v) sid = on_market_data_request e v sid"
| "controller_from_client e (Order_Status_Request v) sid = on_order_status_request e v sid"
| "controller_from_client e (New_Order_Single v) sid = on_new_order_single e v sid"
| "controller_from_client e (Order_Cancel_Replace_Request v) sid = on_order_cancel_replace_request e v sid"
| "controller_from_client e (Order_Cancel_Request v) sid = on_order_cancel_request e v sid"
| "controller_from_client e (Order_Mass_Status_Request v) sid = on_order_mass_status_request e v sid"
| "controller_from_client e (Order_Mass_Cancel_Request v) sid = on_order_mass_cancel_request e v sid"
| "controller_from_client e (Request_For_Positions v) sid = on_request_for_positions e v sid"
| "controller_from_client e (Trade_Capture_Report_Request v) sid = on_trade_capture_report_request e v sid"
| "controller_from_client e _ sid = Ok"

end
