(* ===== verification/Client_Session.thy ===== *)
theory Client_Session
  imports Controller_Requests
begin

text \<open>
  The inbound half of a client session (\<open>client/session.cpp\<close>): reading from the connection, the check of
  sequence numbers, one handler per message type, and the timer. A session is a state machine; what a
  handler does depends on the state first.
\<close>

section \<open>Frames\<close>

text \<open>
  What \<open>roq::fix::Reader\<close> finds in the buffer: a message whose codec struct can be created from it,
  one for which \<open>create\<close> throws, or bytes for which the reader throws itself. Incomplete frames stay in the
  buffer and are not seen here; \<open>Framing\<close> has the loops over the bytes.
\<close>

datatype frame_in = Decoded header msg | Undecodable header | Unreadable

definition undecodable_text :: string where
  "undecodable_text = ''exception''"

section \<open>Guards\<close>

text \<open>
  The \<open>switch (state_)\<close> that the business handlers and the handler of \<open>Logout\<close> share: before the logon is
  complete the session is rejected, after a logout request any of these messages ends it.
\<close>

definition when_ready ::
  "env \<Rightarrow> header \<Rightarrow> u64 \<Rightarrow> (client_session \<Rightarrow> sys \<Rightarrow> sys result) \<Rightarrow> sys \<Rightarrow> sys result" where
  "when_ready e h sid act =
     with_session sid (\<lambda>c s.
       case cs_state c of
         WAITING_LOGON \<Rightarrow> send_reject_and_close e h SESSION_REJECT_OTHER ERROR_NO_LOGON sid s
       | WAITING_CREATE_ROUTE \<Rightarrow> send_reject_and_close e h SESSION_REJECT_OTHER ERROR_NO_LOGON sid s
       | READY \<Rightarrow> act c s
       | WAITING_REMOVE_ROUTE \<Rightarrow> make_zombie e sid s
       | ZOMBIE \<Rightarrow> Ok s)"

text \<open>A business reject with the reason \<open>OTHER\<close>.\<close>

definition refuse :: "env \<Rightarrow> header \<Rightarrow> u64 \<Rightarrow> string \<Rightarrow> string \<Rightarrow> sys \<Rightarrow> sys result" where
  "refuse e h sid ref_id text s = Ok (send_business_message_reject e h ref_id BUSINESS_REJECT_OTHER text sid s)"

text \<open>
  \<open>add_party_ids\<close>: the session's own party is the only one a request may have, and the proxy adds it.
  \<open>otherwise\<close> is what the callers do when the result is false.
\<close>

definition own_party :: "client_session \<Rightarrow> party" where
  "own_party c = \<lparr>party_id = cs_party_id c, party_id_source = PROPRIETARY_CUSTOM_CODE, party_role = CLIENT_ID\<rparr>"

definition add_party_ids ::
  "party list \<Rightarrow> client_session \<Rightarrow> (party list \<Rightarrow> sys \<Rightarrow> sys result) \<Rightarrow> (sys \<Rightarrow> sys result) \<Rightarrow> sys \<Rightarrow> sys result" where
  "add_party_ids no_party_ids c callback otherwise =
     (if no_party_ids = [] then callback [own_party c] else otherwise)"

section \<open>Session messages\<close>

definition session_test_request :: "env \<Rightarrow> test_request \<Rightarrow> header \<Rightarrow> u64 \<Rightarrow> sys \<Rightarrow> sys result" where
  "session_test_request e v h sid =
     with_session sid (\<lambda>c s.
       let reply = client_send e (Heartbeat \<lparr>hb_test_req_id = tr_test_req_id v\<rparr>) sid s in
       case cs_state c of
         WAITING_LOGON \<Rightarrow> send_reject_and_close e h SESSION_REJECT_OTHER ERROR_NO_LOGON sid s
       | WAITING_CREATE_ROUTE \<Rightarrow> Ok reply
       | READY \<Rightarrow> Ok reply
       | WAITING_REMOVE_ROUTE \<Rightarrow> Ok s
       | ZOMBIE \<Rightarrow> Ok s)"

definition session_resend_request :: "env \<Rightarrow> header \<Rightarrow> u64 \<Rightarrow> sys \<Rightarrow> sys result" where
  "session_resend_request e h sid =
     with_session sid (\<lambda>c s.
       case cs_state c of
         WAITING_LOGON \<Rightarrow> send_reject_and_close e h SESSION_REJECT_OTHER ERROR_NO_LOGON sid s
       | WAITING_CREATE_ROUTE \<Rightarrow> send_reject_and_close e h SESSION_REJECT_OTHER ERROR_NO_LOGON sid s
       | READY \<Rightarrow> send_reject_and_close e h SESSION_REJECT_OTHER ERROR_UNSUPPORTED_MSG_TYPE sid s
       | WAITING_REMOVE_ROUTE \<Rightarrow> make_zombie e sid s
       | ZOMBIE \<Rightarrow> Ok s)"

definition session_reject :: "env \<Rightarrow> reject \<Rightarrow> u64 \<Rightarrow> sys \<Rightarrow> sys result" where
  "session_reject e v sid = close e sid"

definition session_heartbeat :: "env \<Rightarrow> header \<Rightarrow> u64 \<Rightarrow> sys \<Rightarrow> sys result" where
  "session_heartbeat e h sid =
     with_session sid (\<lambda>c s.
       case cs_state c of
         WAITING_LOGON \<Rightarrow> send_reject_and_close e h SESSION_REJECT_OTHER ERROR_NO_LOGON sid s
       | WAITING_CREATE_ROUTE \<Rightarrow> send_reject_and_close e h SESSION_REJECT_OTHER ERROR_NO_LOGON sid s
       | READY \<Rightarrow> Ok (update_session sid (\<lambda>c. c\<lparr>cs_waiting_for_heartbeat := False\<rparr>) s)
       | WAITING_REMOVE_ROUTE \<Rightarrow> Ok s
       | ZOMBIE \<Rightarrow> Ok s)"

section \<open>Logon and logout\<close>

definition seconds :: "u16 \<Rightarrow> nanos" where
  "seconds n = int (unat n) * 1000000000"

text \<open>The four checks of a logon; \<open>Some\<close> is the reject text.\<close>

definition logon_error :: "env \<Rightarrow> logon \<Rightarrow> header \<Rightarrow> string option" where
  "logon_error e v h =
     (if hd_target_comp_id h \<noteq> client_comp_id e then Some ERROR_UNKNOWN_TARGET_COMP_ID
      else if lg_encrypt_method v \<noteq> ENCRYPT_NONE then Some ERROR_INVALID_LOGON_ENCRYPT_METHOD
      else if seconds (lg_heart_bt_int v) < client_logon_heartbeat_min e \<or>
              seconds (lg_heart_bt_int v) > client_logon_heartbeat_max e
           then Some ERROR_INVALID_LOGON_HEART_BT_INT
      else if \<not> lg_reset_seq_num_flag v then Some ERROR_INVALID_LOGON_RESET_SEQ_NUM_FLAG
      else None)"

definition user_request_of :: "user_request_type \<Rightarrow> string \<Rightarrow> string \<Rightarrow> user_request" where
  "user_request_of t username user_request_id =
     \<lparr>urq_user_request_id = user_request_id, urq_user_request_type = t, urq_username = username,
      urq_password = [], urq_new_password = []\<rparr>"

text \<open>The lambda \<open>success\<close>: it asks the bridge for a route under the strategy id, and catches \<open>NotReady\<close>.\<close>

definition logon_success :: "env \<Rightarrow> logon \<Rightarrow> header \<Rightarrow> u64 \<Rightarrow> u32 \<Rightarrow> sys \<Rightarrow> sys result" where
  "logon_success e v h sid strategy_id s0 =
     (let party = decimal (unat strategy_id);
          s = update_session sid (\<lambda>c. c\<lparr>cs_username := lg_username v, cs_party_id := party\<rparr>) s0
      in case controller_from_client e (User_Request (user_request_of LOG_ON_USER party (fresh_request_id s))) sid (take_request_id s) of
           Ok s \<Rightarrow>
             Ok (update_session sid
                  (\<lambda>c. c\<lparr>cs_user_response_timeout := clock_system s + server_request_timeout e\<rparr>)
                  (set_state sid WAITING_CREATE_ROUTE s))
         | Throw what s \<Rightarrow> send_reject_and_close e h SESSION_REJECT_OTHER what sid s
         | Fatal x \<Rightarrow> Fatal x)"

definition authenticate :: "env \<Rightarrow> sys \<Rightarrow> string \<Rightarrow> string \<Rightarrow> string \<Rightarrow> bool" where
  "authenticate e s =
     validate (signature e) (from_chars e) (auth_method e) (client_auth_timestamp_tolerance e)
       (clock_realtime s)"

definition session_logon_request :: "env \<Rightarrow> logon \<Rightarrow> header \<Rightarrow> u64 \<Rightarrow> sys \<Rightarrow> sys result" where
  "session_logon_request e v h sid =
     with_session sid (\<lambda>c s0.
       case cs_state c of
         WAITING_LOGON \<Rightarrow>
           (let s = update_session sid (\<lambda>c. c\<lparr>cs_comp_id := hd_sender_comp_id h\<rparr>) s0
            in case logon_error e v h of
                 Some text \<Rightarrow> send_reject_and_close e h SESSION_REJECT_OTHER text sid s
               | None \<Rightarrow>
                   shared_session_logon (authenticate e s) sid (lg_username v) (lg_password v) (lg_raw_data v)
                     (logon_success e v h sid)
                     (\<lambda>reason. send_reject_and_close e h SESSION_REJECT_OTHER reason sid) s)
       | WAITING_CREATE_ROUTE \<Rightarrow> send_reject_and_close e h SESSION_REJECT_OTHER ERROR_UNEXPECTED_LOGON sid s0
       | READY \<Rightarrow> send_reject_and_close e h SESSION_REJECT_OTHER ERROR_UNEXPECTED_LOGON sid s0
       | WAITING_REMOVE_ROUTE \<Rightarrow> make_zombie e sid s0
       | ZOMBIE \<Rightarrow> Ok s0)"

definition session_logout_request :: "env \<Rightarrow> header \<Rightarrow> u64 \<Rightarrow> sys \<Rightarrow> sys result" where
  "session_logout_request e h sid =
     when_ready e h sid (\<lambda>c s.
       and_then
         (controller_from_client e (User_Request (user_request_of LOG_OFF_USER (cs_party_id c) (fresh_request_id s))) sid
           (take_request_id s))
         (\<lambda>s. Ok (update_session sid
                   (\<lambda>c. c\<lparr>cs_user_response_timeout := clock_system s + server_request_timeout e\<rparr>)
                   (set_state sid WAITING_REMOVE_ROUTE s))))"

section \<open>Business messages\<close>

definition session_trading_session_status_request ::
  "env \<Rightarrow> trading_session_status_request \<Rightarrow> header \<Rightarrow> u64 \<Rightarrow> sys \<Rightarrow> sys result" where
  "session_trading_session_status_request e v h sid s =
     Ok (send_business_message_reject e h (tss_trad_ses_req_id v) UNSUPPORTED_MESSAGE_TYPE
          ERROR_UNEXPECTED_MSG_TYPE sid s)"

definition session_security_list_request :: "env \<Rightarrow> security_list_request \<Rightarrow> header \<Rightarrow> u64 \<Rightarrow> sys \<Rightarrow> sys result" where
  "session_security_list_request e v h sid =
     when_ready e h sid (\<lambda>c.
       if \<not> valid_req_id e (slr_security_req_id v)
       then refuse e h sid (slr_security_req_id v) ERROR_INVALID_REQ_ID
       else controller_from_client e (Security_List_Request v) sid)"

definition session_security_definition_request ::
  "env \<Rightarrow> security_definition_request \<Rightarrow> header \<Rightarrow> u64 \<Rightarrow> sys \<Rightarrow> sys result" where
  "session_security_definition_request e v h sid =
     when_ready e h sid (\<lambda>c.
       if \<not> valid_req_id e (sdr_security_req_id v)
       then refuse e h sid (sdr_security_req_id v) ERROR_INVALID_REQ_ID
       else controller_from_client e (Security_Definition_Request v) sid)"

definition session_security_status_request ::
  "env \<Rightarrow> security_status_request \<Rightarrow> header \<Rightarrow> u64 \<Rightarrow> sys \<Rightarrow> sys result" where
  "session_security_status_request e v h sid =
     when_ready e h sid (\<lambda>c.
       if \<not> valid_req_id e (ssr_security_status_req_id v)
       then refuse e h sid (ssr_security_status_req_id v) ERROR_INVALID_REQ_ID
       else controller_from_client e (Security_Status_Request v) sid)"

definition session_market_data_request :: "env \<Rightarrow> market_data_request \<Rightarrow> header \<Rightarrow> u64 \<Rightarrow> sys \<Rightarrow> sys result" where
  "session_market_data_request e v h sid =
     when_ready e h sid (\<lambda>c.
       if \<not> valid_req_id e (mdr_md_req_id v)
       then refuse e h sid (mdr_md_req_id v) ERROR_INVALID_MD_REQ_ID
       else controller_from_client e (Market_Data_Request v) sid)"

definition session_order_status_request :: "env \<Rightarrow> order_status_request \<Rightarrow> header \<Rightarrow> u64 \<Rightarrow> sys \<Rightarrow> sys result" where
  "session_order_status_request e v h sid =
     when_ready e h sid (\<lambda>c.
       if \<not> valid_req_id e (osr_ord_status_req_id v)
       then refuse e h sid (osr_ord_status_req_id v) ERROR_INVALID_REQ_ID
       else add_party_ids (osr_no_party_ids v) c
              (\<lambda>p. controller_from_client e (Order_Status_Request (v\<lparr>osr_no_party_ids := p\<rparr>)) sid)
              (refuse e h sid (osr_cl_ord_id v) ERROR_UNSUPPORTED_PARTY_IDS))"

definition session_order_mass_status_request ::
  "env \<Rightarrow> order_mass_status_request \<Rightarrow> header \<Rightarrow> u64 \<Rightarrow> sys \<Rightarrow> sys result" where
  "session_order_mass_status_request e v h sid =
     when_ready e h sid (\<lambda>c.
       if \<not> valid_req_id e (oms_mass_status_req_id v)
       then refuse e h sid (oms_mass_status_req_id v) ERROR_INVALID_REQ_ID
       else add_party_ids (oms_no_party_ids v) c
              (\<lambda>p. controller_from_client e (Order_Mass_Status_Request (v\<lparr>oms_no_party_ids := p\<rparr>)) sid)
              (refuse e h sid (oms_mass_status_req_id v) ERROR_UNSUPPORTED_PARTY_IDS))"

definition session_new_order_single :: "env \<Rightarrow> new_order_single \<Rightarrow> header \<Rightarrow> u64 \<Rightarrow> sys \<Rightarrow> sys result" where
  "session_new_order_single e v h sid =
     when_ready e h sid (\<lambda>c.
       if \<not> valid_req_id e (nos_cl_ord_id v)
       then refuse e h sid (nos_cl_ord_id v) ERROR_INVALID_CL_ORD_ID
       else add_party_ids (nos_no_party_ids v) c
              (\<lambda>p. controller_from_client e (New_Order_Single (v\<lparr>nos_no_party_ids := p\<rparr>)) sid)
              (refuse e h sid (nos_cl_ord_id v) ERROR_UNSUPPORTED_PARTY_IDS))"

definition session_order_cancel_request :: "env \<Rightarrow> order_cancel_request \<Rightarrow> header \<Rightarrow> u64 \<Rightarrow> sys \<Rightarrow> sys result" where
  "session_order_cancel_request e v h sid =
     when_ready e h sid (\<lambda>c.
       if \<not> valid_req_id e (ocn_cl_ord_id v)
       then refuse e h sid (ocn_cl_ord_id v) ERROR_INVALID_CL_ORD_ID
       else if \<not> valid_req_id e (ocn_orig_cl_ord_id v)
       then refuse e h sid (ocn_orig_cl_ord_id v) ERROR_INVALID_ORIG_CL_ORD_ID
       else add_party_ids (ocn_no_party_ids v) c
              (\<lambda>p. controller_from_client e (Order_Cancel_Request (v\<lparr>ocn_no_party_ids := p\<rparr>)) sid)
              (refuse e h sid (ocn_cl_ord_id v) ERROR_UNSUPPORTED_PARTY_IDS))"

definition session_order_cancel_replace_request ::
  "env \<Rightarrow> order_cancel_replace_request \<Rightarrow> header \<Rightarrow> u64 \<Rightarrow> sys \<Rightarrow> sys result" where
  "session_order_cancel_replace_request e v h sid =
     when_ready e h sid (\<lambda>c.
       if \<not> valid_req_id e (ocr_cl_ord_id v)
       then refuse e h sid (ocr_cl_ord_id v) ERROR_INVALID_CL_ORD_ID
       else if \<not> valid_req_id e (ocr_orig_cl_ord_id v)
       then refuse e h sid (ocr_orig_cl_ord_id v) ERROR_INVALID_ORIG_CL_ORD_ID
       else add_party_ids (ocr_no_party_ids v) c
              (\<lambda>p. controller_from_client e (Order_Cancel_Replace_Request (v\<lparr>ocr_no_party_ids := p\<rparr>)) sid)
              (refuse e h sid (ocr_cl_ord_id v) ERROR_UNSUPPORTED_PARTY_IDS))"

definition session_order_mass_cancel_request ::
  "env \<Rightarrow> order_mass_cancel_request \<Rightarrow> header \<Rightarrow> u64 \<Rightarrow> sys \<Rightarrow> sys result" where
  "session_order_mass_cancel_request e v h sid =
     when_ready e h sid (\<lambda>c.
       if \<not> valid_req_id e (omc_cl_ord_id v)
       then refuse e h sid (omc_cl_ord_id v) ERROR_INVALID_CL_ORD_ID
       else add_party_ids (omc_no_party_ids v) c
              (\<lambda>p. controller_from_client e (Order_Mass_Cancel_Request (v\<lparr>omc_no_party_ids := p\<rparr>)) sid)
              (refuse e h sid (omc_cl_ord_id v) ERROR_UNSUPPORTED_MSG_TYPE))"

definition session_request_for_positions :: "env \<Rightarrow> request_for_positions \<Rightarrow> header \<Rightarrow> u64 \<Rightarrow> sys \<Rightarrow> sys result" where
  "session_request_for_positions e v h sid =
     when_ready e h sid (\<lambda>c.
       if \<not> valid_req_id e (rfp_pos_req_id v)
       then refuse e h sid (rfp_pos_req_id v) ERROR_INVALID_REQ_ID
       else add_party_ids (rfp_no_party_ids v) c
              (\<lambda>p. controller_from_client e (Request_For_Positions (v\<lparr>rfp_no_party_ids := p\<rparr>)) sid)
              (refuse e h sid (rfp_pos_req_id v) ERROR_UNSUPPORTED_PARTY_IDS))"

definition session_trade_capture_report_request ::
  "env \<Rightarrow> trade_capture_report_request \<Rightarrow> header \<Rightarrow> u64 \<Rightarrow> sys \<Rightarrow> sys result" where
  "session_trade_capture_report_request e v h sid =
     when_ready e h sid (\<lambda>c.
       if \<not> valid_req_id e (tcq_trade_request_id v)
       then refuse e h sid (tcq_trade_request_id v) ERROR_INVALID_REQ_ID
       else add_party_ids (tcq_no_party_ids v) c
              (\<lambda>p. controller_from_client e (Trade_Capture_Report_Request (v\<lparr>tcq_no_party_ids := p\<rparr>)) sid)
              (refuse e h sid (tcq_cl_ord_id v) ERROR_UNSUPPORTED_MSG_TYPE))"

section \<open>Reading\<close>

definition session_check :: "header \<Rightarrow> u64 \<Rightarrow> sys \<Rightarrow> sys" where
  "session_check h sid = update_session sid (\<lambda>c. c\<lparr>cs_inbound := hd_msg_seq_num h\<rparr>)"

text \<open>The \<open>switch\<close> of \<open>parse\<close>, over the message type. In \<open>session_parse\<close>, \<open>None\<close> is a struct that cannot be created.\<close>

fun session_dispatch :: "env \<Rightarrow> header \<Rightarrow> u64 \<Rightarrow> msg \<Rightarrow> sys \<Rightarrow> sys result" where
  "session_dispatch e h sid (Test_Request v) = session_test_request e v h sid"
| "session_dispatch e h sid (Resend_Request v) = session_resend_request e h sid"
| "session_dispatch e h sid (Reject v) = session_reject e v sid"
| "session_dispatch e h sid (Heartbeat v) = session_heartbeat e h sid"
| "session_dispatch e h sid (Logon v) = session_logon_request e v h sid"
| "session_dispatch e h sid (Logout v) = session_logout_request e h sid"
| "session_dispatch e h sid (Trading_Session_Status_Request v) = session_trading_session_status_request e v h sid"
| "session_dispatch e h sid (Security_List_Request v) = session_security_list_request e v h sid"
| "session_dispatch e h sid (Security_Definition_Request v) = session_security_definition_request e v h sid"
| "session_dispatch e h sid (Security_Status_Request v) = session_security_status_request e v h sid"
| "session_dispatch e h sid (Market_Data_Request v) = session_market_data_request e v h sid"
| "session_dispatch e h sid (Order_Status_Request v) = session_order_status_request e v h sid"
| "session_dispatch e h sid (Order_Mass_Status_Request v) = session_order_mass_status_request e v h sid"
| "session_dispatch e h sid (New_Order_Single v) = session_new_order_single e v h sid"
| "session_dispatch e h sid (Order_Cancel_Request v) = session_order_cancel_request e v h sid"
| "session_dispatch e h sid (Order_Cancel_Replace_Request v) = session_order_cancel_replace_request e v h sid"
| "session_dispatch e h sid (Order_Mass_Cancel_Request v) = session_order_mass_cancel_request e v h sid"
| "session_dispatch e h sid (Request_For_Positions v) = session_request_for_positions e v h sid"
| "session_dispatch e h sid (Trade_Capture_Report_Request v) = session_trade_capture_report_request e v h sid"
| "session_dispatch e h sid _ = (\<lambda>s.
     Ok (send_business_message_reject e h [] UNSUPPORTED_MESSAGE_TYPE ERROR_UNEXPECTED_MSG_TYPE sid s))"

definition session_parse :: "env \<Rightarrow> header \<Rightarrow> msg option \<Rightarrow> u64 \<Rightarrow> sys \<Rightarrow> sys result" where
  "session_parse e h decoded sid s0 =
     (let s = update_session sid (\<lambda>c. if cs_comp_id c = [] then c\<lparr>cs_comp_id := hd_sender_comp_id h\<rparr> else c) s0
      in case decoded of
           Some m \<Rightarrow> session_dispatch e h sid m s
         | None \<Rightarrow> Throw undecodable_text s)"

definition session_frame :: "env \<Rightarrow> u64 \<Rightarrow> frame_in \<Rightarrow> sys \<Rightarrow> sys result" where
  "session_frame e sid f s =
     (case f of
        Decoded h m \<Rightarrow> session_parse e h (Some m) sid (session_check h sid s)
      | Undecodable h \<Rightarrow> session_parse e h None sid (session_check h sid s)
      | Unreadable \<Rightarrow> Throw undecodable_text s)"

text \<open>The loop over the frames in the buffer; it stops when a handler has ended the session.\<close>

fun session_frames :: "env \<Rightarrow> u64 \<Rightarrow> frame_in list \<Rightarrow> sys \<Rightarrow> sys result" where
  "session_frames e sid [] s = Ok s"
| "session_frames e sid (f # fs) s =
     and_then (session_frame e sid f s)
       (with_session sid (\<lambda>c s. if cs_state c = ZOMBIE then Ok s else session_frames e sid fs s))"

definition session_read :: "env \<Rightarrow> frame_in list \<Rightarrow> u64 \<Rightarrow> sys \<Rightarrow> sys result" where
  "session_read e fs sid =
     with_session sid (\<lambda>c s.
       if cs_state c = ZOMBIE then Ok s
       else case session_frames e sid fs s of
              Ok s \<Rightarrow> Ok s
            | Throw what s \<Rightarrow> close e sid s
            | Fatal x \<Rightarrow> Fatal x)"

text \<open>\<open>Connection::Disconnected\<close>.\<close>

definition session_disconnected :: "env \<Rightarrow> u64 \<Rightarrow> sys \<Rightarrow> sys result" where
  "session_disconnected e sid = make_zombie e sid"

section \<open>The timer\<close>

definition session_timer :: "env \<Rightarrow> nanos \<Rightarrow> u64 \<Rightarrow> sys \<Rightarrow> sys result" where
  "session_timer e now sid =
     with_session sid (\<lambda>c s.
       let user_response_timeout =
             (if cs_user_response_timeout c < now
              then send_and_close e (Logout \<lparr>lo_text = ERROR_USER_RESPONSE_TIMEOUT\<rparr>) sid s
              else Ok s)
       in case cs_state c of
            WAITING_LOGON \<Rightarrow> if cs_logon_timeout c < now then close e sid s else Ok s
          | WAITING_CREATE_ROUTE \<Rightarrow> user_response_timeout
          | READY \<Rightarrow>
              if cs_next_heartbeat c < now then
                let s = update_session sid (\<lambda>c. c\<lparr>cs_next_heartbeat := now + client_heartbeat_freq e\<rparr>) s
                in if cs_waiting_for_heartbeat c
                   then send_and_close e (Logout \<lparr>lo_text = ERROR_MISSING_HEARTBEAT\<rparr>) sid s
                   else Ok (update_session sid (\<lambda>c. c\<lparr>cs_waiting_for_heartbeat := True\<rparr>)
                             (client_send e (Test_Request \<lparr>tr_test_req_id = decimal_int now @ ''ns''\<rparr>) sid s))
              else Ok s
          | WAITING_REMOVE_ROUTE \<Rightarrow> user_response_timeout
          | ZOMBIE \<Rightarrow> Ok s)"

end
