(* ===== verification/Server_Session.thy ===== *)
theory Server_Session
  imports Client_Session
begin

text \<open>
  The inbound half of the upstream session (\<open>server/session.cpp\<close>): connecting, reading, one handler per
  message type, and the timer. The connection manager reconnects by itself: it reports \<open>Connected\<close>
  only when there is no connection, and \<open>Read\<close> and \<open>Disconnected\<close> only when there is one.
\<close>

section \<open>The connection\<close>

definition set_server_state :: "server_state \<Rightarrow> sys \<Rightarrow> sys" where
  "set_server_state st s = s\<lparr>server := (server s)\<lparr>sv_state := st\<rparr>\<rparr>"

definition server_connected :: "env \<Rightarrow> sys \<Rightarrow> sys" where
  "server_connected e s = set_server_state LOGON_SENT (server_send_logon e s)"

definition server_disconnected :: "env \<Rightarrow> sys \<Rightarrow> sys result" where
  "server_disconnected e s =
     and_then (on_server_disconnected e s)
       (\<lambda>s. Ok (set_server_state DISCONNECTED
                 (s\<lparr>server := (server s)\<lparr>sv_outbound := 0, sv_inbound := 0, sv_next_heartbeat := 0\<rparr>\<rparr>)))"

section \<open>Handlers\<close>

definition server_logon :: "sys \<Rightarrow> sys" where
  "server_logon s = set_server_state SERVER_READY (on_server_ready s)"

text \<open>
  The handler of \<open>Logout\<close>. \<open>parse\<close> never calls it, because it decodes a message of type \<open>LOGOUT\<close> as a
  heartbeat.
\<close>

definition server_logout :: "env \<Rightarrow> sys \<Rightarrow> sys" where
  "server_logout e s = emit Close_Server (server_send_logout e ''LOGOUT'' s)"

definition server_heartbeat :: "sys \<Rightarrow> sys" where
  "server_heartbeat s = s"

definition server_test_request :: "env \<Rightarrow> test_request \<Rightarrow> sys \<Rightarrow> sys" where
  "server_test_request e v = server_send_heartbeat e (tr_test_req_id v)"

text \<open>
  The handlers of the decoded messages: what the session does itself, or what it passes to its handler, the
  controller. The other message types have none.
\<close>

fun server_handler :: "env \<Rightarrow> msg \<Rightarrow> sys \<Rightarrow> sys result" where
  "server_handler e (Reject v) s = Ok s"
| "server_handler e (Resend_Request v) s = Ok s"
| "server_handler e (Logon v) s = Ok (server_logon s)"
| "server_handler e (Logout v) s = Ok (server_logout e s)"
| "server_handler e (Heartbeat v) s = Ok (server_heartbeat s)"
| "server_handler e (Test_Request v) s = Ok (server_test_request e v s)"
| "server_handler e (Business_Message_Reject v) s = controller_from_server e (Business_Message_Reject v) s"
| "server_handler e (User_Response v) s = controller_from_server e (User_Response v) s"
| "server_handler e (Security_List v) s = controller_from_server e (Security_List v) s"
| "server_handler e (Security_Definition v) s = controller_from_server e (Security_Definition v) s"
| "server_handler e (Security_Status v) s = controller_from_server e (Security_Status v) s"
| "server_handler e (Market_Data_Request_Reject v) s = controller_from_server e (Market_Data_Request_Reject v) s"
| "server_handler e (Market_Data_Snapshot_Full_Refresh v) s = controller_from_server e (Market_Data_Snapshot_Full_Refresh v) s"
| "server_handler e (Market_Data_Incremental_Refresh v) s = controller_from_server e (Market_Data_Incremental_Refresh v) s"
| "server_handler e (Order_Cancel_Reject v) s = controller_from_server e (Order_Cancel_Reject v) s"
| "server_handler e (Order_Mass_Cancel_Report v) s = controller_from_server e (Order_Mass_Cancel_Report v) s"
| "server_handler e (Execution_Report v) s = controller_from_server e (Execution_Report v) s"
| "server_handler e (Request_For_Positions_Ack v) s = controller_from_server e (Request_For_Positions_Ack v) s"
| "server_handler e (Position_Report v) s = controller_from_server e (Position_Report v) s"
| "server_handler e (Trade_Capture_Report_Request_Ack v) s = controller_from_server e (Trade_Capture_Report_Request_Ack v) s"
| "server_handler e (Trade_Capture_Report v) s = controller_from_server e (Trade_Capture_Report v) s"
| "server_handler e _ s = Ok s"

section \<open>Reading\<close>

definition server_check :: "header \<Rightarrow> sys \<Rightarrow> sys" where
  "server_check h s = s\<lparr>server := (server s)\<lparr>sv_inbound := hd_msg_seq_num h\<rparr>\<rparr>"

text \<open>\<open>parse\<close>: a message of type \<open>LOGOUT\<close> is decoded as a heartbeat; it has no test request id.\<close>

fun server_dispatch :: "env \<Rightarrow> msg \<Rightarrow> sys \<Rightarrow> sys result" where
  "server_dispatch e (Reject v) s = server_handler e (Reject v) s"
| "server_dispatch e (Resend_Request v) s = server_handler e (Resend_Request v) s"
| "server_dispatch e (Logon v) s = server_handler e (Logon v) s"
| "server_dispatch e (Logout v) s = server_handler e (Heartbeat \<lparr>hb_test_req_id = []\<rparr>) s"
| "server_dispatch e (Heartbeat v) s = server_handler e (Heartbeat v) s"
| "server_dispatch e (Test_Request v) s = server_handler e (Test_Request v) s"
| "server_dispatch e (Business_Message_Reject v) s = server_handler e (Business_Message_Reject v) s"
| "server_dispatch e (User_Response v) s = server_handler e (User_Response v) s"
| "server_dispatch e (Security_List v) s = server_handler e (Security_List v) s"
| "server_dispatch e (Security_Definition v) s = server_handler e (Security_Definition v) s"
| "server_dispatch e (Security_Status v) s = server_handler e (Security_Status v) s"
| "server_dispatch e (Market_Data_Request_Reject v) s = server_handler e (Market_Data_Request_Reject v) s"
| "server_dispatch e (Market_Data_Snapshot_Full_Refresh v) s = server_handler e (Market_Data_Snapshot_Full_Refresh v) s"
| "server_dispatch e (Market_Data_Incremental_Refresh v) s = server_handler e (Market_Data_Incremental_Refresh v) s"
| "server_dispatch e (Order_Cancel_Reject v) s = server_handler e (Order_Cancel_Reject v) s"
| "server_dispatch e (Order_Mass_Cancel_Report v) s = server_handler e (Order_Mass_Cancel_Report v) s"
| "server_dispatch e (Execution_Report v) s = server_handler e (Execution_Report v) s"
| "server_dispatch e (Request_For_Positions_Ack v) s = server_handler e (Request_For_Positions_Ack v) s"
| "server_dispatch e (Position_Report v) s = server_handler e (Position_Report v) s"
| "server_dispatch e (Trade_Capture_Report_Request_Ack v) s = server_handler e (Trade_Capture_Report_Request_Ack v) s"
| "server_dispatch e (Trade_Capture_Report v) s = server_handler e (Trade_Capture_Report v) s"
| "server_dispatch e _ s = Ok s"

definition server_frame :: "env \<Rightarrow> frame_in \<Rightarrow> sys \<Rightarrow> sys result" where
  "server_frame e f s =
     (case f of
        Decoded h m \<Rightarrow> server_dispatch e m (server_check h s)
      | Undecodable h \<Rightarrow> Throw undecodable_text (server_check h s)
      | Unreadable \<Rightarrow> Throw undecodable_text s)"

text \<open>An exception of a handler leaves the loop and the handler of \<open>Read\<close>.\<close>

definition server_read :: "env \<Rightarrow> frame_in list \<Rightarrow> sys \<Rightarrow> sys result" where
  "server_read e fs = in_order (map (server_frame e) fs)"

section \<open>The timer\<close>

definition server_timer :: "env \<Rightarrow> nanos \<Rightarrow> sys \<Rightarrow> sys" where
  "server_timer e now s =
     (if sv_state (server s) \<le> LOGON_SENT then s
      else if sv_next_heartbeat (server s) \<le> now
      then server_send_test_request e now
             (s\<lparr>server := (server s)\<lparr>sv_next_heartbeat := now + server_ping_freq e\<rparr>\<rparr>)
      else s)"

end
