(* ===== verification/Proxy.thy ===== *)
theory Proxy
  imports Server_Session
begin

text \<open>
  The proxy as a whole: the manager of the client sessions (\<open>client/manager.cpp\<close>, with the listener), the
  updates of the authentication service (\<open>auth/session.cpp\<close>), the timer that \<open>Controller::dispatch\<close>
  passes to every part, and the steps of the event loop.
\<close>

section \<open>The manager\<close>

text \<open>
  The listener calls the manager for every new connection, with a bridge that creates the session. The
  overload with a peer address only logs it in addition.
\<close>

definition listener_create :: "env \<Rightarrow> u64 \<Rightarrow> sys \<Rightarrow> client_session" where
  "listener_create e session_id s = new_client_session e (clock_system s)"

text \<open>\<open>Manager::operator()(Factory &)\<close>.\<close>

definition manager_add_session :: "env \<Rightarrow> sys \<Rightarrow> sys" where
  "manager_add_session e s0 =
     (let sid = next_session_id (shared s0) + 1;
          s = update_shared (\<lambda>sh. sh\<lparr>next_session_id := sid\<rparr>) s0
      in s\<lparr>sessions := emplace_list (sessions s) sid (listener_create e sid s)\<rparr>)"

definition garbage_collection_frequency :: nanos where
  "garbage_collection_frequency = 1000000000"

definition remove_zombies :: "nanos \<Rightarrow> sys \<Rightarrow> sys" where
  "remove_zombies now s0 =
     (if now < next_garbage_collection s0 then s0
      else
        let s = s0\<lparr>next_garbage_collection := now + garbage_collection_frequency\<rparr>;
            (sids, sh) = session_cleanup (shared s)
        in s\<lparr>shared := sh, sessions := fold AList.delete sids (sessions s)\<rparr>)"

text \<open>\<open>Manager::dispatch\<close> calls every session with the event; the timer then has the zombies removed.\<close>

abbreviation manager_dispatch :: "(u64 \<Rightarrow> sys \<Rightarrow> sys result) \<Rightarrow> sys \<Rightarrow> sys result" where
  "manager_dispatch handler s \<equiv> in_order (map handler (map fst (sessions s))) s"

definition manager_timer :: "env \<Rightarrow> nanos \<Rightarrow> sys \<Rightarrow> sys result" where
  "manager_timer e now s =
     and_then (manager_dispatch (session_timer e now) s)
       (\<lambda>s. Ok (remove_zombies now s))"

text \<open>\<open>Controller::dispatch\<close> of a timer; the authentication session only refreshes its connection.\<close>

definition controller_timer :: "env \<Rightarrow> nanos \<Rightarrow> sys \<Rightarrow> sys result" where
  "controller_timer e now s = manager_timer e now (server_timer e now s)"

section \<open>The authentication service\<close>

text \<open>
  One object of the array \<open>result\<close>; a field is \<open>None\<close> when \<open>at\<close> or \<open>get\<close> throws for it. The JSON parser is
  nlohmann's.
\<close>

record auth_entry =
  ae_action :: "string option"
  ae_component :: "string option"
  ae_username :: "string option"
  ae_password :: "string option"
  ae_strategy_id :: "u32 option"

text \<open>The updates, and the controller's handlers of them.\<close>

record auth_insert =
  ins_component :: string
  ins_username :: string
  ins_password :: string
  ins_strategy_id :: u32

record auth_remove =
  rem_component :: string
  rem_username :: string

definition on_auth_insert :: "auth_insert \<Rightarrow> sys \<Rightarrow> sys" where
  "on_auth_insert a =
     update_shared (add_user (ins_username a) (ins_password a) (ins_strategy_id a))"

definition on_auth_remove :: "auth_remove \<Rightarrow> sys \<Rightarrow> sys" where
  "on_auth_remove a = update_shared (remove_user (rem_username a))"

definition auth_apply :: "auth_entry \<Rightarrow> sys \<Rightarrow> sys result" where
  "auth_apply a s =
     (case (ae_action a, ae_component a, ae_username a) of
        (Some action, Some component, Some username) \<Rightarrow>
          if action = ''insert'' then
            (case (ae_password a, ae_strategy_id a) of
               (Some password, Some strategy_id) \<Rightarrow>
                 Ok (on_auth_insert
                   \<lparr>ins_component = component, ins_username = username, ins_password = password,
                    ins_strategy_id = strategy_id\<rparr> s)
             | _ \<Rightarrow> Throw undecodable_text s)
          else if action = ''remove'' then
            Ok (on_auth_remove \<lparr>rem_component = component, rem_username = username\<rparr> s)
          else Ok s
      | _ \<Rightarrow> Throw undecodable_text s)"

text \<open>\<open>Client::Text\<close>: the payload, parsed, or \<open>None\<close> when it does not parse or has no \<open>result\<close>.\<close>

definition auth_text :: "auth_entry list option \<Rightarrow> sys \<Rightarrow> sys result" where
  "auth_text payload s =
     (case payload of None \<Rightarrow> Throw undecodable_text s | Some entries \<Rightarrow> in_order (map auth_apply entries) s)"

text \<open>\<open>Client::Ready\<close>: the subscription to the updates.\<close>

definition auth_subscribe_request :: string where
  "auth_subscribe_request =
     ''{'' @
     ''\"jsonrpc\":\"2.0\",'' @
     ''\"method\":\"subscribe\",'' @
     ''\"id\":\"test\"'' @
     ''}''"

definition auth_ready :: "sys \<Rightarrow> sys" where
  "auth_ready s = emit (To_Auth auth_subscribe_request) s"

section \<open>The event loop\<close>

datatype event =
    Timer_Event nanos
  | Client_Connected
  | Client_Read u64 "frame_in list"
  | Client_Disconnected u64
  | Server_Connected
  | Server_Disconnected
  | Server_Read "frame_in list"
  | Auth_Ready
  | Auth_Text "auth_entry list option"

fun handle_event :: "env \<Rightarrow> event \<Rightarrow> sys \<Rightarrow> sys result" where
  "handle_event e (Timer_Event now) s = controller_timer e now s"
| "handle_event e Client_Connected s = Ok (manager_add_session e s)"
| "handle_event e (Client_Read sid fs) s = session_read e fs sid s"
| "handle_event e (Client_Disconnected sid) s = session_disconnected e sid s"
| "handle_event e Server_Connected s = Ok (server_connected e s)"
| "handle_event e Server_Disconnected s = server_disconnected e s"
| "handle_event e (Server_Read fs) s = server_read e fs s"
| "handle_event e Auth_Ready s = Ok (auth_ready s)"
| "handle_event e (Auth_Text payload) s = auth_text payload s"

text \<open>
  The order of events that the connection manager keeps to. Session ids do not wrap: the proxy is
  assumed to see fewer than 2^64 connections.
\<close>

fun enabled :: "event \<Rightarrow> sys \<Rightarrow> bool" where
  "enabled Server_Connected s \<longleftrightarrow> sv_state (server s) = DISCONNECTED"
| "enabled Server_Disconnected s \<longleftrightarrow> DISCONNECTED < sv_state (server s)"
| "enabled (Server_Read fs) s \<longleftrightarrow> DISCONNECTED < sv_state (server s)"
| "enabled Client_Connected s \<longleftrightarrow> next_session_id (shared s) \<noteq> - 1"
| "enabled _ s \<longleftrightarrow> True"

definition at_time :: "nanos \<Rightarrow> nanos \<Rightarrow> sys \<Rightarrow> sys" where
  "at_time system realtime s = s\<lparr>clock_system := system, clock_realtime := realtime\<rparr>"

text \<open>One turn of the event loop at the given clocks, and the states the proxy can get to.\<close>

inductive step :: "env \<Rightarrow> event \<Rightarrow> sys \<Rightarrow> sys \<Rightarrow> bool" for e where
  step: "enabled ev s \<Longrightarrow> handle_event e ev (at_time system realtime s) = Ok s' \<Longrightarrow> step e ev s s'"

inductive reachable :: "env \<Rightarrow> sys \<Rightarrow> bool" for e where
  start: "reachable e (create_sys users symbols now)"
| turn: "reachable e s \<Longrightarrow> step e ev s s' \<Longrightarrow> reachable e s'"

inductive_cases stepE: "step e ev s s'"

end
