(* ===== verification/Effects.thy ===== *)
theory Effects
  imports Proxy
begin

text \<open>
  What the parts of the proxy may do to its state, one change at a time: \<open>effect\<close> lists the changes,
  each with the condition under which it happens. It is an abstract specification of the proxy; that
  the handlers keep to it is shown in theory \<open>Handler_Effects\<close>. The invariants of the proxy are shown
  here, once for every change.
\<close>

section \<open>Sessions by state\<close>

definition state_of :: "u64 \<Rightarrow> sys \<Rightarrow> client_state option" where
  "state_of sid s = map_option cs_state (session_of sid s)"

text \<open>A session is live from the request for its route to its end.\<close>

definition live :: "u64 \<Rightarrow> sys \<Rightarrow> bool" where
  "live sid s \<longleftrightarrow> (case state_of sid s of
     Some WAITING_CREATE_ROUTE \<Rightarrow> True | Some READY \<Rightarrow> True | Some WAITING_REMOVE_ROUTE \<Rightarrow> True | _ \<Rightarrow> False)"

lemma live_cong: "state_of sid s' = state_of sid s \<Longrightarrow> live sid s' = live sid s"
  by (simp add: live_def)

lemma live_iff:
  "live sid s \<longleftrightarrow> state_of sid s \<noteq> None \<and> state_of sid s \<noteq> Some WAITING_LOGON \<and> state_of sid s \<noteq> Some ZOMBIE"
  by (auto simp: live_def split: option.split client_state.split)

lemma liveI: "session_of sid s = Some c \<Longrightarrow> cs_state c \<noteq> WAITING_LOGON \<Longrightarrow> cs_state c \<noteq> ZOMBIE \<Longrightarrow> live sid s"
  by (simp add: live_iff state_of_def)

lemma state_of_Some: "state_of sid s = Some st \<longleftrightarrow> (\<exists>c. session_of sid s = Some c \<and> cs_state c = st)"
  by (auto simp: state_of_def)

section \<open>What the building blocks change\<close>

lemma server_send_helper_fields [simp]:
  "shared (server_send_helper e m s) = shared s"
  "sessions (server_send_helper e m s) = sessions s"
  "next_garbage_collection (server_send_helper e m s) = next_garbage_collection s"
  "controller_ready (server_send_helper e m s) = controller_ready s"
  "client_to_session (server_send_helper e m s) = client_to_session s"
  "session_to_client (server_send_helper e m s) = session_to_client s"
  "user_server_to_client (server_send_helper e m s) = user_server_to_client s"
  "user_client_to_server (server_send_helper e m s) = user_client_to_server s"
  "mappings (server_send_helper e m s) = mappings s"
  "cl_ord_state (server_send_helper e m s) = cl_ord_state s"
  "total_num_pos_reports (server_send_helper e m s) = total_num_pos_reports s"
  "clock_system (server_send_helper e m s) = clock_system s"
  "clock_realtime (server_send_helper e m s) = clock_realtime s"
  by (simp_all add: server_send_helper_def Let_def)

lemma client_send_fields [simp]:
  "shared (client_send e m sid s) = shared s"
  "server (client_send e m sid s) = server s"
  "next_garbage_collection (client_send e m sid s) = next_garbage_collection s"
  "controller_ready (client_send e m sid s) = controller_ready s"
  "client_to_session (client_send e m sid s) = client_to_session s"
  "session_to_client (client_send e m sid s) = session_to_client s"
  "user_server_to_client (client_send e m sid s) = user_server_to_client s"
  "user_client_to_server (client_send e m sid s) = user_client_to_server s"
  "mappings (client_send e m sid s) = mappings s"
  "cl_ord_state (client_send e m sid s) = cl_ord_state s"
  "total_num_pos_reports (client_send e m sid s) = total_num_pos_reports s"
  "clock_system (client_send e m sid s) = clock_system s"
  "clock_realtime (client_send e m sid s) = clock_realtime s"
  by (simp_all add: client_send_def Let_def split: option.split)

lemma bury_fields [simp]:
  "server (bury sid s) = server s"
  "next_garbage_collection (bury sid s) = next_garbage_collection s"
  "controller_ready (bury sid s) = controller_ready s"
  "client_to_session (bury sid s) = client_to_session s"
  "session_to_client (bury sid s) = session_to_client s"
  "user_server_to_client (bury sid s) = user_server_to_client s"
  "user_client_to_server (bury sid s) = user_client_to_server s"
  "mappings (bury sid s) = mappings s"
  "cl_ord_state (bury sid s) = cl_ord_state s"
  "total_num_pos_reports (bury sid s) = total_num_pos_reports s"
  "clock_system (bury sid s) = clock_system s"
  "clock_realtime (bury sid s) = clock_realtime s"
  "out (bury sid s) = out s"
  by (simp_all add: bury_def)

lemma sv_state_server_send_helper [simp]: "sv_state (server (server_send_helper e m s)) = sv_state (server s)"
  by (simp add: server_send_helper_def Let_def)

lemma session_of_server_send_helper [simp]: "session_of sid (server_send_helper e m s) = session_of sid s"
  by (simp add: session_of_def)

lemma server_ready_cong: "sv_state (server s') = sv_state (server s) \<Longrightarrow> server_ready s' = server_ready s"
  by (simp add: server_ready_def)

lemma session_of_client_send:
  "session_of sid' (client_send e m sid s) =
     (if sid' = sid then map_option (\<lambda>c. c\<lparr>cs_outbound := cs_outbound c + 1\<rparr>) (session_of sid s)
      else session_of sid' s)"
  by (auto simp: client_send_def Let_def split: option.split)

lemma state_of_simps [simp]:
  "state_of sid' (server_send_helper e m s) = state_of sid' s"
  "state_of sid' (client_send e m sid s) = state_of sid' s"
  "state_of sid' (update_mapping r h s) = state_of sid' s"
  "state_of sid' (update_shared g s) = state_of sid' s"
  "state_of sid' (take_request_id s) = state_of sid' s"
  "state_of sid' (emit x s) = state_of sid' s"
  by (auto simp: state_of_def session_of_client_send option.map_comp comp_def)

lemma state_of_update_session:
  "(\<And>c. cs_state (f c) = cs_state c) \<Longrightarrow> state_of sid' (update_session sid f s) = state_of sid' s"
  by (auto simp: state_of_def option.map_comp comp_def)

lemma state_of_set_state [simp]:
  "state_of sid' (set_state sid st s) =
     (if sid' = sid \<and> state_of sid s \<noteq> None then Some st else state_of sid' s)"
  by (cases "session_of sid s") (auto simp: state_of_def)

lemma state_of_bury [simp]:
  "state_of sid' (bury sid s) =
     (if sid' = sid \<and> state_of sid s \<noteq> None then Some ZOMBIE else state_of sid' s)"
  by (simp add: bury_def)

lemma state_of_sessions: "sessions s' = sessions s \<Longrightarrow> state_of sid s' = state_of sid s"
  by (simp add: state_of_def session_of_def)

lemma map_fst_sessions [simp]:
  "map fst (sessions (client_send e m sid s)) = map fst (sessions s)"
  "map fst (sessions (update_session sid f s)) = map fst (sessions s)"
  "map fst (sessions (set_state sid st s)) = map fst (sessions s)"
  "map fst (sessions (bury sid s)) = map fst (sessions s)"
  by (simp_all add: client_send_def update_session_def set_state_def bury_def Let_def split: option.split)

lemma shared_bury [simp]: "shared (bury sid s) = session_remove sid (shared s)"
  by (simp add: bury_def)

lemma state_of_update [simp]:
  "state_of sid (s\<lparr>shared := x0\<rparr>) = state_of sid s"
  "state_of sid (s\<lparr>server := x1\<rparr>) = state_of sid s"
  "state_of sid (s\<lparr>next_garbage_collection := x2\<rparr>) = state_of sid s"
  "state_of sid (s\<lparr>controller_ready := x3\<rparr>) = state_of sid s"
  "state_of sid (s\<lparr>client_to_session := x4\<rparr>) = state_of sid s"
  "state_of sid (s\<lparr>session_to_client := x5\<rparr>) = state_of sid s"
  "state_of sid (s\<lparr>user_server_to_client := x6\<rparr>) = state_of sid s"
  "state_of sid (s\<lparr>user_client_to_server := x7\<rparr>) = state_of sid s"
  "state_of sid (s\<lparr>mappings := x8\<rparr>) = state_of sid s"
  "state_of sid (s\<lparr>cl_ord_state := x9\<rparr>) = state_of sid s"
  "state_of sid (s\<lparr>total_num_pos_reports := x10\<rparr>) = state_of sid s"
  "state_of sid (s\<lparr>clock_system := x11\<rparr>) = state_of sid s"
  "state_of sid (s\<lparr>clock_realtime := x12\<rparr>) = state_of sid s"
  "state_of sid (s\<lparr>out := x13\<rparr>) = state_of sid s"
  by (simp_all add: state_of_def session_of_def)

lemma live_update [simp]:
  "live sid (s\<lparr>shared := x0\<rparr>) = live sid s"
  "live sid (s\<lparr>server := x1\<rparr>) = live sid s"
  "live sid (s\<lparr>next_garbage_collection := x2\<rparr>) = live sid s"
  "live sid (s\<lparr>controller_ready := x3\<rparr>) = live sid s"
  "live sid (s\<lparr>client_to_session := x4\<rparr>) = live sid s"
  "live sid (s\<lparr>session_to_client := x5\<rparr>) = live sid s"
  "live sid (s\<lparr>user_server_to_client := x6\<rparr>) = live sid s"
  "live sid (s\<lparr>user_client_to_server := x7\<rparr>) = live sid s"
  "live sid (s\<lparr>mappings := x8\<rparr>) = live sid s"
  "live sid (s\<lparr>cl_ord_state := x9\<rparr>) = live sid s"
  "live sid (s\<lparr>total_num_pos_reports := x10\<rparr>) = live sid s"
  "live sid (s\<lparr>clock_system := x11\<rparr>) = live sid s"
  "live sid (s\<lparr>clock_realtime := x12\<rparr>) = live sid s"
  "live sid (s\<lparr>out := x13\<rparr>) = live sid s"
  by (simp_all add: live_iff)

lemma server_ready_update [simp]:
  "server_ready (s\<lparr>sessions := x0\<rparr>) = server_ready s"
  "server_ready (s\<lparr>shared := x1\<rparr>) = server_ready s"
  "server_ready (s\<lparr>next_garbage_collection := x3\<rparr>) = server_ready s"
  "server_ready (s\<lparr>controller_ready := x4\<rparr>) = server_ready s"
  "server_ready (s\<lparr>client_to_session := x5\<rparr>) = server_ready s"
  "server_ready (s\<lparr>session_to_client := x6\<rparr>) = server_ready s"
  "server_ready (s\<lparr>user_server_to_client := x7\<rparr>) = server_ready s"
  "server_ready (s\<lparr>user_client_to_server := x8\<rparr>) = server_ready s"
  "server_ready (s\<lparr>mappings := x9\<rparr>) = server_ready s"
  "server_ready (s\<lparr>cl_ord_state := x10\<rparr>) = server_ready s"
  "server_ready (s\<lparr>total_num_pos_reports := x11\<rparr>) = server_ready s"
  "server_ready (s\<lparr>clock_system := x12\<rparr>) = server_ready s"
  "server_ready (s\<lparr>clock_realtime := x13\<rparr>) = server_ready s"
  "server_ready (s\<lparr>out := x14\<rparr>) = server_ready s"
  by (simp_all add: server_ready_def)

lemma server_ready_simps [simp]:
  "server_ready (server_send_helper e m s) = server_ready s"
  "server_ready (client_send e m sid s) = server_ready s"
  "server_ready (update_session sid f s) = server_ready s"
  "server_ready (set_state sid st s) = server_ready s"
  "server_ready (update_mapping r h s) = server_ready s"
  "server_ready (update_shared g s) = server_ready s"
  "server_ready (take_request_id s) = server_ready s"
  "server_ready (emit x s) = server_ready s"
  "server_ready (bury sid s) = server_ready s"
  by (simp_all add: server_ready_def)

section \<open>Kinds of messages\<close>

text \<open>What the proxy asks the bridge: the messages that \<open>server::Session\<close> has an operator for.\<close>

fun upstream_request :: "msg \<Rightarrow> bool" where
  "upstream_request (User_Request _) \<longleftrightarrow> True"
| "upstream_request (Market_Data_Request _) \<longleftrightarrow> True"
| "upstream_request (Security_List_Request _) \<longleftrightarrow> True"
| "upstream_request (Security_Definition_Request _) \<longleftrightarrow> True"
| "upstream_request (Security_Status_Request _) \<longleftrightarrow> True"
| "upstream_request (Order_Status_Request _) \<longleftrightarrow> True"
| "upstream_request (New_Order_Single _) \<longleftrightarrow> True"
| "upstream_request (Order_Cancel_Replace_Request _) \<longleftrightarrow> True"
| "upstream_request (Order_Cancel_Request _) \<longleftrightarrow> True"
| "upstream_request (Order_Mass_Status_Request _) \<longleftrightarrow> True"
| "upstream_request (Order_Mass_Cancel_Request _) \<longleftrightarrow> True"
| "upstream_request (Request_For_Positions _) \<longleftrightarrow> True"
| "upstream_request (Trade_Capture_Report_Request _) \<longleftrightarrow> True"
| "upstream_request _ \<longleftrightarrow> False"

text \<open>The requests that get a line of their own in a table, each with the id under which it is asked upstream.\<close>

fun asks :: "mapping_ref \<Rightarrow> string \<Rightarrow> msg \<Rightarrow> bool" where
  "asks r rid (Security_List_Request v) \<longleftrightarrow> r = SECURITY_REQ_ID \<and> slr_security_req_id v = rid"
| "asks r rid (Security_Definition_Request v) \<longleftrightarrow> r = SECURITY_REQ_ID \<and> sdr_security_req_id v = rid"
| "asks r rid (Security_Status_Request v) \<longleftrightarrow> r = SECURITY_STATUS_REQ_ID \<and> ssr_security_status_req_id v = rid"
| "asks r rid (Market_Data_Request v) \<longleftrightarrow> r = MD_REQ_ID \<and> mdr_md_req_id v = rid"
| "asks r rid (Order_Status_Request v) \<longleftrightarrow> r = ORD_STATUS_REQ_ID \<and> osr_ord_status_req_id v = rid"
| "asks r rid (Order_Mass_Status_Request v) \<longleftrightarrow> r = MASS_STATUS_REQ_ID \<and> oms_mass_status_req_id v = rid"
| "asks r rid (New_Order_Single v) \<longleftrightarrow> r = CL_ORD_ID \<and> nos_cl_ord_id v = rid"
| "asks r rid (Order_Cancel_Replace_Request v) \<longleftrightarrow> r = CL_ORD_ID \<and> ocr_cl_ord_id v = rid"
| "asks r rid (Order_Cancel_Request v) \<longleftrightarrow> r = CL_ORD_ID \<and> ocn_cl_ord_id v = rid"
| "asks r rid (Order_Mass_Cancel_Request v) \<longleftrightarrow> r = MASS_CANCEL_CL_ORD_ID \<and> omc_cl_ord_id v = rid"
| "asks r rid (Request_For_Positions v) \<longleftrightarrow> r = POS_REQ_ID \<and> rfp_pos_req_id v = rid"
| "asks r rid (Trade_Capture_Report_Request v) \<longleftrightarrow> r = TRADE_REQUEST_ID \<and> tcq_trade_request_id v = rid"
| "asks r rid _ \<longleftrightarrow> False"

text \<open>The last thing that was sent is such a request.\<close>

definition just_asked :: "mapping_ref \<Rightarrow> string \<Rightarrow> sys \<Rightarrow> bool" where
  "just_asked r rid s \<longleftrightarrow> (\<exists>log h m. out s = log @ [To_Server h m] \<and> asks r rid m)"

lemma just_asked_send [simp]: "asks r rid m \<Longrightarrow> just_asked r rid (server_send_helper e m s)"
  by (auto simp: just_asked_def server_send_helper_def Let_def emit_def)

text \<open>What the upstream session sends by itself once it has logged on.\<close>

fun upstream_keep_alive :: "msg \<Rightarrow> bool" where
  "upstream_keep_alive (Heartbeat _) \<longleftrightarrow> True"
| "upstream_keep_alive (Test_Request _) \<longleftrightarrow> True"
| "upstream_keep_alive _ \<longleftrightarrow> False"

text \<open>
  What a client gets from the bridge, or from the proxy in the place of the bridge: the messages that
  \<open>client::Session\<close> has an operator for, but for \<open>UserResponse\<close>, which the session does not pass on.
\<close>

fun downstream_reply :: "msg \<Rightarrow> bool" where
  "downstream_reply (Business_Message_Reject _) \<longleftrightarrow> True"
| "downstream_reply (Security_List _) \<longleftrightarrow> True"
| "downstream_reply (Security_Definition _) \<longleftrightarrow> True"
| "downstream_reply (Security_Status _) \<longleftrightarrow> True"
| "downstream_reply (Market_Data_Request_Reject _) \<longleftrightarrow> True"
| "downstream_reply (Market_Data_Snapshot_Full_Refresh _) \<longleftrightarrow> True"
| "downstream_reply (Market_Data_Incremental_Refresh _) \<longleftrightarrow> True"
| "downstream_reply (Order_Cancel_Reject _) \<longleftrightarrow> True"
| "downstream_reply (Order_Mass_Cancel_Report _) \<longleftrightarrow> True"
| "downstream_reply (Execution_Report _) \<longleftrightarrow> True"
| "downstream_reply (Request_For_Positions_Ack _) \<longleftrightarrow> True"
| "downstream_reply (Position_Report _) \<longleftrightarrow> True"
| "downstream_reply (Trade_Capture_Report_Request_Ack _) \<longleftrightarrow> True"
| "downstream_reply (Trade_Capture_Report _) \<longleftrightarrow> True"
| "downstream_reply _ \<longleftrightarrow> False"

text \<open>What a client session sends by itself.\<close>

fun downstream_session :: "msg \<Rightarrow> bool" where
  "downstream_session (Logon _) \<longleftrightarrow> True"
| "downstream_session (Logout _) \<longleftrightarrow> True"
| "downstream_session (Heartbeat _) \<longleftrightarrow> True"
| "downstream_session (Test_Request _) \<longleftrightarrow> True"
| "downstream_session (Reject _) \<longleftrightarrow> True"
| "downstream_session (Business_Message_Reject _) \<longleftrightarrow> True"
| "downstream_session _ \<longleftrightarrow> False"

section \<open>The changes\<close>

text \<open>No request of the session is waiting for a reply, but for the status requests without an id.\<close>

definition no_routes :: "u64 \<Rightarrow> sys \<Rightarrow> bool" where
  "no_routes sid s \<longleftrightarrow> (\<forall>r rid cid ka. server_to_client (mappings s r) rid = Some (sid, cid, ka) \<longrightarrow>
     r = ORD_STATUS_REQ_ID \<and> cid = [])"

text \<open>The table \<open>m'\<close> has no request that \<open>m\<close> does not have; the keep-alive flag may differ.\<close>

definition no_new_routes :: "mapping \<Rightarrow> mapping \<Rightarrow> bool" where
  "no_new_routes m m' \<longleftrightarrow> (\<forall>rid sid cid ka. server_to_client m' rid = Some (sid, cid, ka) \<longrightarrow>
     (\<exists>ka'. server_to_client m rid = Some (sid, cid, ka')))"

inductive effect :: "env \<Rightarrow> sys \<Rightarrow> sys \<Rightarrow> bool" for e where
  request_id: "effect e s (take_request_id s)"
| to_client: "state_of sid s = Some st \<Longrightarrow> st \<noteq> ZOMBIE \<Longrightarrow>
    downstream_session m \<or> downstream_reply m \<and> st = READY \<Longrightarrow> effect e s (client_send e m sid s)"
| to_server: "sv_state (server s) \<noteq> DISCONNECTED \<Longrightarrow>
    upstream_keep_alive m \<or> upstream_request m \<and> server_ready s \<Longrightarrow> effect e s (server_send_helper e m s)"
| noted: "(\<And>c. cs_state (f c) = cs_state c) \<Longrightarrow> (\<And>c. cs_outbound (f c) = cs_outbound c) \<Longrightarrow>
    effect e s (update_session sid f s)"
| hang_up: "effect e s (emit (Close_Client sid) s)"
| subscribed: "effect e s (emit (To_Auth auth_subscribe_request) s)"
| table: "no_new_routes (mappings s r) m \<Longrightarrow> (\<And>anonymous. backed anonymous (mappings s r) \<Longrightarrow> backed anonymous m) \<Longrightarrow>
    effect e s (update_mapping r (\<lambda>_. m) s)"
| route: "state_of sid s = Some READY \<Longrightarrow> find_client_req_id sid cid (mappings s r) = None \<Longrightarrow>
    just_asked r rid s \<Longrightarrow> effect e s (add_route r cid rid sid ka s)"
| anonymous_route: "state_of sid s = Some READY \<Longrightarrow> just_asked ORD_STATUS_REQ_ID rid s \<Longrightarrow>
    effect e s (update_mapping ORD_STATUS_REQ_ID (emplace_server rid (sid, [], ka)) s)"
| user_added: "client_to_session s u = None \<Longrightarrow> session_to_client s sid = None \<Longrightarrow>
    effect e s (s\<lparr>client_to_session := (client_to_session s)(u \<mapsto> sid),
                 session_to_client := (session_to_client s)(sid \<mapsto> u)\<rparr>)"
| user_removed: "client_to_session s u = Some sid \<Longrightarrow> session_to_client s sid = Some u \<Longrightarrow>
    effect e s (s\<lparr>client_to_session := erase_key (client_to_session s) u,
                 session_to_client := erase_key (session_to_client s) sid\<rparr>)"
| settled: "effect e s (s\<lparr>user_client_to_server := erase_key (user_client_to_server s) sid,
                          user_server_to_client := erase_key (user_server_to_client s) pending\<rparr>)"
| orders: "effect e s (s\<lparr>cl_ord_state := orders\<rparr>)"
| reports: "effect e s (s\<lparr>total_num_pos_reports := n\<rparr>)"
| enter: "state_of sid s = Some WAITING_LOGON \<Longrightarrow> server_ready s \<Longrightarrow> username_to_session (shared s) u = None \<Longrightarrow>
    (\<And>c. cs_state (f c) = WAITING_CREATE_ROUTE) \<Longrightarrow> (\<And>c. cs_outbound (f c) = cs_outbound c) \<Longrightarrow>
    effect e s (update_session sid f
      (s\<lparr>shared := (shared s)\<lparr>username_to_session := (username_to_session (shared s))(u \<mapsto> sid),
                              session_to_username := (session_to_username (shared s))(sid \<mapsto> u)\<rparr>,
         user_client_to_server := (user_client_to_server s)(sid \<mapsto> pending),
         user_server_to_client := asked\<rparr>))"
| accept: "state_of sid s = Some WAITING_CREATE_ROUTE \<Longrightarrow> user_client_to_server s sid = None \<Longrightarrow>
    \<exists>h l. To_Client sid h (Logon l) \<in> set (out s) \<Longrightarrow> effect e s (set_state sid READY s)"
| leave: "state_of sid s = Some READY \<Longrightarrow>
    effect e s (set_state sid WAITING_REMOVE_ROUTE
      (s\<lparr>user_client_to_server := (user_client_to_server s)(sid \<mapsto> pending), user_server_to_client := asked\<rparr>))"
| logged_off: "state_of sid s = Some WAITING_REMOVE_ROUTE \<Longrightarrow>
    effect e s (update_shared (\<lambda>sh. snd (session_logout sid sh)) s)"
| retire: "state_of sid s = Some st \<Longrightarrow> st \<noteq> ZOMBIE \<Longrightarrow> no_routes sid s \<Longrightarrow>
    effect e s (bury sid (s\<lparr>user_client_to_server := (user_client_to_server s)(sid := pending),
                           user_server_to_client := asked\<rparr>))"
| accounts: "username_to_session (f (shared s)) = username_to_session (shared s) \<Longrightarrow>
    session_to_username (f (shared s)) = session_to_username (shared s) \<Longrightarrow>
    sessions_to_remove (f (shared s)) = sessions_to_remove (shared s) \<Longrightarrow>
    next_session_id (f (shared s)) = next_session_id (shared s) \<Longrightarrow> effect e s (update_shared f s)"
| connected: "sv_state (server s) = DISCONNECTED \<Longrightarrow> effect e s (server_connected e s)"
| up: "sv_state (server s) \<noteq> DISCONNECTED \<Longrightarrow> effect e s (server_logon s)"
| lost: "effect e s (s\<lparr>controller_ready := False\<rparr>)"
| down: "\<not> controller_ready s \<Longrightarrow> (\<And>sid. \<not> live sid s) \<Longrightarrow>
    effect e s (s\<lparr>server := new_server_session\<rparr>)"
| server_note: "sv_state sv = sv_state (server s) \<Longrightarrow> sv_outbound sv = sv_outbound (server s) \<Longrightarrow>
    effect e s (s\<lparr>server := sv\<rparr>)"
| session_added: "next_session_id (shared s) \<noteq> - 1 \<Longrightarrow> effect e s (manager_add_session e s)"
| collected: "effect e s (remove_zombies now s)"
| clocks: "effect e s (at_time system realtime s)"

text \<open>Any number of changes.\<close>

definition effects :: "env \<Rightarrow> sys \<Rightarrow> sys \<Rightarrow> bool" where
  "effects e = (effect e)\<^sup>*\<^sup>*"

lemma effects_refl [simp, intro]: "effects e s s"
  by (simp add: effects_def)

lemma effects_trans: "effects e s t \<Longrightarrow> effects e t u \<Longrightarrow> effects e s u"
  unfolding effects_def by (rule rtranclp_trans)

lemma effects_step: "effects e s t \<Longrightarrow> effect e t u \<Longrightarrow> effects e s u"
  unfolding effects_def by (rule rtranclp.rtrancl_into_rtrancl)

lemma effect_effects: "effect e s t \<Longrightarrow> effects e s t"
  using effects_step effects_refl by blast

end
