(* ===== verification/Invariants.thy ===== *)
theory Invariants
  imports Effects
begin

text \<open>
  What is true of the proxy in every state: the flag of the controller follows the upstream session,
  requests are routed to live sessions only, the user tables are each other's converse, only live
  sessions are logged on, a request to the bridge about a user is outstanding only between states,
  and session ids are not reused. Each is kept by every change (\<open>effect\<close>).
\<close>

section \<open>The invariants\<close>

definition linked :: "sys \<Rightarrow> bool" where
  "linked s \<longleftrightarrow> (controller_ready s \<longrightarrow> server_ready s) \<and> (\<forall>sid. live sid s \<longrightarrow> server_ready s)"

definition routed :: "sys \<Rightarrow> bool" where
  "routed s \<longleftrightarrow> (\<forall>r. backed (r = ORD_STATUS_REQ_ID) (mappings s r)) \<and>
     (\<forall>r rid sid cid ka. server_to_client (mappings s r) rid = Some (sid, cid, ka) \<longrightarrow>
        live sid s \<or> r = ORD_STATUS_REQ_ID \<and> cid = [])"

definition known_users :: "sys \<Rightarrow> bool" where
  "known_users s \<longleftrightarrow> converse_maps (client_to_session s) (session_to_client s)"

definition logged_on :: "sys \<Rightarrow> bool" where
  "logged_on s \<longleftrightarrow> logons_agree (shared s) \<and>
     (\<forall>sid u. session_to_username (shared s) sid = Some u \<longrightarrow> live sid s)"

definition undecided :: "sys \<Rightarrow> bool" where
  "undecided s \<longleftrightarrow> (\<forall>sid. state_of sid s = Some WAITING_LOGON \<or> state_of sid s = Some READY \<longrightarrow>
     user_client_to_server s sid = None)"

definition numbered_sessions :: "sys \<Rightarrow> bool" where
  "numbered_sessions s \<longleftrightarrow>
     distinct (map fst (sessions s)) \<and>
     (\<forall>sid. state_of sid s \<noteq> None \<or> user_client_to_server s sid \<noteq> None \<longrightarrow>
        sid \<le> next_session_id (shared s)) \<and>
     (\<forall>sid. sid \<in> set (sessions_to_remove (shared s)) \<longleftrightarrow> state_of sid s = Some ZOMBIE)"

definition good :: "sys \<Rightarrow> bool" where
  "good s \<longleftrightarrow> linked s \<and> routed s \<and> known_users s \<and> logged_on s \<and> undecided s \<and> numbered_sessions s"

section \<open>They hold at the start\<close>

lemma state_of_create [simp]: "state_of sid (create_sys users symbols now) = None"
  by (simp add: state_of_def session_of_def create_sys_def new_sys_def)

lemma good_create: "good (create_sys users symbols now)"
  unfolding good_def
proof (intro conjI)
  let ?s = "create_sys users symbols now"
  show "linked ?s" by (simp add: linked_def live_iff) (simp add: create_sys_def new_sys_def)
  show "routed ?s" by (simp add: routed_def create_sys_def new_sys_def) (simp add: empty_mapping_def)
  show "known_users ?s" by (simp add: known_users_def create_sys_def new_sys_def)
  show "logged_on ?s" by (simp add: logged_on_def create_sys_def new_sys_def) (simp add: new_shared_def)
  show "undecided ?s" by (simp add: undecided_def)
  show "numbered_sessions ?s"
    by (simp add: numbered_sessions_def) (simp add: create_sys_def new_sys_def new_shared_def)
qed

section \<open>Sessions and their states\<close>

lemma live_simps [simp]:
  "live sid' (server_send_helper e m s) = live sid' s"
  "live sid' (client_send e m sid s) = live sid' s"
  "live sid' (update_mapping r h s) = live sid' s"
  "live sid' (update_shared g s) = live sid' s"
  "live sid' (take_request_id s) = live sid' s"
  "live sid' (emit x s) = live sid' s"
  by (simp_all add: live_iff)

lemma live_update_session:
  "(\<And>c. cs_state (f c) = cs_state c) \<Longrightarrow> live sid' (update_session sid f s) = live sid' s"
  by (simp add: live_iff state_of_update_session)

lemma live_sessions: "sessions s' = sessions s \<Longrightarrow> live sid s' = live sid s"
  by (simp add: live_iff state_of_sessions [of s' s])

lemma live_bury [simp]: "live sid' (bury sid s) \<longleftrightarrow> sid' \<noteq> sid \<and> live sid' s"
  by (auto simp: live_iff)

lemma state_of_enter:
  "(\<And>c. cs_state (f c) = st) \<Longrightarrow>
     state_of sid' (update_session sid f s) = (if sid' = sid \<and> state_of sid s \<noteq> None then Some st else state_of sid' s)"
  by (cases "session_of sid s") (auto simp: state_of_def)

lemma sessions_add:
  "sessions (manager_add_session e s) =
     emplace_list (sessions s) (next_session_id (shared s) + 1) (new_client_session e (clock_system s))"
  by (simp add: manager_add_session_def listener_create_def Let_def)

lemma state_of_add:
  assumes "state_of (next_session_id (shared s) + 1) s = None"
  shows "state_of sid (manager_add_session e s) =
    (if sid = next_session_id (shared s) + 1 then Some WAITING_LOGON else state_of sid s)"
  using assms
  by (auto simp: state_of_def session_of_def sessions_add map_of_emplace_list new_client_session_def)

lemma word_less_inc: "n < n + 1" if "n \<noteq> - 1" for n :: u64
proof -
  have "unat (- 1 :: u64) = 2 ^ 64 - 1" by (simp add: unsigned_minus_1_eq_mask mask_eq_exp_minus_1)
  then have "unat n \<noteq> 2 ^ 64 - 1" using that by (metis word_unat_eq_iff)
  moreover have "unat n < 2 ^ LENGTH(64)" by (rule unsigned_less)
  ultimately show ?thesis by (simp add: word_less_nat_alt unat_word_ariths)
qed

lemma next_is_free:
  assumes "numbered_sessions s" and "next_session_id (shared s) \<noteq> - 1"
  shows "state_of (next_session_id (shared s) + 1) s = None"
    and "user_client_to_server s (next_session_id (shared s) + 1) = None"
proof -
  have "\<not> next_session_id (shared s) + 1 \<le> next_session_id (shared s)"
    using word_less_inc [OF assms(2)] by (simp add: not_le)
  then show "state_of (next_session_id (shared s) + 1) s = None"
    "user_client_to_server s (next_session_id (shared s) + 1) = None"
    using assms(1) by (auto simp: numbered_sessions_def)
qed

lemma map_of_fold_delete:
  "map_of (fold AList.delete ks al) k = (if k \<in> set ks then None else map_of al k)"
  by (induction ks arbitrary: al) (auto simp: map_of_delete)

lemma distinct_fold_delete:
  "distinct (map fst al) \<Longrightarrow> distinct (map fst (fold AList.delete ks al))"
  by (induction ks arbitrary: al) (auto simp: distinct_delete)

lemma state_of_collected:
  assumes "numbered_sessions s"
  shows "state_of sid (remove_zombies now s) =
    (if \<not> now < next_garbage_collection s \<and> state_of sid s = Some ZOMBIE then None else state_of sid s)"
proof -
  have "sid \<in> set (sessions_to_remove (shared s)) \<longleftrightarrow> state_of sid s = Some ZOMBIE"
    using assms by (simp add: numbered_sessions_def)
  then show ?thesis
    by (auto simp: remove_zombies_def session_cleanup_def Let_def state_of_def session_of_def map_of_fold_delete)
qed

section \<open>Every change keeps them\<close>

lemmas event_defs =
  server_connected_def server_send_logon_def server_logon_def on_server_ready_def set_server_state_def at_time_def
  add_route_def

lemma live_enter:
  "(\<And>c. cs_state (f c) = WAITING_CREATE_ROUTE) \<Longrightarrow>
     live sid' (update_session sid f s) \<longleftrightarrow> live sid' s \<or> sid' = sid \<and> state_of sid s \<noteq> None"
  by (auto simp: live_iff state_of_enter [where st = WAITING_CREATE_ROUTE])

lemma live_add:
  "numbered_sessions s \<Longrightarrow> next_session_id (shared s) \<noteq> - 1 \<Longrightarrow> live sid (manager_add_session e s) = live sid s"
  by (auto simp: live_iff state_of_add next_is_free)

lemma live_collected: "numbered_sessions s \<Longrightarrow> live sid (remove_zombies now s) = live sid s"
  by (auto simp: live_iff state_of_collected)

lemma manager_add_session_fields [simp]:
  "server (manager_add_session e s) = server s"
  "next_garbage_collection (manager_add_session e s) = next_garbage_collection s"
  "controller_ready (manager_add_session e s) = controller_ready s"
  "client_to_session (manager_add_session e s) = client_to_session s"
  "session_to_client (manager_add_session e s) = session_to_client s"
  "user_server_to_client (manager_add_session e s) = user_server_to_client s"
  "user_client_to_server (manager_add_session e s) = user_client_to_server s"
  "mappings (manager_add_session e s) = mappings s"
  "cl_ord_state (manager_add_session e s) = cl_ord_state s"
  "total_num_pos_reports (manager_add_session e s) = total_num_pos_reports s"
  "clock_system (manager_add_session e s) = clock_system s"
  "clock_realtime (manager_add_session e s) = clock_realtime s"
  "out (manager_add_session e s) = out s"
  by (simp_all add: manager_add_session_def listener_create_def Let_def)

lemma remove_zombies_fields [simp]:
  "server (remove_zombies now s) = server s"
  "controller_ready (remove_zombies now s) = controller_ready s"
  "client_to_session (remove_zombies now s) = client_to_session s"
  "session_to_client (remove_zombies now s) = session_to_client s"
  "user_server_to_client (remove_zombies now s) = user_server_to_client s"
  "user_client_to_server (remove_zombies now s) = user_client_to_server s"
  "mappings (remove_zombies now s) = mappings s"
  "cl_ord_state (remove_zombies now s) = cl_ord_state s"
  "total_num_pos_reports (remove_zombies now s) = total_num_pos_reports s"
  "clock_system (remove_zombies now s) = clock_system s"
  "clock_realtime (remove_zombies now s) = clock_realtime s"
  "out (remove_zombies now s) = out s"
  by (simp_all add: remove_zombies_def Let_def split: prod.split)

lemma server_ready_manager [simp]:
  "server_ready (manager_add_session e s) = server_ready s"
  "server_ready (remove_zombies now s) = server_ready s"
  by (simp_all add: server_ready_def)

lemma shared_manager:
  "shared (manager_add_session e s) = (shared s)\<lparr>next_session_id := next_session_id (shared s) + 1\<rparr>"
  "shared (remove_zombies now s) =
     (if now < next_garbage_collection s then shared s else snd (session_cleanup (shared s)))"
  by (simp_all add: manager_add_session_def listener_create_def remove_zombies_def Let_def split: prod.split)

lemma goodD:
  assumes "good s"
  shows "linked s" "routed s" "known_users s" "logged_on s" "undecided s" "numbered_sessions s"
  using assms by (simp_all add: good_def)

lemma linkedD:
  assumes "linked s"
  shows "controller_ready s \<Longrightarrow> server_ready s" "live sid s \<Longrightarrow> server_ready s"
  using assms by (auto simp: linked_def)

lemma linked_effect:
  assumes "effect e s s'" and "good s"
  shows "linked s'"
  using assms(1)
proof (cases rule: effect.cases)
  case (noted f sid)
  then show ?thesis using goodD(1) [OF assms(2)] by (simp add: linked_def live_update_session)
next
  case (enter sid u f pending asked)
  then show ?thesis using goodD(1) [OF assms(2)] by (simp add: linked_def live_enter live_iff)
next
  case session_added
  then show ?thesis
    using goodD(1,6) [OF assms(2)] by (simp add: linked_def live_add)
next
  case (collected now)
  then show ?thesis using goodD(1,6) [OF assms(2)] by (simp add: linked_def live_collected)
qed (use goodD(1) [OF assms(2)] in
    \<open>auto simp: linked_def live_iff event_defs new_server_session_def server_ready_def split: if_splits\<close>)

lemma known_users_effect:
  assumes "effect e s s'" and "good s"
  shows "known_users s'"
  using assms(1)
proof (cases rule: effect.cases)
  case (user_added u sid)
  then show ?thesis using goodD(3) [OF assms(2)] by (simp add: known_users_def converse_maps_upd)
next
  case (user_removed u sid)
  then show ?thesis using goodD(3) [OF assms(2)] by (simp add: known_users_def converse_maps_del)
qed (use goodD(3) [OF assms(2)] in \<open>simp_all add: known_users_def event_defs\<close>)

lemma undecided_effect:
  assumes "effect e s s'" and "good s"
  shows "undecided s'"
  using assms(1)
proof (cases rule: effect.cases)
  case (noted f sid)
  then show ?thesis using goodD(5) [OF assms(2)] by (simp add: undecided_def state_of_update_session)
next
  case (enter sid u f pending asked)
  then show ?thesis
    using goodD(5) [OF assms(2)]
    by (simp add: undecided_def state_of_enter [where st = WAITING_CREATE_ROUTE])
next
  case session_added
  with goodD(5,6) [OF assms(2)] next_is_free [of s] show ?thesis
    by (simp add: undecided_def state_of_add)
next
  case (collected now)
  then show ?thesis using goodD(5,6) [OF assms(2)] by (simp add: undecided_def state_of_collected)
qed (use goodD(5) [OF assms(2)] in \<open>simp_all add: undecided_def event_defs\<close>)

section \<open>Logons and the list of sessions to remove\<close>

named_theorems shared_op_fields

lemma session_remove_fields [shared_op_fields]:
  "next_session_id (session_remove sid sh) = next_session_id sh"
  "sessions_to_remove (session_remove sid sh) = List.insert sid (sessions_to_remove sh)"
  by (simp_all add: session_remove_def session_remove_helper_def split: option.split)

lemma session_remove_logons [shared_op_fields]:
  "session_to_username (session_remove sid sh) = erase_key (session_to_username sh) sid"
  by (auto simp: session_remove_def session_remove_helper_def erase_key_def fun_upd_idem split: option.split)

lemma session_logout_fields [shared_op_fields]:
  "next_session_id (snd (session_logout sid sh)) = next_session_id sh"
  "sessions_to_remove (snd (session_logout sid sh)) = sessions_to_remove sh"
  "session_to_username (snd (session_logout sid sh)) = erase_key (session_to_username sh) sid"
  by (auto simp: session_logout_def erase_key_def fun_upd_idem split: option.split)

lemma create_request_id_fields [shared_op_fields]:
  "next_session_id (snd (create_request_id sh)) = next_session_id sh"
  "sessions_to_remove (snd (create_request_id sh)) = sessions_to_remove sh"
  "session_to_username (snd (create_request_id sh)) = session_to_username sh"
  "username_to_session (snd (create_request_id sh)) = username_to_session sh"
  by (simp_all add: create_request_id_def Let_def)

lemma session_cleanup_fields [shared_op_fields]:
  "next_session_id (snd (session_cleanup sh)) = next_session_id sh"
  "sessions_to_remove (snd (session_cleanup sh)) = []"
proof -
  have "next_session_id (fold session_remove_helper sids sh) = next_session_id sh" for sids sh
    by (induction sids arbitrary: sh) (auto simp: session_remove_helper_def split: option.split)
  then show "next_session_id (snd (session_cleanup sh)) = next_session_id sh"
    by (simp add: session_cleanup_def)
qed (simp add: session_cleanup_def)

lemma session_cleanup_logons [shared_op_fields]:
  "session_to_username (snd (session_cleanup sh)) =
     (\<lambda>sid. if sid \<in> set (sessions_to_remove sh) then None else session_to_username sh sid)"
proof -
  have "session_to_username (fold session_remove_helper sids sh) =
      (\<lambda>sid. if sid \<in> set sids then None else session_to_username sh sid)" for sids sh
    by (induction sids arbitrary: sh) (auto simp: session_remove_helper_def fun_eq_iff split: option.split)
  then show ?thesis by (simp add: session_cleanup_def)
qed

lemma logged_onD:
  assumes "logged_on s"
  shows "logons_agree (shared s)" "session_to_username (shared s) sid = Some u \<Longrightarrow> live sid s"
  using assms by (auto simp: logged_on_def)

lemma logons_agree_enter:
  assumes "logged_on s" and "state_of sid s = Some WAITING_LOGON" and "username_to_session (shared s) u = None"
  shows "logons_agree ((shared s)\<lparr>username_to_session := (username_to_session (shared s))(u \<mapsto> sid),
    session_to_username := (session_to_username (shared s))(sid \<mapsto> u)\<rparr>)"
proof -
  have "session_to_username (shared s) sid = None"
    using logged_onD(2) [OF assms(1), of sid] assms(2) by (cases "session_to_username (shared s) sid") (auto simp: live_iff)
  with assms(3) logged_onD(1) [OF assms(1)] show ?thesis
    by (simp add: logons_agree_def converse_maps_upd)
qed

lemma logged_on_effect:
  assumes "effect e s s'" and "good s"
  shows "logged_on s'"
  using assms(1)
proof (cases rule: effect.cases)
  case (noted f sid)
  then show ?thesis using goodD(4) [OF assms(2)] by (simp add: logged_on_def live_update_session)
next
  case (enter sid u f pending asked)
  then show ?thesis
    using goodD(4) [OF assms(2)] logons_agree_enter [OF goodD(4) [OF assms(2)]]
    by (auto simp: logged_on_def live_enter)
next
  case (accounts f)
  then show ?thesis
    using goodD(4) [OF assms(2)] by (simp add: logged_on_def logons_agree_cong [of "f (shared s)" "shared s"])
next
  case session_added
  with goodD(4,6) [OF assms(2)] show ?thesis
    by (simp add: logged_on_def live_add shared_manager logons_agree_def)
next
  case (collected now)
  with goodD(4,6) [OF assms(2)] show ?thesis
    by (auto simp: logged_on_def live_collected shared_manager shared_op_fields logons_agree_cleanup split: if_splits)
next
  case (logged_off sid)
  with goodD(4) [OF assms(2)] show ?thesis
    by (auto simp: logged_on_def logons_agree_logout shared_op_fields split: if_splits)
next
  case (retire sid st pending asked)
  with goodD(4) [OF assms(2)] show ?thesis
    by (auto simp: logged_on_def logons_agree_remove shared_op_fields live_iff split: if_splits)
qed (use goodD(4) [OF assms(2)] in
    \<open>auto simp: logged_on_def event_defs live_iff shared_op_fields\<close>)

lemma numbered_sessionsD:
  assumes "numbered_sessions s"
  shows "distinct (map fst (sessions s))"
    and "state_of sid s \<noteq> None \<Longrightarrow> sid \<le> next_session_id (shared s)"
    and "user_client_to_server s sid \<noteq> None \<Longrightarrow> sid \<le> next_session_id (shared s)"
    and "sid \<in> set (sessions_to_remove (shared s)) \<longleftrightarrow> state_of sid s = Some ZOMBIE"
  using assms by (auto simp: numbered_sessions_def)

lemma numbered_sessions_effect:
  assumes "effect e s s'" and "good s"
  shows "numbered_sessions s'"
  using assms(1)
proof (cases rule: effect.cases)
  case (noted f sid)
  then show ?thesis
    using goodD(6) [OF assms(2)] by (simp add: numbered_sessions_def state_of_update_session)
next
  case (enter sid u f pending asked)
  then show ?thesis
    using goodD(6) [OF assms(2)]
    by (auto simp: numbered_sessions_def state_of_enter [where st = WAITING_CREATE_ROUTE])
next
  case session_added
  note n = goodD(6) [OF assms(2)]
  let ?sid = "next_session_id (shared s) + 1"
  have inc: "sid \<le> ?sid" if "sid \<le> next_session_id (shared s)" for sid
    using that word_less_inc [OF session_added(2)] by (simp add: order.trans less_imp_le)
  show ?thesis
    unfolding numbered_sessions_def
  proof (intro conjI allI impI)
    show "distinct (map fst (sessions s'))"
      using n session_added by (simp add: sessions_add distinct_emplace_list numbered_sessionsD)
    show "sid \<le> next_session_id (shared s')" if "state_of sid s' \<noteq> None \<or> user_client_to_server s' sid \<noteq> None" for sid
      using that session_added inc [of sid] numbered_sessionsD(2,3) [OF n, of sid]
      by (auto simp: shared_manager state_of_add next_is_free [OF n] split: if_splits)
    show "sid \<in> set (sessions_to_remove (shared s')) \<longleftrightarrow> state_of sid s' = Some ZOMBIE" for sid
      using session_added next_is_free [OF n] numbered_sessionsD(4) [OF n, of sid]
      by (auto simp: shared_manager state_of_add)
  qed
next
  case (collected now)
  note n = goodD(6) [OF assms(2)]
  have "sessions (remove_zombies now s) = (if now < next_garbage_collection s then sessions s
      else fold AList.delete (sessions_to_remove (shared s)) (sessions s))"
    by (simp add: remove_zombies_def session_cleanup_def Let_def)
  with n collected show ?thesis
    by (auto simp: numbered_sessions_def state_of_collected shared_manager shared_op_fields distinct_fold_delete
        split: if_splits)
next
  case (retire sid st pending asked)
  with goodD(6) [OF assms(2)] show ?thesis
    by (auto simp: numbered_sessions_def shared_op_fields)
qed (use goodD(6) [OF assms(2)] in
    \<open>auto simp: numbered_sessions_def event_defs shared_op_fields split: if_splits\<close>)

section \<open>Routes\<close>

lemma routedD:
  assumes "routed s"
  shows "backed (r = ORD_STATUS_REQ_ID) (mappings s r)"
    and "server_to_client (mappings s r) rid = Some (sid, cid, ka) \<Longrightarrow> live sid s \<or> r = ORD_STATUS_REQ_ID \<and> cid = []"
  using assms unfolding routed_def by blast+

lemma routed_mono:
  assumes "routed s" and "mappings s' = mappings s" and "\<And>sid. live sid s \<Longrightarrow> live sid s'"
  shows "routed s'"
  using assms unfolding routed_def by fastforce

lemma routed_table:
  assumes "routed s" and "\<And>sid. live sid s' = live sid s" and "\<And>r'. r' \<noteq> r \<Longrightarrow> mappings s' r' = mappings s r'"
    and "backed (r = ORD_STATUS_REQ_ID) (mappings s' r)"
    and "\<And>rid sid cid ka. server_to_client (mappings s' r) rid = Some (sid, cid, ka) \<Longrightarrow>
      (\<exists>ka'. server_to_client (mappings s r) rid = Some (sid, cid, ka')) \<or> live sid s \<or> r = ORD_STATUS_REQ_ID \<and> cid = []"
  shows "routed s'"
  unfolding routed_def
proof (intro conjI allI impI)
  show "backed (r' = ORD_STATUS_REQ_ID) (mappings s' r')" for r'
    using routedD(1) [OF assms(1)] assms(3,4) by (cases "r' = r") auto
  show "live sid s' \<or> r' = ORD_STATUS_REQ_ID \<and> cid = []"
    if "server_to_client (mappings s' r') rid = Some (sid, cid, ka)" for r' rid sid cid ka
  proof (cases "r' = r")
    case True
    with that assms(5) [of rid sid cid ka] routedD(2) [OF assms(1), of r rid sid cid] assms(2) show ?thesis by blast
  next
    case False
    with that assms(3) routedD(2) [OF assms(1), of r' rid sid cid ka] assms(2) show ?thesis by simp
  qed
qed

lemma server_emplace_server:
  "server_to_client (emplace_server rid x m) = try_emplace (server_to_client m) rid x"
  by (simp add: emplace_server_def)

lemma backed_emplace_anonymous:
  "backed True m \<Longrightarrow> backed True (emplace_server rid (sid, [], ka) m)"
  by (auto simp: emplace_server_def try_emplace_apply find_client_server_update intro!: backedI dest: backedD
      split: if_splits)

lemma routed_effect:
  assumes "effect e s s'" and "good s"
  shows "routed s'"
  using assms(1)
proof (cases rule: effect.cases)
  note r = goodD(2) [OF assms(2)]
  {
    case (noted f sid)
    with r show ?thesis by (intro routed_mono [OF r]) (simp_all add: live_update_session)
  next
    case (enter sid u f pending asked)
    with r show ?thesis by (intro routed_mono [OF r]) (auto simp: live_enter)
  next
    case session_added
    with goodD(6) [OF assms(2)] show ?thesis by (intro routed_mono [OF r]) (auto simp: live_add)
  next
    case (collected now)
    with goodD(6) [OF assms(2)] show ?thesis by (intro routed_mono [OF r]) (auto simp: live_collected)
  next
    case (table q m)
    with r show ?thesis
      by (intro routed_table [OF r, where r = q]) (auto simp: no_new_routes_def routedD)
  next
    case (route sid cid q rid ka)
    then have "live sid s" by (simp add: live_iff)
    with route r show ?thesis
      by (intro routed_table [OF r, where r = q])
        (auto simp: add_route_def backed_add routedD server_add try_emplace_apply split: if_splits)
  next
    case (anonymous_route sid rid ka)
    then have "live sid s" by (simp add: live_iff)
    with anonymous_route backed_emplace_anonymous routedD(1) [OF r, of ORD_STATUS_REQ_ID] show ?thesis
      by (intro routed_table [OF r, where r = ORD_STATUS_REQ_ID])
        (auto simp: server_emplace_server try_emplace_apply split: if_splits)
  next
    case (retire sid st pending asked)
    with r show ?thesis
      by (fastforce simp: routed_def no_routes_def live_iff)
  }
qed (use goodD(2) [OF assms(2)] in
    \<open>auto intro!: routed_mono [OF goodD(2) [OF assms(2)]] simp: event_defs live_iff split: if_splits\<close>)

lemma effect_good:
  assumes "effect e s s'" and "good s"
  shows "good s'"
  using assms
  by (simp add: good_def linked_effect routed_effect known_users_effect logged_on_effect undecided_effect
      numbered_sessions_effect)

lemma effects_good: "effects e s s' \<Longrightarrow> good s \<Longrightarrow> good s'"
  unfolding effects_def by (induction rule: rtranclp_induct) (auto intro: effect_good)

end
