(* ===== verification/Handler_Effects.thy ===== *)
theory Handler_Effects
  imports Invariants
begin

text \<open>
  The handlers keep to the changes of theory \<open>Effects\<close>: from a state in which the invariants hold, what
  a handler leaves behind is reached by a sequence of those changes. Along the way this shows which
  handlers cannot throw: the teardown of a session never does, and neither does a business message,
  because a live session means that the upstream session is ready.
\<close>

section \<open>Sequences of changes\<close>

named_theorems effects_intro \<open>one more change at the end of a sequence\<close>

lemma lands_trans:
  assumes "lands (effects e s) m" and "\<And>t. effects e s t \<Longrightarrow> lands (effects e t) (f t)"
  shows "lands (effects e s) (and_then m f)"
  using assms by (cases m) (auto intro: lands_mono effects_trans)

lemma lands_from: "effects e s t \<Longrightarrow> lands (effects e t) m \<Longrightarrow> lands (effects e s) m"
  by (auto intro: lands_mono effects_trans)

lemma returns_lands: "returns P m \<Longrightarrow> lands P m"
  by (cases m) auto

lemma returns_mono: "returns P m \<Longrightarrow> (\<And>s. P s \<Longrightarrow> Q s) \<Longrightarrow> returns Q m"
  by (cases m) auto

lemma update_mapping_const: "update_mapping r f s = update_mapping r (\<lambda>_. f (mappings s r)) s"
  by (simp add: update_mapping_def)

lemma no_new_routes_refl [simp]: "no_new_routes m m"
  by (auto simp: no_new_routes_def)

lemma eff_request_id [effects_intro]: "effects e s t \<Longrightarrow> effects e s (take_request_id t)"
  by (rule effects_step [OF _ effect.request_id])

lemma eff_client_send:
  "effects e s t \<Longrightarrow> state_of sid t = Some st \<Longrightarrow> st \<noteq> ZOMBIE \<Longrightarrow>
     downstream_session m \<or> downstream_reply m \<and> st = READY \<Longrightarrow> effects e s (client_send e m sid t)"
  by (rule effects_step [OF _ effect.to_client])

lemma eff_deliver [effects_intro]: "effects e s t \<Longrightarrow> downstream_reply m \<Longrightarrow> effects e s (dispatch_to_client e m sid t)"
  by (auto simp: dispatch_to_client_sends session_ready_def state_of_def split: option.split intro!: eff_client_send)

lemma eff_table:
  "effects e s t \<Longrightarrow> no_new_routes (mappings t r) (f (mappings t r)) \<Longrightarrow>
     (\<And>anonymous. backed anonymous (mappings t r) \<Longrightarrow> backed anonymous (f (mappings t r))) \<Longrightarrow>
     effects e s (update_mapping r f t)"
  by (subst update_mapping_const) (rule effects_step [OF _ effect.table])

lemma eff_forget [effects_intro]: "effects e s t \<Longrightarrow> effects e s (forget_req_id r rid t)"
  unfolding forget_req_id_def
  by (rule eff_table) (auto simp: no_new_routes_def table_simps backed_remove split: if_splits)

lemma eff_open_table [effects_intro]: "effects e s t \<Longrightarrow> effects e s (open_table r sid t)"
  unfolding open_table_def by (rule eff_table) (auto simp: no_new_routes_def table_simps)

lemma eff_orders [effects_intro]:
  "effects e s t \<Longrightarrow> effects e s (ensure_cl_ord_id cl_ord_id status t)"
  "effects e s t \<Longrightarrow> effects e s (remove_cl_ord_id e cl_ord_id t)"
  by (auto simp: ensure_cl_ord_id_def remove_cl_ord_id_def intro: effects_step effect.orders)

lemma eff_reports [effects_intro]: "effects e s t \<Longrightarrow> effects e s (t\<lparr>total_num_pos_reports := n\<rparr>)"
  by (rule effects_step [OF _ effect.reports])

lemma eff_broadcast [effects_intro]: "effects e s t \<Longrightarrow> downstream_reply m \<Longrightarrow> effects e s (broadcast e m client_id t)"
  by (auto simp: broadcast_def intro: effects_intro split: option.split)

lemma eff_noted:
  "effects e s t \<Longrightarrow> (\<And>c. cs_state (f c) = cs_state c) \<Longrightarrow> (\<And>c. cs_outbound (f c) = cs_outbound c) \<Longrightarrow>
     effects e s (update_session sid f t)"
  by (rule effects_step [OF _ effect.noted])

lemma eff_hang_up [effects_intro]: "effects e s t \<Longrightarrow> effects e s (emit (Close_Client sid) t)"
  by (rule effects_step [OF _ effect.hang_up])

lemma eff_server_send:
  "effects e s t \<Longrightarrow> server_ready t \<Longrightarrow> upstream_request m \<Longrightarrow> effects e s (server_send_helper e m t)"
  by (erule effects_step) (auto simp: server_ready_def intro: effect.to_server)

lemma dispatch_to_server_ready:
  "server_ready s \<Longrightarrow> dispatch_to_server e m s = Ok (server_send_helper e m s)"
  by (simp add: dispatch_to_server_sends)

section \<open>Messages of the upstream session\<close>

lemma upstream_effects:
  "effects e s (on_business_message_reject e v1 s)"
  "effects e s (on_security_list e v2 s)"
  "effects e s (on_security_definition e v3 s)"
  "effects e s (on_security_status e v4 s)"
  "effects e s (on_market_data_request_reject e v5 s)"
  "effects e s (on_market_data_snapshot e v6 s)"
  "effects e s (on_market_data_incremental e v7 s)"
  "effects e s (on_order_cancel_reject e v8 s)"
  "effects e s (on_order_mass_cancel_report e v9 s)"
  "effects e s (on_request_for_positions_ack e v10 s)"
  "effects e s (on_trade_capture_report_request_ack e v11 s)"
  "effects e s (on_trade_capture_report e v12 s)"
  by (auto simp: on_business_message_reject_def on_security_list_def on_security_definition_def
      on_security_status_def on_market_data_request_reject_def on_market_data_snapshot_def
      on_market_data_incremental_def on_order_cancel_reject_def on_order_mass_cancel_report_def
      on_request_for_positions_ack_def on_trade_capture_report_request_ack_def on_trade_capture_report_def
      Let_def intro!: effects_intro split: option.split)

lemma position_report_effects: "effects e s (on_position_report e v s)"
  by (auto simp: on_position_report_def Let_def intro!: effects_intro split: option.split)

lemma effects_if: "effects e s t \<Longrightarrow> effects e s u \<Longrightarrow> effects e s (if b then t else u)"
  by simp

lemma order_status_report_effects: "effects e s (on_order_status_report e i v s)"
  by (auto simp: on_order_status_report_def Let_def intro!: effects_intro split: option.split)

lemma mass_status_report_effects: "effects e s (on_mass_status_report e i v s)"
  by (auto simp: on_mass_status_report_def Let_def intro!: effects_intro split: option.split)

lemma order_action_report_effects: "effects e s (on_order_action_report e c i orig v s)"
  unfolding on_order_action_report_def Let_def
  by (intro effects_if effects_intro effects_refl) (auto intro!: effects_intro split: option.split)

lemma execution_report_effects: "effects e s (on_execution_report e v s)"
  by (simp add: on_execution_report_def Let_def order_status_report_effects mass_status_report_effects
      order_action_report_effects)

section \<open>The end of a session\<close>

lemma in_order_append: "in_order (fs @ gs) s = and_then (in_order fs s) (in_order gs)"
proof (induction fs arbitrary: s)
  case (Cons f fs)
  then have "in_order (fs @ gs) = (\<lambda>s. and_then (in_order fs s) (in_order gs))" by (rule ext)
  then show ?case by (simp add: and_then_assoc)
qed simp

text \<open>The table has no request of the session left.\<close>

definition cleared :: "mapping_ref \<Rightarrow> u64 \<Rightarrow> sys \<Rightarrow> bool" where
  "cleared r sid s \<longleftrightarrow> (\<forall>rid cid ka. server_to_client (mappings s r) rid = Some (sid, cid, ka) \<longrightarrow>
     r = ORD_STATUS_REQ_ID \<and> cid = [])"

text \<open>What the clearing of one table, or of several, leaves as it is.\<close>

definition tables_only :: "mapping_ref set \<Rightarrow> sys \<Rightarrow> sys \<Rightarrow> bool" where
  "tables_only rs s t \<longleftrightarrow>
     (\<forall>r. r \<notin> rs \<longrightarrow> mappings t r = mappings s r) \<and> sessions t = sessions s \<and> shared t = shared s \<and>
     client_to_session t = client_to_session s \<and> session_to_client t = session_to_client s \<and>
     user_server_to_client t = user_server_to_client s \<and> user_client_to_server t = user_client_to_server s \<and>
     controller_ready t = controller_ready s \<and> server_ready t = server_ready s"

lemma tables_only_trans: "tables_only rs s t \<Longrightarrow> tables_only qs t u \<Longrightarrow> tables_only (rs \<union> qs) s u"
  by (auto simp: tables_only_def)

lemma tables_only_refl [simp]: "tables_only rs s s"
  by (simp add: tables_only_def)

lemma clear_routes_gone:
  assumes "backed (r = ORD_STATUS_REQ_ID) m"
    and "server_to_client m rid = Some (sid, cid, ka)" and "rid \<notin> snd ` set (inner_table sid m)"
  shows "r = ORD_STATUS_REQ_ID \<and> cid = []"
  using backedD [OF assms(1,2)] assms(3) by (auto simp: find_client_req_id_def dest: map_of_ran_snd)

lemma clear_table_clears:
  assumes "good s"
  shows "returns (\<lambda>t. effects e s t \<and> cleared r sid t \<and> tables_only {r} s t) (clear_table r sid s)"
proof -
  let ?t = "update_mapping r (clear_req_ids sid) s"
  have "effects e s ?t"
    by (rule eff_table) (auto simp: no_new_routes_def table_simps backed_clear split: if_splits)
  moreover have "cleared r sid ?t"
    using clear_routes_gone [OF routedD(1) [OF goodD(2) [OF assms]], of r]
    by (auto simp: cleared_def table_simps split: if_splits)
  ultimately show ?thesis by (simp add: clear_table_def tables_only_def)
qed

lemma unsubscribe_returns:
  assumes "linked s"
  shows "returns (\<lambda>t. effects e s t \<and> tables_only {} s t) (unsubscribe_market_data e rid s)"
  using linkedD(1) [OF assms]
  by (auto simp: unsubscribe_market_data_def dispatch_to_server_ready tables_only_def intro: eff_server_send)

lemma erase_server_effect: "effects e s (update_mapping r (erase_server rid) s)"
  by (rule eff_table) (auto simp: no_new_routes_def table_simps backed_erase_server split: if_splits)

lemma clear_walk_returns:
  assumes "good s"
  shows "returns (\<lambda>t. effects e s t \<and> tables_only {r} s t \<and>
      mappings t r = fold erase_server rids (mappings s r))
    (clear_walk (unsubscribe_market_data e) r rids s)"
  using assms
proof (induction rids arbitrary: s)
  case Nil
  then show ?case by simp
next
  case (Cons rid rids)
  from unsubscribe_returns [OF goodD(1) [OF Cons.prems], of e rid] obtain t where
    t: "unsubscribe_market_data e rid s = Ok t" "effects e s t" "tables_only {} s t"
    by (cases "unsubscribe_market_data e rid s") auto
  let ?u = "update_mapping r (erase_server rid) t"
  have su: "effects e s ?u" using t(2) erase_server_effect by (rule effects_trans)
  have ou: "tables_only {r} s ?u" using t(3) by (auto simp: tables_only_def)
  have mu: "mappings t r = mappings s r" using t(3) by (simp add: tables_only_def)
  show ?case
    using Cons.IH [OF effects_good [OF su Cons.prems]]
    by (auto simp: t(1) mu intro!: effects_trans [OF su] dest: tables_only_trans [OF ou] elim!: returns_mono)
qed

lemma backed_erase_client:
  assumes "backed a m" and "\<And>rid cid ka. server_to_client m rid \<noteq> Some (sid, cid, ka)"
  shows "backed a (erase_client sid m)"
proof (rule backedI)
  fix rid sid' cid ka
  assume "server_to_client (erase_client sid m) rid = Some (sid', cid, ka)"
  then have r: "server_to_client m rid = Some (sid', cid, ka)" by (simp add: table_simps)
  with assms(2) have "sid' \<noteq> sid" by blast
  with backedD [OF assms(1) r] show "find_client_req_id sid' cid (erase_client sid m) = Some rid \<or> a \<and> cid = []"
    by (simp add: table_simps)
qed

lemma clear_market_data_clears:
  assumes "good s"
  shows "returns (\<lambda>t. effects e s t \<and> cleared MD_REQ_ID sid t \<and> tables_only {MD_REQ_ID} s t)
    (clear_req_ids_with (unsubscribe_market_data e) MD_REQ_ID sid s)"
proof (cases "client_to_server (mappings s MD_REQ_ID) sid")
  case None
  have "server_to_client (mappings s MD_REQ_ID) rid \<noteq> Some (sid, cid, ka)" for rid cid ka
    using clear_routes_gone [OF routedD(1) [OF goodD(2) [OF assms]], of MD_REQ_ID rid sid cid ka] None
    by (auto simp: inner_table_def)
  then have "cleared MD_REQ_ID sid s" by (simp add: cleared_def)
  with None show ?thesis by (simp add: clear_req_ids_with_def)
next
  case (Some al)
  have "returns (\<lambda>t. effects e s t \<and> tables_only {MD_REQ_ID} s t \<and>
      mappings t MD_REQ_ID = fold erase_server (map snd al) (mappings s MD_REQ_ID))
    (clear_walk (unsubscribe_market_data e) MD_REQ_ID (map snd al) s)"
    using assms by (rule clear_walk_returns)
  then obtain t where walk: "clear_walk (unsubscribe_market_data e) MD_REQ_ID (map snd al) s = Ok t"
    and t: "effects e s t" "tables_only {MD_REQ_ID} s t"
    and m: "mappings t MD_REQ_ID = fold erase_server (map snd al) (mappings s MD_REQ_ID)"
    by (cases "clear_walk (unsubscribe_market_data e) MD_REQ_ID (map snd al) s") auto
  let ?u = "update_mapping MD_REQ_ID (erase_client sid) t"
  have gone: "server_to_client (mappings t MD_REQ_ID) rid \<noteq> Some (sid, cid, ka)" for rid cid ka
    using clear_routes_gone [OF routedD(1) [OF goodD(2) [OF assms]], of MD_REQ_ID rid sid cid ka] Some
    by (auto simp: m table_simps inner_table_def)
  have "backed a (erase_client sid (mappings t MD_REQ_ID))" if "backed a (mappings t MD_REQ_ID)" for a
    using that gone by (rule backed_erase_client)
  then have "effects e t ?u"
    by (intro eff_table) (auto simp: no_new_routes_def table_simps)
  with t gone Some walk show ?thesis
    by (auto simp: clear_req_ids_with_def cleared_def table_simps tables_only_def intro: effects_trans)
qed

lemma in_order_clears:
  assumes "list_all2 (\<lambda>r f. \<forall>s. good s \<longrightarrow>
      returns (\<lambda>t. effects e s t \<and> cleared r sid t \<and> tables_only {r} s t) (f s)) rs fs"
    and "distinct rs" and "good s"
  shows "returns (\<lambda>t. effects e s t \<and> (\<forall>r \<in> set rs. cleared r sid t) \<and> tables_only (set rs) s t) (in_order fs s)"
  using assms
proof (induction rs fs arbitrary: s rule: list_all2_induct)
  case Nil
  then show ?case by simp
next
  case (Cons r rs f fs)
  then obtain t where t: "f s = Ok t" "effects e s t" "cleared r sid t" "tables_only {r} s t"
    by (cases "f s") auto
  have keep: "cleared r sid u" if "tables_only (set rs) t u" for u
    using that t(3) Cons.prems(1) by (auto simp: cleared_def tables_only_def)
  from Cons.IH [OF _ effects_good [OF t(2) Cons.prems(2)]] Cons.prems(1) show ?case
    by (auto simp: t(1) intro: effects_trans [OF t(2)] keep dest: tables_only_trans [OF t(4)] elim!: returns_mono)
qed

lemma try_emplace_upd: "try_emplace f k v = f(k := (case f k of None \<Rightarrow> Some v | Some x \<Rightarrow> Some x))"
  by (auto simp: try_emplace_def split: option.split)

text \<open>The last part of the teardown: its user, and a request to the bridge that the end of the session settles.\<close>

lemma release_user_returns:
  assumes "good s"
  shows "\<exists>t pending asked. effects e s t \<and> tables_only {} (s\<lparr>client_to_session := client_to_session t,
      session_to_client := session_to_client t, shared := shared t\<rparr>) t \<and>
    release_user e sid s = Ok (t\<lparr>user_client_to_server := (user_client_to_server t)(sid := pending),
      user_server_to_client := asked\<rparr>)"
proof (cases "session_to_client s sid")
  case None
  then show ?thesis
    by (intro exI [of _ s] exI [of _ "user_client_to_server s sid"] exI [of _ "user_server_to_client s"])
      (simp add: release_user_def)
next
  case (Some u)
  then have u: "client_to_session s u = Some sid"
    using goodD(3) [OF assms] by (simp add: known_users_def converse_mapsD)
  let ?gone = "\<lambda>s. s\<lparr>client_to_session := erase_key (client_to_session s) u,
    session_to_client := erase_key (session_to_client s) sid\<rparr>"
  show ?thesis
  proof (cases "controller_ready s")
    case False
    have "effects e s (?gone s)" using u Some by (intro effect_effects effect.user_removed)
    with Some False show ?thesis
      by (intro exI [of _ "?gone s"] exI [of _ "user_client_to_server s sid"] exI [of _ "user_server_to_client s"])
        (simp add: release_user_def tables_only_def)
  next
    case True
    with linkedD(1) [OF goodD(1) [OF assms]] have up: "server_ready s" by simp
    let ?id = "fresh_request_id s"
    let ?m = "User_Request \<lparr>urq_user_request_id = ?id, urq_user_request_type = LOG_OFF_USER,
      urq_username = u, urq_password = [], urq_new_password = []\<rparr>"
    let ?t = "server_send_helper e ?m (take_request_id s)"
    have "effects e s ?t" using up by (intro eff_server_send eff_request_id) auto
    moreover have "effects e ?t (?gone ?t)" using u Some by (intro effect_effects effect.user_removed) auto
    ultimately have "effects e s (?gone ?t)" by (rule effects_trans)
    with Some True up show ?thesis
      by (intro exI [of _ "?gone ?t"] exI [of _ "case user_client_to_server s sid of None \<Rightarrow> Some ?id | Some x \<Rightarrow> Some x"]
          exI [of _ "try_emplace (user_server_to_client s) ?id sid"])
        (simp add: release_user_def Let_def dispatch_to_server_ready tables_only_def try_emplace_upd)
  qed
qed

lemma all_mapping_refs: "r \<in> set [SECURITY_REQ_ID, SECURITY_STATUS_REQ_ID, TRAD_SES_REQ_ID, MD_REQ_ID,
    ORD_STATUS_REQ_ID, MASS_STATUS_REQ_ID, POS_REQ_ID, TRADE_REQUEST_ID, CL_ORD_ID, MASS_CANCEL_CL_ORD_ID]"
  by (cases r) simp_all

lemma on_client_disconnected_returns:
  assumes "good s"
  shows "\<exists>t pending asked. effects e s t \<and> no_routes sid t \<and> sessions t = sessions s \<and>
    controller_ready t = controller_ready s \<and>
    on_client_disconnected e sid s = Ok (t\<lparr>user_client_to_server := (user_client_to_server t)(sid := pending),
      user_server_to_client := asked\<rparr>)"
proof -
  let ?refs = "[SECURITY_REQ_ID, SECURITY_STATUS_REQ_ID, TRAD_SES_REQ_ID, MD_REQ_ID, ORD_STATUS_REQ_ID,
    MASS_STATUS_REQ_ID, POS_REQ_ID, TRADE_REQUEST_ID, CL_ORD_ID, MASS_CANCEL_CL_ORD_ID]"
  let ?fs = "[clear_table SECURITY_REQ_ID sid, clear_table SECURITY_STATUS_REQ_ID sid, clear_table TRAD_SES_REQ_ID sid,
    clear_req_ids_with (unsubscribe_market_data e) MD_REQ_ID sid, clear_table ORD_STATUS_REQ_ID sid,
    clear_table MASS_STATUS_REQ_ID sid, clear_table POS_REQ_ID sid, clear_table TRADE_REQUEST_ID sid,
    clear_table CL_ORD_ID sid, clear_table MASS_CANCEL_CL_ORD_ID sid]"
  have "returns (\<lambda>t. effects e s t \<and> (\<forall>r \<in> set ?refs. cleared r sid t) \<and> tables_only (set ?refs) s t) (in_order ?fs s)"
    using assms by (intro in_order_clears) (simp_all add: clear_table_clears clear_market_data_clears)
  then obtain t where t: "in_order ?fs s = Ok t" "effects e s t" "\<forall>r \<in> set ?refs. cleared r sid t"
    "tables_only (set ?refs) s t"
    by (cases "in_order ?fs s") auto
  from t(3) have c: "cleared r sid t" for r using all_mapping_refs [of r] by blast
  from release_user_returns [OF effects_good [OF t(2) assms], of e sid] obtain u pending asked where
    u: "effects e t u" "tables_only {} (t\<lparr>client_to_session := client_to_session u,
      session_to_client := session_to_client u, shared := shared u\<rparr>) u"
      "release_user e sid t = Ok (u\<lparr>user_client_to_server := (user_client_to_server u)(sid := pending),
        user_server_to_client := asked\<rparr>)" by blast
  have split: "on_client_disconnected e sid s = and_then (in_order ?fs s) (in_order [release_user e sid])"
    unfolding on_client_disconnected_def by (subst in_order_append [symmetric]) simp
  have "on_client_disconnected e sid s = Ok (u\<lparr>user_client_to_server := (user_client_to_server u)(sid := pending),
      user_server_to_client := asked\<rparr>)"
    unfolding split t(1) using u(3) by simp
  moreover have "no_routes sid u"
    using c u(2) by (simp add: no_routes_def cleared_def tables_only_def)
  moreover have "sessions u = sessions s" "controller_ready u = controller_ready s"
    using t(4) u(2) by (simp_all add: tables_only_def)
  moreover have "effects e s u" using t(2) u(1) by (rule effects_trans)
  ultimately show ?thesis by blast
qed

lemma no_routes_of_dead: "good s \<Longrightarrow> \<not> live sid s \<Longrightarrow> no_routes sid s"
  using routedD(2) [OF goodD(2)] unfolding no_routes_def by blast

lemma bury_effect:
  assumes "effects e s t" and "state_of sid t = Some st" and "st \<noteq> ZOMBIE" and "no_routes sid t"
  shows "effects e s (bury sid (t\<lparr>user_client_to_server := (user_client_to_server t)(sid := pending),
    user_server_to_client := asked\<rparr>))"
  using assms by (auto intro: effects_step effect.retire)

text \<open>A session can always be ended; then it is a zombie, and no other session is touched.\<close>

definition ended :: "u64 \<Rightarrow> sys \<Rightarrow> sys \<Rightarrow> bool" where
  "ended sid s t \<longleftrightarrow> (\<forall>sid'. state_of sid' t = (if sid' = sid then Some ZOMBIE else state_of sid' s)) \<and>
     controller_ready t = controller_ready s"

lemma endedD: "ended sid s t \<Longrightarrow> state_of sid' t = (if sid' = sid then Some ZOMBIE else state_of sid' s)"
  by (simp add: ended_def)

lemma make_zombie_returns:
  assumes "good s" and "state_of sid s \<noteq> None"
  shows "returns (\<lambda>t. effects e s t \<and> ended sid s t) (make_zombie e sid s)"
proof -
  from assms(2) obtain c where c: "session_of sid s = Some c" by (auto simp: state_of_def)
  have bury: "effects e s (bury sid s)" if "state_of sid s = Some WAITING_LOGON"
    using bury_effect [of e s s sid WAITING_LOGON, where pending = "user_client_to_server s sid"
        and asked = "user_server_to_client s"] that no_routes_of_dead [OF assms(1), of sid] by (simp add: live_iff)
  from on_client_disconnected_returns [OF assms(1), of e sid] obtain t pending asked where
    t: "effects e s t" "no_routes sid t" "sessions t = sessions s" "controller_ready t = controller_ready s"
      "on_client_disconnected e sid s = Ok (t\<lparr>user_client_to_server := (user_client_to_server t)(sid := pending),
        user_server_to_client := asked\<rparr>)" by blast
  have st: "state_of sid s = Some (cs_state c)" "state_of sid t = Some (cs_state c)"
    using c t(3) by (simp_all add: state_of_def session_of_def)
  show ?thesis
    using bury bury_effect [OF t(1) st(2) _ t(2)] c st t(4,5)
    by (cases "cs_state c") (simp_all add: make_zombie_def ended_def state_of_sessions [OF t(3)])
qed

lemma close_returns:
  assumes "good s" and "state_of sid s \<noteq> None"
  shows "returns (\<lambda>t. effects e s t \<and> ended sid s t) (close e sid s)"
proof -
  from assms(2) obtain c where c: "session_of sid s = Some c" by (auto simp: state_of_def)
  let ?s = "emit (Close_Client sid) s"
  have s: "effects e s ?s" by (intro eff_hang_up effects_refl)
  have "returns (\<lambda>t. effects e ?s t \<and> ended sid ?s t) (make_zombie e sid ?s)"
    using assms by (intro make_zombie_returns effects_good [OF s]) simp_all
  with c show ?thesis
    by (auto simp: close_def ended_def state_of_def [of sid s] elim!: returns_mono intro: effects_trans [OF s])
qed

lemma send_and_close_returns:
  assumes "good s" and "state_of sid s = Some st" and "st \<noteq> ZOMBIE" and "downstream_session m"
  shows "returns (\<lambda>t. effects e s t \<and> ended sid s t) (send_and_close e m sid s)"
proof -
  have s: "effects e s (client_send e m sid s)" using assms by (intro eff_client_send) auto
  have "returns (\<lambda>t. effects e (client_send e m sid s) t \<and> ended sid (client_send e m sid s) t)
    (close e sid (client_send e m sid s))"
    using assms by (intro close_returns effects_good [OF s]) simp_all
  then show ?thesis
    by (auto simp: send_and_close_def ended_def elim!: returns_mono intro: effects_trans [OF s])
qed

lemma send_reject_and_close_returns:
  assumes "good s" and "state_of sid s = Some st" and "st \<noteq> ZOMBIE"
  shows "returns (\<lambda>t. effects e s t \<and> ended sid s t) (send_reject_and_close e h reason text sid s)"
  unfolding send_reject_and_close_def using assms by (intro send_and_close_returns) simp_all

lemma force_disconnect_returns:
  assumes "good s" and "state_of sid s \<noteq> None"
  shows "returns (\<lambda>t. effects e s t \<and> ended sid s t) (force_disconnect e sid s)"
proof -
  from assms(2) obtain c where c: "session_of sid s = Some c" "state_of sid s = Some (cs_state c)"
    by (auto simp: state_of_def)
  with close_returns [OF assms] show ?thesis
    by (cases "cs_state c") (simp_all add: force_disconnect_def ended_def)
qed

section \<open>The loss of the upstream connection\<close>

lemma disconnect_all:
  assumes "good s" and "\<And>sid. sid \<in> set sids \<Longrightarrow> state_of sid s \<noteq> None"
  shows "returns (\<lambda>t. effects e s t \<and> controller_ready t = controller_ready s \<and>
      (\<forall>sid. state_of sid t = (if sid \<in> set sids then Some ZOMBIE else state_of sid s)))
    (in_order (map (force_disconnect e) sids) s)"
  using assms
proof (induction sids arbitrary: s)
  case Nil
  then show ?case by simp
next
  case (Cons sid sids)
  from force_disconnect_returns [OF Cons.prems(1), of sid e] Cons.prems(2) [of sid]
  obtain t where t: "force_disconnect e sid s = Ok t" "effects e s t" "ended sid s t"
    by (cases "force_disconnect e sid s") auto
  have "returns (\<lambda>u. effects e t u \<and> controller_ready u = controller_ready t \<and>
      (\<forall>sid. state_of sid u = (if sid \<in> set sids then Some ZOMBIE else state_of sid t)))
    (in_order (map (force_disconnect e) sids) t)"
    using Cons.prems endedD [OF t(3)]
    by (intro Cons.IH effects_good [OF t(2)]) auto
  then show ?case
    using t(3) by (auto simp: t(1) ended_def elim!: returns_mono intro: effects_trans [OF t(2)])
qed

lemma state_of_None: "state_of sid s = None \<longleftrightarrow> sid \<notin> set (map fst (sessions s))"
  by (simp add: state_of_def session_of_def map_of_eq_None_iff)

lemma server_disconnected_returns:
  assumes "good s"
  shows "returns (\<lambda>t. effects e s t \<and> \<not> controller_ready t \<and> server t = new_server_session \<and>
      (\<forall>sid. state_of sid t = (if state_of sid s = None then None else Some ZOMBIE)))
    (server_disconnected e s)"
proof -
  let ?s = "s\<lparr>controller_ready := False\<rparr>"
  have s: "effects e s ?s" by (rule effect_effects [OF effect.lost])
  have "returns (\<lambda>t. effects e ?s t \<and> controller_ready t = controller_ready ?s \<and>
      (\<forall>sid. state_of sid t = (if sid \<in> set (map fst (sessions s)) then Some ZOMBIE else state_of sid ?s)))
    (in_order (map (force_disconnect e) (map fst (sessions s))) ?s)"
    using assms by (intro disconnect_all effects_good [OF s]) (auto simp: state_of_None)
  then obtain t where t: "on_server_disconnected e s = Ok t" "effects e ?s t" "\<not> controller_ready t"
    "state_of sid t = (if state_of sid s = None then None else Some ZOMBIE)" for sid
    by (cases "on_server_disconnected e s") (auto simp: on_server_disconnected_def state_of_None)
  have "effects e t (t\<lparr>server := new_server_session\<rparr>)"
    using t(3,4) by (intro effect_effects effect.down) (auto simp: live_iff)
  then have "effects e s (t\<lparr>server := new_server_session\<rparr>)"
    using s t(2) by (blast intro: effects_trans)
  with t show ?thesis
    by (cases "server t") (simp add: server_disconnected_def set_server_state_def new_server_session_def)
qed

section \<open>Replies about users\<close>

lemma user_add_lands: "lands (effects e s) (user_add u sid s)"
  by (auto simp: user_add_def intro: effect_effects effect.user_added)

lemma user_remove_lands:
  assumes "good s"
  shows "lands (effects e s) (user_remove u rdy s)"
proof (cases "client_to_session s u")
  case None
  then show ?thesis by (simp add: user_remove_def)
next
  case (Some sid)
  then have "session_to_client s sid = Some u"
    using goodD(3) [OF assms] by (simp add: known_users_def converse_mapsD)
  with Some have "effects e s (s\<lparr>client_to_session := erase_key (client_to_session s) u,
      session_to_client := erase_key (session_to_client s) sid\<rparr>)"
    by (intro effect_effects effect.user_removed)
  moreover have "s\<lparr>client_to_session := erase_key (client_to_session s) u,
      session_to_client := erase_key (session_to_client s) sid\<rparr> =
    s\<lparr>session_to_client := erase_key (session_to_client s) sid,
      client_to_session := erase_key (client_to_session s) u\<rparr>" by simp
  ultimately show ?thesis using Some by (simp add: user_remove_def)
qed

lemma session_user_response_returns:
  assumes "good s" and "user_client_to_server s sid = None"
  shows "returns (effects e s) (session_user_response e v sid s)"
proof (cases "session_of sid s")
  case None
  then show ?thesis by (simp add: session_user_response_def)
next
  case (Some c)
  let ?s = "update_session sid (\<lambda>c. c\<lparr>cs_user_response_timeout := 0\<rparr>) s"
  have s: "effects e s ?s" by (intro eff_noted effects_refl) simp_all
  note g = effects_good [OF s assms(1)]
  have st: "state_of sid ?s = Some (cs_state c)" using Some by (simp add: state_of_def)
  have zombie: "returns (effects e s) (make_zombie e sid ?s)"
    using make_zombie_returns [OF g, of sid e] st by (auto elim!: returns_mono intro: effects_trans [OF s])
  show ?thesis
  proof (cases "cs_state c")
    case WAITING_CREATE_ROUTE
    have "effects e s (set_state sid READY (client_send e (Logon l) sid ?s))" for l
    proof (rule effects_step [OF eff_client_send [OF s, where st = WAITING_CREATE_ROUTE]])
      let ?t = "client_send e (Logon l) sid ?s"
      have "\<exists>h l. To_Client sid h (Logon l) \<in> set (out ?t)"
        using Some by (auto simp: client_send_def Let_def)
      then show "effect e ?t (set_state sid READY ?t)"
        using st WAITING_CREATE_ROUTE assms(2) by (intro effect.accept) simp_all
    qed (use st WAITING_CREATE_ROUTE in simp_all)
    with zombie Some WAITING_CREATE_ROUTE show ?thesis
      by (simp add: session_user_response_def Let_def split: user_status.split)
  next
    case WAITING_REMOVE_ROUTE
    let ?t = "?s\<lparr>shared := snd (session_logout sid (shared s))\<rparr>"
    have "effects e s (update_shared (\<lambda>sh. snd (session_logout sid sh)) ?s)"
      using st WAITING_REMOVE_ROUTE by (intro effects_step [OF s] effect.logged_off) auto
    then have t: "effects e s ?t" by (simp add: update_shared_def)
    note gt = effects_good [OF t assms(1)]
    have "returns (effects e s) (send_and_close e (Logout l) sid ?t)" for l
      using send_and_close_returns [OF gt, of sid WAITING_REMOVE_ROUTE "Logout l" e] st WAITING_REMOVE_ROUTE
      by (auto elim!: returns_mono intro: effects_trans [OF t])
    moreover have "returns (effects e s) (make_zombie e sid ?t)"
      using make_zombie_returns [OF gt, of sid e] st by (auto elim!: returns_mono intro: effects_trans [OF t])
    ultimately show ?thesis
      using zombie Some WAITING_REMOVE_ROUTE
      by (cases "session_logout sid (shared s)")
        (auto simp: session_user_response_def Let_def split: user_status.split option.split)
  qed (use Some s in \<open>simp_all add: session_user_response_def Let_def\<close>)
qed

lemma on_user_response_lands:
  assumes "good s"
  shows "lands (effects e s) (on_user_response e v s)"
proof (cases "user_server_to_client s (urs_user_request_id v)")
  case None
  then show ?thesis by (simp add: on_user_response_def)
next
  case (Some sid)
  show ?thesis
  proof (cases "session_of sid s")
    case None
    with Some show ?thesis by (simp add: on_user_response_def user_remove_lands assms)
  next
    case c: (Some c)
    have settle: "lands (effects e t) (session_user_response e v sid
        (t\<lparr>user_client_to_server := erase_key (user_client_to_server t) sid,
          user_server_to_client := erase_key (user_server_to_client t) id\<rparr>))" if "effects e s t" for t id
    proof -
      let ?t = "t\<lparr>user_client_to_server := erase_key (user_client_to_server t) sid,
          user_server_to_client := erase_key (user_server_to_client t) id\<rparr>"
      have "effects e t ?t" by (rule effect_effects [OF effect.settled])
      moreover from that this have "returns (effects e ?t) (session_user_response e v sid ?t)"
        by (intro session_user_response_returns effects_good [OF _ assms]) (auto intro: effects_trans)
      ultimately show ?thesis by (auto intro: lands_from returns_lands)
    qed
    have "lands (effects e s) (case urs_user_status v of LOGGED_IN \<Rightarrow> user_add (urs_username v) sid s
        | NOT_LOGGED_IN \<Rightarrow> user_remove (urs_username v) (session_ready c) s | _ \<Rightarrow> Ok s)"
      by (auto simp: user_add_lands user_remove_lands assms split: user_status.split)
    then show ?thesis
      unfolding on_user_response_def using Some c by (simp add: lands_trans settle)
  qed
qed

end
