(* ===== verification/Client_Effects.thy ===== *)
theory Client_Effects
  imports Handler_Effects
begin

text \<open>
  The handlers of a client session and of its requests keep to the changes of theory \<open>Effects\<close>, and
  so does every event of the proxy. Only the requests about users can throw: the logon, whose
  exception the session catches, and nothing else, because a ready session means a ready upstream.
\<close>

section \<open>Requests of a ready session\<close>

lemma eff_add_route:
  "effects e s t \<Longrightarrow> state_of sid t = Some READY \<Longrightarrow> find_client_req_id sid cid (mappings t r) = None \<Longrightarrow>
     just_asked r rid t \<Longrightarrow> effects e s (add_route r cid rid sid ka t)"
  by (rule effects_step [OF _ effect.route])

lemma eff_anonymous_route:
  "effects e s t \<Longrightarrow> state_of sid t = Some READY \<Longrightarrow> just_asked ORD_STATUS_REQ_ID rid t \<Longrightarrow>
     effects e s (update_mapping ORD_STATUS_REQ_ID (emplace_server rid (sid, [], ka)) t)"
  by (rule effects_step [OF _ effect.anonymous_route])

lemma server_ready_of_live: "good s \<Longrightarrow> state_of sid s = Some READY \<Longrightarrow> server_ready s"
  using linkedD(2) [OF goodD(1), of s sid] by (simp add: live_iff)

lemma open_table_simps [simp]:
  "state_of sid' (open_table r sid s) = state_of sid' s"
  "server_ready (open_table r sid s) = server_ready s"
  "req_id_in_use r' sid' cid (open_table r sid s) = req_id_in_use r' sid' cid s"
  "find_client_req_id sid' cid (mappings (open_table r sid s) r') = find_client_req_id sid' cid (mappings s r')"
  by (auto simp: open_table_def req_id_in_use_def table_simps)

lemma subscription_switch_lands:
  assumes "lands P (reject_type s)" "lands P (reject_duplicate s)" "lands P (reject_unknown s)"
    and "\<And>keep_alive. lands P (send keep_alive s)"
  shows "lands P (subscription_switch t already reject_type reject_duplicate reject_unknown send s)"
  using assms by (auto simp: subscription_switch_def split: subscription_request_type.split)

lemma dispatch_subscription_lands:
  assumes "server_ready s" and "state_of sid s = Some READY"
    and "already \<longleftrightarrow> req_id_in_use r sid req_id s" and "\<And>i. upstream_request (mk i)" and "\<And>i. asks r i (mk i)"
  shows "lands (effects e s) (dispatch_subscription e r sid req_id already mk keep_alive s)"
  using assms
  by (auto simp: dispatch_subscription_def Let_def dispatch_to_server_ready req_id_in_use_def
      intro!: eff_add_route eff_forget eff_server_send eff_request_id)

lemma open_then_lands:
  "(\<And>t. effects e s t \<Longrightarrow> t = open_table r sid s \<Longrightarrow> lands (effects e t) m) \<Longrightarrow> lands (effects e s) m"
  by (metis effects_refl eff_open_table lands_from)

lemma reject_lands:
  "lands (effects e s) (reject_security_list e v1 sid s)"
  "lands (effects e s) (reject_security_definition e v2 sid s)"
  "lands (effects e s) (reject_security_status e v3 sid s)"
  "lands (effects e s) (reject_market_data e v4 sid r4 text s)"
  "lands (effects e s) (reject_order_status e v5 sid r5 text s)"
  "lands (effects e s) (reject_new_order e v6 sid r6 text s)"
  "lands (effects e s) (reject_replace e v7 sid st7 r7 text s)"
  "lands (effects e s) (reject_cancel e v8 sid st8 r8 text s)"
  "lands (effects e s) (reject_mass_status e v9 sid r9 text s)"
  "lands (effects e s) (reject_mass_cancel e v10 sid r10 text s)"
  "lands (effects e s) (reject_positions e v11 sid text s)"
  "lands (effects e s) (reject_trades e v12 sid text s)"
  by (auto simp: reject_security_list_def reject_security_definition_def reject_security_status_def
      reject_market_data_def reject_order_status_def reject_new_order_def reject_replace_def
      reject_cancel_def reject_mass_status_def reject_mass_cancel_def reject_positions_def reject_trades_def
      intro!: effects_intro)

lemma subscription_request_lands:
  assumes "server_ready s" and "state_of sid s = Some READY"
    and "\<And>t. effects e s t \<Longrightarrow> lands (effects e t) (reject_type t)"
    and "\<And>t. effects e s t \<Longrightarrow> lands (effects e t) (reject_duplicate t)"
    and "\<And>t. effects e s t \<Longrightarrow> lands (effects e t) (reject_unknown t)" and "\<And>i. upstream_request (mk i)" and "\<And>i. asks r i (mk i)"
  shows "lands (effects e s) (subscription_switch t (req_id_in_use r sid req_id (open_table r sid s))
    reject_type reject_duplicate reject_unknown
    (dispatch_subscription e r sid req_id (req_id_in_use r sid req_id (open_table r sid s)) mk) (open_table r sid s))"
  using assms
  by (intro open_then_lands [of e s r sid] subscription_switch_lands) (auto intro!: dispatch_subscription_lands)

lemma subscriptions_land:
  assumes "server_ready s" and "state_of sid s = Some READY"
  shows "lands (effects e s) (on_security_list_request e v1 sid s)"
    and "lands (effects e s) (on_security_definition_request e v2 sid s)"
    and "lands (effects e s) (on_security_status_request e v3 sid s)"
    and "lands (effects e s) (on_market_data_request e v4 sid s)"
  by (auto simp: on_security_list_request_def on_security_definition_request_def on_security_status_request_def
      on_market_data_request_def Let_def reject_lands
      simp del: open_table_simps intro!: subscription_request_lands assms)

lemma order_requests_land:
  assumes "server_ready s" and "state_of sid s = Some READY"
  shows "lands (effects e s) (on_new_order_single e v1 sid s)"
    and "lands (effects e s) (on_order_cancel_replace_request e v2 sid s)"
    and "lands (effects e s) (on_order_cancel_request e v3 sid s)"
    and "lands (effects e s) (on_order_mass_status_request e v4 sid s)"
    and "lands (effects e s) (on_order_mass_cancel_request e v5 sid s)"
  using assms
  by (auto simp: on_new_order_single_def on_order_cancel_replace_request_def on_order_cancel_request_def
      on_order_mass_status_request_def on_order_mass_cancel_request_def Let_def dispatch_to_server_ready
      req_id_in_use_def
      intro!: reject_lands eff_add_route eff_server_send eff_open_table intro: lands_from [OF eff_open_table])

lemma emplace_route:
  "emplace_server rid (sid, cid, ka) (emplace_client sid cid rid m) = add_req_id cid rid sid ka m"
  by (simp add: add_req_id_def)

lemma order_status_request_lands:
  assumes "server_ready s" and "state_of sid s = Some READY"
  shows "lands (effects e s) (on_order_status_request e v sid s)"
proof -
  let ?cid = "osr_ord_status_req_id v"
  let ?client = "get_client_from_parties (osr_no_party_ids v)"
  let ?rid = "client_request_id ?client ?cid"
  let ?add = "\<lambda>m. emplace_server ?rid (sid, ?cid, False) (if ?cid \<noteq> [] then emplace_client sid ?cid ?rid m else m)"
  have step: "effects e s (update_mapping ORD_STATUS_REQ_ID ?add t)"
    if "effects e s t" "state_of sid t = Some READY" "just_asked ORD_STATUS_REQ_ID ?rid t"
      "?cid \<noteq> [] \<Longrightarrow> find_client_req_id sid ?cid (mappings t ORD_STATUS_REQ_ID) = None" for t
    using that eff_anonymous_route [OF that(1-3)] eff_add_route [OF that(1,2) _ that(3)]
    by (cases "?cid = []") (simp_all add: emplace_route add_route_def)
  let ?s = "open_table ORD_STATUS_REQ_ID sid s"
  let ?used = "?cid \<noteq> [] \<and> req_id_in_use ORD_STATUS_REQ_ID sid ?cid s"
  show ?thesis
  proof (cases "\<not> is_valid e (Order_Status_Request v) \<or> ?used")
    case True
    then show ?thesis
      by (auto simp: on_order_status_request_def Let_def intro: reject_lands lands_from [OF eff_open_table])
  next
    case False
    then have "on_order_status_request e v sid s = Ok (update_mapping ORD_STATUS_REQ_ID ?add (server_send_helper e
        (Order_Status_Request (v\<lparr>osr_ord_status_req_id := ?rid, osr_cl_ord_id := client_request_id ?client (osr_cl_ord_id v)\<rparr>)) ?s))"
      using assms by (auto simp: on_order_status_request_def Let_def dispatch_to_server_ready)
    moreover have "effects e s (server_send_helper e (Order_Status_Request w) ?s)" for w
      using assms by (intro eff_server_send eff_open_table) auto
    ultimately show ?thesis
      using assms False by (simp only: lands.simps) (rule step; simp add: req_id_in_use_def)
  qed
qed

lemma eff_keep_alive:
  assumes "effects e s t" and "set_keep_alive rid ka (mappings t r) = Some m"
  shows "effects e s (update_mapping r (\<lambda>_. m) t)"
  using assms
  by (intro eff_table) (auto simp: no_new_routes_def set_keep_alive_Some backed_set_keep_alive split: if_splits)

lemma dispatch_positions_lands:
  assumes "server_ready s" and "state_of sid s = Some READY"
  shows "lands (effects e s) (dispatch_positions e v sid keep_alive s)"
  using assms
  by (auto simp: dispatch_positions_def Let_def dispatch_to_server_ready
      intro!: eff_keep_alive eff_add_route eff_server_send eff_request_id split: option.split)

lemma dispatch_trades_lands:
  assumes "server_ready s" and "state_of sid s = Some READY"
    and "already \<longleftrightarrow> req_id_in_use TRADE_REQUEST_ID sid (tcq_trade_request_id v) s"
  shows "lands (effects e s) (dispatch_trades e v sid already keep_alive s)"
  using assms
  by (auto simp: dispatch_trades_def Let_def dispatch_to_server_ready req_id_in_use_def
      intro!: eff_add_route eff_forget eff_server_send)

lemma position_and_trade_requests_land:
  assumes "server_ready s" and "state_of sid s = Some READY"
  shows "lands (effects e s) (on_request_for_positions e v1 sid s)"
    and "lands (effects e s) (on_trade_capture_report_request e v2 sid s)"
  using assms
  by (auto simp: on_request_for_positions_def on_trade_capture_report_request_def Let_def
      intro!: reject_lands subscription_switch_lands
        lands_from [OF eff_open_table [OF effects_refl] dispatch_positions_lands]
        lands_from [OF eff_open_table [OF effects_refl] dispatch_trades_lands]
      intro: lands_from [OF eff_open_table])

lemmas requests_land =
  subscriptions_land order_requests_land order_status_request_lands position_and_trade_requests_land

section \<open>The logon\<close>

text \<open>
  A logon writes several parts of the state before the state of the session moves on, or before the
  session is ended. The writes commute with what is sent in between, so the whole is a sequence of
  changes after all.
\<close>

definition logon_of :: "string \<Rightarrow> u64 \<Rightarrow> shared \<Rightarrow> shared" where
  "logon_of u sid sh = sh\<lparr>username_to_session := (username_to_session sh)(u \<mapsto> sid),
     session_to_username := (session_to_username sh)(sid \<mapsto> u)\<rparr>"

lemma request_id_of_logon [simp]:
  "fst (create_request_id (logon_of u sid sh)) = fst (create_request_id sh)"
  "snd (create_request_id (logon_of u sid sh)) = logon_of u sid (snd (create_request_id sh))"
  by (simp_all add: create_request_id_def logon_of_def Let_def)

lemma remove_of_logon:
  "username_to_session sh u = None \<Longrightarrow> session_to_username sh sid = None \<Longrightarrow>
     session_remove sid (logon_of u sid sh) = session_remove sid sh"
  by (simp add: session_remove_def session_remove_helper_def logon_of_def erase_key_def fun_upd_idem)

named_theorems commute \<open>an operation on part of the state and a write to another part\<close>

lemma session_of_update [simp]:
  "session_of sid (s\<lparr>shared := a\<rparr>) = session_of sid s"
  "session_of sid (s\<lparr>user_client_to_server := b\<rparr>) = session_of sid s"
  "session_of sid (s\<lparr>user_server_to_client := d\<rparr>) = session_of sid s"
  by (simp_all add: session_of_def)

lemma update_session_commute [commute]:
  "update_session sid f (s\<lparr>shared := a\<rparr>) = (update_session sid f s)\<lparr>shared := a\<rparr>"
  "update_session sid f (s\<lparr>user_client_to_server := b\<rparr>) = (update_session sid f s)\<lparr>user_client_to_server := b\<rparr>"
  "update_session sid f (s\<lparr>user_server_to_client := d\<rparr>) = (update_session sid f s)\<lparr>user_server_to_client := d\<rparr>"
  by (simp_all add: update_session_def)

lemma emit_commute [commute]:
  "emit x (s\<lparr>shared := a\<rparr>) = (emit x s)\<lparr>shared := a\<rparr>"
  "emit x (s\<lparr>user_client_to_server := b\<rparr>) = (emit x s)\<lparr>user_client_to_server := b\<rparr>"
  "emit x (s\<lparr>user_server_to_client := d\<rparr>) = (emit x s)\<lparr>user_server_to_client := d\<rparr>"
  by (simp_all add: emit_def)

lemma server_send_commute [commute]:
  "server_send_helper e m (s\<lparr>shared := a\<rparr>) = (server_send_helper e m s)\<lparr>shared := a\<rparr>"
  "server_send_helper e m (s\<lparr>user_client_to_server := b\<rparr>) = (server_send_helper e m s)\<lparr>user_client_to_server := b\<rparr>"
  "server_send_helper e m (s\<lparr>user_server_to_client := d\<rparr>) = (server_send_helper e m s)\<lparr>user_server_to_client := d\<rparr>"
  by (simp_all add: server_send_helper_def Let_def emit_def)

lemma client_send_commute [commute]:
  "client_send e m sid (s\<lparr>shared := a\<rparr>) = (client_send e m sid s)\<lparr>shared := a\<rparr>"
  "client_send e m sid (s\<lparr>user_client_to_server := b\<rparr>) = (client_send e m sid s)\<lparr>user_client_to_server := b\<rparr>"
  "client_send e m sid (s\<lparr>user_server_to_client := d\<rparr>) = (client_send e m sid s)\<lparr>user_server_to_client := d\<rparr>"
  by (simp_all add: client_send_def Let_def commute split: option.split)

lemma take_request_id_commute [commute]:
  "take_request_id (s\<lparr>shared := a\<rparr>) = s\<lparr>shared := snd (create_request_id a)\<rparr>"
  "(take_request_id s)\<lparr>shared := a\<rparr> = s\<lparr>shared := a\<rparr>"
  by (simp_all add: take_request_id_def update_shared_def)

lemma map_entry_twice: "AList.map_entry k f (AList.map_entry k g al) = AList.map_entry k (\<lambda>x. f (g x)) al"
  by (induction al) auto

lemma update_session_twice:
  "update_session sid f (update_session sid g s) = update_session sid (\<lambda>c. f (g c)) s"
  by (simp add: update_session_def map_entry_twice)

lemma update_session_sends [commute]:
  "server_send_helper e m (update_session sid f s) = update_session sid f (server_send_helper e m s)"
  "update_session sid f (take_request_id s) = take_request_id (update_session sid f s)"
  "server_send_helper e m (take_request_id s) = take_request_id (server_send_helper e m s)"
  by (simp_all add: server_send_helper_def take_request_id_def update_shared_def update_session_def emit_def Let_def)

lemma reject_waiting_logon:
  assumes "state_of sid s = Some WAITING_LOGON"
  shows "send_reject_and_close e h reason text sid s =
    Ok (bury sid (emit (Close_Client sid) (client_send e
      (Reject \<lparr>rj_ref_seq_num = hd_msg_seq_num h, rj_text = text, rj_ref_msg_type = hd_msg_type h,
        rj_session_reject_reason = reason\<rparr>) sid s)))"
proof -
  from assms obtain c where c: "session_of sid s = Some c" "cs_state c = WAITING_LOGON"
    by (auto simp: state_of_Some)
  then show ?thesis
    by (simp add: send_reject_and_close_def send_and_close_def close_def make_zombie_def session_of_client_send)
qed

lemma bury_logon:
  assumes "username_to_session (shared s) u = None" and "session_to_username (shared s) sid = None"
  shows "bury sid (s\<lparr>shared := logon_of u sid (shared s), user_client_to_server := b, user_server_to_client := d\<rparr>) =
    bury sid (s\<lparr>user_client_to_server := b, user_server_to_client := d\<rparr>)"
  using remove_of_logon [OF assms]
  by (simp add: bury_def set_state_def commute update_shared_def)

lemma rejected_logon_effects:
  assumes "good s" and "state_of sid s = Some WAITING_LOGON" and "username_to_session (shared s) u = None"
  shows "returns (\<lambda>t. effects e s t \<and> state_of sid t = Some ZOMBIE)
    (send_reject_and_close e h reason what sid
      (s\<lparr>shared := logon_of u sid (shared s), user_client_to_server := (user_client_to_server s)(sid := pending),
        user_server_to_client := asked\<rparr>))"
proof -
  have none: "session_to_username (shared s) sid = None"
    using logged_onD(2) [OF goodD(4) [OF assms(1)], of sid] assms(2)
    by (cases "session_to_username (shared s) sid") (auto simp: live_iff)
  have "no_routes sid s" using assms(1,2) by (intro no_routes_of_dead) (simp_all add: live_iff)
  then have routes: "no_routes sid (emit x (client_send e m sid s))" for x m by (simp add: no_routes_def)
  have eff: "effects e s (emit (Close_Client sid) (client_send e (Reject v) sid s))" for v
    using assms(2) by (intro eff_hang_up eff_client_send) auto
  have "effects e s (bury sid ((emit (Close_Client sid) (client_send e (Reject v) sid s))
      \<lparr>user_client_to_server := (user_client_to_server s)(sid := pending), user_server_to_client := asked\<rparr>))" for v
    using bury_effect [OF eff _ _ routes, where st = WAITING_LOGON] assms(2) by simp
  with assms(2,3) none show ?thesis
    using bury_logon [of "emit (Close_Client sid) (client_send e m sid s)" u sid for m]
    by (simp add: reject_waiting_logon commute)
qed

lemma logon_success_returns:
  assumes "good s" and "state_of sid s = Some WAITING_LOGON" and "username_to_session (shared s) (lg_username v) = None"
  shows "returns (\<lambda>t. effects e s t \<and> state_of sid t =
      Some (if server_ready s \<and> \<not> user_is_locked (decimal (unat strategy_id)) s then WAITING_CREATE_ROUTE else ZOMBIE))
    (logon_success e v h sid strategy_id (s\<lparr>shared := logon_of (lg_username v) sid (shared s)\<rparr>))"
proof -
  let ?u = "lg_username v" and ?party = "decimal (unat strategy_id)"
  let ?f = "\<lambda>c. c\<lparr>cs_username := ?u, cs_party_id := ?party\<rparr>"
  let ?t = "take_request_id (update_session sid ?f s)"
  let ?id = "fst (create_request_id (shared s))"
  let ?req = "user_request_of LOG_ON_USER ?party ?id"
  have t: "effects e s ?t" by (intro eff_request_id eff_noted effects_refl) simp_all
  note gt = effects_good [OF t assms(1)]
  have st: "state_of sid ?t = Some WAITING_LOGON"
    and free: "username_to_session (shared ?t) ?u = None"
    using assms(2,3) by (simp_all add: state_of_update_session shared_op_fields)
  have pend: "user_client_to_server s sid = None"
    using goodD(5) [OF assms(1)] assms(2) by (simp add: undecided_def)
  have start: "take_request_id (update_session sid ?f (s\<lparr>shared := logon_of ?u sid (shared s)\<rparr>)) =
      ?t\<lparr>shared := logon_of ?u sid (shared ?t)\<rparr>" by (simp add: update_session_commute take_request_id_commute)
  have reject: "returns (\<lambda>t. effects e s t \<and> state_of sid t = Some ZOMBIE)
    (send_reject_and_close e h SESSION_REJECT_OTHER what sid
      (?t\<lparr>shared := logon_of ?u sid (shared ?t), user_client_to_server := (user_client_to_server s)(sid := p),
        user_server_to_client := a\<rparr>))" for what p a
    using rejected_logon_effects [OF gt st free, where pending = p and asked = a and what = what and e = e and h = h
        and reason = SESSION_REJECT_OTHER]
    by (auto elim!: returns_mono intro: effects_trans [OF t])
  show ?thesis
  proof (cases "server_ready s \<and> \<not> user_is_locked ?party s")
    case False
    have "?t\<lparr>shared := logon_of ?u sid (shared ?t), user_client_to_server := (user_client_to_server s)(sid := None),
        user_server_to_client := user_server_to_client s\<rparr> = ?t\<lparr>shared := logon_of ?u sid (shared ?t)\<rparr>"
      using pend by (intro sys.equality) (simp_all add: fun_upd_idem)
    note locked = reject [of "''locked''" "user_server_to_client s" None, unfolded this]
    from False show ?thesis
      using locked
        reject [of "''not ready''" "try_emplace (user_server_to_client s) ?id sid" "Some ?id"] pend
      by (auto simp: logon_success_def Let_def start fresh_request_id_def on_user_request_def user_request_of_def
          user_is_locked_def dispatch_to_server_sends fun_upd_idem)
  next
    case True
    let ?v = "server_send_helper e (User_Request ?req) (take_request_id s)"
    let ?g = "\<lambda>c. c\<lparr>cs_username := ?u, cs_party_id := ?party, cs_state := WAITING_CREATE_ROUTE,
      cs_user_response_timeout := clock_system s + server_request_timeout e\<rparr>"
    let ?w = "update_session sid ?g (?v\<lparr>shared := logon_of ?u sid (shared ?v),
      user_client_to_server := (user_client_to_server ?v)(sid \<mapsto> ?id),
      user_server_to_client := try_emplace (user_server_to_client s) ?id sid\<rparr>)"
    have "effects e s ?v" using True by (intro eff_server_send eff_request_id) auto
    moreover have "effect e ?v ?w"
      unfolding logon_of_def using assms(2,3) True by (intro effect.enter) (simp_all add: shared_op_fields)
    ultimately have "effects e s ?w" by (rule effects_step)
    moreover have "logon_success e v h sid strategy_id (s\<lparr>shared := logon_of ?u sid (shared s)\<rparr>) = Ok ?w"
      using True pend
      by (simp add: logon_success_def Let_def start fresh_request_id_def on_user_request_def user_request_of_def
          user_is_locked_def dispatch_to_server_ready set_state_def commute update_session_twice)
    moreover have "state_of sid ?w = Some WAITING_CREATE_ROUTE"
      using assms(2) by (simp add: state_of_enter [where st = WAITING_CREATE_ROUTE])
    ultimately show ?thesis using True by simp
  qed
qed

text \<open>
  A logon request is decided at once: the session asks for its route, or it is ended. It asks if the
  request passes the checks of the session, the user is known and authenticated and has no session
  yet, and the bridge is there and has no route for the user's party.
\<close>

definition acceptable :: "env \<Rightarrow> logon \<Rightarrow> header \<Rightarrow> sys \<Rightarrow> bool" where
  "acceptable e v h s \<longleftrightarrow> logon_error e v h = None \<and> server_ready s \<and>
     (case user_table (shared s) (lg_username v) of
        None \<Rightarrow> False
      | Some (secret, strategy_id) \<Rightarrow>
          authenticate e s (lg_password v) secret (lg_raw_data v) \<and>
          username_to_session (shared s) (lg_username v) = None \<and>
          \<not> user_is_locked (decimal (unat strategy_id)) s)"

lemma logon_request_decides:
  assumes "good s" and "state_of sid s = Some WAITING_LOGON"
  shows "returns (\<lambda>t. effects e s t \<and> state_of sid t = Some (if acceptable e v h s then WAITING_CREATE_ROUTE else ZOMBIE))
    (session_logon_request e v h sid s)"
proof -
  from assms(2) obtain c where c: "session_of sid s = Some c" "cs_state c = WAITING_LOGON" by (auto simp: state_of_Some)
  let ?s = "update_session sid (\<lambda>c. c\<lparr>cs_comp_id := hd_sender_comp_id h\<rparr>) s"
  have s: "effects e s ?s" by (intro eff_noted effects_refl) simp_all
  note g = effects_good [OF s assms(1)]
  have st: "state_of sid ?s = Some WAITING_LOGON" using assms(2) by (simp add: state_of_update_session)
  have none: "session_to_username (shared ?s) sid = None"
    using logged_onD(2) [OF goodD(4) [OF g], of sid] st
    by (cases "session_to_username (shared ?s) sid") (auto simp: live_iff)
  have auth: "authenticate e ?s = authenticate e s" by (simp add: authenticate_def)
  have reject: "returns (\<lambda>t. effects e s t \<and> state_of sid t = Some ZOMBIE)
    (send_reject_and_close e h SESSION_REJECT_OTHER what sid ?s)" for what
    using send_reject_and_close_returns [OF g st, of e h SESSION_REJECT_OTHER what]
    by (auto simp: ended_def elim!: returns_mono intro: effects_trans [OF s])
  obtain r sh where logon: "session_logon (authenticate e s) sid (lg_username v) (lg_password v) (lg_raw_data v)
      (shared s) = (r, sh)" by fastforce
  show ?thesis
  proof (cases r)
    case (Inl reason)
    with logon session_logon_failure [of "authenticate e s" sid "lg_username v" "lg_password v" "lg_raw_data v" "shared s"]
    have "?s\<lparr>shared := sh\<rparr> = ?s" by simp
    moreover have "\<not> acceptable e v h s"
      using logon Inl by (auto simp: acceptable_def session_logon_def split: option.splits)
    ultimately show ?thesis
      using c logon Inl reject auth by (simp add: session_logon_request_def Let_def split: option.split)
  next
    case (Inr strategy)
    with logon have ok: "fst (session_logon (authenticate e s) sid (lg_username v) (lg_password v) (lg_raw_data v)
        (shared s)) = Inr strategy" by simp
    then obtain secret where user: "user_table (shared s) (lg_username v) = Some (secret, strategy)"
        "authenticate e s (lg_password v) secret (lg_raw_data v)"
      and free: "username_to_session (shared ?s) (lg_username v) = None"
      by (auto simp: session_logon_def split: option.splits if_splits)
    have sh: "sh = logon_of (lg_username v) sid (shared ?s)"
      using session_logon_success [OF ok] none logon by (simp add: logon_of_def)
    have "returns (\<lambda>t. effects e s t \<and> state_of sid t = Some (if server_ready s \<and>
        \<not> user_is_locked (decimal (unat strategy)) s then WAITING_CREATE_ROUTE else ZOMBIE))
      (logon_success e v h sid strategy (?s\<lparr>shared := sh\<rparr>))"
      using logon_success_returns [OF g st free, of e strategy h]
      by (auto simp: sh user_is_locked_def elim!: returns_mono intro: effects_trans [OF s])
    with c logon Inr reject user free auth show ?thesis
      by (auto simp: session_logon_request_def Let_def acceptable_def split: option.split)
  qed
qed

lemma session_logon_request_returns:
  assumes "good s"
  shows "returns (effects e s) (session_logon_request e v h sid s)"
proof (cases "session_of sid s")
  case None
  then show ?thesis by (simp add: session_logon_request_def)
next
  case (Some c)
  then have st: "state_of sid s = Some (cs_state c)" by (simp add: state_of_def)
  show ?thesis
  proof (cases "cs_state c")
    case WAITING_LOGON
    with logon_request_decides [OF assms, of sid e v h] st show ?thesis by (auto elim!: returns_mono)
  next
    case WAITING_CREATE_ROUTE
    with send_reject_and_close_returns [OF assms st, of e h SESSION_REJECT_OTHER "''UNEXPECTED LOGON''"] Some
    show ?thesis by (auto simp: session_logon_request_def elim!: returns_mono)
  next
    case READY
    with send_reject_and_close_returns [OF assms st, of e h SESSION_REJECT_OTHER "''UNEXPECTED LOGON''"] Some
    show ?thesis by (auto simp: session_logon_request_def elim!: returns_mono)
  next
    case WAITING_REMOVE_ROUTE
    with make_zombie_returns [OF assms, of sid e] st Some
    show ?thesis by (auto simp: session_logon_request_def elim!: returns_mono)
  qed (use Some in \<open>simp add: session_logon_request_def\<close>)
qed

section \<open>Messages of a client\<close>

lemma when_ready_lands:
  assumes "good s" and "\<And>c. session_of sid s = Some c \<Longrightarrow> cs_state c = READY \<Longrightarrow> lands (effects e s) (act c s)"
  shows "lands (effects e s) (when_ready e h sid act s)"
proof (cases "session_of sid s")
  case None
  then show ?thesis by (simp add: when_ready_def)
next
  case (Some c)
  then have st: "state_of sid s = Some (cs_state c)" by (simp add: state_of_def)
  have "returns (effects e s) (make_zombie e sid s)"
    using make_zombie_returns [OF assms(1), of sid e] st by (auto elim!: returns_mono)
  moreover have "returns (effects e s) (send_reject_and_close e h SESSION_REJECT_OTHER what sid s)"
    if "cs_state c \<noteq> ZOMBIE" for what
    using send_reject_and_close_returns [OF assms(1) st that, of e h SESSION_REJECT_OTHER what]
    by (auto elim!: returns_mono)
  ultimately show ?thesis
    using Some assms(2) [OF Some] by (auto simp: when_ready_def returns_lands split: client_state.split)
qed

lemma refuse_lands:
  "session_of sid s = Some c \<Longrightarrow> cs_state c \<noteq> ZOMBIE \<Longrightarrow> lands (effects e s) (refuse e h sid ref_id what s)"
  by (auto simp: refuse_def send_business_message_reject_def state_of_def intro: eff_client_send)

lemma business_lands:
  assumes "good s"
  shows "lands (effects e s) (session_security_list_request e v1 h sid s)"
    and "lands (effects e s) (session_security_definition_request e v2 h sid s)"
    and "lands (effects e s) (session_security_status_request e v3 h sid s)"
    and "lands (effects e s) (session_market_data_request e v4 h sid s)"
    and "lands (effects e s) (session_order_status_request e v5 h sid s)"
    and "lands (effects e s) (session_order_mass_status_request e v6 h sid s)"
    and "lands (effects e s) (session_new_order_single e v7 h sid s)"
    and "lands (effects e s) (session_order_cancel_request e v8 h sid s)"
    and "lands (effects e s) (session_order_cancel_replace_request e v9 h sid s)"
    and "lands (effects e s) (session_order_mass_cancel_request e v10 h sid s)"
    and "lands (effects e s) (session_request_for_positions e v11 h sid s)"
    and "lands (effects e s) (session_trade_capture_report_request e v12 h sid s)"
  unfolding session_security_list_request_def session_security_definition_request_def
    session_security_status_request_def session_market_data_request_def session_order_status_request_def
    session_order_mass_status_request_def session_new_order_single_def session_order_cancel_request_def
    session_order_cancel_replace_request_def session_order_mass_cancel_request_def
    session_request_for_positions_def session_trade_capture_report_request_def add_party_ids_def
  using server_ready_of_live [OF assms, of sid]
  by (auto simp: state_of_def intro!: when_ready_lands [OF assms] requests_land refuse_lands)

lemma logout_request_lands:
  assumes "good s"
  shows "lands (effects e s) (session_logout_request e h sid s)"
  unfolding session_logout_request_def
proof (rule when_ready_lands [OF assms])
  fix c
  assume c: "session_of sid s = Some c" "cs_state c = READY"
  then have st: "state_of sid s = Some READY" by (simp add: state_of_def)
  then have up: "server_ready s" and pend: "user_client_to_server s sid = None"
    using server_ready_of_live [OF assms] goodD(5) [OF assms] by (auto simp: undecided_def)
  let ?id = "fresh_request_id s"
  let ?req = "user_request_of LOG_OFF_USER (cs_party_id c) ?id"
  let ?t = "server_send_helper e (User_Request ?req) (take_request_id s)"
  let ?u = "set_state sid WAITING_REMOVE_ROUTE
    (?t\<lparr>user_client_to_server := (user_client_to_server ?t)(sid \<mapsto> ?id),
       user_server_to_client := try_emplace (user_server_to_client s) ?id sid\<rparr>)"
  have "effects e s ?t" using up by (intro eff_server_send eff_request_id) auto
  moreover have "effect e ?t ?u" using st by (intro effect.leave) simp
  ultimately have "effects e s ?u" by (rule effects_step)
  then have "effects e s (update_session sid
      (\<lambda>c. c\<lparr>cs_user_response_timeout := clock_system s + server_request_timeout e\<rparr>) ?u)"
    by (intro eff_noted) simp_all
  with up pend show "lands (effects e s)
      (and_then (controller_from_client e (User_Request ?req) sid (take_request_id s))
        (\<lambda>s. Ok (update_session sid
          (\<lambda>c. c\<lparr>cs_user_response_timeout := clock_system s + server_request_timeout e\<rparr>)
          (set_state sid WAITING_REMOVE_ROUTE s))))"
    by (simp add: on_user_request_def user_request_of_def dispatch_to_server_ready commute)
qed

lemma session_messages_land:
  assumes "good s"
  shows "lands (effects e s) (session_test_request e v1 h sid s)"
    and "lands (effects e s) (session_resend_request e h sid s)"
    and "lands (effects e s) (session_heartbeat e h sid s)"
    and "lands (effects e s) (close e sid s)"
proof -
  have closes: "lands (effects e s) (close e sid s)"
    using close_returns [OF assms, of sid e]
    by (cases "session_of sid s") (auto simp: close_def state_of_def intro: returns_lands elim!: returns_mono)
  have zombie: "lands (effects e s) (make_zombie e sid s)"
    using make_zombie_returns [OF assms, of sid e]
    by (cases "session_of sid s") (auto simp: make_zombie_def state_of_def intro: returns_lands elim!: returns_mono)
  have reject: "lands (effects e s) (send_reject_and_close e h SESSION_REJECT_OTHER what sid s)"
    if "session_of sid s = Some c" "cs_state c \<noteq> ZOMBIE" for c what
    using send_reject_and_close_returns [OF assms _ that(2), of sid e h SESSION_REJECT_OTHER what] that(1)
    by (auto simp: state_of_def intro!: returns_lands elim!: returns_mono)
  have reply: "effects e s (client_send e (Heartbeat v) sid s)" if "session_of sid s = Some c" "cs_state c \<noteq> ZOMBIE" for c v
    using that by (intro eff_client_send [where st = "cs_state c"]) (auto simp: state_of_def)
  show "lands (effects e s) (session_test_request e v1 h sid s)"
    using reject reply
    by (cases "session_of sid s") (auto simp: session_test_request_def Let_def split: client_state.split)
  show "lands (effects e s) (session_resend_request e h sid s)"
    using reject zombie
    by (cases "session_of sid s") (auto simp: session_resend_request_def split: client_state.split)
  show "lands (effects e s) (session_heartbeat e h sid s)"
    using reject
    by (cases "session_of sid s")
      (auto simp: session_heartbeat_def intro!: eff_noted split: client_state.split)
  show "lands (effects e s) (close e sid s)" by (rule closes)
qed

lemma unsupported_lands:
  assumes "state_of sid s \<noteq> Some ZOMBIE"
  shows "effects e s (send_business_message_reject e h ref_id reason what sid s)"
proof (cases "session_of sid s")
  case None
  then show ?thesis by (simp add: send_business_message_reject_def client_send_def)
next
  case (Some c)
  with assms show ?thesis
    by (auto simp: send_business_message_reject_def state_of_def intro!: eff_client_send)
qed

lemma session_dispatch_lands:
  assumes "good s" and "state_of sid s \<noteq> Some ZOMBIE"
  shows "lands (effects e s) (session_dispatch e h sid m s)"
  using assms
  by (cases m) (simp_all add: business_lands session_messages_land logout_request_lands unsupported_lands
      returns_lands [OF session_logon_request_returns] session_trading_session_status_request_def session_reject_def)

lemma session_frame_leaves:
  assumes "good s" and "state_of sid s \<noteq> Some ZOMBIE"
  shows "leaves (effects e s) (session_frame e sid f s)"
proof -
  let ?t = "\<lambda>h. update_session sid (\<lambda>c. if cs_comp_id c = [] then c\<lparr>cs_comp_id := hd_sender_comp_id h\<rparr> else c)
    (session_check h sid s)"
  have t: "effects e s (?t h)" for h
    unfolding session_check_def by (intro eff_noted effects_refl) simp_all
  have "state_of sid (?t h) = state_of sid s" for h
    by (simp add: session_check_def state_of_update_session)
  then have "lands (effects e s) (session_dispatch e h sid m (?t h))" for h m
    using session_dispatch_lands [OF effects_good [OF t assms(1)], of sid h e h m] assms(2)
    by (auto intro: lands_from [OF t])
  with t show ?thesis
    by (cases f) (simp_all add: session_frame_def session_parse_def Let_def lands_leaves)
qed

text \<open>The state a throwing handler leaves behind is known as well, so that the session can be closed from it.\<close>

lemma session_frames_leaves:
  assumes "good s" and "state_of sid s \<noteq> Some ZOMBIE"
  shows "leaves (effects e s) (session_frames e sid fs s)"
  using assms
proof (induction fs arbitrary: s)
  case Nil
  then show ?case by simp
next
  case (Cons f fs)
  have frame: "leaves (effects e s) (session_frame e sid f s)"
    using Cons.prems by (rule session_frame_leaves)
  have "leaves (effects e s) (with_session sid (\<lambda>c s. if cs_state c = ZOMBIE then Ok s else session_frames e sid fs s) t)"
    if t: "effects e s t" for t
  proof (cases "session_of sid t")
    case None
    with t show ?thesis by simp
  next
    case (Some c)
    with Cons.IH [OF effects_good [OF t Cons.prems(1)]] t show ?thesis
      by (auto simp: state_of_def elim!: leaves_mono intro: effects_trans)
  qed
  with frame show ?case by (auto intro: leaves_and_then)
qed

text \<open>The session catches what its handlers throw, so reading from a client never throws.\<close>

lemma session_read_lands:
  assumes "good s"
  shows "lands (effects e s) (session_read e fs sid s)"
proof (cases "session_of sid s")
  case None
  then show ?thesis by (simp add: session_read_def)
next
  case (Some c)
  show ?thesis
  proof (cases "cs_state c = ZOMBIE")
    case True
    with Some show ?thesis by (simp add: session_read_def)
  next
    case False
    with Some have "leaves (effects e s) (session_frames e sid fs s)"
      by (intro session_frames_leaves [OF assms]) (simp add: state_of_def)
    with Some False show ?thesis
      by (cases "session_frames e sid fs s")
        (auto simp: session_read_def intro: lands_from session_messages_land(4) effects_good [OF _ assms])
  qed
qed

lemma session_disconnected_returns:
  assumes "good s"
  shows "returns (effects e s) (session_disconnected e sid s)"
  using make_zombie_returns [OF assms, of sid e]
  by (cases "session_of sid s")
    (auto simp: session_disconnected_def make_zombie_def state_of_def elim!: returns_mono)

lemma session_timer_returns:
  assumes "good s"
  shows "returns (effects e s) (session_timer e now sid s)"
proof (cases "session_of sid s")
  case None
  then show ?thesis by (simp add: session_timer_def)
next
  case (Some c)
  then have st: "state_of sid s = Some (cs_state c)" by (simp add: state_of_def)
  let ?s = "update_session sid (\<lambda>c. c\<lparr>cs_next_heartbeat := now + client_heartbeat_freq e\<rparr>) s"
  have s: "effects e s ?s" by (intro eff_noted effects_refl) simp_all
  have bye: "returns (effects e s) (send_and_close e (Logout v) sid t)"
    if "cs_state c \<noteq> ZOMBIE" "effects e s t" "state_of sid t = state_of sid s" for v t
    using send_and_close_returns [OF effects_good [OF that(2) assms], of sid "cs_state c" "Logout v" e] that st
    by (auto elim!: returns_mono intro: effects_trans)
  have "returns (effects e s) (close e sid s)"
    using close_returns [OF assms, of sid e] st by (auto elim!: returns_mono)
  moreover have "effects e s (update_session sid (\<lambda>c. c\<lparr>cs_waiting_for_heartbeat := True\<rparr>)
      (client_send e (Test_Request v) sid ?s))"
    if "cs_state c \<noteq> ZOMBIE" for v
    using that st by (intro eff_noted eff_client_send [OF s, where st = "cs_state c"])
      (simp_all add: state_of_update_session)
  ultimately show ?thesis
    using Some bye [OF _ effects_refl] bye [OF _ s]
    by (cases "cs_state c") (simp_all add: session_timer_def Let_def state_of_update_session)
qed

end
