(* ===== verification/Client_Relation.thy ===== *)
theory Client_Relation
  imports Effects
begin

text \<open>
  What a client session does to the rest of the proxy. The locale \<open>client_relation\<close> is the contract of a relation
  that every primitive operation of the session \<open>sid\<close> keeps; then all of its handlers keep it, whether they
  return or throw. It is interpreted for the state of the upstream session, for the other clients and for the
  parties of the other clients.
\<close>

locale client_relation = kept rel for rel :: "sys \<Rightarrow> sys \<Rightarrow> bool" +
  fixes sid :: u64
  assumes to_client: "rel s (client_send e m sid s)"
    and to_server: "rel s (server_send_helper e m s)"
    and hang_up: "rel s (emit (Close_Client sid) s)"
    and session: "rel s (update_session sid f s)"
    and table: "rel s (update_mapping r g s)"
    and logons: "rel s (s\<lparr>shared := sh\<rparr>)"
    and asked: "rel s (s\<lparr>user_client_to_server := a, user_server_to_client := b\<rparr>)"
    and released: "session_to_client s sid = Some u \<Longrightarrow> rel s (s\<lparr>client_to_session := erase_key (client_to_session s) u,
      session_to_client := erase_key (session_to_client s) sid\<rparr>)"
begin

lemma asked': "rel s (s\<lparr>user_server_to_client := b, user_client_to_server := a\<rparr>)"
proof -
  have "s\<lparr>user_server_to_client := b, user_client_to_server := a\<rparr> = s\<lparr>user_client_to_server := a, user_server_to_client := b\<rparr>"
    by (cases s) simp
  then show ?thesis by (simp only: asked)
qed

lemmas primitives = to_client to_server hang_up session table logons asked asked'

lemma steps:
  assumes "rel s t"
  shows "rel s (client_send e m sid t)" "rel s (server_send_helper e m t)" "rel s (emit (Close_Client sid) t)"
    "rel s (update_session sid f t)" "rel s (set_state sid st t)" "rel s (update_mapping r g t)"
    "rel s (update_shared h t)" "rel s (take_request_id t)" "rel s (bury sid t)" "rel s (add_route r cid rid i ka t)"
    "rel s (forget_req_id r rid t)" "rel s (open_table r i t)" "rel s (dispatch_to_client e m sid t)"
    "rel s (t\<lparr>shared := sh\<rparr>)" "rel s (t\<lparr>user_client_to_server := a, user_server_to_client := b\<rparr>)"
    "rel s (t\<lparr>user_server_to_client := b, user_client_to_server := a\<rparr>)"
  using assms twice [OF assms] primitives twice [OF session logons]
  by (auto simp: set_state_def update_shared_def take_request_id_def bury_def add_route_def forget_req_id_def
      open_table_def dispatch_to_client_sends split: option.split)

lemma with_session: "(\<And>c. leaves (rel s) (f c s)) \<Longrightarrow> leaves (rel s) (with_session sid f s)"
  by (cases "session_of sid s") (simp_all add: same)

lemma asks_server: "leaves (rel s) (dispatch_to_server e m s)"
  by (simp add: dispatch_to_server_sends same to_server)

section \<open>The end of the session\<close>

lemma clear_walk: "leaves (rel s) (clear_walk (unsubscribe_market_data e) r rids s)"
proof (induction rids arbitrary: s)
  case (Cons rid rids)
  have "leaves (rel t) (clear_walk (unsubscribe_market_data e) r rids (update_mapping r (erase_server rid) t))" for t
    by (rule starting [OF table Cons.IH])
  moreover have "leaves (rel s) (unsubscribe_market_data e rid s)"
    by (simp add: unsubscribe_market_data_def same asks_server)
  ultimately show ?case by (simp add: and_then)
qed (simp add: same)

lemma user_released: "leaves (rel s) (release_user e sid s)"
proof (cases "session_to_client s sid")
  case (Some u)
  let ?id = "fresh_request_id s"
  let ?ask = "if controller_ready s
    then and_then (dispatch_to_server e (User_Request \<lparr>urq_user_request_id = ?id, urq_user_request_type = LOG_OFF_USER,
        urq_username = u, urq_password = [], urq_new_password = []\<rparr>) (take_request_id s))
      (\<lambda>s. Ok (s\<lparr>user_server_to_client := try_emplace (user_server_to_client s) ?id sid,
        user_client_to_server := try_emplace (user_client_to_server s) sid ?id\<rparr>))
    else Ok s"
  have "leaves (\<lambda>t. rel s t \<and> session_to_client t sid = Some u) ?ask"
    using Some by (auto simp: dispatch_to_server_sends intro!: steps same)
  moreover have "leaves (\<lambda>t. rel s t \<and> session_to_client t sid = Some u) x \<Longrightarrow>
      leaves (rel s) (and_then x (\<lambda>t. Ok (t\<lparr>client_to_session := erase_key (client_to_session t) u,
        session_to_client := erase_key (session_to_client t) sid\<rparr>)))" for x
    by (cases x) (auto intro: twice released)
  ultimately have "leaves (rel s) (and_then ?ask (\<lambda>t. Ok (t\<lparr>client_to_session := erase_key (client_to_session t) u,
      session_to_client := erase_key (session_to_client t) sid\<rparr>)))"
    by blast
  then show ?thesis using Some by (simp add: release_user_def Let_def split: if_splits)
qed (simp add: release_user_def same)

lemma disconnected: "leaves (rel s) (on_client_disconnected e sid s)"
proof -
  have "leaves (rel s) (clear_req_ids_with (unsubscribe_market_data e) r sid s)" for r s
    by (auto simp: clear_req_ids_with_def same intro!: and_then clear_walk table split: option.split)
  then show ?thesis
    unfolding on_client_disconnected_def by (intro in_order) (auto simp: clear_table_def table user_released)
qed

lemma made_zombie: "leaves (rel s) (make_zombie e sid s)"
  unfolding make_zombie_def
  by (intro with_session) (auto intro!: and_then disconnected steps same split: client_state.split)

lemma closed: "leaves (rel s) (close e sid s)"
  unfolding close_def by (intro with_session) (auto intro!: starting [OF hang_up made_zombie] same)

lemma forced: "leaves (rel s) (force_disconnect e sid s)"
  unfolding force_disconnect_def by (intro with_session) (auto intro: closed same split: client_state.split)

lemma sent_and_closed: "leaves (rel s) (send_and_close e m sid s)"
  unfolding send_and_close_def by (rule starting [OF to_client closed])

lemma rejected: "leaves (rel s) (send_reject_and_close e h reason what sid s)"
  unfolding send_reject_and_close_def by (rule sent_and_closed)

section \<open>Its requests\<close>

lemma refusals:
  "leaves (rel s) (reject_security_list e v1 sid s)"
  "leaves (rel s) (reject_security_definition e v2 sid s)"
  "leaves (rel s) (reject_security_status e v3 sid s)"
  "leaves (rel s) (reject_market_data e v4 sid r4 text s)"
  "leaves (rel s) (reject_order_status e v5 sid r5 text s)"
  "leaves (rel s) (reject_new_order e v6 sid r6 text s)"
  "leaves (rel s) (reject_replace e v7 sid st7 r7 text s)"
  "leaves (rel s) (reject_cancel e v8 sid st8 r8 text s)"
  "leaves (rel s) (reject_mass_status e v9 sid r9 text s)"
  "leaves (rel s) (reject_mass_cancel e v10 sid r10 text s)"
  "leaves (rel s) (reject_positions e v11 sid text s)"
  "leaves (rel s) (reject_trades e v12 sid text s)"
  by (simp_all add: reject_security_list_def reject_security_definition_def reject_security_status_def
      reject_market_data_def reject_order_status_def reject_new_order_def reject_replace_def
      reject_cancel_def reject_mass_status_def reject_mass_cancel_def reject_positions_def reject_trades_def
      steps same)

lemma switch:
  assumes "leaves (rel s) (reject_type s)" "leaves (rel s) (reject_duplicate s)" "leaves (rel s) (reject_unknown s)"
    and "\<And>keep_alive. leaves (rel s) (send keep_alive s)"
  shows "leaves (rel s) (subscription_switch t already reject_type reject_duplicate reject_unknown send s)"
  using assms by (auto simp: subscription_switch_def split: subscription_request_type.split)

lemma sends:
  "leaves (rel s) (dispatch_subscription e r sid req_id already mk ka s)"
  "leaves (rel s) (dispatch_positions e v sid ka s)"
  "leaves (rel s) (dispatch_trades e w sid already ka s)"
  by (auto simp: dispatch_subscription_def dispatch_positions_def dispatch_trades_def Let_def dispatch_to_server_sends
      intro!: steps same split: option.split)

lemma asking_users: "leaves (rel s) (on_user_request e v sid s)"
  by (auto simp: on_user_request_def Let_def dispatch_to_server_sends same intro!: steps split: user_request_type.split)

lemma requests: "leaves (rel s) (controller_from_client e m sid s)"
proof -
  have opened: "rel s (open_table r sid s)" for r by (intro steps same)
  note switch' = starting [OF opened switch]
  show ?thesis
    by (cases m)
      (auto simp: on_security_list_request_def on_security_definition_request_def on_security_status_request_def
        on_market_data_request_def on_order_status_request_def on_new_order_single_def
        on_order_cancel_replace_request_def on_order_cancel_request_def on_order_mass_status_request_def
        on_order_mass_cancel_request_def on_request_for_positions_def on_trade_capture_report_request_def
        Let_def same dispatch_to_server_sends refusals asking_users
        intro!: switch' sends refusals steps starting [OF opened refusals(5)] starting [OF opened refusals(6)]
          starting [OF opened refusals(7)] starting [OF opened refusals(8)] starting [OF opened refusals(9)]
          starting [OF opened refusals(10)])
qed

section \<open>Its messages and its timer\<close>

lemma ready: "(\<And>c. leaves (rel s) (act c s)) \<Longrightarrow> leaves (rel s) (when_ready e h sid act s)"
  unfolding when_ready_def by (intro with_session) (auto intro: rejected made_zombie same split: client_state.split)

lemma refused: "leaves (rel s) (refuse e h sid ref_id text s)"
  by (simp add: refuse_def send_business_message_reject_def to_client)

lemma business:
  "leaves (rel s) (session_security_list_request e v1 h sid s)"
  "leaves (rel s) (session_security_definition_request e v2 h sid s)"
  "leaves (rel s) (session_security_status_request e v3 h sid s)"
  "leaves (rel s) (session_market_data_request e v4 h sid s)"
  "leaves (rel s) (session_order_status_request e v5 h sid s)"
  "leaves (rel s) (session_order_mass_status_request e v6 h sid s)"
  "leaves (rel s) (session_new_order_single e v7 h sid s)"
  "leaves (rel s) (session_order_cancel_request e v8 h sid s)"
  "leaves (rel s) (session_order_cancel_replace_request e v9 h sid s)"
  "leaves (rel s) (session_order_mass_cancel_request e v10 h sid s)"
  "leaves (rel s) (session_request_for_positions e v11 h sid s)"
  "leaves (rel s) (session_trade_capture_report_request e v12 h sid s)"
  using requests
  by (auto simp del: controller_from_client.simps simp: session_security_list_request_def session_security_definition_request_def
      session_security_status_request_def session_market_data_request_def session_order_status_request_def
      session_order_mass_status_request_def session_new_order_single_def session_order_cancel_request_def
      session_order_cancel_replace_request_def session_order_mass_cancel_request_def
      session_request_for_positions_def session_trade_capture_report_request_def add_party_ids_def
      intro!: ready refused)

lemma sessions:
  "leaves (rel s) (session_test_request e v1 h sid s)"
  "leaves (rel s) (session_resend_request e h sid s)"
  "leaves (rel s) (session_reject e v2 sid s)"
  "leaves (rel s) (session_heartbeat e h sid s)"
  "leaves (rel s) (session_trading_session_status_request e v3 h sid s)"
  by (auto simp: session_test_request_def session_resend_request_def session_reject_def session_heartbeat_def Let_def
      session_trading_session_status_request_def send_business_message_reject_def closed to_client
      intro!: with_session rejected made_zombie same steps split: client_state.split)

lemma logged_on: "leaves (rel s) (logon_success e v h sid strategy_id s)"
proof -
  let ?u = "take_request_id (update_session sid
    (\<lambda>c. c\<lparr>cs_username := lg_username v, cs_party_id := decimal (unat strategy_id)\<rparr>) s)"
  have u: "rel s ?u" by (intro steps same)
  have asked: "leaves (rel s) (on_user_request e r sid ?u)" for r
    by (rule starting [OF u asking_users])
  have "leaves (rel s) (case on_user_request e r sid ?u of
      Ok t \<Rightarrow> Ok (update_session sid (\<lambda>c. c\<lparr>cs_user_response_timeout := clock_system t + server_request_timeout e\<rparr>)
        (set_state sid WAITING_CREATE_ROUTE t))
    | Throw what t \<Rightarrow> send_reject_and_close e h SESSION_REJECT_OTHER what sid t
    | Fatal x \<Rightarrow> Fatal x)" for r
    using asked [of r] by (cases "on_user_request e r sid ?u") (auto intro: steps starting [OF _ rejected])
  then show ?thesis by (simp add: logon_success_def Let_def fresh_request_id_def)
qed

lemma logging_on: "leaves (rel s) (session_logon_request e v h sid s)"
proof -
  have helped: "leaves (rel s) (case r of
      (Inr strategy_id, sh) \<Rightarrow> logon_success e v h sid strategy_id (t\<lparr>shared := sh\<rparr>)
    | (Inl reason, sh) \<Rightarrow> send_reject_and_close e h SESSION_REJECT_OTHER reason sid (t\<lparr>shared := sh\<rparr>))" if "rel s t" for r t
    using starting [OF steps(14) [OF that] logged_on] starting [OF steps(14) [OF that] rejected]
    by (auto split: prod.split sum.split)
  show ?thesis
    unfolding session_logon_request_def
    by (intro with_session)
      (auto simp: Let_def intro!: helped starting [OF session rejected] rejected made_zombie same session
        split: client_state.split option.split)
qed

lemma logging_out: "leaves (rel s) (session_logout_request e h sid s)"
  unfolding session_logout_request_def
  by (intro ready and_then) (auto intro!: starting [OF steps(8) [OF same] asking_users] steps same)

lemma dispatched: "leaves (rel s) (session_dispatch e h sid m s)"
  by (cases m)
    (simp_all add: business sessions logging_on logging_out send_business_message_reject_def to_client)

lemma framed: "leaves (rel s) (session_frame e sid f s)"
  by (cases f)
    (auto simp: session_frame_def session_parse_def session_check_def Let_def same
      intro!: starting [OF _ dispatched] steps)

lemma frames: "leaves (rel s) (session_frames e sid fs s)"
proof (induction fs arbitrary: s)
  case (Cons f fs)
  then show ?case by (auto intro!: and_then framed with_session same)
qed (simp add: same)

lemma read: "leaves (rel s) (session_read e fs sid s)"
proof -
  have "leaves (rel s) (case session_frames e sid fs s of Ok t \<Rightarrow> Ok t | Throw what t \<Rightarrow> close e sid t | Fatal x \<Rightarrow> Fatal x)"
    using frames [of s e fs] by (cases "session_frames e sid fs s") (auto intro: starting [OF _ closed])
  then show ?thesis
    unfolding session_read_def by (intro with_session) (simp add: same)
qed

lemma gone: "leaves (rel s) (session_disconnected e sid s)"
  unfolding session_disconnected_def by (rule made_zombie)

lemma timed: "leaves (rel s) (session_timer e now sid s)"
  unfolding session_timer_def
  by (intro with_session) (auto simp: Let_def intro!: sent_and_closed closed same steps starting [OF session sent_and_closed]
      split: client_state.split)

section \<open>The answers to its logon and logout\<close>

lemma answered: "leaves (rel s) (session_user_response e v sid s)"
proof -
  have helped: "leaves (rel s) (case r of
      (None, sh) \<Rightarrow> send_and_close e m sid (t\<lparr>shared := sh\<rparr>)
    | (Some reason, sh) \<Rightarrow> make_zombie e sid (t\<lparr>shared := sh\<rparr>))" if "rel s t" for r t m
    using starting [OF steps(14) [OF that] sent_and_closed] starting [OF steps(14) [OF that] made_zombie]
    by (auto split: prod.split option.split)
  show ?thesis
    unfolding session_user_response_def
    by (intro with_session) (auto simp: Let_def intro!: helped starting [OF session made_zombie] steps same session
      split: client_state.split user_status.split)
qed

end

text \<open>
  A relation that leaves the parties open is kept by the handler of a user response too, when it is for the session.
\<close>

locale answered_relation = client_relation +
  assumes parties: "rel s (s\<lparr>client_to_session := c, session_to_client := d\<rparr>)"
begin

lemma users: "leaves (rel s) (user_add u i s)" "leaves (rel s) (user_remove u b s)"
proof -
  have "rel s (s\<lparr>session_to_client := d, client_to_session := c\<rparr>)" for c d
    using parties [where s = s and c = c and d = d] by (cases s) simp
  then show "leaves (rel s) (user_add u i s)" "leaves (rel s) (user_remove u b s)"
    by (auto simp: user_add_def user_remove_def parties same split: option.split)
qed

lemma decided:
  assumes "user_server_to_client s (urs_user_request_id v) = Some sid"
  shows "leaves (rel s) (on_user_response e v s)"
  using assms users
  by (auto simp: on_user_response_def same intro!: and_then starting [OF asked answered] split: option.split user_status.split)

end

end
