(* ===== verification/Event_Effects.thy ===== *)
theory Event_Effects
  imports Client_Effects Client_Relation
begin

text \<open>
  Every event of the proxy is a sequence of the changes of theory \<open>Effects\<close>, so the invariants hold in
  every reachable state. Two locales carry what is kept by every change over to the events:
  \<open>effect_invariant\<close> for properties of a state, \<open>effect_relation\<close> for relations between the state before
  and after.
\<close>

section \<open>Nothing but its own connection takes the upstream session down\<close>

definition same_server_state :: "sys \<Rightarrow> sys \<Rightarrow> bool" where
  "same_server_state s t \<longleftrightarrow> sv_state (server t) = sv_state (server s)"

interpretation server_state: answered_relation same_server_state sid for sid
  by unfold_locales (simp_all add: same_server_state_def)

declare server_state.same [simp]

lemma on_user_response_same_server_state: "leaves (same_server_state s) (on_user_response e v s)"
  using server_state.decided [of s v]
  by (cases "user_server_to_client s (urs_user_request_id v)") (simp_all add: on_user_response_def)

lemma server_deliver [simp]:
  "server (dispatch_to_client e m sid s) = server s"
  "server (forget_req_id r rid s) = server s"
  "server (ensure_cl_ord_id i st s) = server s"
  "server (remove_cl_ord_id e i s) = server s"
  "server (broadcast e m u s) = server s"
  by (simp_all add: dispatch_to_client_sends forget_req_id_def ensure_cl_ord_id_def remove_cl_ord_id_def broadcast_def
      split: option.split)

lemma server_upstream [simp]:
  "server (on_business_message_reject e v1 s) = server s"
  "server (on_security_list e v2 s) = server s"
  "server (on_security_definition e v3 s) = server s"
  "server (on_security_status e v4 s) = server s"
  "server (on_market_data_request_reject e v5 s) = server s"
  "server (on_market_data_snapshot e v6 s) = server s"
  "server (on_market_data_incremental e v7 s) = server s"
  "server (on_order_cancel_reject e v8 s) = server s"
  "server (on_order_mass_cancel_report e v9 s) = server s"
  "server (on_request_for_positions_ack e v10 s) = server s"
  "server (on_position_report e v11 s) = server s"
  "server (on_trade_capture_report_request_ack e v12 s) = server s"
  "server (on_trade_capture_report e v13 s) = server s"
  by (auto simp: on_business_message_reject_def on_security_list_def on_security_definition_def
      on_security_status_def on_market_data_request_reject_def on_market_data_snapshot_def
      on_market_data_incremental_def on_order_cancel_reject_def on_order_mass_cancel_report_def
      on_request_for_positions_ack_def on_position_report_def on_trade_capture_report_request_ack_def
      on_trade_capture_report_def Let_def split: option.split)

lemma server_execution_report [simp]: "server (on_execution_report e v s) = server s"
  by (simp add: on_execution_report_def on_order_status_report_def on_mass_status_report_def
      on_order_action_report_def Let_def split: option.split)

section \<open>Messages of the upstream session\<close>

definition connected :: "sys \<Rightarrow> bool" where
  "connected s \<longleftrightarrow> sv_state (server s) \<noteq> DISCONNECTED"

lemma eff_server_note:
  "effects e s t \<Longrightarrow> sv_state sv = sv_state (server t) \<Longrightarrow> sv_outbound sv = sv_outbound (server t) \<Longrightarrow>
     effects e s (t\<lparr>server := sv\<rparr>)"
  by (rule effects_step [OF _ effect.server_note])

lemma server_dispatch_lands:
  assumes "good s" and "connected s"
  shows "lands (\<lambda>t. effects e s t \<and> connected t) (server_dispatch e m s)"
proof -
  have user: "lands (\<lambda>t. effects e s t \<and> connected t) (on_user_response e v s)" for v
    using on_user_response_lands [OF assms(1), of e v] on_user_response_same_server_state [of s e v] assms(2)
    by (cases "on_user_response e v s") (simp_all add: connected_def same_server_state_def)
  have logon: "effects e s (server_logon s)" "connected (server_logon s)"
    using assms(2) effect_effects [OF effect.up, of s e]
    by (simp_all add: connected_def) (simp add: server_logon_def set_server_state_def)
  have test: "effects e s (server_test_request e v s)" "connected (server_test_request e v s)" for v
    using assms(2)
    by (auto simp: connected_def server_test_request_def server_send_heartbeat_def intro!: effect_effects effect.to_server)
  show ?thesis
    using assms(2) user logon test
    by (cases m) (simp_all add: server_heartbeat_def upstream_effects position_report_effects execution_report_effects
        connected_def)
qed

text \<open>The frames for which an exception is thrown, by the codec or by the reader itself.\<close>

fun undecodable :: "frame_in \<Rightarrow> bool" where
  "undecodable (Decoded h m) \<longleftrightarrow> False"
| "undecodable (Undecodable h) \<longleftrightarrow> True"
| "undecodable Unreadable \<longleftrightarrow> True"

lemma server_frame_leaves:
  assumes "good s" and "connected s"
  shows "leaves (\<lambda>t. effects e s t \<and> connected t) (server_frame e f s)"
    and "throws (server_frame e f s) \<longleftrightarrow> undecodable f"
proof -
  have s: "effects e s (server_check h s)" for h
    unfolding server_check_def by (intro eff_server_note effects_refl) simp_all
  have "connected (server_check h s)" for h
    using assms(2) by (simp add: connected_def server_check_def)
  then have land: "lands (\<lambda>t. effects e s t \<and> connected t) (server_dispatch e m (server_check h s))" for m h
    using server_dispatch_lands [OF effects_good [OF s assms(1)], of h e m]
    by (auto elim!: lands_mono intro: effects_trans [OF s])
  show "leaves (\<lambda>t. effects e s t \<and> connected t) (server_frame e f s)"
    using lands_leaves [OF land] s assms(2)
    by (cases f) (auto simp: server_frame_def connected_def server_check_def)
  show "throws (server_frame e f s) \<longleftrightarrow> undecodable f"
    using lands_not_throws [OF land] by (cases f) (simp_all add: server_frame_def)
qed

lemma server_read_leaves:
  assumes "good s" and "connected s"
  shows "leaves (\<lambda>t. effects e s t \<and> connected t) (server_read e fs s)"
    and "throws (server_read e fs s) \<Longrightarrow> list_ex undecodable fs"
proof -
  have "leaves (\<lambda>t. effects e s t \<and> connected t) (server_read e fs s) \<and>
      (throws (server_read e fs s) \<longrightarrow> list_ex undecodable fs)"
    using assms
  proof (induction fs arbitrary: s)
    case Nil
    then show ?case by (simp add: server_read_def)
  next
    case (Cons f fs)
    note frame = server_frame_leaves [OF Cons.prems, of e f]
    show ?case
    proof (cases "server_frame e f s")
      case (Ok t)
      with frame have t: "effects e s t" "connected t" by simp_all
      with Cons.IH [OF effects_good [OF t(1) Cons.prems(1)] t(2)] Ok show ?thesis
        by (auto simp: server_read_def elim!: leaves_mono intro: effects_trans)
    qed (use frame in \<open>auto simp: server_read_def\<close>)
  qed
  then show "leaves (\<lambda>t. effects e s t \<and> connected t) (server_read e fs s)"
    and "throws (server_read e fs s) \<Longrightarrow> list_ex undecodable fs" by blast+
qed

section \<open>Timers and the authentication service\<close>

lemma in_order_lands:
  assumes "\<And>f t. f \<in> set fs \<Longrightarrow> good t \<Longrightarrow> returns (effects e t) (f t)" and "good s"
  shows "returns (effects e s) (in_order fs s)"
  using assms
proof (induction fs arbitrary: s)
  case Nil
  then show ?case by simp
next
  case (Cons f fs)
  from Cons.prems(1) [of f s] Cons.prems(2) obtain t where t: "f s = Ok t" "effects e s t" by (cases "f s") auto
  with Cons.IH [OF _ effects_good [OF t(2) Cons.prems(2)]] Cons.prems(1) show ?case
    by (auto elim!: returns_mono intro: effects_trans)
qed

lemma server_timer_effects: "effects e s (server_timer e now s)"
proof -
  have "effects e s (server_send_test_request e now (s\<lparr>server := (server s)\<lparr>sv_next_heartbeat := t\<rparr>\<rparr>))"
    if "\<not> sv_state (server s) \<le> LOGON_SENT" for t
    unfolding server_send_test_request_def using that
    by (intro effects_step [OF eff_server_note effect.to_server]) (auto simp: state_order)
  then show ?thesis by (simp add: server_timer_def)
qed

lemma controller_timer_returns:
  assumes "good s"
  shows "returns (effects e s) (controller_timer e now s)"
proof -
  let ?t = "server_timer e now s"
  have t: "effects e s ?t" by (rule server_timer_effects)
  have "returns (effects e ?t) (in_order (map (session_timer e now) (map fst (sessions ?t))) ?t)"
    using effects_good [OF t assms] by (intro in_order_lands) (auto intro: session_timer_returns)
  then obtain u where "in_order (map (session_timer e now) (map fst (sessions ?t))) ?t = Ok u" "effects e ?t u"
    by (cases "in_order (map (session_timer e now) (map fst (sessions ?t))) ?t") auto
  with t show ?thesis
    by (auto simp: controller_timer_def manager_timer_def intro: effects_trans effects_step effect.collected)
qed

definition unreadable_entry :: "auth_entry \<Rightarrow> bool" where
  "unreadable_entry a \<longleftrightarrow>
     ae_action a = None \<or> ae_component a = None \<or> ae_username a = None \<or>
     ae_action a = Some ''insert'' \<and> (ae_password a = None \<or> ae_strategy_id a = None)"

lemma auth_apply_leaves: "leaves (effects e s) (auth_apply a s)"
proof -
  have "effects e s (update_shared (add_user u p i) s)" "effects e s (update_shared (remove_user u) s)" for u p i
    by (auto simp: add_user_def remove_user_def intro!: effect_effects effect.accounts)
  then show ?thesis by (simp add: auth_apply_def on_auth_insert_def on_auth_remove_def split: option.split)
qed

lemma auth_apply_throws: "throws (auth_apply a s) \<longleftrightarrow> unreadable_entry a"
  by (auto simp: auth_apply_def unreadable_entry_def split: option.split)

lemma auth_text_leaves: "leaves (effects e s) (auth_text payload s)"
proof (cases payload)
  case (Some entries)
  have "leaves (effects e s) (in_order (map auth_apply entries) s)"
    by (rule leaves_in_order) (auto intro: leaves_mono [OF auth_apply_leaves] effects_trans)
  with Some show ?thesis by (simp add: auth_text_def)
qed (simp add: auth_text_def)

lemma auth_apply_not_fatal [simp]: "auth_apply a s \<noteq> Fatal w"
  by (simp add: auth_apply_def split: option.split)

lemma auth_entries: "throws (in_order (map auth_apply entries) s) \<longleftrightarrow> list_ex unreadable_entry entries"
proof (induction entries arbitrary: s)
  case (Cons a entries)
  then show ?case using auth_apply_throws [of a s] by (cases "auth_apply a s") simp_all
qed simp

lemma auth_text_throws:
  "throws (auth_text payload s) \<longleftrightarrow> (case payload of None \<Rightarrow> True | Some entries \<Rightarrow> list_ex unreadable_entry entries)"
  by (cases payload) (simp_all add: auth_text_def auth_entries)

section \<open>Events\<close>

text \<open>An event that is enabled is a sequence of changes, whatever its outcome.\<close>

lemma handle_event_leaves:
  assumes "good s" and "enabled ev s"
  shows "leaves (effects e s) (handle_event e ev s)"
proof (cases ev)
  case (Timer_Event now)
  with controller_timer_returns [OF assms(1), of e now] show ?thesis
    by (auto intro: lands_leaves returns_lands)
next
  case (Client_Read sid fs)
  with session_read_lands [OF assms(1), of e fs sid] show ?thesis by (simp add: lands_leaves)
next
  case (Client_Disconnected sid)
  with session_disconnected_returns [OF assms(1), of e sid] show ?thesis
    by (auto intro: lands_leaves returns_lands)
next
  case Server_Disconnected
  from server_disconnected_returns [OF assms(1), of e] have "returns (effects e s) (server_disconnected e s)"
    by (rule returns_mono) simp
  with Server_Disconnected show ?thesis by (simp add: lands_leaves returns_lands)
next
  case (Server_Read fs)
  with assms(2) have "connected s" by (auto simp: connected_def)
  from server_read_leaves(1) [OF assms(1) this, of e fs] have "leaves (effects e s) (server_read e fs s)"
    by (rule leaves_mono) simp
  with Server_Read show ?thesis by simp
next
  case (Auth_Text payload)
  then show ?thesis by (simp add: auth_text_leaves)
next
  case Auth_Ready
  then show ?thesis by (simp add: auth_ready_def effect_effects [OF effect.subscribed])
qed (use assms(2) in \<open>auto intro: effect_effects effect.connected effect.session_added\<close>)

text \<open>Input that is not what it should be: a frame of the server that cannot be decoded, or an unreadable update.\<close>

fun bad_input :: "event \<Rightarrow> bool" where
  "bad_input (Server_Read fs) \<longleftrightarrow> list_ex undecodable fs"
| "bad_input (Auth_Text payload) \<longleftrightarrow>
     (case payload of None \<Rightarrow> True | Some entries \<Rightarrow> list_ex unreadable_entry entries)"
| "bad_input _ \<longleftrightarrow> False"

lemma server_read_decodes: "server_read e fs s = Ok t \<Longrightarrow> \<not> list_ex undecodable fs"
proof (induction fs arbitrary: s)
  case (Cons f fs)
  then obtain u where "server_frame e f s = Ok u" "server_read e fs u = Ok t"
    by (auto simp: server_read_def and_then_eq_Ok)
  with Cons.IH show ?case by (cases f) (simp_all add: server_frame_def)
qed simp

lemma handle_event_throws:
  assumes "good s" and "enabled ev s"
  shows "(throws (handle_event e ev s) \<longrightarrow> bad_input ev) \<and> (\<forall>t. handle_event e ev s = Ok t \<longrightarrow> \<not> bad_input ev)"
proof (cases ev)
  case (Timer_Event now)
  with controller_timer_returns [OF assms(1), of e now] show ?thesis by (auto elim: throws.elims)
next
  case (Client_Read sid fs)
  with lands_not_throws [OF session_read_lands [OF assms(1)]] show ?thesis by simp
next
  case (Client_Disconnected sid)
  with session_disconnected_returns [OF assms(1), of e sid] show ?thesis by (auto elim: throws.elims)
next
  case Server_Disconnected
  with server_disconnected_returns [OF assms(1), of e] show ?thesis by (auto elim: throws.elims)
next
  case (Server_Read fs)
  with assms(2) have "connected s" by (auto simp: connected_def)
  with server_read_leaves(2) [OF assms(1), of e fs] server_read_decodes [of e fs s] Server_Read show ?thesis
    by auto
next
  case (Auth_Text payload)
  with auth_text_throws [of payload s] show ?thesis by auto
qed simp_all

lemma at_time_effects: "effects e s (at_time system realtime s)"
  by (rule effect_effects [OF effect.clocks])

lemma enabled_at_time [simp]: "enabled ev (at_time system realtime s) = enabled ev s"
  by (cases ev) (simp_all add: at_time_def)

lemma step_effects:
  assumes "step e ev s t" and "good s"
  shows "effects e s t"
  using assms(1)
proof cases
  case (step system realtime)
  let ?s = "at_time system realtime s"
  have "leaves (effects e ?s) (handle_event e ev ?s)"
    using step(1) effects_good [OF at_time_effects assms(2)] by (intro handle_event_leaves) auto
  with step(2) show ?thesis by (auto intro: effects_trans [OF at_time_effects])
qed

lemma reachable_good: "reachable e s \<Longrightarrow> good s"
  by (induction rule: reachable.induct) (auto intro: good_create effects_good dest: step_effects)

section \<open>What every change keeps, every event keeps\<close>

locale effect_invariant =
  fixes inv :: "sys \<Rightarrow> bool"
  assumes initial: "inv (create_sys users symbols now)"
    and change: "effect e s t \<Longrightarrow> good s \<Longrightarrow> inv s \<Longrightarrow> inv t"
begin

lemma changes: "effects e s t \<Longrightarrow> good s \<Longrightarrow> inv s \<Longrightarrow> inv t"
proof -
  have "good t \<and> inv t" if "(effect e)\<^sup>*\<^sup>* s t" "good s \<and> inv s"
    using that by (induction rule: rtranclp_induct) (auto intro: effect_good change)
  then show "effects e s t \<Longrightarrow> good s \<Longrightarrow> inv s \<Longrightarrow> inv t" by (simp add: effects_def)
qed

lemma always: "reachable e s \<Longrightarrow> inv s"
proof (induction rule: reachable.induct)
  case (start users symbols now)
  then show ?case by (rule initial)
next
  case (turn s ev s')
  then show ?case using changes [OF step_effects reachable_good] reachable_good by blast
qed

end

locale effect_relation = kept rel for rel :: "sys \<Rightarrow> sys \<Rightarrow> bool" +
  assumes change: "effect e s t \<Longrightarrow> good s \<Longrightarrow> rel s t"
begin

lemma changes: "effects e s t \<Longrightarrow> good s \<Longrightarrow> rel s t"
proof -
  have "good t \<and> rel s t" if "(effect e)\<^sup>*\<^sup>* s t" "good s"
    using that by (induction rule: rtranclp_induct) (auto intro: effect_good same twice change)
  then show "effects e s t \<Longrightarrow> good s \<Longrightarrow> rel s t" by (simp add: effects_def)
qed

lemma in_step: "step e ev s t \<Longrightarrow> good s \<Longrightarrow> rel s t"
  by (blast intro: changes dest: step_effects)

end

end
