(* ===== verification/Lifecycle.thy ===== *)
theory Lifecycle
  imports Event_Effects
begin

text \<open>
  What holds over the life of the proxy: sessions only move forward through their states and ids are
  never given out twice, the messages of every connection are numbered without gaps, nothing is sent
  to a session that has ended, and a session that asks for a route or has one is the only one of an
  authenticated user. Each is shown for the changes of theory \<open>Effects\<close> and carried over to the events
  by an interpretation.
\<close>

section \<open>What has been sent\<close>

fun sent_to :: "u64 \<Rightarrow> wire list \<Rightarrow> header list" where
  "sent_to sid [] = []"
| "sent_to sid (To_Client sid' h m # xs) = (if sid' = sid then h # sent_to sid xs else sent_to sid xs)"
| "sent_to sid (x # xs) = sent_to sid xs"

fun sent_upstream :: "wire list \<Rightarrow> header list" where
  "sent_upstream [] = []"
| "sent_upstream (To_Server h m # xs) = h # sent_upstream xs"
| "sent_upstream (x # xs) = sent_upstream xs"

lemma sent_to_append [simp]: "sent_to sid (xs @ ys) = sent_to sid xs @ sent_to sid ys"
  by (induction xs rule: sent_to.induct) auto

lemma sent_upstream_append [simp]: "sent_upstream (xs @ ys) = sent_upstream xs @ sent_upstream ys"
  by (induction xs rule: sent_upstream.induct) auto

text \<open>The headers that the two senders put on a message.\<close>

definition client_header :: "env \<Rightarrow> msg \<Rightarrow> client_session \<Rightarrow> sys \<Rightarrow> header" where
  "client_header e m c s =
     \<lparr>hd_msg_type = msg_type_of m, hd_sender_comp_id = client_comp_id e, hd_target_comp_id = cs_comp_id c,
      hd_msg_seq_num = cs_outbound c + 1, hd_sending_time = clock_realtime s\<rparr>"

definition server_header :: "env \<Rightarrow> msg \<Rightarrow> sys \<Rightarrow> header" where
  "server_header e m s =
     \<lparr>hd_msg_type = msg_type_of m, hd_sender_comp_id = server_sender_comp_id e,
      hd_target_comp_id = server_target_comp_id e, hd_msg_seq_num = sv_outbound (server s) + 1,
      hd_sending_time = clock_realtime s\<rparr>"

lemma out_client_send:
  "out (client_send e m sid s) = out s @
     (case session_of sid s of None \<Rightarrow> [] | Some c \<Rightarrow> [To_Client sid (client_header e m c s) m])"
  by (simp add: client_send_def client_header_def Let_def split: option.split)

lemma out_server_send [simp]:
  "out (server_send_helper e m s) = out s @ [To_Server (server_header e m s) m]"
  by (simp add: server_send_helper_def server_header_def Let_def)

lemma header_seq [simp]:
  "hd_msg_seq_num (client_header e m c s) = cs_outbound c + 1"
  "hd_msg_seq_num (server_header e m s) = sv_outbound (server s) + 1"
  "hd_msg_type (server_header e m s) = msg_type_of m"
  by (simp_all add: client_header_def server_header_def)

lemma sv_outbound_send [simp]: "sv_outbound (server (server_send_helper e m s)) = sv_outbound (server s) + 1"
  by (simp add: server_send_helper_def Let_def)

lemma out_update [simp]:
  "out (update_session sid f s) = out s" "out (add_route r cid rid sid ka s) = out s"
  "out (server_logon s) = out s" "out (at_time system realtime s) = out s"
  by (simp_all add: event_defs)

section \<open>The order of the states of a session\<close>

text \<open>
  The states are passed in the order of their declaration, some of them left out; at the end the
  session is no longer there.
\<close>

fun later :: "client_state option \<Rightarrow> client_state option \<Rightarrow> bool" where
  "later None y \<longleftrightarrow> y = None"
| "later (Some a) None \<longleftrightarrow> True"
| "later (Some a) (Some b) \<longleftrightarrow> a \<le> b"

lemma later_refl [simp]: "later x x"
  by (cases x) simp_all

lemma later_trans: "later x y \<Longrightarrow> later y z \<Longrightarrow> later x z"
  by (cases x; cases y; cases z) auto

text \<open>Has the session, or the id, come to its end?\<close>

definition finished :: "u64 \<Rightarrow> sys \<Rightarrow> bool" where
  "finished sid s \<longleftrightarrow> sid \<le> next_session_id (shared s) \<and> (state_of sid s = None \<or> state_of sid s = Some ZOMBIE)"

definition moves_on :: "sys \<Rightarrow> sys \<Rightarrow> bool" where
  "moves_on s t \<longleftrightarrow>
     next_session_id (shared s) \<le> next_session_id (shared t) \<and>
     (\<forall>sid. sid \<le> next_session_id (shared s) \<longrightarrow> later (state_of sid s) (state_of sid t)) \<and>
     (\<exists>sent. out t = out s @ sent \<and> (\<forall>sid. finished sid s \<longrightarrow> sent_to sid sent = []))"

lemma later_end: "later (Some ZOMBIE) x \<Longrightarrow> x = None \<or> x = Some ZOMBIE"
proof (cases x)
  case (Some st)
  assume "later (Some ZOMBIE) x"
  with Some show ?thesis by (cases st) (simp_all add: state_order)
qed simp

lemma finished_later: "finished sid s \<Longrightarrow> moves_on s t \<Longrightarrow> finished sid t"
  using later_end [of "state_of sid t"] by (auto simp: finished_def moves_on_def intro: order.trans)

lemma moves_on_trans:
  assumes "moves_on s t" and "moves_on t u"
  shows "moves_on s u"
proof -
  from assms(1) obtain x where x: "out t = out s @ x" "\<And>sid. finished sid s \<Longrightarrow> sent_to sid x = []"
    by (auto simp: moves_on_def)
  from assms(2) obtain y where y: "out u = out t @ y" "\<And>sid. finished sid t \<Longrightarrow> sent_to sid y = []"
    by (auto simp: moves_on_def)
  have "later (state_of sid s) (state_of sid u)" if "sid \<le> next_session_id (shared s)" for sid
    using assms that by (auto simp: moves_on_def intro: later_trans order.trans)
  moreover have "sent_to sid (x @ y) = []" if "finished sid s" for sid
    using x(2) y(2) finished_later [OF that assms(1)] that by simp
  ultimately show ?thesis
    using assms x(1) y(1) by (auto simp: moves_on_def)
qed

lemma moves_onI:
  assumes "next_session_id (shared s) \<le> next_session_id (shared t)"
    and "\<And>sid. sid \<le> next_session_id (shared s) \<Longrightarrow> later (state_of sid s) (state_of sid t)"
    and "out t = out s @ sent" and "\<And>sid. finished sid s \<Longrightarrow> sent_to sid sent = []"
  shows "moves_on s t"
  using assms unfolding moves_on_def by blast

lemma moves_on_refl [simp]: "moves_on s s"
  by (rule moves_onI [where sent = "[]"]) simp_all

lemma moves_on_effect:
  assumes "effect e s t" and "good s"
  shows "moves_on s t"
  using assms(1)
proof (cases rule: effect.cases)
  case (to_client sid st m)
  then show ?thesis
    by (intro moves_onI [where sent = "case session_of sid s of None \<Rightarrow> [] | Some c \<Rightarrow> [To_Client sid (client_header e m c s) m]"])
      (auto simp: out_client_send finished_def split: option.split)
next
  case (to_server m)
  then show ?thesis by (intro moves_onI [where sent = "[To_Server (server_header e m s) m]"]) auto
next
  case (noted f sid)
  then show ?thesis by (intro moves_onI [where sent = "[]"]) (simp_all add: state_of_update_session)
next
  case (hang_up sid)
  then show ?thesis by (intro moves_onI [where sent = "[Close_Client sid]"]) auto
next
  case subscribed
  then show ?thesis by (intro moves_onI [where sent = "[To_Auth auth_subscribe_request]"]) auto
next
  case (enter sid u f pending asked)
  then show ?thesis
    by (intro moves_onI [where sent = "[]"]) (simp_all add: state_of_enter [where st = WAITING_CREATE_ROUTE] state_order)
next
  case (retire sid st pending asked)
  then show ?thesis by (intro moves_onI [where sent = "[]"]) (cases st; simp add: shared_op_fields state_order)+
next
  case connected
  then show ?thesis
    by (intro moves_onI [where sent = "[x]" for x]) (auto simp: event_defs)
next
  case session_added
  have "next_session_id (shared s) \<le> next_session_id (shared s) + 1"
    using word_less_inc [OF session_added(2)] by (simp add: less_imp_le)
  moreover have "\<not> next_session_id (shared s) + 1 \<le> next_session_id (shared s)"
    using word_less_inc [OF session_added(2)] by (simp add: not_le)
  ultimately show ?thesis
    using session_added goodD(6) [OF assms(2)]
    by (intro moves_onI [where sent = "[]"]) (auto simp: shared_manager state_of_add next_is_free)
next
  case (collected now)
  then show ?thesis
    using goodD(6) [OF assms(2)]
    by (intro moves_onI [where sent = "[]"]) (auto simp: state_of_collected shared_manager shared_op_fields)
qed (auto intro!: moves_onI [where sent = "[]"] simp: event_defs shared_op_fields state_order)

interpretation history: effect_relation moves_on
  by unfold_locales (auto intro: moves_on_trans moves_on_effect)

section \<open>Numbering of the messages to a client\<close>

definition outbound_of :: "u64 \<Rightarrow> sys \<Rightarrow> u64 option" where
  "outbound_of sid s = map_option cs_outbound (session_of sid s)"

text \<open>The first \<open>n\<close> numbers, as the counter of 64 bits gives them.\<close>

definition numbers :: "nat \<Rightarrow> u64 list" where
  "numbers n = map of_nat [1..<Suc n]"

lemma numbers_0 [simp]: "numbers 0 = []"
  by (simp add: numbers_def)

lemma numbers_Suc: "numbers (Suc n) = numbers n @ [of_nat n + 1]"
  by (simp add: numbers_def add.commute)

lemma length_numbers [simp]: "length (numbers n) = n"
  by (simp add: numbers_def)

definition numbered_to :: "u64 \<Rightarrow> sys \<Rightarrow> bool" where
  "numbered_to sid s \<longleftrightarrow>
     (let sent = map hd_msg_seq_num (sent_to sid (out s))
      in sent = numbers (length sent) \<and>
         (case outbound_of sid s of
            None \<Rightarrow> next_session_id (shared s) < sid \<longrightarrow> sent = []
          | Some n \<Rightarrow> n = of_nat (length sent)))"

lemma outbound_of_simps [simp]:
  "outbound_of sid' (server_send_helper e m s) = outbound_of sid' s"
  "outbound_of sid' (update_mapping r h s) = outbound_of sid' s"
  "outbound_of sid' (update_shared g s) = outbound_of sid' s"
  "outbound_of sid' (take_request_id s) = outbound_of sid' s"
  "outbound_of sid' (emit x s) = outbound_of sid' s"
  "outbound_of sid' (set_state sid st s) = outbound_of sid' s"
  "outbound_of sid' (bury sid s) = outbound_of sid' s"
  by (auto simp: outbound_of_def bury_def option.map_comp comp_def)

lemma outbound_of_update_session:
  "(\<And>c. cs_outbound (f c) = cs_outbound c) \<Longrightarrow> outbound_of sid' (update_session sid f s) = outbound_of sid' s"
  by (auto simp: outbound_of_def option.map_comp comp_def)

lemma outbound_of_client_send:
  "outbound_of sid' (client_send e m sid s) =
     (if sid' = sid then map_option (\<lambda>n. n + 1) (outbound_of sid s) else outbound_of sid' s)"
  by (auto simp: outbound_of_def session_of_client_send option.map_comp comp_def)

lemma outbound_of_update [simp]:
  "outbound_of sid (s\<lparr>shared := x0\<rparr>) = outbound_of sid s"
  "outbound_of sid (s\<lparr>server := x1\<rparr>) = outbound_of sid s"
  "outbound_of sid (s\<lparr>next_garbage_collection := x2\<rparr>) = outbound_of sid s"
  "outbound_of sid (s\<lparr>controller_ready := x3\<rparr>) = outbound_of sid s"
  "outbound_of sid (s\<lparr>client_to_session := x4\<rparr>) = outbound_of sid s"
  "outbound_of sid (s\<lparr>session_to_client := x5\<rparr>) = outbound_of sid s"
  "outbound_of sid (s\<lparr>user_server_to_client := x6\<rparr>) = outbound_of sid s"
  "outbound_of sid (s\<lparr>user_client_to_server := x7\<rparr>) = outbound_of sid s"
  "outbound_of sid (s\<lparr>mappings := x8\<rparr>) = outbound_of sid s"
  "outbound_of sid (s\<lparr>cl_ord_state := x9\<rparr>) = outbound_of sid s"
  "outbound_of sid (s\<lparr>total_num_pos_reports := x10\<rparr>) = outbound_of sid s"
  "outbound_of sid (s\<lparr>clock_system := x11\<rparr>) = outbound_of sid s"
  "outbound_of sid (s\<lparr>clock_realtime := x12\<rparr>) = outbound_of sid s"
  "outbound_of sid (s\<lparr>out := x13\<rparr>) = outbound_of sid s"
  by (simp_all add: outbound_of_def session_of_def)

lemma outbound_None: "outbound_of sid s = None \<longleftrightarrow> state_of sid s = None"
  by (simp add: outbound_of_def state_of_def)

lemma outbound_of_add:
  assumes "state_of (next_session_id (shared s) + 1) s = None"
  shows "outbound_of sid (manager_add_session e s) =
    (if sid = next_session_id (shared s) + 1 then Some 0 else outbound_of sid s)"
  using assms
  by (auto simp: outbound_of_def state_of_def session_of_def sessions_add map_of_emplace_list new_client_session_def)

lemma outbound_of_collected:
  "outbound_of sid (remove_zombies now s) =
     (if \<not> now < next_garbage_collection s \<and> sid \<in> set (sessions_to_remove (shared s)) then None else outbound_of sid s)"
  by (simp add: remove_zombies_def session_cleanup_def Let_def outbound_of_def session_of_def map_of_fold_delete)

lemma numbered_to_cong:
  assumes "numbered_to sid s" and "sent_to sid (out t) = sent_to sid (out s)"
    and "outbound_of sid t = outbound_of sid s"
    and "next_session_id (shared s) \<le> next_session_id (shared t)"
  shows "numbered_to sid t"
  using assms by (auto simp: numbered_to_def Let_def split: option.splits)

lemma numbered_to_effect:
  assumes "effect e s t" and "good s" and "numbered_to sid s"
  shows "numbered_to sid t"
  using assms(1)
proof (cases rule: effect.cases)
  case (to_client sid' st m)
  show ?thesis
  proof (cases "sid' = sid")
    case True
    from to_client(2) obtain c where c: "session_of sid' s = Some c" by (auto simp: state_of_Some)
    then have "outbound_of sid' s = Some (cs_outbound c)" by (simp add: outbound_of_def)
    with c True assms(3) to_client show ?thesis
      by (simp add: numbered_to_def Let_def out_client_send outbound_of_client_send numbers_Suc)
  next
    case False
    with to_client show ?thesis
      by (intro numbered_to_cong [OF assms(3)])
        (auto simp: out_client_send outbound_of_client_send split: option.split)
  qed
next
  case (enter sid' u f pending asked)
  then show ?thesis
    by (intro numbered_to_cong [OF assms(3)]) (simp_all add: outbound_of_update_session)
next
  case session_added
  note free = next_is_free(1) [OF goodD(6) [OF assms(2)] session_added(2)]
  note n = word_less_inc [OF session_added(2)]
  show ?thesis
  proof (cases "sid = next_session_id (shared s) + 1")
    case True
    with assms(3) free n session_added show ?thesis
      by (simp add: numbered_to_def Let_def outbound_of_add outbound_None [THEN iffD2])
  next
    case False
    with n session_added free show ?thesis
      by (intro numbered_to_cong [OF assms(3)]) (simp_all add: outbound_of_add shared_manager less_imp_le)
  qed
next
  case (collected now)
  have "sid \<le> next_session_id (shared s)" if "sid \<in> set (sessions_to_remove (shared s))"
    using that numbered_sessionsD(2,4) [OF goodD(6) [OF assms(2)], of sid] by simp
  with assms(3) collected show ?thesis
    by (auto simp: numbered_to_def Let_def outbound_of_collected shared_manager shared_op_fields split: option.splits if_splits)
next
  case (noted f sid)
  then show ?thesis by (intro numbered_to_cong [OF assms(3)]) (simp_all add: outbound_of_update_session)
qed (rule numbered_to_cong [OF assms(3)]; simp add: event_defs shared_op_fields)+

lemma numbered_to_create: "numbered_to sid (create_sys users symbols now)"
  by (simp add: numbered_to_def outbound_of_def session_of_def create_sys_def new_sys_def)

interpretation to_clients: effect_invariant "\<lambda>s. \<forall>sid. numbered_to sid s"
  by unfold_locales (auto intro: numbered_to_create numbered_to_effect)

section \<open>Numbering of the messages to the server\<close>

text \<open>Every number follows the one before it, except that the logon of a new connection starts again at 1.\<close>

fun gapless :: "u64 \<Rightarrow> header list \<Rightarrow> bool" where
  "gapless n [] \<longleftrightarrow> True"
| "gapless n (h # hs) \<longleftrightarrow>
     (hd_msg_seq_num h = n + 1 \<or> hd_msg_type h = MT_LOGON \<and> hd_msg_seq_num h = 1) \<and>
     gapless (hd_msg_seq_num h) hs"

fun last_number :: "u64 \<Rightarrow> header list \<Rightarrow> u64" where
  "last_number n [] = n"
| "last_number n (h # hs) = last_number (hd_msg_seq_num h) hs"

lemma gapless_append [simp]:
  "gapless n (xs @ ys) \<longleftrightarrow> gapless n xs \<and> gapless (last_number n xs) ys"
  by (induction xs arbitrary: n) auto

lemma last_number_append [simp]: "last_number n (xs @ ys) = last_number (last_number n xs) ys"
  by (induction xs arbitrary: n) auto

definition numbered_upstream :: "sys \<Rightarrow> bool" where
  "numbered_upstream s \<longleftrightarrow>
     gapless 0 (sent_upstream (out s)) \<and>
     sv_outbound (server s) = (if connected s then last_number 0 (sent_upstream (out s)) else 0)"

lemma numbered_upstream_cong:
  assumes "numbered_upstream s" and "sent_upstream (out t) = sent_upstream (out s)"
    and "sv_outbound (server t) = sv_outbound (server s)" and "connected t = connected s"
  shows "numbered_upstream t"
  using assms by (simp add: numbered_upstream_def)

lemma out_server_connected:
  "sent_upstream (out (server_connected e s)) = sent_upstream (out s) @
     [\<lparr>hd_msg_type = MT_LOGON, hd_sender_comp_id = server_sender_comp_id e,
       hd_target_comp_id = server_target_comp_id e, hd_msg_seq_num = sv_outbound (server s) + 1,
       hd_sending_time = clock_realtime s\<rparr>]"
  by (simp add: server_connected_def server_send_logon_def set_server_state_def server_header_def)

lemma numbered_upstream_effect:
  assumes "effect e s t" and "good s" and "numbered_upstream s"
  shows "numbered_upstream t"
  using assms(1)
proof (cases rule: effect.cases)
  case (to_client sid st m)
  then show ?thesis
    by (intro numbered_upstream_cong [OF assms(3)]) (auto simp: out_client_send connected_def split: option.split)
next
  case (to_server m)
  with assms(3) show ?thesis by (simp add: numbered_upstream_def connected_def)
next
  case connected
  with assms(3) have "sv_outbound (server (server_connected e s)) = 1" "connected (server_connected e s)"
    by (simp_all add: numbered_upstream_def connected_def server_connected_def server_send_logon_def set_server_state_def)
  with assms(3) connected show ?thesis
    by (simp add: numbered_upstream_def out_server_connected) (simp add: connected_def)
next
  case down
  with assms(3) show ?thesis by (simp add: numbered_upstream_def connected_def new_server_session_def)
next
  case up
  then show ?thesis
    by (intro numbered_upstream_cong [OF assms(3)]) (simp_all add: server_logon_def set_server_state_def on_server_ready_def connected_def)
qed (rule numbered_upstream_cong [OF assms(3)]; simp add: connected_def event_defs)+

lemma numbered_upstream_create: "numbered_upstream (create_sys users symbols now)"
  by (simp add: numbered_upstream_def connected_def create_sys_def new_sys_def new_server_session_def)

interpretation to_server: effect_invariant numbered_upstream
  by unfold_locales (auto intro: numbered_upstream_create numbered_upstream_effect)

section \<open>Sessions and users\<close>

definition authenticated :: "sys \<Rightarrow> bool" where
  "authenticated s \<longleftrightarrow>
     (\<forall>sid. state_of sid s = Some WAITING_CREATE_ROUTE \<or> state_of sid s = Some READY \<longrightarrow>
        session_to_username (shared s) sid \<noteq> None)"

lemma authenticated_effect:
  assumes "effect e s t" and "good s" and "authenticated s"
  shows "authenticated t"
  using assms(1)
proof (cases rule: effect.cases)
  case (noted f sid)
  with assms(3) show ?thesis by (simp add: authenticated_def state_of_update_session)
next
  case (enter sid u f pending asked)
  with assms(3) show ?thesis by (auto simp: authenticated_def state_of_enter [where st = WAITING_CREATE_ROUTE])
next
  case session_added
  with assms(3) goodD(6) [OF assms(2)] show ?thesis
    by (auto simp: authenticated_def state_of_add next_is_free shared_manager split: if_splits)
next
  case (collected now)
  with assms(3) goodD(6) [OF assms(2)] numbered_sessionsD(4) [OF goodD(6) [OF assms(2)]] show ?thesis
    by (auto simp: authenticated_def state_of_collected shared_manager shared_op_fields split: if_splits)
qed (use assms(3) in \<open>auto simp: authenticated_def event_defs shared_op_fields split: if_splits\<close>)

lemma authenticated_create: "authenticated (create_sys users symbols now)"
  by (simp add: authenticated_def)

interpretation users: effect_invariant authenticated
  by unfold_locales (auto intro: authenticated_create authenticated_effect)

end
