(* ===== verification/Scenario.thy ===== *)
theory Scenario
  imports Lifecycle
begin

text \<open>
  Runs of the proxy as values: \<open>run\<close> takes the events in their order and computes the state they lead to.
  A run from a reachable state ends in a reachable state. \<open>demo\<close> is a small configuration and a few
  runs of it; the properties are applied to the states these end in.
\<close>

section \<open>Runs\<close>

text \<open>
  One turn of the event loop; \<open>None\<close> when the event cannot happen, throws out of the loop or ends the
  process. Both clocks show the same time here.
\<close>

definition turn_of :: "env \<Rightarrow> nanos \<times> event \<Rightarrow> sys \<Rightarrow> sys option" where
  "turn_of e te s =
     (if enabled (snd te) s then
        (case handle_event e (snd te) (at_time (fst te) (fst te) s) of Ok t \<Rightarrow> Some t | _ \<Rightarrow> None)
      else None)"

fun run :: "env \<Rightarrow> (nanos \<times> event) list \<Rightarrow> sys \<Rightarrow> sys option" where
  "run e [] s = Some s"
| "run e (te # tes) s = (case turn_of e te s of None \<Rightarrow> None | Some t \<Rightarrow> run e tes t)"

lemma turn_of_step: "turn_of e te s = Some t \<Longrightarrow> step e (snd te) s t"
  by (auto simp: turn_of_def intro: step.step split: if_splits result.splits)

lemma run_reachable: "run e tes s = Some t \<Longrightarrow> reachable e s \<Longrightarrow> reachable e t"
  by (induction tes arbitrary: s) (auto dest: turn_of_step intro: reachable.turn split: option.splits)

lemma run_moves_on: "run e tes s = Some t \<Longrightarrow> reachable e s \<Longrightarrow> moves_on s t"
proof (induction tes arbitrary: s)
  case (Cons te tes)
  then obtain u where u: "turn_of e te s = Some u" "run e tes u = Some t" by (auto split: option.splits)
  then have "step e (snd te) s u" by (simp add: turn_of_step)
  with Cons show ?case
    using u(2) by (blast intro: moves_on_trans history.in_step reachable_good reachable.turn)
qed simp

section \<open>A configuration\<close>

definition demo_env :: env where
  "demo_env =
     \<lparr>auth_uri = ''ws://auth'', auth_decode_buffer_size = 1048576, auth_encode_buffer_size = 65536,
      auth_ping_freq = 1000, server_target_comp_id = ''BRIDGE'', server_sender_comp_id = ''PROXY'',
      server_username = ''bridge'', server_password = ''pw'', server_auth_method = [],
      server_decode_buffer_size = 65536, server_encode_buffer_size = 65536, server_ping_freq = 1000,
      server_request_timeout = 500, server_debug = False, client_listen_address = ''localhost:1234'',
      client_comp_id = ''PROXY'', client_auth_method = [], client_auth_timestamp_tolerance = 0,
      client_logon_timeout = 5000, client_logon_heartbeat_min = 0, client_logon_heartbeat_max = 60000000000,
      client_heartbeat_freq = 1000, client_decode_buffer_size = 65536, client_encode_buffer_size = 65536,
      config_file = ''proxy.toml'', net_connection_timeout = 5000000000, net_tls_validate_certificate = False,
      test_enable_order_mass_cancel = False, test_disable_remove_cl_ord_id = False, test_fix_debug = False,
      auth_method = METHOD_UNDEFINED, is_valid = (\<lambda>_. True), valid_req_id = (\<lambda>i. i \<noteq> []),
      is_order_complete = (\<lambda>st. st = ORD_REJECTED), signature = (\<lambda>key data. key @ data),
      from_chars = (\<lambda>_. 0)\<rparr>"

definition demo_start :: sys where
  "demo_start = create_sys [(''alice'', ''secret'', 42), (''bob'', ''hidden'', 7)] [''.*''] 0"

lemma demo_start_reachable: "reachable demo_env demo_start"
  unfolding demo_start_def by (rule reachable.start)

text \<open>Messages of the run, from a sender \<open>who\<close>.\<close>

definition demo_header :: "string \<Rightarrow> u64 \<Rightarrow> msg \<Rightarrow> header" where
  "demo_header who n m =
     \<lparr>hd_msg_type = msg_type_of m, hd_sender_comp_id = who, hd_target_comp_id = ''PROXY'', hd_msg_seq_num = n,
      hd_sending_time = 0\<rparr>"

definition frame :: "string \<Rightarrow> u64 \<Rightarrow> msg \<Rightarrow> frame_in" where
  "frame who n m = Decoded (demo_header who n m) m"

definition demo_logon_of :: "string \<Rightarrow> string \<Rightarrow> logon" where
  "demo_logon_of username password =
     \<lparr>lg_encrypt_method = ENCRYPT_NONE, lg_heart_bt_int = 30, lg_raw_data = [], lg_reset_seq_num_flag = True,
            lg_next_expected_msg_seq_num = 1, lg_username = username, lg_password = password\<rparr>"

definition demo_logon :: "string \<Rightarrow> string \<Rightarrow> msg" where
  "demo_logon username password = Logon (demo_logon_of username password)"

definition demo_user_response :: "string \<Rightarrow> string \<Rightarrow> user_status \<Rightarrow> msg" where
  "demo_user_response req_id username status =
     User_Response \<lparr>urs_user_request_id = req_id, urs_username = username, urs_user_status = status, urs_rest = []\<rparr>"

definition demo_new_order :: "string \<Rightarrow> new_order_single" where
  "demo_new_order cl_ord_id =
     \<lparr>nos_cl_ord_id = cl_ord_id, nos_no_party_ids = [], nos_account = ''A1'', nos_exec_inst = [],
      nos_symbol = ''BTC'', nos_security_exchange = ''X'', nos_side = ''1'', nos_order_qty = ''1.0'',
      nos_price = ''10.0'', nos_stop_px = [], nos_time_in_force = ''0'', nos_rest = []\<rparr>"

definition demo_market_data :: "string \<Rightarrow> subscription_request_type \<Rightarrow> market_data_request" where
  "demo_market_data md_req_id t =
     \<lparr>mdr_md_req_id = md_req_id, mdr_subscription_request_type = t, mdr_rest = []\<rparr>"

definition demo_report :: "string \<Rightarrow> exec_type \<Rightarrow> ord_status \<Rightarrow> execution_report" where
  "demo_report cl_ord_id t status =
     \<lparr>er_order_id = ''x1'', er_cl_ord_id = cl_ord_id, er_orig_cl_ord_id = [], er_ord_status_req_id = [],
      er_mass_status_req_id = [], er_tot_num_reports = 0, er_last_rpt_requested = False,
      er_no_party_ids = [\<lparr>party_id = ''42'', party_id_source = PROPRIETARY_CUSTOM_CODE, party_role = CLIENT_ID\<rparr>],
      er_exec_id = ''e1'', er_exec_type = t, er_ord_status = status, er_ord_rej_reason = ORD_REJ_OTHER,
      er_account = ''A1'', er_symbol = ''BTC'', er_security_exchange = ''X'', er_side = ''1'',
      er_order_qty = ''1.0'', er_price = ''10.0'', er_stop_px = [], er_time_in_force = ''0'', er_exec_inst = [],
      er_leaves_qty = ''0.0'', er_cum_qty = ''0.0'', er_avg_px = ''0.0'', er_text = [], er_rest = []\<rparr>"

text \<open>The upstream session logs on; \<open>alice\<close> connects, logs on and gets her route, and sends an order.\<close>

definition demo_up :: "(nanos \<times> event) list" where
  "demo_up = [(1, Server_Connected), (2, Server_Read [frame ''BRIDGE'' 1 (demo_logon [] [])])]"

definition demo_asked :: "(nanos \<times> event) list" where
  "demo_asked = demo_up @ [(3, Client_Connected), (4, Client_Read 1 [frame ''ALICE'' 1 (demo_logon ''alice'' ''secret'')])]"

definition demo_ready :: "(nanos \<times> event) list" where
  "demo_ready = demo_asked @ [(5, Server_Read [frame ''BRIDGE'' 2 (demo_user_response ''proxy-1'' ''42'' LOGGED_IN)])]"

definition demo_trading :: "(nanos \<times> event) list" where
  "demo_trading = demo_ready @
     [(6, Client_Read 1 [frame ''ALICE'' 2 (New_Order_Single (demo_new_order ''o1'')),
       frame ''ALICE'' 3 (Market_Data_Request (demo_market_data ''m1'' SNAPSHOT_UPDATES))])]"

definition state_after :: "(nanos \<times> event) list \<Rightarrow> sys" where
  "state_after tes = (case run demo_env tes demo_start of Some s \<Rightarrow> s | None \<Rightarrow> demo_start)"

lemma state_after_reachable: "reachable demo_env (state_after tes)"
  using run_reachable [OF _ demo_start_reachable] demo_start_reachable
  by (auto simp: state_after_def split: option.split)

text \<open>What the runs lead to.\<close>

lemma demo_asked_state: "state_of 1 (state_after demo_asked) = Some WAITING_CREATE_ROUTE"
  by code_simp

definition demo_session :: client_session where
  "demo_session = the (session_of 1 (state_after demo_ready))"

lemma demo_ready_state:
  "session_of 1 (state_after demo_ready) = Some demo_session" "cs_state demo_session = READY"
  "server_ready (state_after demo_ready)" "controller_ready (state_after demo_ready)"
  "cs_party_id demo_session = ''42''" "fresh_request_id (state_after demo_ready) = ''proxy-2''"
proof -
  have "let s = state_after demo_ready in session_of 1 s \<noteq> None \<and> cs_state demo_session = READY \<and> server_ready s \<and>
      controller_ready s \<and> cs_party_id demo_session = ''42'' \<and> fresh_request_id s = ''proxy-2''"
    by code_simp
  then show "session_of 1 (state_after demo_ready) = Some demo_session" "cs_state demo_session = READY"
    "server_ready (state_after demo_ready)" "controller_ready (state_after demo_ready)"
    "cs_party_id demo_session = ''42''" "fresh_request_id (state_after demo_ready) = ''proxy-2''"
    by (auto simp: demo_session_def Let_def)
qed

lemma demo_trading_state: "state_of 1 (state_after demo_trading) = Some READY"
  by code_simp

lemma demo_ready_tables:
  "find_req_id r rid (state_after demo_ready) = None" "\<not> req_id_in_use r sid cid (state_after demo_ready)"
  by code_simp+

end
