(* ===== verification/Request_Replies.thy ===== *)
theory Request_Replies
  imports Scenario
begin

text \<open>
  A request and the replies to it, from end to end: what goes upstream for a request of a client, under
  which id, what the client gets back for the replies, under its own id, and when the request is
  forgotten.
\<close>

section \<open>What is delivered\<close>

text \<open>What a message of the controller puts on the connection of a session: nothing, unless it is ready.\<close>

definition delivered :: "env \<Rightarrow> msg \<Rightarrow> u64 \<Rightarrow> sys \<Rightarrow> wire list" where
  "delivered e m sid s =
     (case session_of sid s of
        None \<Rightarrow> []
      | Some c \<Rightarrow> if session_ready c then [To_Client sid (client_header e m c s) m] else [])"

lemma out_deliver [simp]: "out (dispatch_to_client e m sid s) = out s @ delivered e m sid s"
  by (simp add: dispatch_to_client_sends delivered_def out_client_send split: option.split)

lemma mappings_deliver [simp]: "mappings (dispatch_to_client e m sid s) = mappings s"
  by (simp add: dispatch_to_client_sends split: option.split)

lemma clock_deliver [simp]: "clock_realtime (dispatch_to_client e m sid s) = clock_realtime s"
  by (simp add: dispatch_to_client_sends split: option.split)

lemma forget_fields [simp]:
  "out (forget_req_id r rid s) = out s"
  "clock_realtime (forget_req_id r rid s) = clock_realtime s"
  "total_num_pos_reports (forget_req_id r rid s) = total_num_pos_reports s"
  by (simp_all add: forget_req_id_def)

lemma deliver_fields [simp]:
  "total_num_pos_reports (dispatch_to_client e m sid s) = total_num_pos_reports s"
  "cl_ord_state (dispatch_to_client e m sid s) = cl_ord_state s"
  "client_to_session (dispatch_to_client e m sid s) = client_to_session s"
  by (simp_all add: dispatch_to_client_sends split: option.split)

lemma delivered_ready:
  "session_of sid s = Some c \<Longrightarrow> cs_state c = READY \<Longrightarrow> delivered e m sid s = [To_Client sid (client_header e m c s) m]"
  by (simp add: delivered_def session_ready_def)

lemma delivered_cong:
  "session_of sid t = session_of sid s \<Longrightarrow> clock_realtime t = clock_realtime s \<Longrightarrow> delivered e m sid t = delivered e m sid s"
  by (simp add: delivered_def client_header_def split: option.split)

lemma delivered_to: "To_Client sid' h n \<in> set (delivered e m sid s) \<Longrightarrow> sid' = sid"
  by (auto simp: delivered_def split: option.splits if_splits)

lemma length_delivered: "length (delivered e m sid s) \<le> Suc 0"
  by (simp add: delivered_def split: option.split)

lemma sent_upstream_delivered [simp]: "sent_upstream (delivered e m sid s) = []"
  by (simp add: delivered_def split: option.split)

section \<open>A request on its way\<close>

text \<open>
  The request \<open>cid\<close> of the session is known upstream as \<open>rid\<close>: the reply finds the session, and the
  client's id is in use.
\<close>

definition on_its_way :: "mapping_ref \<Rightarrow> string \<Rightarrow> string \<Rightarrow> u64 \<Rightarrow> bool \<Rightarrow> sys \<Rightarrow> bool" where
  "on_its_way r cid rid sid ka s \<longleftrightarrow>
     find_req_id r rid s = Some (sid, cid, ka) \<and> find_client_req_id sid cid (mappings s r) = Some rid"

text \<open>The request is forgotten: no reply is routed any more and the client may use its id again.\<close>

definition over :: "mapping_ref \<Rightarrow> string \<Rightarrow> string \<Rightarrow> u64 \<Rightarrow> sys \<Rightarrow> bool" where
  "over r cid rid sid s \<longleftrightarrow> find_req_id r rid s = None \<and> \<not> req_id_in_use r sid cid s"

lemma on_its_way_add:
  "find_req_id r rid s = None \<Longrightarrow> \<not> req_id_in_use r sid cid s \<Longrightarrow> on_its_way r cid rid sid ka (add_route r cid rid sid ka s)"
  by (simp add: on_its_way_def find_req_id_def req_id_in_use_def add_route_def table_simps try_emplace_apply)

lemma on_its_way_cong: "mappings t r = mappings s r \<Longrightarrow> on_its_way r cid rid sid ka t = on_its_way r cid rid sid ka s"
  by (simp add: on_its_way_def find_req_id_def)

lemma on_its_wayD: "on_its_way r cid rid sid ka s \<Longrightarrow> find_req_id r rid s = Some (sid, cid, ka)"
  by (simp add: on_its_way_def)

lemma over_forget:
  assumes "on_its_way r cid rid sid ka s" and "rid \<noteq> []"
  shows "over r cid rid sid (forget_req_id r rid s)"
  using assms
  by (simp add: on_its_way_def over_def find_req_id_def req_id_in_use_def forget_req_id_def table_simps)

lemma over_cong: "mappings t r = mappings s r \<Longrightarrow> over r cid rid sid t = over r cid rid sid s"
  by (simp add: over_def find_req_id_def req_id_in_use_def)

lemma client_request_id_not_Nil [simp]: "client_request_id c i \<noteq> []"
  by (simp add: client_request_id_def)

lemma fresh_request_id_not_Nil [simp]: "fresh_request_id s \<noteq> []"
  by (simp add: fresh_request_id_def create_request_id_def counter_id_def Let_def)

lemma get_client_own_party [simp]: "get_client_from_parties [own_party c] = cs_party_id c"
  by (simp add: get_client_from_parties_def own_party_def)

lemma find_req_id_simps [simp]:
  "find_req_id r rid (open_table r' sid s) = find_req_id r rid s"
  "find_req_id r rid (take_request_id s) = find_req_id r rid s"
  "find_req_id r rid (server_send_helper e m s) = find_req_id r rid s"
  "req_id_in_use r sid cid (take_request_id s) = req_id_in_use r sid cid s"
  "req_id_in_use r sid cid (server_send_helper e m s) = req_id_in_use r sid cid s"
  by (auto simp: find_req_id_def open_table_def table_simps req_id_in_use_def)

lemma out_open_table [simp]: "out (open_table r sid s) = out s"
  "clock_realtime (open_table r sid s) = clock_realtime s" "server (open_table r sid s) = server s"
  "session_of sid' (open_table r sid s) = session_of sid' s" "shared (open_table r sid s) = shared s"
  by (simp_all add: open_table_def)

lemma server_header_cong:
  "sv_outbound (server t) = sv_outbound (server s) \<Longrightarrow> clock_realtime t = clock_realtime s \<Longrightarrow>
     server_header e m t = server_header e m s"
  by (simp add: server_header_def)

lemma when_ready_act:
  "session_of sid s = Some c \<Longrightarrow> cs_state c = READY \<Longrightarrow> when_ready e h sid act s = act c s"
  by (simp add: when_ready_def)

text \<open>A ready session of a proxy whose invariants hold, and a request that is fit to be sent.\<close>

definition at_work :: "u64 \<Rightarrow> client_session \<Rightarrow> sys \<Rightarrow> bool" where
  "at_work sid c s \<longleftrightarrow> session_of sid s = Some c \<and> cs_state c = READY \<and> server_ready s"

lemma at_workD:
  assumes "at_work sid c s"
  shows "session_of sid s = Some c" "cs_state c = READY" "server_ready s"
  using assms by (simp_all add: at_work_def)

lemma at_work_reachable:
  "reachable e s \<Longrightarrow> session_of sid s = Some c \<Longrightarrow> cs_state c = READY \<Longrightarrow> at_work sid c s"
  using server_ready_of_live [OF reachable_good, of e s sid] by (simp add: at_work_def state_of_def)

text \<open>The order requests differ only in the message; this is what they have in common.\<close>

lemma order_request_sent:
  assumes "at_work sid c s" and "\<not> req_id_in_use r sid cid s" and "find_req_id r rid s = None"
  shows "\<exists>t. and_then (dispatch_to_server e m (open_table r sid s)) (\<lambda>s. Ok (add_route r cid rid sid ka s)) = Ok t \<and>
    out t = out s @ [To_Server (server_header e m s) m] \<and> on_its_way r cid rid sid ka t \<and>
    session_of sid t = Some c \<and> clock_realtime t = clock_realtime s"
proof -
  let ?s = "open_table r sid s"
  have "server_ready ?s" using at_workD(3) [OF assms(1)] by (simp add: server_ready_def)
  moreover have "on_its_way r cid rid sid ka (add_route r cid rid sid ka (server_send_helper e m ?s))"
    using assms(2,3) by (intro on_its_way_add) simp_all
  moreover have "server_header e m ?s = server_header e m s" by (rule server_header_cong) simp_all
  ultimately show ?thesis
    using at_workD(1) [OF assms(1)] by (simp add: dispatch_to_server_ready) (simp add: add_route_def)
qed

section \<open>A session with a request on its way\<close>

text \<open>The session of the demonstration run, ready, with one request entered by hand.\<close>

definition demo_with :: "mapping_ref \<Rightarrow> string \<Rightarrow> string \<Rightarrow> bool \<Rightarrow> sys" where
  "demo_with r cid rid ka = add_route r cid rid 1 ka (state_after demo_ready)"

lemma demo_at_work: "at_work 1 demo_session (state_after demo_ready)"
  by (simp add: at_work_def demo_ready_state)

lemma demo_with_at_work: "at_work 1 demo_session (demo_with r cid rid ka)"
  by (simp add: at_work_def demo_with_def add_route_def demo_ready_state)

lemma demo_with_on_its_way: "on_its_way r cid rid 1 ka (demo_with r cid rid ka)"
  unfolding demo_with_def by (rule on_its_way_add) (simp_all add: demo_ready_tables)

lemma demo_with_others:
  "find_req_id r' rid' (demo_with r cid rid ka) = (if r' = r \<and> rid' = rid then Some (1, cid, ka) else None)"
  "fresh_request_id (demo_with r cid rid ka) = ''proxy-2''"
  using demo_ready_tables(1) demo_ready_state(6)
  by (auto simp: demo_with_def add_route_def find_req_id_def table_simps try_emplace_apply fresh_request_id_def)

lemma demo_env_checks [simp]:
  "is_valid demo_env m" "valid_req_id demo_env i = (i \<noteq> [])" "\<not> test_disable_remove_cl_ord_id demo_env"
  "is_order_complete demo_env st = (st = ORD_REJECTED)"
  by (simp_all add: demo_env_def)

lemma demo_request_id: "client_request_id (cs_party_id demo_session) ''o1'' = ''proxy-42:o1''"
  by (simp add: demo_ready_state client_request_id_def)

lemma colon_free_demo: "colon_free (cs_party_id demo_session)"
  by (simp add: demo_ready_state colon_free_def)

section \<open>Orders\<close>

lemma new_order_sent:
  assumes "at_work sid c s" and "valid_req_id e (nos_cl_ord_id v)" and "nos_no_party_ids v = []"
    and "rid = client_request_id (cs_party_id c) (nos_cl_ord_id v)"
    and "is_valid e (New_Order_Single (v\<lparr>nos_no_party_ids := [own_party c]\<rparr>))"
    and "\<not> req_id_in_use CL_ORD_ID sid (nos_cl_ord_id v) s" and "find_req_id CL_ORD_ID rid s = None"
    and "m = New_Order_Single (v\<lparr>nos_no_party_ids := [own_party c], nos_cl_ord_id := rid\<rparr>)"
  shows "\<exists>t. session_new_order_single e v h sid s = Ok t \<and> out t = out s @ [To_Server (server_header e m s) m] \<and>
    on_its_way CL_ORD_ID (nos_cl_ord_id v) rid sid True t \<and> session_of sid t = Some c"
  using assms order_request_sent [OF assms(1,6,7), of e m True] at_workD [OF assms(1)]
  by (auto simp: session_new_order_single_def when_ready_act add_party_ids_def on_new_order_single_def Let_def)

text \<open>
  A new order of a ready session goes upstream once, with the session's own party and under the
  id made of the party and the client's id; nothing else is sent, and from then on replies for that id
  reach this session.
\<close>

theorem new_order_forwarded:
  assumes "at_work sid c s" and "valid_req_id e (nos_cl_ord_id v)" and "nos_no_party_ids v = []"
    and "rid = client_request_id (cs_party_id c) (nos_cl_ord_id v)"
    and "is_valid e (New_Order_Single (v\<lparr>nos_no_party_ids := [own_party c]\<rparr>))"
    and "\<not> req_id_in_use CL_ORD_ID sid (nos_cl_ord_id v) s" and "find_req_id CL_ORD_ID rid s = None"
    and "m = New_Order_Single (v\<lparr>nos_no_party_ids := [own_party c], nos_cl_ord_id := rid\<rparr>)"
  shows "\<exists>t. session_new_order_single e v h sid s = Ok t \<and> out t = out s @ [To_Server (server_header e m s) m] \<and>
    on_its_way CL_ORD_ID (nos_cl_ord_id v) rid sid True t \<and> session_of sid t = Some c"
  using assms by (rule new_order_sent)

theorem new_order_forwarded_witness:
  "\<exists>t. session_new_order_single demo_env (demo_new_order ''o1'') (demo_header ''ALICE'' 2 (New_Order_Single (demo_new_order ''o1'')))
      1 (state_after demo_ready) = Ok t \<and> on_its_way CL_ORD_ID ''o1'' ''proxy-42:o1'' 1 True t"
  using new_order_forwarded [OF demo_at_work, of demo_env "demo_new_order ''o1''" "''proxy-42:o1''"]
  by (auto simp: demo_new_order_def demo_ready_tables demo_request_id)

text \<open>
  A cancel request names the order under the id the order was sent under, and is sent under an id
  of its own; it is routed like the order.
\<close>

theorem order_cancel_forwarded:
  assumes "at_work sid c s" and "valid_req_id e (ocn_cl_ord_id v)" and "valid_req_id e (ocn_orig_cl_ord_id v)"
    and "ocn_no_party_ids v = []" and "rid = client_request_id (cs_party_id c) (ocn_cl_ord_id v)"
    and "is_valid e (Order_Cancel_Request (v\<lparr>ocn_no_party_ids := [own_party c]\<rparr>))"
    and "\<not> req_id_in_use CL_ORD_ID sid (ocn_cl_ord_id v) s" and "find_req_id CL_ORD_ID rid s = None"
    and "m = Order_Cancel_Request (v\<lparr>ocn_no_party_ids := [own_party c], ocn_cl_ord_id := rid,
      ocn_orig_cl_ord_id := client_request_id (cs_party_id c) (ocn_orig_cl_ord_id v)\<rparr>)"
  shows "\<exists>t. session_order_cancel_request e v h sid s = Ok t \<and> out t = out s @ [To_Server (server_header e m s) m] \<and>
    on_its_way CL_ORD_ID (ocn_cl_ord_id v) rid sid True t \<and> session_of sid t = Some c"
  using assms order_request_sent [OF assms(1,7,8), of e m True] at_workD [OF assms(1)]
  by (auto simp: session_order_cancel_request_def when_ready_act add_party_ids_def on_order_cancel_request_def Let_def)

definition demo_cancel :: order_cancel_request where
  "demo_cancel = \<lparr>ocn_orig_cl_ord_id = ''o1'', ocn_cl_ord_id = ''o2'', ocn_no_party_ids = [], ocn_account = ''A1'', ocn_rest = []\<rparr>"

theorem order_cancel_forwarded_witness:
  "\<exists>t. session_order_cancel_request demo_env demo_cancel (demo_header ''ALICE'' 2 (Order_Cancel_Request demo_cancel))
      1 (state_after demo_ready) = Ok t \<and> on_its_way CL_ORD_ID ''o2'' ''proxy-42:o2'' 1 True t"
  using order_cancel_forwarded [OF demo_at_work, of demo_env demo_cancel "''proxy-42:o2''"]
  by (auto simp: demo_cancel_def demo_ready_tables demo_ready_state client_request_id_def)

text \<open>
  A request to replace an order names the order under the id it was sent under, and is sent under
  an id of its own; it is routed like the order.
\<close>

theorem order_replace_forwarded:
  assumes "at_work sid c s" and "valid_req_id e (ocr_cl_ord_id v)" and "valid_req_id e (ocr_orig_cl_ord_id v)"
    and "ocr_no_party_ids v = []" and "rid = client_request_id (cs_party_id c) (ocr_cl_ord_id v)"
    and "is_valid e (Order_Cancel_Replace_Request (v\<lparr>ocr_no_party_ids := [own_party c]\<rparr>))"
    and "\<not> req_id_in_use CL_ORD_ID sid (ocr_cl_ord_id v) s" and "find_req_id CL_ORD_ID rid s = None"
    and "m = Order_Cancel_Replace_Request (v\<lparr>ocr_no_party_ids := [own_party c], ocr_cl_ord_id := rid,
      ocr_orig_cl_ord_id := client_request_id (cs_party_id c) (ocr_orig_cl_ord_id v)\<rparr>)"
  shows "\<exists>t. session_order_cancel_replace_request e v h sid s = Ok t \<and>
    out t = out s @ [To_Server (server_header e m s) m] \<and>
    on_its_way CL_ORD_ID (ocr_cl_ord_id v) rid sid True t \<and> session_of sid t = Some c"
  using assms order_request_sent [OF assms(1,7,8), of e m True] at_workD [OF assms(1)]
  by (auto simp: session_order_cancel_replace_request_def when_ready_act add_party_ids_def
      on_order_cancel_replace_request_def Let_def)

definition demo_replace :: order_cancel_replace_request where
  "demo_replace = \<lparr>ocr_orig_cl_ord_id = ''o1'', ocr_cl_ord_id = ''o2'', ocr_no_party_ids = [], ocr_account = ''A1'', ocr_rest = []\<rparr>"

theorem order_replace_forwarded_witness:
  "\<exists>t. session_order_cancel_replace_request demo_env demo_replace
      (demo_header ''ALICE'' 2 (Order_Cancel_Replace_Request demo_replace)) 1 (state_after demo_ready) = Ok t \<and>
    on_its_way CL_ORD_ID ''o2'' ''proxy-42:o2'' 1 True t"
  using order_replace_forwarded [OF demo_at_work, of demo_env demo_replace "''proxy-42:o2''"]
  by (auto simp: demo_replace_def demo_ready_tables demo_ready_state client_request_id_def)

lemma get_client_cl_ord_id_make: "colon_free p \<Longrightarrow> get_client_cl_ord_id (client_request_id p cid) = cid"
  by (rule client_ids.client_part_make)

lemma rejected_order_report:
  assumes "on_its_way CL_ORD_ID cid rid sid True t" and "rid = client_request_id p cid" and "colon_free p"
    and "er_cl_ord_id w = rid" and "er_ord_status_req_id w = []" and "er_mass_status_req_id w = []"
    and "er_exec_type w = EXEC_REJECTED"
    and "m = Execution_Report (w\<lparr>er_cl_ord_id := cid, er_orig_cl_ord_id := get_client_cl_ord_id (er_orig_cl_ord_id w)\<rparr>)"
  shows "out (on_execution_report e w t) = out t @ delivered e m sid t" and "over CL_ORD_ID cid rid sid (on_execution_report e w t)"
proof -
  have r: "on_execution_report e w t = forget_req_id CL_ORD_ID rid (dispatch_to_client e m sid t)"
    using assms on_its_wayD [OF assms(1)]
    by (simp add: on_execution_report_def on_order_action_report_def Let_def is_pending_def get_client_cl_ord_id_make)
  show "out (on_execution_report e w t) = out t @ delivered e m sid t" by (simp add: r)
  have "on_its_way CL_ORD_ID cid rid sid True (dispatch_to_client e m sid t)"
    using assms(1) by (subst on_its_way_cong [of _ _ t]) simp_all
  then show "over CL_ORD_ID cid rid sid (on_execution_report e w t)"
    unfolding r using assms(2) by (intro over_forget) simp_all
qed

text \<open>
  A new order that the server rejects: the client gets the report under its own order id, with
  nothing else changed but the id of the replaced order, and may use the id again.
\<close>

theorem order_reject_roundtrip:
  assumes "at_work sid c s" and "valid_req_id e (nos_cl_ord_id v)" and "nos_no_party_ids v = []"
    and "rid = client_request_id (cs_party_id c) (nos_cl_ord_id v)" and "colon_free (cs_party_id c)"
    and "is_valid e (New_Order_Single (v\<lparr>nos_no_party_ids := [own_party c]\<rparr>))"
    and "\<not> req_id_in_use CL_ORD_ID sid (nos_cl_ord_id v) s" and "find_req_id CL_ORD_ID rid s = None"
    and "session_new_order_single e v h sid s = Ok t"
    and "er_cl_ord_id w = rid" and "er_ord_status_req_id w = []" and "er_mass_status_req_id w = []"
    and "er_exec_type w = EXEC_REJECTED"
    and "m = Execution_Report (w\<lparr>er_cl_ord_id := nos_cl_ord_id v,
      er_orig_cl_ord_id := get_client_cl_ord_id (er_orig_cl_ord_id w)\<rparr>)"
  shows "out (on_execution_report e w t) = out t @ [To_Client sid (client_header e m c t) m] \<and>
    over CL_ORD_ID (nos_cl_ord_id v) rid sid (on_execution_report e w t)"
proof -
  from new_order_sent [OF assms(1-4,6-8) refl, of h] assms(9)
  have t: "on_its_way CL_ORD_ID (nos_cl_ord_id v) rid sid True t" "session_of sid t = Some c" by auto
  from rejected_order_report [OF t(1) assms(4,5,10-14), of e] show ?thesis
    using delivered_ready [OF t(2) at_workD(2) [OF assms(1)]] by simp
qed

theorem order_reject_roundtrip_witness:
  "\<exists>t. session_new_order_single demo_env (demo_new_order ''o1'') (demo_header ''ALICE'' 2 (New_Order_Single (demo_new_order ''o1'')))
      1 (state_after demo_ready) = Ok t \<and>
    over CL_ORD_ID ''o1'' ''proxy-42:o1'' 1
      (on_execution_report demo_env (demo_report ''proxy-42:o1'' EXEC_REJECTED ORD_REJECTED) t)"
proof -
  let ?v = "demo_new_order ''o1''" and ?w = "demo_report ''proxy-42:o1'' EXEC_REJECTED ORD_REJECTED"
  let ?h = "demo_header ''ALICE'' 2 (New_Order_Single ?v)"
  obtain t where t: "session_new_order_single demo_env ?v ?h 1 (state_after demo_ready) = Ok t"
    using new_order_sent [OF demo_at_work, of demo_env ?v "''proxy-42:o1''"]
    by (auto simp: demo_new_order_def demo_ready_tables demo_request_id)
  have "over CL_ORD_ID (nos_cl_ord_id ?v) ''proxy-42:o1'' 1 (on_execution_report demo_env ?w t)"
    using order_reject_roundtrip [OF demo_at_work _ _ _ colon_free_demo _ _ _ t, of "''proxy-42:o1''" ?w]
    by (simp add: demo_new_order_def demo_ready_tables demo_request_id demo_report_def)
  with t show ?thesis by (simp add: demo_new_order_def)
qed

lemma mappings_order_action_report:
  "mappings (on_order_action_report e c i orig w s) =
     (if is_pending (er_exec_type w) then mappings s else mappings (forget_req_id CL_ORD_ID i s))"
proof -
  have table: "mappings (forget_req_id CL_ORD_ID i u) = mappings (forget_req_id CL_ORD_ID i s)"
    if "mappings u = mappings s" for u using that by (simp add: forget_req_id_def)
  have keep: "mappings (ensure_cl_ord_id k st u) = mappings u" "mappings (remove_cl_ord_id e k u) = mappings u"
    "mappings (broadcast e m k u) = mappings u" for k st u m
    by (simp_all add: ensure_cl_ord_id_def remove_cl_ord_id_def broadcast_def split: option.split)
  show ?thesis
    by (cases "find_req_id CL_ORD_ID i s") (auto simp: on_order_action_report_def Let_def keep intro!: table)
qed

text \<open>
  A reply that only announces that a request is pending keeps the request: the reply that decides
  it will still be routed. Any other report forgets it.
\<close>

theorem pending_report_keeps_request:
  assumes "on_its_way CL_ORD_ID cid rid sid True t" and "rid \<noteq> []"
    and "er_cl_ord_id w = rid" and "er_ord_status_req_id w = []" and "er_mass_status_req_id w = []"
  shows "if is_pending (er_exec_type w) then on_its_way CL_ORD_ID cid rid sid True (on_execution_report e w t)
    else over CL_ORD_ID cid rid sid (on_execution_report e w t)"
proof -
  have m: "mappings (on_execution_report e w t) =
      (if is_pending (er_exec_type w) then mappings t else mappings (forget_req_id CL_ORD_ID rid t))"
    using assms(3-5) by (simp add: on_execution_report_def Let_def mappings_order_action_report)
  show ?thesis
    using m assms(1) over_forget [OF assms(1,2)]
      on_its_way_cong [of "on_execution_report e w t" CL_ORD_ID t cid rid sid True]
      over_cong [of "on_execution_report e w t" CL_ORD_ID "forget_req_id CL_ORD_ID rid t" cid rid sid]
    by simp
qed

theorem pending_report_keeps_request_witness:
  "on_its_way CL_ORD_ID ''o1'' ''r1'' 1 True
     (on_execution_report demo_env (demo_report ''r1'' PENDING_NEW (Other_ord_status ''A'')) (demo_with CL_ORD_ID ''o1'' ''r1'' True)) \<and>
   over CL_ORD_ID ''o1'' ''r1'' 1
     (on_execution_report demo_env (demo_report ''r1'' (Other_exec_type ''0'') (Other_ord_status ''0''))
       (demo_with CL_ORD_ID ''o1'' ''r1'' True))"
  using pending_report_keeps_request [OF demo_with_on_its_way, of "''r1''" "demo_report ''r1'' PENDING_NEW (Other_ord_status ''A'')" "''o1''" demo_env]
    pending_report_keeps_request [OF demo_with_on_its_way, of "''r1''"
      "demo_report ''r1'' (Other_exec_type ''0'') (Other_ord_status ''0'')" "''o1''" demo_env]
  by (simp add: demo_report_def is_pending_def)

text \<open>
  The report of an order action goes to one session at most: the one that has the route of the
  party the order belongs to, or, when a request is rejected, the one that made it.
\<close>

theorem execution_report_to_owner:
  assumes "er_ord_status_req_id w = []" and "er_mass_status_req_id w = []"
  shows "\<exists>sent. out (on_execution_report e w s) = out s @ sent \<and> length sent \<le> 1 \<and>
    (\<forall>sid h m. To_Client sid h m \<in> set sent \<longrightarrow>
       (if er_exec_type w = EXEC_REJECTED
        then \<exists>cid ka. find_req_id CL_ORD_ID (er_cl_ord_id w) s = Some (sid, cid, ka)
        else client_to_session s (get_client_from_parties (er_no_party_ids w)) = Some sid))"
proof -
  have keep: "out (ensure_cl_ord_id k st u) = out u" "out (remove_cl_ord_id e k u) = out u"
    "client_to_session (ensure_cl_ord_id k st u) = client_to_session u"
    "client_to_session (remove_cl_ord_id e k u) = client_to_session u" for k st u
    by (simp_all add: ensure_cl_ord_id_def remove_cl_ord_id_def)
  show ?thesis
    using assms
    by (cases "find_req_id CL_ORD_ID (er_cl_ord_id w) s"; cases "client_to_session s (get_client_from_parties (er_no_party_ids w))")
      (auto simp: on_execution_report_def on_order_action_report_def broadcast_def Let_def keep length_delivered dest!: delivered_to)
qed

theorem execution_report_to_owner_witness:
  "\<exists>sent. out (on_execution_report demo_env (demo_report ''r1'' EXEC_REJECTED ORD_REJECTED) (demo_with CL_ORD_ID ''o1'' ''r1'' True)) =
      out (demo_with CL_ORD_ID ''o1'' ''r1'' True) @ sent \<and> length sent \<le> 1 \<and>
    (\<forall>sid h m. To_Client sid h m \<in> set sent \<longrightarrow> sid = 1)"
  using execution_report_to_owner [of "demo_report ''r1'' EXEC_REJECTED ORD_REJECTED" demo_env "demo_with CL_ORD_ID ''o1'' ''r1'' True"]
  by (simp add: demo_report_def demo_with_others ex_bool_eq)

text \<open>
  The table of orders after a report that is not a reject: a complete order leaves it, a pending
  one enters it, a decided replace or cancel takes the order it was about out of it.
\<close>

theorem order_table_after_report:
  assumes "er_ord_status_req_id w = []" and "er_mass_status_req_id w = []" and "er_exec_type w \<noteq> EXEC_REJECTED"
    and "er_cl_ord_id w \<noteq> []" and "\<not> test_disable_remove_cl_ord_id e"
  shows "cl_ord_state (on_execution_report e w s) i =
    (if \<not> is_pending (er_exec_type w) \<and> i \<noteq> [] \<and> i = er_orig_cl_ord_id w then None
     else if i \<noteq> er_cl_ord_id w then cl_ord_state s i
     else if is_order_complete e (er_ord_status w) then None
     else if is_pending (er_exec_type w) then Some (er_ord_status w)
     else cl_ord_state s i)"
  using assms
  by (auto simp: on_execution_report_def on_order_action_report_def broadcast_def Let_def ensure_cl_ord_id_def
      remove_cl_ord_id_def forget_req_id_def split: option.split)

theorem order_table_after_report_witness:
  "cl_ord_state (on_execution_report demo_env (demo_report ''r1'' PENDING_NEW (Other_ord_status ''A'')) demo_start) ''r1'' =
     Some (Other_ord_status ''A'')"
  using order_table_after_report [of "demo_report ''r1'' PENDING_NEW (Other_ord_status ''A'')" demo_env demo_start "''r1''"]
  by (simp add: demo_report_def is_pending_def)

section \<open>Requests that are refused\<close>

text \<open>The routes are the same; an inner table that is empty may have been made.\<close>

definition same_routes :: "sys \<Rightarrow> sys \<Rightarrow> bool" where
  "same_routes s t \<longleftrightarrow> (\<forall>r. server_to_client (mappings t r) = server_to_client (mappings s r) \<and>
     (\<forall>sid cid. find_client_req_id sid cid (mappings t r) = find_client_req_id sid cid (mappings s r)))"

text \<open>The operation has left no trace upstream or in the tables; \<open>m\<close> is what the client got, if it returned.\<close>

fun without_trace :: "sys \<Rightarrow> (sys \<Rightarrow> wire list) \<Rightarrow> sys result \<Rightarrow> bool" where
  "without_trace s sent (Ok t) \<longleftrightarrow> same_routes s t \<and> out t = out s @ sent t"
| "without_trace s sent (Throw x t) \<longleftrightarrow> same_routes s t \<and> out t = out s"
| "without_trace s sent (Fatal x) \<longleftrightarrow> False"

lemma same_routes_simps [simp]:
  "same_routes s s"
  "same_routes s (dispatch_to_client e m sid t) = same_routes s t"
  "same_routes s (take_request_id t) = same_routes s t"
  "same_routes s (open_table r sid t) = same_routes s t"
  by (simp_all add: same_routes_def open_table_def table_simps) metis

lemma delivered_simps [simp]:
  "delivered e m sid (take_request_id s) = delivered e m sid s"
  "delivered e m sid (open_table r sid' s) = delivered e m sid s"
  by (rule delivered_cong; simp)+

text \<open>
  A new order under an id that the session is already using: the client gets a reject that carries
  this id, and neither the server nor the tables see anything of the order.
\<close>

theorem duplicate_new_order_rejected:
  assumes "is_valid e (New_Order_Single v)" and "req_id_in_use CL_ORD_ID sid (nos_cl_ord_id v) s"
  shows "\<exists>t x. on_new_order_single e v sid s = Ok t \<and> same_routes s t \<and>
    out t = out s @ delivered e (Execution_Report x) sid s \<and> er_cl_ord_id x = nos_cl_ord_id v \<and>
    er_ord_status x = ORD_REJECTED \<and> er_text x = ''DUPLICATE_CL_ORD_ID''"
  using assms
  by (simp add: on_new_order_single_def Let_def reject_new_order_def rejected_report_def)
    (intro exI conjI, rule refl, simp_all)

theorem duplicate_new_order_rejected_witness:
  "\<exists>t x. on_new_order_single demo_env (demo_new_order ''o1'') 1 (demo_with CL_ORD_ID ''o1'' ''r1'' True) = Ok t \<and>
    out t = out (demo_with CL_ORD_ID ''o1'' ''r1'' True) @ delivered demo_env (Execution_Report x) 1 (demo_with CL_ORD_ID ''o1'' ''r1'' True) \<and>
    er_cl_ord_id x = ''o1''"
  using duplicate_new_order_rejected [of demo_env "demo_new_order ''o1''" 1 "demo_with CL_ORD_ID ''o1'' ''r1'' True"]
    demo_with_on_its_way [of CL_ORD_ID "''o1''" "''r1''" True]
  by (auto simp: on_its_way_def req_id_in_use_def demo_new_order_def)

text \<open>
  A cancel or replace request under an id that is in use is rejected in the same way, with both of
  the client's ids in the reject. The text of the reject for the cancel request is the one for an order
  status request.
\<close>

theorem duplicate_cancel_rejected:
  assumes "is_valid e (Order_Cancel_Request v)" and "req_id_in_use CL_ORD_ID sid (ocn_cl_ord_id v) s"
    and "is_valid e (Order_Cancel_Replace_Request w)" and "req_id_in_use CL_ORD_ID sid (ocr_cl_ord_id w) s"
  shows "(\<exists>t x. on_order_cancel_request e v sid s = Ok t \<and> same_routes s t \<and>
      out t = out s @ delivered e (Order_Cancel_Reject x) sid s \<and> ocj_cl_ord_id x = ocn_cl_ord_id v \<and>
      ocj_orig_cl_ord_id x = ocn_orig_cl_ord_id v \<and> ocj_cxl_rej_response_to x = TO_ORDER_CANCEL_REQUEST \<and>
      ocj_text x = ''DUPLICATE_ORD_STATUS_REQ_ID'') \<and>
    (\<exists>t x. on_order_cancel_replace_request e w sid s = Ok t \<and> same_routes s t \<and>
      out t = out s @ delivered e (Order_Cancel_Reject x) sid s \<and> ocj_cl_ord_id x = ocr_cl_ord_id w \<and>
      ocj_orig_cl_ord_id x = ocr_orig_cl_ord_id w \<and> ocj_cxl_rej_response_to x = TO_ORDER_CANCEL_REPLACE_REQUEST \<and>
      ocj_text x = ''DUPLICATE_CL_ORD_ID'')"
  using assms
  by (simp add: on_order_cancel_request_def on_order_cancel_replace_request_def Let_def reject_cancel_def
      reject_replace_def) (intro conjI; intro exI conjI, rule refl, simp_all)

theorem duplicate_cancel_rejected_witness:
  "\<exists>t x. on_order_cancel_request demo_env demo_cancel 1 (demo_with CL_ORD_ID ''o2'' ''r1'' True) = Ok t \<and>
    out t = out (demo_with CL_ORD_ID ''o2'' ''r1'' True) @
      delivered demo_env (Order_Cancel_Reject x) 1 (demo_with CL_ORD_ID ''o2'' ''r1'' True) \<and> ocj_cl_ord_id x = ''o2''"
  using duplicate_cancel_rejected [of demo_env demo_cancel 1 "demo_with CL_ORD_ID ''o2'' ''r1'' True" demo_replace]
    demo_with_on_its_way [of CL_ORD_ID "''o2''" "''r1''" True]
  by (auto simp: on_its_way_def req_id_in_use_def demo_cancel_def demo_replace_def)

section \<open>The server is not there\<close>

text \<open>Either the request was refused, and the client may have been told, or the operation threw before it did anything.\<close>

definition unsent :: "sys \<Rightarrow> sys result \<Rightarrow> bool" where
  "unsent s m \<longleftrightarrow> (case m of
     Ok t \<Rightarrow> same_routes s t \<and> sent_upstream (out t) = sent_upstream (out s)
   | Throw x t \<Rightarrow> same_routes s t \<and> out t = out s
   | Fatal x \<Rightarrow> False)"

lemma unsent_simps [simp]:
  "unsent s (Ok t) = (same_routes s t \<and> sent_upstream (out t) = sent_upstream (out s))"
  "unsent s (Throw x t) = (same_routes s t \<and> out t = out s)"
  by (simp_all add: unsent_def)

lemma not_ready_simps [simp]:
  "\<not> server_ready s \<Longrightarrow> dispatch_to_server e m s = Throw ''not ready'' s"
  "\<not> server_ready s \<Longrightarrow> \<not> server_ready (open_table r sid s)"
  by (simp_all add: dispatch_to_server_sends)

lemma unsent_switch:
  assumes "unsent s (a u)" "unsent s (b u)" "unsent s (c u)" "\<And>ka. unsent s (d ka u)"
  shows "unsent s (subscription_switch t already a b c d u)"
  using assms by (auto simp: subscription_switch_def split: subscription_request_type.split)

lemma unsent_rejects:
  assumes "same_routes s u" and "out u = out s"
  shows "unsent s (reject_security_list e v1 sid u)" "unsent s (reject_security_definition e v2 sid u)"
    "unsent s (reject_security_status e v3 sid u)" "unsent s (reject_market_data e v4 sid r4 what u)"
    "unsent s (reject_order_status e v5 sid r5 what u)" "unsent s (reject_new_order e v6 sid r6 what u)"
    "unsent s (reject_replace e v7 sid st7 r7 what u)" "unsent s (reject_cancel e v8 sid st8 r8 what u)"
    "unsent s (reject_mass_status e v9 sid r9 what u)" "unsent s (reject_mass_cancel e v10 sid r10 what u)"
    "unsent s (reject_positions e v11 sid what u)" "unsent s (reject_trades e v12 sid what u)"
  using assms
  by (simp_all add: reject_security_list_def reject_security_definition_def reject_security_status_def
      reject_market_data_def reject_order_status_def reject_new_order_def reject_replace_def reject_cancel_def
      reject_mass_status_def reject_mass_cancel_def reject_positions_def reject_trades_def)

lemma unsent_subscriptions:
  assumes "\<not> server_ready s"
  shows "unsent s (on_security_list_request e v1 sid s)" "unsent s (on_security_definition_request e v2 sid s)"
    "unsent s (on_security_status_request e v3 sid s)" "unsent s (on_market_data_request e v4 sid s)"
proof -
  have sub: "unsent s (dispatch_subscription e r sid i already mk ka (open_table r sid s))" for r i already mk ka
    using assms by (simp add: dispatch_subscription_def Let_def)
  show "unsent s (on_security_list_request e v1 sid s)" "unsent s (on_security_definition_request e v2 sid s)"
    "unsent s (on_security_status_request e v3 sid s)" "unsent s (on_market_data_request e v4 sid s)"
    unfolding on_security_list_request_def on_security_definition_request_def on_security_status_request_def
      on_market_data_request_def Let_def
    by (auto intro!: unsent_switch unsent_rejects sub)
qed

lemma unsent_orders:
  assumes "\<not> server_ready s"
  shows "unsent s (on_order_status_request e v5 sid s)" "unsent s (on_new_order_single e v6 sid s)"
    "unsent s (on_order_cancel_replace_request e v7 sid s)" "unsent s (on_order_cancel_request e v8 sid s)"
    "unsent s (on_order_mass_status_request e v9 sid s)" "unsent s (on_order_mass_cancel_request e v10 sid s)"
  unfolding on_order_status_request_def on_new_order_single_def on_order_cancel_replace_request_def
    on_order_cancel_request_def on_order_mass_status_request_def on_order_mass_cancel_request_def Let_def
  using assms by (auto intro!: unsent_rejects)

lemma unsent_positions_and_trades:
  assumes "\<not> server_ready s"
  shows "unsent s (on_request_for_positions e v11 sid s)" "unsent s (on_trade_capture_report_request e v12 sid s)"
proof -
  have pos: "unsent s (dispatch_positions e v11 sid ka (open_table POS_REQ_ID sid s))" for ka
    using assms by (simp add: dispatch_positions_def Let_def split: option.split)
  have trd: "unsent s (dispatch_trades e v12 sid already ka (open_table TRADE_REQUEST_ID sid s))" for already ka
    using assms by (simp add: dispatch_trades_def Let_def)
  show "unsent s (on_request_for_positions e v11 sid s)" "unsent s (on_trade_capture_report_request e v12 sid s)"
    unfolding on_request_for_positions_def on_trade_capture_report_request_def Let_def
    by (auto intro!: unsent_switch unsent_rejects pos trd)
qed

text \<open>
  While the server is not ready no request leaves a trace: a handler either answers the client
  itself or throws, and in both cases no route has been made and nothing has been sent upstream. The
  routes are entered after the request is sent, so a request that could not be sent is not waited for.
\<close>

theorem unsent_requests_leave_no_trace:
  assumes "\<not> server_ready s"
  shows "unsent s (on_security_list_request e v1 sid s) \<and> unsent s (on_security_definition_request e v2 sid s) \<and>
    unsent s (on_security_status_request e v3 sid s) \<and> unsent s (on_market_data_request e v4 sid s) \<and>
    unsent s (on_order_status_request e v5 sid s) \<and> unsent s (on_new_order_single e v6 sid s) \<and>
    unsent s (on_order_cancel_replace_request e v7 sid s) \<and> unsent s (on_order_cancel_request e v8 sid s) \<and>
    unsent s (on_order_mass_status_request e v9 sid s) \<and> unsent s (on_order_mass_cancel_request e v10 sid s) \<and>
    unsent s (on_request_for_positions e v11 sid s) \<and> unsent s (on_trade_capture_report_request e v12 sid s)"
  using assms by (simp add: unsent_subscriptions unsent_orders unsent_positions_and_trades)

theorem unsent_requests_leave_no_trace_witness:
  "unsent demo_start (on_new_order_single demo_env (demo_new_order ''o1'') 1 demo_start)"
proof -
  have "\<not> server_ready demo_start"
    by (simp add: server_ready_def demo_start_def create_sys_def new_sys_def new_server_session_def)
  from unsent_requests_leave_no_trace [OF this] show ?thesis by blast
qed

end
