(* ===== verification/Subscriptions.thy ===== *)
theory Subscriptions
  imports Request_Replies
begin

text \<open>
  Requests with more than one reply: subscriptions to market data, positions with a report for each of
  them, trades, and order mass status. When they are forgotten, and what an unsubscribe does.
\<close>

section \<open>Market data\<close>

lemma market_data_sent:
  assumes "at_work sid c s" and "valid_req_id e (mdr_md_req_id v)" and "is_valid e (Market_Data_Request v)"
    and "mdr_subscription_request_type v = (if keep then SNAPSHOT_UPDATES else SNAPSHOT)"
    and "\<not> req_id_in_use MD_REQ_ID sid (mdr_md_req_id v) s" and "rid = fresh_request_id s"
    and "find_req_id MD_REQ_ID rid s = None" and "m = Market_Data_Request (v\<lparr>mdr_md_req_id := rid\<rparr>)"
  shows "\<exists>t. session_market_data_request e v h sid s = Ok t \<and> out t = out s @ [To_Server (server_header e m s) m] \<and>
    on_its_way MD_REQ_ID (mdr_md_req_id v) rid sid keep t \<and> session_of sid t = Some c"
proof -
  let ?s = "open_table MD_REQ_ID sid s"
  let ?u = "server_send_helper e m (take_request_id ?s)"
  have id: "fresh_request_id ?s = rid" using assms(6) by (simp add: fresh_request_id_def)
  have up: "server_ready (take_request_id ?s)" using at_workD(3) [OF assms(1)] by (simp add: server_ready_def)
  have "session_market_data_request e v h sid s = Ok (add_route MD_REQ_ID (mdr_md_req_id v) rid sid keep ?u)"
    using assms(2-5,8) at_workD(1,2) [OF assms(1)] up id
    by (simp add: session_market_data_request_def when_ready_act on_market_data_request_def Let_def
        subscription_switch_def dispatch_subscription_def dispatch_to_server_ready)
  moreover have "on_its_way MD_REQ_ID (mdr_md_req_id v) rid sid keep (add_route MD_REQ_ID (mdr_md_req_id v) rid sid keep ?u)"
    using assms(5,7) by (intro on_its_way_add) simp_all
  moreover have "server_header e m (take_request_id ?s) = server_header e m s" by (rule server_header_cong) simp_all
  ultimately show ?thesis
    using at_workD(1) [OF assms(1)] by simp (simp add: add_route_def)
qed

text \<open>
  A market data request goes upstream under a fresh id; the snapshot, which carries that id, is
  delivered to the client under its own id. A request for a snapshot is then forgotten and its id free,
  a subscription is kept for the replies to come.
\<close>

theorem market_data_roundtrip:
  assumes "at_work sid c s" and "valid_req_id e (mdr_md_req_id v)" and "is_valid e (Market_Data_Request v)"
    and "mdr_subscription_request_type v = (if keep then SNAPSHOT_UPDATES else SNAPSHOT)"
    and "\<not> req_id_in_use MD_REQ_ID sid (mdr_md_req_id v) s" and "rid = fresh_request_id s"
    and "find_req_id MD_REQ_ID rid s = None"
    and "session_market_data_request e v h sid s = Ok t" and "mds_md_req_id w = rid"
    and "m = Market_Data_Snapshot_Full_Refresh (w\<lparr>mds_md_req_id := mdr_md_req_id v\<rparr>)"
  shows "out (on_market_data_snapshot e w t) = out t @ [To_Client sid (client_header e m c t) m] \<and>
    (if keep then on_its_way MD_REQ_ID (mdr_md_req_id v) rid sid True (on_market_data_snapshot e w t)
     else over MD_REQ_ID (mdr_md_req_id v) rid sid (on_market_data_snapshot e w t))"
proof -
  let ?u = "dispatch_to_client e m sid t"
  from market_data_sent [OF assms(1-7) refl, of h] assms(8)
  have t: "on_its_way MD_REQ_ID (mdr_md_req_id v) rid sid keep t" "session_of sid t = Some c" by auto
  have u: "on_its_way MD_REQ_ID (mdr_md_req_id v) rid sid keep ?u"
    using t(1) by (subst on_its_way_cong [of _ _ t]) simp_all
  have "on_market_data_snapshot e w t = (if keep then ?u else forget_req_id MD_REQ_ID rid ?u)"
    using on_its_wayD [OF t(1)] assms(9,10) by (simp add: on_market_data_snapshot_def Let_def)
  with u over_forget [OF u] assms(6) delivered_ready [OF t(2) at_workD(2) [OF assms(1)]] show ?thesis
    by (cases keep) simp_all
qed

theorem market_data_roundtrip_witness:
  "\<exists>t. session_market_data_request demo_env (demo_market_data ''m1'' SNAPSHOT_UPDATES)
      (demo_header ''ALICE'' 2 (Market_Data_Request (demo_market_data ''m1'' SNAPSHOT_UPDATES))) 1 (state_after demo_ready) = Ok t \<and>
    on_its_way MD_REQ_ID ''m1'' ''proxy-2'' 1 True
      (on_market_data_snapshot demo_env \<lparr>mds_md_req_id = ''proxy-2'', mds_rest = [(55, ''BTC'')]\<rparr> t)"
proof -
  let ?v = "demo_market_data ''m1'' SNAPSHOT_UPDATES" and ?w = "\<lparr>mds_md_req_id = ''proxy-2'', mds_rest = [(55, ''BTC'')]\<rparr>"
  let ?h = "demo_header ''ALICE'' 2 (Market_Data_Request ?v)"
  obtain t where t: "session_market_data_request demo_env ?v ?h 1 (state_after demo_ready) = Ok t"
    using market_data_sent [OF demo_at_work, of demo_env ?v True "''proxy-2''"]
    by (auto simp: demo_market_data_def demo_ready_tables demo_ready_state)
  have "on_its_way MD_REQ_ID (mdr_md_req_id ?v) ''proxy-2'' 1 True (on_market_data_snapshot demo_env ?w t)"
    using market_data_roundtrip [OF demo_at_work _ _ _ _ _ _ t, of True "''proxy-2''" ?w]
    by (simp add: demo_market_data_def demo_ready_tables demo_ready_state)
  with t show ?thesis by (simp add: demo_market_data_def)
qed

text \<open>
  C37. An unsubscribe does not end the subscription: it goes upstream under an id that the server has
  never seen, and the route of the subscription stays, so that the client's id remains in use and
  replies for the subscription are still delivered.
\<close>

theorem unsubscribe_keeps_subscription:
  assumes "at_work sid c s" and "valid_req_id e (mdr_md_req_id v)" and "is_valid e (Market_Data_Request v)"
    and "mdr_subscription_request_type v = UNSUBSCRIBE"
    and "on_its_way MD_REQ_ID (mdr_md_req_id v) rid sid True s"
    and "find_req_id MD_REQ_ID (fresh_request_id s) s = None"
    and "m = Market_Data_Request (v\<lparr>mdr_md_req_id := fresh_request_id s\<rparr>)"
  shows "fresh_request_id s \<noteq> rid \<and> (\<exists>t. session_market_data_request e v h sid s = Ok t \<and>
    out t = out s @ [To_Server (server_header e m s) m] \<and>
    on_its_way MD_REQ_ID (mdr_md_req_id v) rid sid True t)"
proof -
  let ?s = "open_table MD_REQ_ID sid s"
  let ?u = "server_send_helper e m (take_request_id ?s)"
  have used: "req_id_in_use MD_REQ_ID sid (mdr_md_req_id v) s"
    using assms(5) by (simp add: on_its_way_def req_id_in_use_def)
  have id: "fresh_request_id ?s = fresh_request_id s" by (simp add: fresh_request_id_def)
  have up: "server_ready (take_request_id ?s)" using at_workD(3) [OF assms(1)] by (simp add: server_ready_def)
  have "session_market_data_request e v h sid s = Ok (forget_req_id MD_REQ_ID (fresh_request_id s) ?u)"
    using assms(2-4,7) used at_workD(1,2) [OF assms(1)] up id
    by (simp add: session_market_data_request_def when_ready_act on_market_data_request_def Let_def
        subscription_switch_def dispatch_subscription_def dispatch_to_server_ready)
  moreover have "on_its_way MD_REQ_ID (mdr_md_req_id v) rid sid True (forget_req_id MD_REQ_ID (fresh_request_id s) ?u)"
    using assms(5,6)
    by (auto simp: on_its_way_def find_req_id_def forget_req_id_def open_table_def table_simps)
  moreover have "server_header e m (take_request_id ?s) = server_header e m s" by (rule server_header_cong) simp_all
  ultimately show ?thesis
    using assms(5,6) by (auto simp: on_its_way_def)
qed

theorem unsubscribe_keeps_subscription_witness:
  "\<exists>t. session_market_data_request demo_env (demo_market_data ''m1'' UNSUBSCRIBE)
      (demo_header ''ALICE'' 2 (Market_Data_Request (demo_market_data ''m1'' UNSUBSCRIBE))) 1 (demo_with MD_REQ_ID ''m1'' ''r1'' True) = Ok t \<and>
    on_its_way MD_REQ_ID ''m1'' ''r1'' 1 True t"
  using unsubscribe_keeps_subscription [OF demo_with_at_work, of demo_env "demo_market_data ''m1'' UNSUBSCRIBE" "''r1''" MD_REQ_ID "''m1''" "''r1''"
      True] demo_with_on_its_way [of MD_REQ_ID "''m1''" "''r1''" True]
  by (auto simp: demo_market_data_def demo_with_others)

section \<open>Positions\<close>

text \<open>
  An unsubscribe from positions goes upstream under the id of the subscription and clears its
  keep-alive flag, so that the request ends with the next report.
\<close>

theorem position_unsubscribe:
  assumes "at_work sid c s" and "is_valid e (Request_For_Positions v)"
    and "rfp_subscription_request_type v = UNSUBSCRIBE"
    and "on_its_way POS_REQ_ID (rfp_pos_req_id v) rid sid True s" and "rid \<noteq> []"
    and "m = Request_For_Positions (v\<lparr>rfp_pos_req_id := rid\<rparr>)"
  shows "\<exists>t. on_request_for_positions e v sid s = Ok t \<and> out t = out s @ [To_Server (server_header e m s) m] \<and>
    on_its_way POS_REQ_ID (rfp_pos_req_id v) rid sid False t"
proof -
  let ?s = "open_table POS_REQ_ID sid s"
  let ?u = "server_send_helper e m ?s"
  have used: "find_client_req_id sid (rfp_pos_req_id v) (mappings s POS_REQ_ID) = Some rid"
    and route: "server_to_client (mappings s POS_REQ_ID) rid = Some (sid, rfp_pos_req_id v, True)"
    using assms(4) by (simp_all add: on_its_way_def find_req_id_def)
  have "server_ready ?s" using at_workD(3) [OF assms(1)] by (simp add: server_ready_def)
  moreover have "\<exists>n. set_keep_alive rid False (mappings ?u POS_REQ_ID) = Some n \<and>
      server_to_client n rid = Some (sid, rfp_pos_req_id v, False) \<and>
      find_client_req_id sid (rfp_pos_req_id v) n = Some rid"
    using used route by (auto simp: set_keep_alive_def open_table_def table_simps)
  moreover have "server_header e m ?s = server_header e m s" by (rule server_header_cong) simp_all
  ultimately show ?thesis
    using assms(2,3,6) used
    by (auto simp: on_request_for_positions_def Let_def subscription_switch_def get_subscription_request_type_def
        req_id_in_use_def dispatch_positions_def dispatch_to_server_ready on_its_way_def find_req_id_def)
qed

definition demo_positions :: "subscription_request_type \<Rightarrow> request_for_positions" where
  "demo_positions t = \<lparr>rfp_pos_req_id = ''p1'', rfp_subscription_request_type = t, rfp_no_party_ids = [], rfp_account = ''A1'',
     rfp_account_type = [], rfp_rest = []\<rparr>"

theorem position_unsubscribe_witness:
  "\<exists>t. on_request_for_positions demo_env (demo_positions UNSUBSCRIBE) 1 (demo_with POS_REQ_ID ''p1'' ''r1'' True) = Ok t \<and>
    on_its_way POS_REQ_ID ''p1'' ''r1'' 1 False t"
  using position_unsubscribe [OF demo_with_at_work, of demo_env "demo_positions UNSUBSCRIBE" "''r1''" POS_REQ_ID "''p1''" "''r1''"
      True] demo_with_on_its_way [of POS_REQ_ID "''p1''" "''r1''" True]
  by (auto simp: demo_positions_def)

text \<open>The reports that answer one request, handled one after the other.\<close>

definition position_reports :: "env \<Rightarrow> position_report list \<Rightarrow> sys \<Rightarrow> sys" where
  "position_reports e vs s = fold (on_position_report e) vs s"

definition own_report :: "string \<Rightarrow> position_report \<Rightarrow> msg" where
  "own_report cid v = Position_Report (v\<lparr>prp_pos_req_id := cid\<rparr>)"

lemma on_position_report_step:
  assumes "find_req_id POS_REQ_ID rid s = Some (sid, cid, ka)" and "prp_pos_req_id v = rid"
    and "prp_pos_req_result v = POS_VALID" and "total_num_pos_reports s \<noteq> 0"
  shows "on_position_report e v s =
    (let n = total_num_pos_reports s - 1; t = dispatch_to_client e (own_report cid v) sid (s\<lparr>total_num_pos_reports := n\<rparr>)
     in if n = 0 \<and> \<not> ka then forget_req_id POS_REQ_ID rid t else t)"
  using assms by (simp add: on_position_report_def own_report_def find_req_id_def Let_def)

lemma position_reports_countdown_lemma:
  assumes "on_its_way POS_REQ_ID cid rid sid ka s" and "rid \<noteq> []"
    and "\<forall>v \<in> set vs. prp_pos_req_id v = rid \<and> prp_pos_req_result v = POS_VALID"
    and "vs \<noteq> []" and "length vs \<le> unat (total_num_pos_reports s)"
  shows "total_num_pos_reports (position_reports e vs s) = total_num_pos_reports s - of_nat (length vs) \<and>
    (if length vs = unat (total_num_pos_reports s) \<and> \<not> ka
     then over POS_REQ_ID cid rid sid (position_reports e vs s)
     else on_its_way POS_REQ_ID cid rid sid ka (position_reports e vs s))"
  using assms
proof (induction vs arbitrary: s)
  case Nil
  then show ?case by simp
next
  case (Cons v vs)
  let ?n = "total_num_pos_reports s"
  let ?t = "dispatch_to_client e (own_report cid v) sid (s\<lparr>total_num_pos_reports := ?n - 1\<rparr>)"
  from Cons.prems(5) have n: "?n \<noteq> 0" by auto
  then have dec: "unat (?n - 1) = unat ?n - 1" by (simp add: unat_minus_one)
  from n have pos: "0 < unat ?n" by (simp add: word_unat_eq_iff)
  have one: "?n - 1 = 0 \<longleftrightarrow> unat ?n = 1"
    using word_unat_eq_iff [of "?n - 1" 0] pos by (auto simp: dec)
  have step: "on_position_report e v s = (if unat ?n = 1 \<and> \<not> ka then forget_req_id POS_REQ_ID rid ?t else ?t)"
    using on_position_report_step [OF on_its_wayD [OF Cons.prems(1)], of v e] Cons.prems(3) n one by (simp add: Let_def)
  have way: "on_its_way POS_REQ_ID cid rid sid ka ?t"
    using Cons.prems(1) by (subst on_its_way_cong [of _ _ s]) simp_all
  show ?case
  proof (cases "vs = []")
    case True
    with step way over_forget [OF way Cons.prems(2)] show ?thesis by (simp add: position_reports_def)
  next
    case False
    with Cons.prems(5) have "unat ?n \<noteq> 1" by (cases vs) auto
    with step have step': "on_position_report e v s = ?t" by simp
    have reports: "position_reports e (v # vs) s = position_reports e vs ?t" by (simp add: position_reports_def step')
    have "length vs \<le> unat (total_num_pos_reports ?t)" using Cons.prems(5) dec by simp
    moreover have "\<forall>v \<in> set vs. prp_pos_req_id v = rid \<and> prp_pos_req_result v = POS_VALID"
      using Cons.prems(3) by simp
    ultimately have ih: "total_num_pos_reports (position_reports e vs ?t) = total_num_pos_reports ?t - of_nat (length vs) \<and>
      (if length vs = unat (total_num_pos_reports ?t) \<and> \<not> ka then over POS_REQ_ID cid rid sid (position_reports e vs ?t)
       else on_its_way POS_REQ_ID cid rid sid ka (position_reports e vs ?t))"
      using Cons.IH [OF way Cons.prems(2) _ False] by blast
    have "total_num_pos_reports ?t = ?n - 1" "length vs = unat (?n - 1) \<longleftrightarrow> length (v # vs) = unat ?n"
      "?n - 1 - of_nat (length vs) = ?n - of_nat (length (v # vs))"
      using pos dec by auto
    with ih show ?thesis unfolding reports by (simp only:) blast
  qed
qed

text \<open>
  A request for positions is kept until the last of the reports that the server has announced: with
  \<open>n\<close> announced, all but the last leave the request where it is, and the \<open>n\<close>-th ends it unless it is a
  subscription.
\<close>

theorem position_reports_countdown:
  assumes "on_its_way POS_REQ_ID cid rid sid ka s" and "rid \<noteq> []"
    and "\<forall>v \<in> set vs. prp_pos_req_id v = rid \<and> prp_pos_req_result v = POS_VALID"
    and "vs \<noteq> []" and "length vs \<le> unat (total_num_pos_reports s)"
  shows "total_num_pos_reports (position_reports e vs s) = total_num_pos_reports s - of_nat (length vs) \<and>
    (if length vs = unat (total_num_pos_reports s) \<and> \<not> ka
     then over POS_REQ_ID cid rid sid (position_reports e vs s)
     else on_its_way POS_REQ_ID cid rid sid ka (position_reports e vs s))"
  using assms by (rule position_reports_countdown_lemma)

definition demo_position :: "string \<Rightarrow> position_report" where
  "demo_position rid = \<lparr>prp_pos_req_id = rid, prp_pos_req_result = POS_VALID, prp_rest = []\<rparr>"

theorem position_reports_countdown_witness:
  "over POS_REQ_ID ''p1'' ''r1'' 1 (position_reports demo_env [demo_position ''r1'', demo_position ''r1'']
     ((demo_with POS_REQ_ID ''p1'' ''r1'' False)\<lparr>total_num_pos_reports := 2\<rparr>))"
proof -
  have "on_its_way POS_REQ_ID ''p1'' ''r1'' 1 False ((demo_with POS_REQ_ID ''p1'' ''r1'' False)\<lparr>total_num_pos_reports := 2\<rparr>)"
    using demo_with_on_its_way by (subst on_its_way_cong [of _ _ "demo_with POS_REQ_ID ''p1'' ''r1'' False"]) simp_all
  from position_reports_countdown [OF this, of "[demo_position ''r1'', demo_position ''r1'']" demo_env] show ?thesis
    by (simp add: demo_position_def)
qed

text \<open>
  One request can spoil another: the count of reports is kept once for the proxy, not per request.
  An acknowledgement for one request sets it to its own number, whoever else is waiting for reports.
\<close>

theorem position_count_is_shared:
  assumes "on_its_way POS_REQ_ID cid rid sid ka s" and "rpa_pos_req_id v = rid"
    and "rpa_pos_req_result v = POS_VALID" and "rpa_pos_req_status v \<noteq> POS_REJECTED"
    and "on_its_way POS_REQ_ID cid' rid' sid' False s" and "rid' \<noteq> rid" and "rid' \<noteq> []"
    and "rpa_total_num_pos_reports v = 1" and "prp_pos_req_id w = rid'" and "prp_pos_req_result w = POS_VALID"
  shows "over POS_REQ_ID cid' rid' sid' (on_position_report e w (on_request_for_positions_ack e v s))"
proof -
  let ?t = "dispatch_to_client e (Request_For_Positions_Ack (v\<lparr>rpa_pos_req_id := cid\<rparr>)) sid
    (s\<lparr>total_num_pos_reports := 1\<rparr>)"
  have ack: "on_request_for_positions_ack e v s = ?t"
    using on_its_wayD [OF assms(1)] assms(2-4,8) by (simp add: on_request_for_positions_ack_def Let_def)
  have "on_its_way POS_REQ_ID cid' rid' sid' False ?t"
    using assms(5) by (subst on_its_way_cong [of _ _ s]) simp_all
  then have "over POS_REQ_ID cid' rid' sid' (position_reports e [w] ?t)"
    using position_reports_countdown_lemma [of cid' rid' sid' False ?t "[w]" e] assms(7,9,10) by simp
  then show ?thesis by (simp add: ack position_reports_def)
qed

theorem position_count_is_shared_witness:
  "over POS_REQ_ID ''p1'' ''r1'' 1 (on_position_report demo_env (demo_position ''r1'')
     (on_request_for_positions_ack demo_env
       \<lparr>rpa_pos_maint_rpt_id = ''a1'', rpa_pos_req_id = ''r2'', rpa_total_num_pos_reports = 1,
        rpa_unsolicited_indicator = False, rpa_pos_req_result = POS_VALID, rpa_pos_req_status = Other_pos_req_status ''0'',
        rpa_no_party_ids = [], rpa_account = [], rpa_account_type = [], rpa_text = [], rpa_rest = []\<rparr>
       ((add_route POS_REQ_ID ''p2'' ''r2'' 1 False (demo_with POS_REQ_ID ''p1'' ''r1'' False))\<lparr>total_num_pos_reports := 3\<rparr>)))"
  (is "over _ _ _ _ (on_position_report _ _ (on_request_for_positions_ack _ ?v ?s))")
proof -
  let ?t = "demo_with POS_REQ_ID ''p1'' ''r1'' False"
  have one: "on_its_way POS_REQ_ID ''p1'' ''r1'' 1 False ?t" by (rule demo_with_on_its_way)
  have free: "\<not> req_id_in_use POS_REQ_ID 1 ''p2'' ?t"
    using demo_ready_tables(2) by (simp add: demo_with_def add_route_def req_id_in_use_def table_simps)
  have "on_its_way POS_REQ_ID ''p2'' ''r2'' 1 False ?s"
    using free demo_with_others(1) by (subst on_its_way_cong [of _ _ "add_route POS_REQ_ID ''p2'' ''r2'' 1 False ?t"])
      (auto intro: on_its_way_add)
  moreover have "on_its_way POS_REQ_ID ''p1'' ''r1'' 1 False ?s"
    using one by (simp add: on_its_way_def find_req_id_def add_route_def table_simps try_emplace_apply)
  ultimately show ?thesis
    using position_count_is_shared [of "''p2''" "''r2''" 1 False ?s ?v "''p1''" "''r1''" 1 "demo_position ''r1''" demo_env]
    by (simp add: demo_position_def)
qed

section \<open>Trades\<close>

text \<open>
  The id of a request for trades is made from the client's, so an unsubscribe finds the subscription
  again: it goes upstream under the same id and the request is over.
\<close>

theorem trade_unsubscribe:
  assumes "at_work sid c s" and "is_valid e (Trade_Capture_Report_Request v)"
    and "tcq_subscription_request_type v = UNSUBSCRIBE"
    and "rid = client_request_id (get_client_from_parties (tcq_no_party_ids v)) (tcq_trade_request_id v)"
    and "on_its_way TRADE_REQUEST_ID (tcq_trade_request_id v) rid sid True s"
    and "m = Trade_Capture_Report_Request (v\<lparr>tcq_trade_request_id := rid\<rparr>)"
  shows "\<exists>t. on_trade_capture_report_request e v sid s = Ok t \<and> out t = out s @ [To_Server (server_header e m s) m] \<and>
    over TRADE_REQUEST_ID (tcq_trade_request_id v) rid sid t"
proof -
  let ?s = "open_table TRADE_REQUEST_ID sid s"
  let ?u = "server_send_helper e m ?s"
  have used: "req_id_in_use TRADE_REQUEST_ID sid (tcq_trade_request_id v) s"
    using assms(5) by (simp add: on_its_way_def req_id_in_use_def)
  have "server_ready ?s" using at_workD(3) [OF assms(1)] by (simp add: server_ready_def)
  moreover have "on_its_way TRADE_REQUEST_ID (tcq_trade_request_id v) rid sid True ?u"
    using assms(5) by (simp add: on_its_way_def)
  then have "over TRADE_REQUEST_ID (tcq_trade_request_id v) rid sid (forget_req_id TRADE_REQUEST_ID rid ?u)"
    using assms(4) by (intro over_forget) simp_all
  moreover have "server_header e m ?s = server_header e m s" by (rule server_header_cong) simp_all
  ultimately show ?thesis
    using assms(2-4,6) used
    by (simp add: on_trade_capture_report_request_def Let_def subscription_switch_def get_subscription_request_type_def
        dispatch_trades_def dispatch_to_server_ready)
qed

definition demo_trades :: "subscription_request_type \<Rightarrow> trade_capture_report_request" where
  "demo_trades t = \<lparr>tcq_trade_request_id = ''t1'', tcq_trade_request_type = [], tcq_subscription_request_type = t,
     tcq_cl_ord_id = [], tcq_no_party_ids = [own_party demo_session], tcq_symbol = [], tcq_security_exchange = [], tcq_rest = []\<rparr>"

theorem trade_unsubscribe_witness:
  "\<exists>t. on_trade_capture_report_request demo_env (demo_trades UNSUBSCRIBE) 1 (demo_with TRADE_REQUEST_ID ''t1'' ''proxy-42:t1'' True) = Ok t \<and>
    over TRADE_REQUEST_ID ''t1'' ''proxy-42:t1'' 1 t"
  using trade_unsubscribe [OF demo_with_at_work, of demo_env "demo_trades UNSUBSCRIBE" "''proxy-42:t1''" TRADE_REQUEST_ID "''t1''"
      "''proxy-42:t1''" True] demo_with_on_its_way [of TRADE_REQUEST_ID "''t1''" "''proxy-42:t1''" True]
  by (auto simp: demo_trades_def demo_ready_state client_request_id_def)

section \<open>Order mass status\<close>

text \<open>The reports that answer one request, handled one after the other.\<close>

definition execution_reports :: "env \<Rightarrow> execution_report list \<Rightarrow> sys \<Rightarrow> sys" where
  "execution_reports e vs s = fold (on_execution_report e) vs s"

text \<open>
  An order mass status request is kept until the report that is marked as the last: the reports
  before it leave the request where it is, it ends the request, and what still comes after it changes
  nothing about the request.
\<close>

theorem mass_status_until_last:
  assumes "on_its_way MASS_STATUS_REQ_ID cid rid sid False s" and "rid \<noteq> []"
    and "\<forall>v \<in> set vs. er_ord_status_req_id v = [] \<and> er_mass_status_req_id v = rid"
  shows "if (\<exists>v \<in> set vs. er_last_rpt_requested v)
    then over MASS_STATUS_REQ_ID cid rid sid (execution_reports e vs s)
    else on_its_way MASS_STATUS_REQ_ID cid rid sid False (execution_reports e vs s)"
proof -
  have step: "on_execution_report e v s = on_mass_status_report e (er_cl_ord_id v)
      (v\<lparr>er_cl_ord_id := get_client_cl_ord_id (er_cl_ord_id v),
         er_orig_cl_ord_id := get_client_cl_ord_id (er_orig_cl_ord_id v)\<rparr>) s"
    if "er_ord_status_req_id v = []" "er_mass_status_req_id v = rid" for v s
    using that assms(2) by (simp add: on_execution_report_def Let_def)
  have table: "mappings (ensure_cl_ord_id i st u) = mappings u" for i st u by (simp add: ensure_cl_ord_id_def)
  have gone: "over MASS_STATUS_REQ_ID cid rid sid (execution_reports e us t)"
    if "over MASS_STATUS_REQ_ID cid rid sid t" "\<forall>v \<in> set us. er_ord_status_req_id v = [] \<and> er_mass_status_req_id v = rid"
    for us t
    using that
  proof (induction us arbitrary: t)
    case (Cons v us)
    have "over MASS_STATUS_REQ_ID cid rid sid (on_execution_report e v t)"
      using Cons.prems table over_cong [of "ensure_cl_ord_id i st t" MASS_STATUS_REQ_ID t cid rid sid for i st]
      by (auto simp: step on_mass_status_report_def Let_def over_def find_req_id_def)
    with Cons show ?case by (simp add: execution_reports_def)
  qed (simp add: execution_reports_def)
  show ?thesis
    using assms(1,3)
  proof (induction vs arbitrary: s)
    case (Cons v vs)
    have way: "on_its_way MASS_STATUS_REQ_ID cid rid sid False (dispatch_to_client e m sid (ensure_cl_ord_id i st s))" for m i st
      using Cons.prems(1) by (subst on_its_way_cong [of _ _ s]) (simp_all add: table)
    have "find_req_id MASS_STATUS_REQ_ID rid (ensure_cl_ord_id i st s) = Some (sid, cid, False)" for i st
      using on_its_wayD [OF Cons.prems(1)] by (simp add: find_req_id_def table)
    with way over_forget [OF way assms(2)] Cons.prems(2)
    have one: "if er_last_rpt_requested v then over MASS_STATUS_REQ_ID cid rid sid (on_execution_report e v s)
        else on_its_way MASS_STATUS_REQ_ID cid rid sid False (on_execution_report e v s)"
      by (simp add: step on_mass_status_report_def Let_def)
    show ?case
    proof (cases "er_last_rpt_requested v")
      case True
      with one gone [of "on_execution_report e v s" vs] Cons.prems(2) show ?thesis by (simp add: execution_reports_def)
    next
      case False
      with one Cons.IH [of "on_execution_report e v s"] Cons.prems(2) show ?thesis
        by (auto simp: execution_reports_def split: if_splits)
    qed
  qed (simp add: execution_reports_def)
qed

theorem mass_status_until_last_witness:
  "over MASS_STATUS_REQ_ID ''q1'' ''r1'' 1 (execution_reports demo_env
     [(demo_report ''o1'' EXEC_ORDER_STATUS (Other_ord_status ''0''))\<lparr>er_mass_status_req_id := ''r1''\<rparr>,
      (demo_report ''o2'' EXEC_ORDER_STATUS (Other_ord_status ''0''))\<lparr>er_mass_status_req_id := ''r1'', er_last_rpt_requested := True\<rparr>]
     (demo_with MASS_STATUS_REQ_ID ''q1'' ''r1'' False))"
  using mass_status_until_last [OF demo_with_on_its_way, of "''r1''"
      "[(demo_report ''o1'' EXEC_ORDER_STATUS (Other_ord_status ''0''))\<lparr>er_mass_status_req_id := ''r1''\<rparr>,
        (demo_report ''o2'' EXEC_ORDER_STATUS (Other_ord_status ''0''))\<lparr>er_mass_status_req_id := ''r1'', er_last_rpt_requested := True\<rparr>]"
      "''q1''" demo_env]
  by (simp add: demo_report_def)

end
