(* ===== verification/Session_Life.thy ===== *)
theory Session_Life
  imports Subscriptions
begin

text \<open>
  The life of a client session, from the connection to its end: the logon and its route, what is refused
  before the logon, the timers, and what is left of a session when it is gone.
\<close>

section \<open>States of the demonstration run\<close>

definition demo_connected :: sys where
  "demo_connected = state_after (demo_up @ [(3, Client_Connected)])"

lemma demo_connected_state:
  "reachable demo_env demo_connected" "state_of 1 demo_connected = Some WAITING_LOGON"
  "acceptable demo_env (demo_logon_of ''alice'' ''secret'') (demo_header ''ALICE'' 1 (demo_logon ''alice'' ''secret'')) demo_connected"
proof -
  show "reachable demo_env demo_connected" unfolding demo_connected_def by (rule state_after_reachable)
  have "state_of 1 demo_connected = Some WAITING_LOGON \<and>
      acceptable demo_env (demo_logon_of ''alice'' ''secret'') (demo_header ''ALICE'' 1 (demo_logon ''alice'' ''secret'')) demo_connected"
    by code_simp
  then show "state_of 1 demo_connected = Some WAITING_LOGON"
    "acceptable demo_env (demo_logon_of ''alice'' ''secret'') (demo_header ''ALICE'' 1 (demo_logon ''alice'' ''secret'')) demo_connected"
    by simp_all
qed

definition demo_asking_session :: client_session where
  "demo_asking_session = the (session_of 1 (state_after demo_asked))"

lemma demo_asked_facts:
  "session_of 1 (state_after demo_asked) = Some demo_asking_session" "cs_state demo_asking_session = WAITING_CREATE_ROUTE"
  "user_server_to_client (state_after demo_asked) ''proxy-1'' = Some 1"
  "client_to_session (state_after demo_asked) ''42'' = None" "session_to_client (state_after demo_asked) 1 = None"
proof -
  have "let s = state_after demo_asked in session_of 1 s \<noteq> None \<and> cs_state demo_asking_session = WAITING_CREATE_ROUTE \<and>
      user_server_to_client s ''proxy-1'' = Some 1 \<and> client_to_session s ''42'' = None \<and> session_to_client s 1 = None"
    by code_simp
  then show "session_of 1 (state_after demo_asked) = Some demo_asking_session" "cs_state demo_asking_session = WAITING_CREATE_ROUTE"
    "user_server_to_client (state_after demo_asked) ''proxy-1'' = Some 1"
    "client_to_session (state_after demo_asked) ''42'' = None" "session_to_client (state_after demo_asked) 1 = None"
    by (auto simp: demo_asking_session_def Let_def)
qed

lemma demo_ready_facts:
  "\<not> cs_waiting_for_heartbeat demo_session" "cs_next_heartbeat demo_session = 0"
  "session_to_client (state_after demo_ready) 1 = Some ''42''"
  "inner_table 1 (mappings (state_after demo_trading) MD_REQ_ID) = [(''m1'', ''proxy-2'')]"
  "session_to_client (state_after demo_trading) 1 = Some ''42''"
  "fresh_request_id (state_after demo_trading) = ''proxy-3''" "controller_ready (state_after demo_trading)"
proof -
  have "\<not> cs_waiting_for_heartbeat demo_session \<and> cs_next_heartbeat demo_session = 0 \<and>
      session_to_client (state_after demo_ready) 1 = Some ''42''" by code_simp
  moreover have "let s = state_after demo_trading in inner_table 1 (mappings s MD_REQ_ID) = [(''m1'', ''proxy-2'')] \<and>
      session_to_client s 1 = Some ''42'' \<and> fresh_request_id s = ''proxy-3'' \<and> controller_ready s" by code_simp
  ultimately show "\<not> cs_waiting_for_heartbeat demo_session" "cs_next_heartbeat demo_session = 0"
    "session_to_client (state_after demo_ready) 1 = Some ''42''"
    "inner_table 1 (mappings (state_after demo_trading) MD_REQ_ID) = [(''m1'', ''proxy-2'')]"
    "session_to_client (state_after demo_trading) 1 = Some ''42''"
    "fresh_request_id (state_after demo_trading) = ''proxy-3''" "controller_ready (state_after demo_trading)"
    by (simp_all add: Let_def)
qed

section \<open>Before the logon\<close>

text \<open>The operation sends nothing upstream and leaves the requests alone, whether it returns or throws.\<close>

definition harmless :: "sys \<Rightarrow> sys \<Rightarrow> bool" where
  "harmless s t \<longleftrightarrow> sent_upstream (out t) = sent_upstream (out s) \<and> mappings t = mappings s"

lemma harmless_refl [simp]: "harmless s s"
  by (simp add: harmless_def)

lemma harmless_trans: "harmless s t \<Longrightarrow> harmless t u \<Longrightarrow> harmless s u"
  by (simp add: harmless_def)

lemma harmless_simps [simp]:
  "harmless s (client_send e m sid t) = harmless s t"
  "harmless s (bury sid t) = harmless s t"
  "harmless s (emit (Close_Client sid) t) = harmless s t"
  "harmless s (update_session sid f t) = harmless s t"
  by (simp_all add: harmless_def out_client_send split: option.split)

text \<open>A session that has not logged on, or has ended, or is not there.\<close>

definition outside :: "u64 \<Rightarrow> sys \<Rightarrow> bool" where
  "outside sid s \<longleftrightarrow> state_of sid s \<in> {None, Some WAITING_LOGON, Some ZOMBIE}"

lemma outside_simps [simp]:
  "outside sid (client_send e m sid s) = outside sid s"
  "outside sid (emit x s) = outside sid s"
  "outside sid s \<Longrightarrow> outside sid (bury sid s)"
  by (auto simp: outside_def)

lemma make_zombie_outside:
  assumes "outside sid s"
  shows "leaves (\<lambda>t. harmless s t \<and> outside sid t) (make_zombie e sid s)"
proof (cases "session_of sid s")
  case (Some c)
  with assms have "cs_state c = WAITING_LOGON \<or> cs_state c = ZOMBIE" by (auto simp: outside_def state_of_def)
  with Some assms outside_simps(3) [OF assms] show ?thesis by (auto simp: make_zombie_def)
qed (use assms in \<open>simp add: make_zombie_def\<close>)

lemma close_outside:
  assumes "outside sid s"
  shows "leaves (\<lambda>t. harmless s t \<and> outside sid t) (close e sid s)"
proof (cases "session_of sid s")
  case (Some c)
  have "leaves (\<lambda>t. harmless s t \<and> outside sid t) (make_zombie e sid (emit (Close_Client sid) s))"
    using make_zombie_outside [of sid "emit (Close_Client sid) s" e] assms
    by (auto elim!: leaves_mono simp: harmless_def)
  with Some assms show ?thesis by (simp add: close_def)
qed (use assms in \<open>simp add: close_def\<close>)

lemma send_reject_outside:
  assumes "outside sid s"
  shows "leaves (\<lambda>t. harmless s t \<and> outside sid t) (send_reject_and_close e h reason what sid s)"
proof -
  have "leaves (\<lambda>t. harmless (client_send e m sid s) t \<and> outside sid t) (close e sid (client_send e m sid s))" for m
    using assms by (intro close_outside) simp
  then show ?thesis
    unfolding send_reject_and_close_def send_and_close_def by (rule leaves_mono) (auto elim: harmless_trans [rotated])
qed

lemma when_ready_outside:
  assumes "outside sid s"
  shows "leaves (\<lambda>t. harmless s t \<and> outside sid t) (when_ready e h sid act s)"
  using assms send_reject_outside [OF assms, of e h SESSION_REJECT_OTHER]
  by (cases "session_of sid s") (auto simp: when_ready_def outside_def state_of_def split: client_state.split)

lemma dispatch_outside:
  assumes "outside sid s" and "\<forall>v. m \<noteq> Logon v"
  shows "leaves (\<lambda>t. harmless s t \<and> outside sid t) (session_dispatch e h sid m s)"
proof -
  have plain: "leaves (\<lambda>t. harmless s t \<and> outside sid t) (session_test_request e v h sid s)"
    "leaves (\<lambda>t. harmless s t \<and> outside sid t) (session_resend_request e h sid s)"
    "leaves (\<lambda>t. harmless s t \<and> outside sid t) (session_heartbeat e h sid s)" for v
    using assms(1) send_reject_outside [OF assms(1), of e h SESSION_REJECT_OTHER]
    by (cases "session_of sid s"; auto simp: session_test_request_def session_resend_request_def session_heartbeat_def
        Let_def outside_def state_of_def split: client_state.split)+
  show ?thesis
    using assms plain when_ready_outside [OF assms(1)] close_outside [OF assms(1)]
    by (cases m) (simp_all add: session_logout_request_def session_security_list_request_def
        session_security_definition_request_def session_security_status_request_def session_market_data_request_def
        session_order_status_request_def session_order_mass_status_request_def session_new_order_single_def
        session_order_cancel_request_def session_order_cancel_replace_request_def
        session_order_mass_cancel_request_def session_request_for_positions_def
        session_trade_capture_report_request_def session_trading_session_status_request_def
        send_business_message_reject_def session_reject_def)
qed

lemma frame_outside:
  assumes "outside sid s" and "\<And>h v. f \<noteq> Decoded h (Logon v)"
  shows "leaves (\<lambda>t. harmless s t \<and> outside sid t) (session_frame e sid f s)"
proof -
  let ?t = "\<lambda>h. update_session sid (\<lambda>c. if cs_comp_id c = [] then c\<lparr>cs_comp_id := hd_sender_comp_id h\<rparr> else c)
    (session_check h sid s)"
  have t: "outside sid (?t h)" "harmless s (?t h)" for h
    using assms(1) by (simp_all add: outside_def session_check_def state_of_update_session)
  have "leaves (\<lambda>u. harmless s u \<and> outside sid u) (session_dispatch e h sid m (?t h))" if "\<forall>v. m \<noteq> Logon v" for m h
    by (rule leaves_mono [OF dispatch_outside [OF t(1) that]]) (auto intro: harmless_trans [OF t(2)])
  with t assms show ?thesis
    by (cases f) (simp_all add: session_frame_def session_parse_def Let_def)
qed

lemma frames_outside:
  assumes "outside sid s" and "\<And>h v. Decoded h (Logon v) \<notin> set fs"
  shows "leaves (\<lambda>t. harmless s t \<and> outside sid t) (session_frames e sid fs s)"
  using assms
proof (induction fs arbitrary: s)
  case (Cons f fs)
  have "leaves (\<lambda>t. harmless s t \<and> outside sid t) (session_frame e sid f s)"
    using Cons.prems by (intro frame_outside) auto
  moreover have "leaves (\<lambda>u. harmless s u \<and> outside sid u)
      (with_session sid (\<lambda>c s. if cs_state c = ZOMBIE then Ok s else session_frames e sid fs s) t)"
    if "harmless s t" "outside sid t" for t
    using Cons.IH [OF that(2)] Cons.prems(2) that
    by (cases "session_of sid t") (auto elim!: leaves_mono intro: harmless_trans)
  ultimately show ?case by (auto intro: leaves_and_then)
qed simp

text \<open>
  C23. Before its logon a client reaches nobody: whatever it sends, as long as it is not a logon, nothing
  goes upstream, no request is entered, and the session has not got any further.
\<close>

theorem nothing_before_logon:
  assumes "outside sid s" and "\<And>h v. Decoded h (Logon v) \<notin> set fs"
  shows "leaves (\<lambda>t. sent_upstream (out t) = sent_upstream (out s) \<and> mappings t = mappings s \<and> outside sid t)
    (session_read e fs sid s)"
proof -
  have "leaves (\<lambda>t. harmless s t \<and> outside sid t) (session_read e fs sid s)"
  proof (cases "session_frames e sid fs s")
    case (Throw x t)
    with frames_outside [OF assms, of e] have t: "harmless s t" "outside sid t" by simp_all
    with close_outside [OF t(2), of e] Throw assms(1) show ?thesis
      by (cases "session_of sid s") (auto simp: session_read_def elim!: leaves_mono intro: harmless_trans)
  qed (use frames_outside [OF assms, of e] assms(1) in \<open>cases "session_of sid s"; simp add: session_read_def\<close>)+
  then show ?thesis by (rule leaves_mono) (simp add: harmless_def)
qed

theorem nothing_before_logon_witness:
  "leaves (\<lambda>t. sent_upstream (out t) = sent_upstream (out demo_connected) \<and> outside 1 t)
     (session_read demo_env [frame ''ALICE'' 1 (New_Order_Single (demo_new_order ''o1''))] 1 demo_connected)"
proof -
  have "outside 1 demo_connected" by (simp add: outside_def demo_connected_state)
  from nothing_before_logon [OF this, of "[frame ''ALICE'' 1 (New_Order_Single (demo_new_order ''o1''))]" demo_env]
  show ?thesis by (simp add: frame_def leaves_conj)
qed

section \<open>The logon and the route\<close>

lemma session_of_users [simp]:
  "session_of sid (s\<lparr>client_to_session := a\<rparr>) = session_of sid s"
  "session_of sid (s\<lparr>session_to_client := b\<rparr>) = session_of sid s"
  by (simp_all add: session_of_def)

text \<open>
  C25. A logon request is decided on the spot: the session asks the bridge for its route exactly if the
  request passes the checks, the user is known, authenticated and not logged on, and the bridge is there
  and has no route for the user's party. In every other case the session is ended.
\<close>

theorem logon_is_decided:
  assumes "reachable e s" and "state_of sid s = Some WAITING_LOGON"
  shows "\<exists>t. session_logon_request e v h sid s = Ok t \<and>
    state_of sid t = Some (if acceptable e v h s then WAITING_CREATE_ROUTE else ZOMBIE)"
  using logon_request_decides [OF reachable_good [OF assms(1)] assms(2), of e v h]
  by (cases "session_logon_request e v h sid s") auto

theorem logon_is_decided_witness:
  "\<exists>t. session_logon_request demo_env (demo_logon_of ''alice'' ''secret'')
      (demo_header ''ALICE'' 1 (demo_logon ''alice'' ''secret'')) 1 demo_connected = Ok t \<and>
    state_of 1 t = Some WAITING_CREATE_ROUTE"
  using logon_is_decided [OF demo_connected_state(1,2), of "demo_logon_of ''alice'' ''secret''"
      "demo_header ''ALICE'' 1 (demo_logon ''alice'' ''secret'')"] demo_connected_state(3) by simp

text \<open>
  C29. The bridge's answer decides the session that is waiting for its route. If the party is logged in the client gets
  its logon, the session is ready, and reports for the party go to it; but when the party, or the session, has been
  entered already the process ends by \<open>log::fatal\<close>. Any other answer ends the session.
\<close>

theorem route_reply_decides:
  assumes "reachable e s" and "session_of sid s = Some c" and "cs_state c = WAITING_CREATE_ROUTE"
    and "user_server_to_client s (urs_user_request_id v) = Some sid"
  shows "if urs_user_status v = LOGGED_IN \<and> (client_to_session s (urs_username v) \<noteq> None \<or> session_to_client s sid \<noteq> None)
    then on_user_response e v s = Fatal ''Unexpected''
    else \<exists>t. on_user_response e v s = Ok t \<and>
      (if urs_user_status v = LOGGED_IN
       then state_of sid t = Some READY \<and> client_to_session t (urs_username v) = Some sid \<and>
         (\<exists>l. out t = out s @ [To_Client sid (client_header e (Logon l) c s) (Logon l)])
       else state_of sid t = Some ZOMBIE)"
proof (cases "urs_user_status v = LOGGED_IN")
  case True
  with assms(2-4) show ?thesis
    by (auto simp: on_user_response_def user_add_def session_user_response_def Let_def out_client_send
        client_header_def state_of_def session_of_client_send)
next
  case False
  note g = reachable_good [OF assms(1)]
  have not_ready: "\<not> session_ready c" using assms(3) by (simp add: session_ready_def)
  obtain s1 where s1: "(case urs_user_status v of LOGGED_IN \<Rightarrow> user_add (urs_username v) sid s
      | NOT_LOGGED_IN \<Rightarrow> user_remove (urs_username v) (session_ready c) s | _ \<Rightarrow> Ok s) = Ok s1"
    "effects e s s1" "sessions s1 = sessions s"
    using False not_ready user_remove_lands [OF g, of e "urs_username v" "session_ready c"]
    by (cases "urs_user_status v") (auto simp: user_remove_def split: option.splits)
  let ?s = "s1\<lparr>user_client_to_server := erase_key (user_client_to_server s1) sid,
    user_server_to_client := erase_key (user_server_to_client s1) (urs_user_request_id v)\<rparr>"
  let ?t = "update_session sid (\<lambda>c. c\<lparr>cs_user_response_timeout := 0\<rparr>) ?s"
  have t: "effects e s ?t"
    by (intro eff_noted effects_step [OF s1(2)] effect.settled) simp_all
  have c: "session_of sid ?s = Some c" using assms(2) s1(3) by (simp add: session_of_def)
  then have st: "state_of sid ?t = Some WAITING_CREATE_ROUTE"
    using assms(3) by (simp add: state_of_update_session) (simp add: state_of_def)
  obtain u where u: "make_zombie e sid ?t = Ok u" "ended sid ?t u"
    using make_zombie_returns [OF effects_good [OF t g], of sid e] st
    by (cases "make_zombie e sid ?t") auto
  have "on_user_response e v s = session_user_response e v sid ?s"
    using assms(2,4) s1(1) by (simp add: on_user_response_def)
  also have "\<dots> = Ok u"
    using c assms(3) False u(1) by (cases "urs_user_status v") (simp_all add: session_user_response_def Let_def)
  finally show ?thesis using False u(2) by (simp add: ended_def)
qed

theorem route_reply_decides_witness:
  "\<exists>t. on_user_response demo_env \<lparr>urs_user_request_id = ''proxy-1'', urs_username = ''42'', urs_user_status = LOGGED_IN,
      urs_rest = []\<rparr> (state_after demo_asked) = Ok t \<and> state_of 1 t = Some READY \<and> client_to_session t ''42'' = Some 1"
  using route_reply_decides [OF state_after_reachable demo_asked_facts(1,2), of "\<lparr>urs_user_request_id = ''proxy-1'',
      urs_username = ''42'', urs_user_status = LOGGED_IN, urs_rest = []\<rparr>"] demo_asked_facts(3-5) by auto

section \<open>What is left of a session\<close>

text \<open>The messages to the server, in order.\<close>

fun requests_sent :: "wire list \<Rightarrow> msg list" where
  "requests_sent [] = []"
| "requests_sent (To_Server h m # xs) = m # requests_sent xs"
| "requests_sent (x # xs) = requests_sent xs"

lemma requests_sent_append [simp]: "requests_sent (xs @ ys) = requests_sent xs @ requests_sent ys"
  by (induction xs rule: requests_sent.induct) auto

definition unsubscribe_of :: "string \<Rightarrow> msg" where
  "unsubscribe_of rid =
     Market_Data_Request \<lparr>mdr_md_req_id = rid, mdr_subscription_request_type = UNSUBSCRIBE, mdr_rest = []\<rparr>"

lemma clear_walk_sends:
  assumes "controller_ready s \<longrightarrow> server_ready s"
  shows "\<exists>t. clear_walk (unsubscribe_market_data e) r rids s = Ok t \<and> controller_ready t = controller_ready s \<and>
    server_ready t = server_ready s \<and>
    requests_sent (out t) = requests_sent (out s) @ (if controller_ready s then map unsubscribe_of rids else []) \<and>
    client_to_session t = client_to_session s \<and> session_to_client t = session_to_client s \<and> shared t = shared s"
  using assms
proof (induction rids arbitrary: s)
  case (Cons rid rids)
  let ?u = "if controller_ready s then server_send_helper e (unsubscribe_of rid) s else s"
  let ?t = "update_mapping r (erase_server rid) ?u"
  have "unsubscribe_market_data e rid s = Ok ?u"
    using Cons.prems by (simp add: unsubscribe_market_data_def dispatch_to_server_ready unsubscribe_of_def)
  with Cons.IH [of ?t] Cons.prems show ?case by (simp split: if_splits)
qed simp

lemma teardown_before_release:
  assumes "controller_ready s \<longrightarrow> server_ready s" and "on_client_disconnected e sid s = Ok t"
  shows "\<exists>d. release_user e sid d = Ok t \<and> controller_ready d = controller_ready s \<and> server_ready d = server_ready s \<and>
    requests_sent (out d) = requests_sent (out s) @
      (if controller_ready s then map unsubscribe_of (map snd (inner_table sid (mappings s MD_REQ_ID))) else []) \<and>
    client_to_session d = client_to_session s \<and> session_to_client d = session_to_client s \<and> shared d = shared s"
proof -
  let ?a = "update_mapping TRAD_SES_REQ_ID (clear_req_ids sid) (update_mapping SECURITY_STATUS_REQ_ID (clear_req_ids sid)
    (update_mapping SECURITY_REQ_ID (clear_req_ids sid) s))"
  let ?rids = "map snd (inner_table sid (mappings s MD_REQ_ID))"
  let ?sent = "if controller_ready s then map unsubscribe_of ?rids else []"
  have md: "client_to_server (mappings ?a MD_REQ_ID) sid = client_to_server (mappings s MD_REQ_ID) sid" by simp
  obtain b where b: "clear_walk (unsubscribe_market_data e) MD_REQ_ID ?rids ?a = Ok b"
    "controller_ready b = controller_ready s" "server_ready b = server_ready s"
    "requests_sent (out b) = requests_sent (out s) @ ?sent"
    "client_to_session b = client_to_session s" "session_to_client b = session_to_client s" "shared b = shared s"
    using clear_walk_sends [of ?a e MD_REQ_ID ?rids] assms(1) by auto
  let ?c = "case client_to_server (mappings s MD_REQ_ID) sid of None \<Rightarrow> ?a
    | Some al \<Rightarrow> update_mapping MD_REQ_ID (erase_client sid) b"
  have c: "clear_req_ids_with (unsubscribe_market_data e) MD_REQ_ID sid ?a = Ok ?c"
    "controller_ready ?c = controller_ready s" "server_ready ?c = server_ready s"
    "requests_sent (out ?c) = requests_sent (out s) @ ?sent"
    "client_to_session ?c = client_to_session s" "session_to_client ?c = session_to_client s" "shared ?c = shared s"
    using b md by (auto simp: clear_req_ids_with_def inner_table_def split: option.split)
  let ?d = "fold (\<lambda>r. update_mapping r (clear_req_ids sid)) [ORD_STATUS_REQ_ID, MASS_STATUS_REQ_ID, POS_REQ_ID, TRADE_REQUEST_ID,
    CL_ORD_ID, MASS_CANCEL_CL_ORD_ID] ?c"
  have "release_user e sid ?d = Ok t"
    using assms(2) c(1) by (simp add: on_client_disconnected_def clear_table_def)
  with c(2-7) show ?thesis by (intro exI [of _ ?d]) simp
qed

text \<open>
  C31. The teardown of a session returns, and tells the server while the controller is ready: every market data
  request of the session is unsubscribed under the id the server knows it by, once each, and then the session's
  party is logged off. Nothing else is sent, and nothing at all when the upstream connection has been lost.
\<close>

theorem teardown_informs_server:
  assumes "good s"
  shows "\<exists>t. on_client_disconnected e sid s = Ok t \<and>
    requests_sent (out t) = requests_sent (out s) @
      (if controller_ready s
       then map unsubscribe_of (map snd (inner_table sid (mappings s MD_REQ_ID))) @
         (case session_to_client s sid of
            None \<Rightarrow> []
          | Some u \<Rightarrow> [User_Request (user_request_of LOG_OFF_USER u (fresh_request_id s))])
       else [])"
proof -
  have up: "controller_ready s \<longrightarrow> server_ready s" using linkedD(1) [OF goodD(1) [OF assms]] by blast
  obtain t where t: "on_client_disconnected e sid s = Ok t"
    using on_client_disconnected_returns [OF assms, of e sid] by blast
  from teardown_before_release [OF up t] obtain d where d: "release_user e sid d = Ok t"
    "controller_ready d = controller_ready s" "server_ready d = server_ready s"
    "requests_sent (out d) = requests_sent (out s) @
      (if controller_ready s then map unsubscribe_of (map snd (inner_table sid (mappings s MD_REQ_ID))) else [])"
    "session_to_client d = session_to_client s" "shared d = shared s" by blast
  have "requests_sent (out t) = requests_sent (out d) @ (case session_to_client s sid of
      None \<Rightarrow> [] | Some u \<Rightarrow> if controller_ready s then [User_Request (user_request_of LOG_OFF_USER u (fresh_request_id s))] else [])"
    using d(1-3,5,6) up by (auto simp: release_user_def Let_def dispatch_to_server_ready user_request_of_def fresh_request_id_def
        split: option.splits if_splits)
  with t d(4) show ?thesis by (simp split: option.splits)
qed

theorem teardown_informs_server_witness:
  "\<exists>t. on_client_disconnected demo_env 1 (state_after demo_trading) = Ok t \<and>
     requests_sent (out t) = requests_sent (out (state_after demo_trading)) @
       [unsubscribe_of ''proxy-2'', User_Request (user_request_of LOG_OFF_USER ''42'' ''proxy-3'')]"
  using teardown_informs_server [OF reachable_good [OF state_after_reachable, of demo_trading], of demo_env 1]
  by (simp add: demo_ready_facts)

lemma release_user_clears: "release_user e sid s = Ok t \<Longrightarrow> session_to_client t sid = None"
  by (auto simp: release_user_def Let_def split: option.splits if_splits)

lemma on_client_disconnected_clears:
  assumes "on_client_disconnected e sid s = Ok t"
  shows "session_to_client t sid = None"
proof -
  have "\<exists>u. release_user e sid u = Ok t" if "in_order (fs @ [release_user e sid]) s = Ok t" for fs s
    using that by (induction fs arbitrary: s) auto
  with assms show ?thesis
    unfolding on_client_disconnected_def by (metis (no_types, lifting) append_Cons append_Nil release_user_clears)
qed

lemma teardown_parties:
  assumes "good s" and "on_client_disconnected e sid s = Ok t"
  shows "session_to_client t = erase_key (session_to_client s) sid"
    and "u \<noteq> the (session_to_client s sid) \<or> session_to_client s sid = None \<Longrightarrow> client_to_session t u = client_to_session s u"
    and "session_to_username (shared t) = session_to_username (shared s)"
proof -
  have up: "controller_ready s \<longrightarrow> server_ready s" using linkedD(1) [OF goodD(1) [OF assms(1)]] by blast
  from teardown_before_release [OF up assms(2)] obtain d where d: "release_user e sid d = Ok t"
    "controller_ready d = controller_ready s" "server_ready d = server_ready s"
    "client_to_session d = client_to_session s" "session_to_client d = session_to_client s" "shared d = shared s" by blast
  from d up show "session_to_client t = erase_key (session_to_client s) sid"
    by (auto simp: release_user_def Let_def dispatch_to_server_ready fun_eq_iff split: option.splits if_splits)
  from d up show "u \<noteq> the (session_to_client s sid) \<or> session_to_client s sid = None \<Longrightarrow> client_to_session t u = client_to_session s u"
    by (auto simp: release_user_def Let_def dispatch_to_server_ready split: option.splits if_splits)
  from d up show "session_to_username (shared t) = session_to_username (shared s)"
    by (auto simp: release_user_def Let_def dispatch_to_server_ready take_request_id_def create_request_id_def split: option.splits if_splits)
qed

text \<open>What the end of a session does to the other sessions: nothing.\<close>

lemma make_zombie_other:
  assumes "good s" and "sid' \<noteq> sid"
  shows "leaves (\<lambda>t. session_of sid' t = session_of sid' s) (make_zombie e sid s)"
proof (cases "session_of sid s")
  case (Some c)
  from on_client_disconnected_returns [OF assms(1), of e sid] obtain t pending asked where
    t: "sessions t = sessions s"
      "on_client_disconnected e sid s = Ok (t\<lparr>user_client_to_server := (user_client_to_server t)(sid := pending),
        user_server_to_client := asked\<rparr>)" by blast
  have "session_of sid' t = session_of sid' s" using t(1) by (simp add: session_of_def)
  with Some t(2) assms(2) show ?thesis by (cases "cs_state c") (simp_all add: make_zombie_def bury_def)
qed (simp add: make_zombie_def)

text \<open>
  C26. When the connection of a live session is gone, nothing in the proxy points to the session any
  more: no request is routed to it (but for order status requests without an id, whose lines stay), no party and no
  user belongs to it, and it is left for the garbage collection. The other sessions are as they were, with their
  parties and their users.
\<close>

theorem disconnect_forgets_session:
  assumes "reachable e s" and "live sid s"
  shows "\<exists>t. session_disconnected e sid s = Ok t \<and> state_of sid t = Some ZOMBIE \<and>
    (\<forall>r rid cid ka. find_req_id r rid t = Some (sid, cid, ka) \<longrightarrow> r = ORD_STATUS_REQ_ID \<and> cid = []) \<and>
    (\<forall>u. client_to_session t u \<noteq> Some sid) \<and> session_to_username (shared t) sid = None \<and>
    sid \<in> set (sessions_to_remove (shared t)) \<and>
    (\<forall>other. other \<noteq> sid \<longrightarrow> session_of other t = session_of other s \<and>
      session_to_client t other = session_to_client s other \<and>
      (\<forall>u. client_to_session t u = Some other \<longleftrightarrow> client_to_session s u = Some other) \<and>
      session_to_username (shared t) other = session_to_username (shared s) other)"
proof -
  note g = reachable_good [OF assms(1)]
  from assms(2) obtain c where c: "session_of sid s = Some c" "cs_state c \<noteq> WAITING_LOGON" "cs_state c \<noteq> ZOMBIE"
    by (auto simp: live_iff state_of_def)
  obtain t where t: "session_disconnected e sid s = Ok t" "effects e s t" "ended sid s t"
    using make_zombie_returns [OF g, of sid e] c(1)
    by (cases "make_zombie e sid s") (auto simp: session_disconnected_def state_of_def)
  note gt = effects_good [OF t(2) g]
  have z: "state_of sid t = Some ZOMBIE" using t(3) by (simp add: ended_def)
  then have dead: "\<not> live sid t" by (simp add: live_iff)
  have "\<exists>u. on_client_disconnected e sid s = Ok u \<and> t = bury sid u"
    using t(1) c by (cases "cs_state c") (auto simp: session_disconnected_def make_zombie_def)
  then obtain v where v: "on_client_disconnected e sid s = Ok v" "t = bury sid v" by blast
  note parties = teardown_parties [OF g v(1)]
  have known: "client_to_session t u = Some i \<longleftrightarrow> session_to_client t i = Some u"
    "client_to_session s u = Some i \<longleftrightarrow> session_to_client s i = Some u" for u i
    using goodD(3) [OF gt] goodD(3) [OF g] by (simp_all add: known_users_def converse_mapsD)
  have "client_to_session t u \<noteq> Some sid" for u using known(1) parties(1) v(2) by simp
  moreover have "session_to_username (shared t) sid = None"
    using logged_onD(2) [OF goodD(4) [OF gt], of sid] dead by (cases "session_to_username (shared t) sid") auto
  moreover have "sid \<in> set (sessions_to_remove (shared t))"
    using numbered_sessionsD(4) [OF goodD(6) [OF gt], of sid] z by simp
  moreover have "session_of other t = session_of other s \<and> session_to_client t other = session_to_client s other \<and>
      (\<forall>u. client_to_session t u = Some other \<longleftrightarrow> client_to_session s u = Some other) \<and>
      session_to_username (shared t) other = session_to_username (shared s) other" if "other \<noteq> sid" for other
  proof (intro conjI allI)
    show "session_of other t = session_of other s"
      using make_zombie_other [OF g that, of e] t(1) by (simp add: session_disconnected_def)
    show p: "session_to_client t other = session_to_client s other" using that v(2) parties(1) by simp
    show "client_to_session t u = Some other \<longleftrightarrow> client_to_session s u = Some other" for u
      unfolding known using p by simp
    show "session_to_username (shared t) other = session_to_username (shared s) other"
      using that v(2) parties(3) by (simp add: session_remove_def session_remove_helper_def split: option.split)
  qed
  ultimately show ?thesis
    using t(1) z no_routes_of_dead [OF gt dead] by (auto simp: no_routes_def find_req_id_def)
qed

theorem disconnect_forgets_session_witness:
  "\<exists>t. session_disconnected demo_env 1 (state_after demo_trading) = Ok t \<and> state_of 1 t = Some ZOMBIE \<and>
     client_to_session t ''42'' \<noteq> Some 1"
proof -
  have "live 1 (state_after demo_trading)"
    using demo_trading_state by (simp add: live_iff)
  from disconnect_forgets_session [OF state_after_reachable this] show ?thesis by blast
qed

section \<open>Exceptions\<close>

text \<open>
  A frame that cannot be read or decoded ends the session: whatever the session did with the frames before
  it, after the read the session has come to its end, and the exception goes no further.
\<close>

theorem undecodable_frame_ends_session:
  assumes "reachable e s" and "state_of sid s \<noteq> None" and "list_ex undecodable fs"
    and "session_read e fs sid s = Ok t"
  shows "state_of sid t = None \<or> state_of sid t = Some ZOMBIE"
proof -
  note g = reachable_good [OF assms(1)]
  have frames: "state_of sid u = None \<or> state_of sid u = Some ZOMBIE"
    if "good s" "state_of sid s \<noteq> Some ZOMBIE" "list_ex undecodable fs" "session_frames e sid fs s = Ok u" for fs s u
    using that
  proof (induction fs arbitrary: s)
    case (Cons f fs)
    from Cons.prems(4) obtain v where v: "session_frame e sid f s = Ok v"
      "with_session sid (\<lambda>c s. if cs_state c = ZOMBIE then Ok s else session_frames e sid fs s) v = Ok u" by auto
    then have "\<not> undecodable f" by (cases f) (auto simp: session_frame_def session_parse_def Let_def)
    with Cons.prems(3) have "list_ex undecodable fs" by auto
    moreover have "good v"
      using session_frame_leaves [OF Cons.prems(1,2), of e f] v(1) effects_good Cons.prems(1) by auto
    ultimately show ?case
      using v(2) Cons.IH [of v] by (cases "session_of sid v") (auto simp: state_of_def split: if_splits)
  qed simp
  obtain c where c: "session_of sid s = Some c" using assms(2) by (auto simp: state_of_def)
  show ?thesis
  proof (cases "cs_state c = ZOMBIE")
    case True
    with c assms(4) show ?thesis by (auto simp: session_read_def state_of_def)
  next
    case False
    with c have z: "state_of sid s \<noteq> Some ZOMBIE" by (simp add: state_of_def)
    show ?thesis
    proof (cases "session_frames e sid fs s")
      case (Ok u)
      with c False assms(4) frames [OF g z assms(3) Ok] show ?thesis by (simp add: session_read_def)
    next
      case (Throw x u)
      with session_frames_leaves [OF g z, of e fs] have gu: "good u" using effects_good g by auto
      from c False assms(4) Throw have "close e sid u = Ok t" by (simp add: session_read_def)
      with close_returns [OF gu, of sid e] show ?thesis
        by (cases "session_of sid u") (auto simp: ended_def state_of_def close_def)
    qed (use c False assms(4) in \<open>simp add: session_read_def\<close>)
  qed
qed

theorem undecodable_frame_ends_session_witness:
  "\<exists>t. session_read demo_env [Undecodable (demo_header ''ALICE'' 2 (Heartbeat \<lparr>hb_test_req_id = []\<rparr>))] 1 (state_after demo_ready) = Ok t \<and>
     (state_of 1 t = None \<or> state_of 1 t = Some ZOMBIE)"
proof -
  let ?f = "Undecodable (demo_header ''ALICE'' 2 (Heartbeat \<lparr>hb_test_req_id = []\<rparr>))" and ?s = "state_after demo_ready"
  note g = reachable_good [OF state_after_reachable, of demo_ready]
  have st: "state_of 1 ?s = Some READY" by (simp add: state_of_def demo_ready_state)
  obtain x u where x: "session_frames demo_env 1 [?f] ?s = Throw x u"
    by (simp add: session_frame_def session_parse_def Let_def)
  with session_frames_leaves [OF g, of 1 demo_env "[?f]"] st have "good u"
    using effects_good g by auto
  then obtain t where "session_read demo_env [?f] 1 ?s = Ok t"
    using session_messages_land(4) [of u demo_env 1] close_returns [of u 1 demo_env] x demo_ready_state(1,2)
    by (cases "session_of 1 u") (auto simp: session_read_def close_def state_of_def elim: returns.elims)
  moreover from undecodable_frame_ends_session [OF state_after_reachable _ _ this] st
  have "state_of 1 t = None \<or> state_of 1 t = Some ZOMBIE" by simp
  ultimately show ?thesis by blast
qed

section \<open>Timers\<close>

lemma close_other:
  assumes "good s" and "sid' \<noteq> sid"
  shows "leaves (\<lambda>t. session_of sid' t = session_of sid' s) (close e sid s)"
proof -
  have "good (emit (Close_Client sid) s)"
    using assms(1) by (rule effects_good [OF eff_hang_up [OF effects_refl]])
  from make_zombie_other [OF this assms(2), of e] show ?thesis
    by (cases "session_of sid s") (simp_all add: close_def)
qed

lemma good_noted:
  assumes "good s" and "\<And>c. cs_state (f c) = cs_state c" and "\<And>c. cs_outbound (f c) = cs_outbound c"
  shows "good (update_session sid f s)"
  using effects_good [OF eff_noted [OF effects_refl]] assms by blast

lemma send_and_close_other:
  assumes "good s" and "sid' \<noteq> sid" and "state_of sid s \<noteq> Some ZOMBIE" and "downstream_session m"
  shows "leaves (\<lambda>t. session_of sid' t = session_of sid' s) (send_and_close e m sid s)"
proof -
  have "effects e s (client_send e m sid s)"
  proof (cases "state_of sid s")
    case None
    then show ?thesis by (simp add: client_send_def state_of_def)
  next
    case (Some st)
    with assms(3,4) show ?thesis by (intro eff_client_send) auto
  qed
  from close_other [OF effects_good [OF this assms(1)] assms(2), of e] assms(2) show ?thesis
    by (simp add: send_and_close_def session_of_client_send)
qed

lemma session_timer_other:
  assumes "good s" and "sid' \<noteq> sid"
  shows "leaves (\<lambda>t. session_of sid' t = session_of sid' s) (session_timer e now sid s)"
proof (cases "session_of sid s")
  case (Some c)
  let ?s = "update_session sid (\<lambda>c. c\<lparr>cs_next_heartbeat := now + client_heartbeat_freq e\<rparr>) s"
  have "good ?s" using assms(1) by (rule good_noted) simp_all
  from send_and_close_other [OF this assms(2), where e = e] Some assms(2)
  have "leaves (\<lambda>t. session_of sid' t = session_of sid' s) (send_and_close e (Logout v) sid ?s)" if "cs_state c \<noteq> ZOMBIE" for v
    using that by (simp add: state_of_def)
  with Some assms send_and_close_other [OF assms, where e = e] close_other [OF assms, of e] show ?thesis
    by (cases "cs_state c") (simp_all add: session_timer_def Let_def session_of_client_send state_of_def)
qed (simp add: session_timer_def)

text \<open>The session has waited longer than it may for its logon or for the bridge.\<close>

definition overdue :: "nanos \<Rightarrow> client_session \<Rightarrow> bool" where
  "overdue now c \<longleftrightarrow> (case cs_state c of
     WAITING_LOGON \<Rightarrow> cs_logon_timeout c < now
   | WAITING_CREATE_ROUTE \<Rightarrow> cs_user_response_timeout c < now
   | WAITING_REMOVE_ROUTE \<Rightarrow> cs_user_response_timeout c < now
   | _ \<Rightarrow> False)"

lemma session_timer_ends_overdue:
  assumes "good s"
  shows "returns (\<lambda>t. effects e s t \<and> (\<forall>c. session_of sid t = Some c \<longrightarrow> \<not> overdue now c) \<and>
    (\<forall>sid'. sid' \<noteq> sid \<longrightarrow> session_of sid' t = session_of sid' s)) (session_timer e now sid s)"
proof -
  obtain t where t: "session_timer e now sid s = Ok t" "effects e s t"
    using session_timer_returns [OF assms, of e now sid] by (cases "session_timer e now sid s") auto
  have other: "session_of sid' t = session_of sid' s" if "sid' \<noteq> sid" for sid'
    using session_timer_other [OF assms that, of e now] t(1) by simp
  have "\<not> overdue now d" if d: "session_of sid t = Some d" for d
  proof (cases "session_of sid s")
    case None
    with t(1) d show ?thesis by (simp add: session_timer_def)
  next
    case (Some c)
    then have st: "state_of sid s = Some (cs_state c)" by (simp add: state_of_def)
    have bye: "state_of sid t = Some ZOMBIE" if "send_and_close e (Logout v) sid s = Ok t" "cs_state c \<noteq> ZOMBIE" for v
      using send_and_close_returns [OF assms st that(2), of "Logout v" e] that(1) by (simp add: ended_def)
    have over: "state_of sid t = Some ZOMBIE" if "overdue now c"
      using that t(1) Some st close_returns [OF assms, of sid e] bye
      by (cases "cs_state c") (auto simp: session_timer_def overdue_def ended_def Let_def)
    show ?thesis
    proof (cases "overdue now c")
      case True
      with over d show ?thesis by (simp add: state_of_def overdue_def)
    next
      case False
      show ?thesis
      proof (cases "cs_state c = READY")
        case True
        let ?s = "update_session sid (\<lambda>c. c\<lparr>cs_next_heartbeat := now + client_heartbeat_freq e\<rparr>) s"
        have g: "good ?s" using assms by (rule good_noted) simp_all
        have "state_of sid u = Some ZOMBIE" if "send_and_close e (Logout v) sid ?s = Ok u" for v u
          using send_and_close_returns [OF g, of sid READY "Logout v" e] that st True by (simp add: ended_def state_of_update_session)
        then have "state_of sid t = Some READY \<or> state_of sid t = Some ZOMBIE"
          using t(1) Some st True
          by (auto simp: session_timer_def Let_def state_of_update_session split: if_splits)
        with d show ?thesis by (auto simp: state_of_def overdue_def)
      next
        case n: False
        with t(1) Some False d show ?thesis
          by (cases "cs_state c") (auto simp: session_timer_def overdue_def Let_def)
      qed
    qed
  qed
  with t other show ?thesis by simp
qed

lemma timers_end_overdue:
  assumes "good s"
  shows "returns (\<lambda>t. effects e s t \<and> (\<forall>sid c. sid \<in> set sids \<longrightarrow> session_of sid t = Some c \<longrightarrow> \<not> overdue now c) \<and>
    (\<forall>sid. sid \<notin> set sids \<longrightarrow> session_of sid t = session_of sid s)) (in_order (map (session_timer e now) sids) s)"
  using assms
proof (induction sids arbitrary: s)
  case (Cons sid sids)
  obtain t where t: "session_timer e now sid s = Ok t" "effects e s t" "\<And>c. session_of sid t = Some c \<Longrightarrow> \<not> overdue now c"
    "\<And>sid'. sid' \<noteq> sid \<Longrightarrow> session_of sid' t = session_of sid' s"
    using session_timer_ends_overdue [OF Cons.prems, of e sid now] by (cases "session_timer e now sid s") auto
  obtain u where u: "in_order (map (session_timer e now) sids) t = Ok u" "effects e t u"
    "\<And>sid c. sid \<in> set sids \<Longrightarrow> session_of sid u = Some c \<Longrightarrow> \<not> overdue now c"
    "\<And>sid. sid \<notin> set sids \<Longrightarrow> session_of sid u = session_of sid t"
    using Cons.IH [OF effects_good [OF t(2) Cons.prems]] by (cases "in_order (map (session_timer e now) sids) t") auto
  have "\<not> overdue now c" if "i = sid \<or> i \<in> set sids" "session_of i u = Some c" for i c
    using that t(3) u(3,4) by (cases "i \<in> set sids") auto
  moreover have "session_of i u = session_of i s" if "i \<noteq> sid" "i \<notin> set sids" for i
    using that t(4) u(4) by simp
  ultimately show ?case using t(1,2) u(1,2) by (auto simp del: not_None_eq intro: effects_trans)
qed simp

lemma session_of_remove_zombies: "session_of sid (remove_zombies now s) = Some c \<Longrightarrow> session_of sid s = Some c"
  by (auto simp: remove_zombies_def session_cleanup_def Let_def session_of_def map_of_fold_delete split: if_splits)

lemma session_of_server_timer [simp]: "sessions (server_timer e now s) = sessions s"
  by (simp add: server_timer_def server_send_test_request_def)

text \<open>
  C28. No session waits for ever: a timer event always returns, and after it no session is left that has
  waited past its timeout for a logon or for the answer of the bridge.
\<close>

theorem timer_leaves_nobody_overdue:
  assumes "reachable e s"
  shows "\<exists>t. controller_timer e now s = Ok t \<and> (\<forall>sid c. session_of sid t = Some c \<longrightarrow> \<not> overdue now c)"
proof -
  let ?s = "server_timer e now s"
  note g = effects_good [OF server_timer_effects reachable_good [OF assms], of e now]
  obtain t where t: "in_order (map (session_timer e now) (map fst (sessions ?s))) ?s = Ok t"
    "\<And>sid c. sid \<in> set (map fst (sessions ?s)) \<Longrightarrow> session_of sid t = Some c \<Longrightarrow> \<not> overdue now c"
    "\<And>sid. sid \<notin> set (map fst (sessions ?s)) \<Longrightarrow> session_of sid t = session_of sid ?s"
    using timers_end_overdue [OF g, of e "map fst (sessions ?s)" now]
    by (cases "in_order (map (session_timer e now) (map fst (sessions ?s))) ?s") auto
  have "\<not> overdue now c" if "session_of sid t = Some c" for sid c
  proof (cases "sid \<in> set (map fst (sessions ?s))")
    case False
    then have "session_of sid ?s = None" by (simp add: session_of_def map_of_eq_None_iff)
    with t(3) [OF False] that show ?thesis by simp
  qed (use t(2) that in blast)
  with t(1) show ?thesis
    by (auto simp: controller_timer_def manager_timer_def dest: session_of_remove_zombies)
qed

theorem timer_leaves_nobody_overdue_witness:
  "\<exists>t. controller_timer demo_env 100000 (state_after demo_asked) = Ok t \<and>
     (\<forall>c. session_of 1 t = Some c \<longrightarrow> \<not> overdue 100000 c)"
  using timer_leaves_nobody_overdue [OF state_after_reachable [of demo_asked], of 100000] by blast

lemma send_and_close_tells:
  assumes "good s" and "session_of sid s = Some c" and "cs_state c \<noteq> ZOMBIE" and "downstream_session m"
  shows "\<exists>t rest. send_and_close e m sid s = Ok t \<and> state_of sid t = Some ZOMBIE \<and>
    out t = out s @ To_Client sid (client_header e m c s) m # rest"
proof -
  let ?s = "client_send e m sid s"
  have st: "state_of sid s = Some (cs_state c)" using assms(2) by (simp add: state_of_def)
  then have g: "good ?s" using assms(3,4) by (intro effects_good [OF eff_client_send assms(1)]) auto
  obtain t where t: "close e sid ?s = Ok t" "effects e ?s t" "state_of sid t = Some ZOMBIE"
    using close_returns [OF g, of sid e] st by (cases "close e sid ?s") (auto simp: ended_def)
  from history.changes [OF t(2) g] obtain rest where "out t = out ?s @ rest" by (auto simp: moves_on_def)
  with t(1,3) assms(2) show ?thesis by (simp add: send_and_close_def out_client_send)
qed

text \<open>
  A client that has fallen silent is disconnected: when its heartbeat is due it is sent a test request,
  and if no heartbeat has come by the time the next one is due, it is sent a logout and the session is
  ended.
\<close>

theorem silent_client_is_disconnected:
  assumes "reachable e s" and "session_of sid s = Some c" and "cs_state c = READY"
    and "\<not> cs_waiting_for_heartbeat c" and "cs_next_heartbeat c < now" and "now + client_heartbeat_freq e < later_on"
    and "m = Test_Request \<lparr>tr_test_req_id = decimal_int now @ ''ns''\<rparr>"
  shows "\<exists>t u d rest. session_timer e now sid s = Ok t \<and> session_of sid t = Some d \<and>
    out t = out s @ [To_Client sid (client_header e m c s) m] \<and>
    session_timer e later_on sid t = Ok u \<and> state_of sid u = Some ZOMBIE \<and>
    out u = out t @ To_Client sid (client_header e (Logout \<lparr>lo_text = ''MISSING HEARTBEAT''\<rparr>) d t)
      (Logout \<lparr>lo_text = ''MISSING HEARTBEAT''\<rparr>) # rest"
proof -
  let ?s = "update_session sid (\<lambda>c. c\<lparr>cs_next_heartbeat := now + client_heartbeat_freq e\<rparr>) s"
  let ?t = "update_session sid (\<lambda>c. c\<lparr>cs_waiting_for_heartbeat := True\<rparr>) (client_send e m sid ?s)"
  let ?d = "c\<lparr>cs_next_heartbeat := now + client_heartbeat_freq e, cs_outbound := cs_outbound c + 1,
    cs_waiting_for_heartbeat := True\<rparr>"
  let ?n = "update_session sid (\<lambda>c. c\<lparr>cs_next_heartbeat := later_on + client_heartbeat_freq e\<rparr>) ?t"
  let ?bye = "Logout \<lparr>lo_text = ''MISSING HEARTBEAT''\<rparr>"
  have s: "session_timer e now sid s = Ok ?t"
    using assms(2-5,7) by (simp add: session_timer_def Let_def)
  have c: "session_of sid ?t = Some ?d" using assms(2) by (simp add: session_of_client_send)
  have t: "session_timer e later_on sid ?t = send_and_close e ?bye sid ?n"
    using assms(3,6) by (simp only: session_timer_def with_session_Some [OF c]) (simp add: Let_def)
  have "effects e s ?t"
    using session_timer_returns [OF reachable_good [OF assms(1)], of e now sid] s by simp
  then have "good ?t" using effects_good [OF _ reachable_good [OF assms(1)]] by blast
  then have g: "good ?n" by (rule good_noted) simp_all
  have n: "session_of sid ?n = Some (?d\<lparr>cs_next_heartbeat := later_on + client_heartbeat_freq e\<rparr>)"
    using c by (simp del: session_of_update_session add: session_of_update_session [of _ _ _ ?t])
  obtain u rest where u: "send_and_close e ?bye sid ?n = Ok u" "state_of sid u = Some ZOMBIE"
    "out u = out ?n @ To_Client sid (client_header e ?bye (?d\<lparr>cs_next_heartbeat := later_on + client_heartbeat_freq e\<rparr>) ?n) ?bye # rest"
    using send_and_close_tells [OF g n, of ?bye e] assms(3) by auto
  have h: "client_header e ?bye (?d\<lparr>cs_next_heartbeat := later_on + client_heartbeat_freq e\<rparr>) ?n = client_header e ?bye ?d ?t"
    by (simp add: client_header_def)
  have o: "out ?t = out s @ [To_Client sid (client_header e m c s) m]"
    using assms(2) by (simp add: out_client_send client_header_def)
  from s c t u h o show ?thesis
    by (intro exI [of _ ?t] exI [of _ u] exI [of _ ?d] exI [of _ rest]) simp
qed

theorem silent_client_is_disconnected_witness:
  "\<exists>t u. session_timer demo_env 10 1 (state_after demo_ready) = Ok t \<and> session_timer demo_env 2000 1 t = Ok u \<and>
     state_of 1 u = Some ZOMBIE"
  using silent_client_is_disconnected [OF state_after_reachable demo_ready_state(1,2) demo_ready_facts(1), of 10 2000]
  by (auto simp: demo_ready_facts demo_env_def)

end
