(* ===== verification/Logout.thy ===== *)
theory Logout
  imports Session_Life
begin

text \<open>
  The regular end of a session: the client's logout, the request to log its party off at the bridge, the
  bridge's answer and the goodbye to the client.
\<close>

lemma send_and_close_forgets:
  assumes "session_of sid s = Some c" and "cs_state c = WAITING_REMOVE_ROUTE" and "send_and_close e m sid s = Ok t"
  shows "session_to_client t sid = None"
proof -
  let ?s = "emit (Close_Client sid) (client_send e m sid s)"
  have "session_of sid ?s = Some (c\<lparr>cs_outbound := cs_outbound c + 1\<rparr>)"
    using assms(1) by (simp add: session_of_client_send)
  with assms obtain u where "on_client_disconnected e sid ?s = Ok u" "t = bury sid u"
    by (auto simp: send_and_close_def close_def make_zombie_def session_of_client_send)
  then show ?thesis by (auto dest: on_client_disconnected_clears)
qed

lemma logout_request_sent:
  assumes "good s" and "session_of sid s = Some c" and "cs_state c = READY"
  shows "\<exists>t d. session_logout_request e h sid s = Ok t \<and> effects e s t \<and>
    session_of sid t = Some d \<and> cs_state d = WAITING_REMOVE_ROUTE \<and>
    cs_outbound d = cs_outbound c \<and> cs_comp_id d = cs_comp_id c \<and> clock_realtime t = clock_realtime s \<and>
    out t = out s @ [To_Server (server_header e (User_Request (user_request_of LOG_OFF_USER (cs_party_id c)
      (fresh_request_id s))) s) (User_Request (user_request_of LOG_OFF_USER (cs_party_id c) (fresh_request_id s)))] \<and>
    user_server_to_client t = try_emplace (user_server_to_client s) (fresh_request_id s) sid \<and>
    client_to_session t = client_to_session s \<and> session_to_client t = session_to_client s \<and>
    session_to_username (shared t) = session_to_username (shared s)"
proof -
  have st: "state_of sid s = Some READY" using assms(2,3) by (simp add: state_of_def)
  then have up: "server_ready s" and pend: "user_client_to_server s sid = None"
    using server_ready_of_live [OF assms(1)] goodD(5) [OF assms(1)] by (auto simp: undecided_def)
  obtain t where t: "session_logout_request e h sid s = Ok t" "effects e s t"
    using logout_request_lands [OF assms(1), of e h sid] assms up pend
    by (cases "session_logout_request e h sid s")
      (auto simp: session_logout_request_def when_ready_def on_user_request_def user_request_of_def
        dispatch_to_server_ready)
  with assms(2,3) up pend show ?thesis
    by (auto simp: session_logout_request_def when_ready_def on_user_request_def user_request_of_def
        dispatch_to_server_ready out_server_send server_header_def create_request_id_def Let_def)
qed
text \<open>
  C30. A client that logs out gets its answer and is let go. The logout sends the bridge one request to log
  the party off and the session waits; the bridge's answer is passed on as a logout with the text
  \<open>goodbye\<close>, the session has ended, and neither a party nor a user belongs to it any more.
\<close>

theorem logout_roundtrip:
  assumes "reachable e s" and "session_of sid s = Some c" and "cs_state c = READY"
    and "session_to_client s sid = Some party" and "user_server_to_client s (fresh_request_id s) = None"
    and "request = User_Request (user_request_of LOG_OFF_USER (cs_party_id c) (fresh_request_id s))"
    and "answer = \<lparr>urs_user_request_id = fresh_request_id s, urs_username = party, urs_user_status = NOT_LOGGED_IN,
      urs_rest = rest\<rparr>"
    and "goodbye = Logout \<lparr>lo_text = ''goodbye''\<rparr>"
  shows "\<exists>t u after. session_logout_request e h sid s = Ok t \<and> state_of sid t = Some WAITING_REMOVE_ROUTE \<and>
    out t = out s @ [To_Server (server_header e request s) request] \<and>
    on_user_response e answer t = Ok u \<and> state_of sid u = Some ZOMBIE \<and>
    out u = out t @ To_Client sid (client_header e goodbye c s) goodbye # after \<and>
    (\<forall>name. client_to_session u name \<noteq> Some sid) \<and> session_to_username (shared u) sid = None"
proof -
  note g = reachable_good [OF assms(1)]
  from logout_request_sent [OF g assms(2,3), of e h] obtain t d
    where t: "session_logout_request e h sid s = Ok t" "effects e s t" "session_of sid t = Some d"
      "cs_state d = WAITING_REMOVE_ROUTE" "cs_outbound d = cs_outbound c" "cs_comp_id d = cs_comp_id c"
      "clock_realtime t = clock_realtime s" "out t = out s @ [To_Server (server_header e request s) request]"
      "user_server_to_client t = try_emplace (user_server_to_client s) (fresh_request_id s) sid"
      "client_to_session t = client_to_session s" "session_to_client t = session_to_client s"
      "session_to_username (shared t) = session_to_username (shared s)"
    by (auto simp: assms(6))
  note gt = effects_good [OF t(2) g]
  from assms(4) goodD(3) [OF g] have party: "client_to_session s party = Some sid"
    by (simp add: known_users_def converse_mapsD)
  have "session_to_username (shared t) sid \<noteq> None"
    using users.always [OF assms(1)] assms(2,3) by (simp add: authenticated_def state_of_def t(12))
  then obtain sh where sh: "session_logout sid (shared t) = (None, sh)"
    by (auto simp: session_logout_def)
  let ?a = "t\<lparr>session_to_client := erase_key (session_to_client t) sid, client_to_session := erase_key (client_to_session t) party\<rparr>"
  let ?b = "?a\<lparr>user_client_to_server := erase_key (user_client_to_server ?a) sid,
    user_server_to_client := erase_key (user_server_to_client ?a) (fresh_request_id s)\<rparr>"
  let ?c = "update_session sid (\<lambda>c. c\<lparr>cs_user_response_timeout := 0\<rparr>) ?b"
  let ?d = "?c\<lparr>shared := sh\<rparr>"
  have "effects e t ?a"
    using user_remove_lands [OF gt, of e party False] party t(10) by (simp add: user_remove_def)
  then have "effects e t ?b" by (rule effects_step [OF _ effect.settled])
  then have c: "effects e t ?c" by (intro eff_noted) simp_all
  have st: "session_of sid ?c = Some (d\<lparr>cs_user_response_timeout := 0\<rparr>)" using t(3) by simp
  then have "effect e ?c (update_shared (\<lambda>sh. snd (session_logout sid sh)) ?c)"
    using t(4) st by (intro effect.logged_off) (simp only: state_of_def option.map, simp)
  then have "effects e t ?d" using effects_step [OF c] sh by (simp add: update_shared_def)
  note gd = effects_good [OF this gt]
  have sess: "session_of sid ?d = Some (d\<lparr>cs_user_response_timeout := 0\<rparr>)" using st by (simp add: session_of_def)
  obtain u after where u: "send_and_close e goodbye sid ?d = Ok u" "state_of sid u = Some ZOMBIE"
    "out u = out ?d @ To_Client sid (client_header e goodbye (d\<lparr>cs_user_response_timeout := 0\<rparr>) ?d) goodbye # after"
    using send_and_close_tells [OF gd sess, of goodbye e] t(4) assms(8) by auto
  have answer: "on_user_response e answer t = Ok u"
    using t(3,4,9,10) assms(5,8) party u(1) sh
    by (simp add: assms(7) on_user_response_def user_remove_def session_user_response_def Let_def try_emplace_def)
  have "state_of sid ?d = Some WAITING_REMOVE_ROUTE" using t(3,4) by (simp add: state_of_def)
  from send_and_close_returns [OF gd this, of goodbye e] u(1) assms(8) have "effects e ?d u" by simp
  then have gu: "good u" and dead: "\<not> live sid u"
    using u(2) by (auto simp: effects_good [OF _ gd] live_iff)
  have "session_to_client u sid = None"
    using send_and_close_forgets [OF sess _ u(1)] t(4) by simp
  then have "client_to_session u name \<noteq> Some sid" for name
    using goodD(3) [OF gu] converse_mapsD [of "client_to_session u" "session_to_client u" name sid]
    by (simp add: known_users_def)
  moreover have "session_to_username (shared u) sid = None"
    using logged_onD(2) [OF goodD(4) [OF gu], of sid] dead by (cases "session_to_username (shared u) sid") auto
  moreover have "out u = out t @ To_Client sid (client_header e goodbye c s) goodbye # after"
    using u(3) t(5-7) by (simp add: client_header_def)
  ultimately show ?thesis
    using t(1,3,4,8) u(2) answer by (auto simp: state_of_def)
qed

theorem logout_roundtrip_witness:
  "\<exists>t u. session_logout_request demo_env (demo_header ''ALICE'' 2 (Logout \<lparr>lo_text = []\<rparr>)) 1 (state_after demo_ready) = Ok t \<and>
     on_user_response demo_env \<lparr>urs_user_request_id = ''proxy-2'', urs_username = ''42'', urs_user_status = NOT_LOGGED_IN,
       urs_rest = []\<rparr> t = Ok u \<and> state_of 1 u = Some ZOMBIE"
proof -
  have "session_to_client (state_after demo_ready) 1 = Some ''42''" "user_server_to_client (state_after demo_ready) ''proxy-2'' = None"
    by code_simp+
  then show ?thesis
    using logout_roundtrip [where party = "''42''" and rest = "[]",
        OF state_after_reachable demo_ready_state(1,2) _ _ refl refl refl] demo_ready_state(6)
    by (fastforce simp: demo_ready_state(6))
qed

end
