(* ===== verification/Routing.thy ===== *)
theory Routing
  imports Subscriptions
begin

text \<open>
  The proxy as a router: two tables say, for every request of a client and every reply of the server, where it
  goes and under which id. \<open>request_route\<close> and \<open>reply_route\<close> are this abstract description, one line per
  message, and the handlers of \<open>client/session.cpp\<close>, \<open>server/session.cpp\<close> and \<open>controller.cpp\<close> are shown to
  implement it.
\<close>

section \<open>Requests\<close>

text \<open>A request with a subscription type is kept for updates; an unsubscribe has no line in the table.\<close>

definition keeps :: "subscription_request_type \<Rightarrow> bool option" where
  "keeps t = (case t of SNAPSHOT \<Rightarrow> Some False | SNAPSHOT_UPDATES \<Rightarrow> Some True | _ \<Rightarrow> None)"

text \<open>
  The line of a request of the session \<open>c\<close>: the table, the client's id, the id upstream, whether the request is
  kept for updates, and the message that goes upstream. Orders and trades are known upstream by an id made of
  the party and the client's id, the other requests by the next id of the counter.
\<close>

fun request_route :: "client_session \<Rightarrow> string \<Rightarrow> msg \<Rightarrow> (mapping_ref \<times> string \<times> string \<times> bool \<times> msg) option" where
  "request_route c next (Security_List_Request v) =
     map_option (\<lambda>ka. (SECURITY_REQ_ID, slr_security_req_id v, next, ka, Security_List_Request (v\<lparr>slr_security_req_id := next\<rparr>)))
       (keeps (get_subscription_request_type (slr_subscription_request_type v)))"
| "request_route c next (Security_Definition_Request v) =
     map_option (\<lambda>ka. (SECURITY_REQ_ID, sdr_security_req_id v, next, ka, Security_Definition_Request (v\<lparr>sdr_security_req_id := next\<rparr>)))
       (keeps (get_subscription_request_type (sdr_subscription_request_type v)))"
| "request_route c next (Security_Status_Request v) =
     map_option (\<lambda>ka. (SECURITY_STATUS_REQ_ID, ssr_security_status_req_id v, next, ka,
       Security_Status_Request (v\<lparr>ssr_security_status_req_id := next\<rparr>)))
       (keeps (get_subscription_request_type (ssr_subscription_request_type v)))"
| "request_route c next (Market_Data_Request v) =
     map_option (\<lambda>ka. (MD_REQ_ID, mdr_md_req_id v, next, ka, Market_Data_Request (v\<lparr>mdr_md_req_id := next\<rparr>)))
       (keeps (mdr_subscription_request_type v))"
| "request_route c next (Request_For_Positions v) =
     map_option (\<lambda>ka. (POS_REQ_ID, rfp_pos_req_id v, next, ka,
       Request_For_Positions (v\<lparr>rfp_no_party_ids := [own_party c], rfp_pos_req_id := next\<rparr>)))
       (keeps (get_subscription_request_type (rfp_subscription_request_type v)))"
| "request_route c next (Trade_Capture_Report_Request v) =
     map_option (\<lambda>ka. (TRADE_REQUEST_ID, tcq_trade_request_id v, client_request_id (cs_party_id c) (tcq_trade_request_id v), ka,
       Trade_Capture_Report_Request (v\<lparr>tcq_no_party_ids := [own_party c],
         tcq_trade_request_id := client_request_id (cs_party_id c) (tcq_trade_request_id v)\<rparr>)))
       (keeps (get_subscription_request_type (tcq_subscription_request_type v)))"
| "request_route c next (New_Order_Single v) =
     Some (CL_ORD_ID, nos_cl_ord_id v, client_request_id (cs_party_id c) (nos_cl_ord_id v), True,
       New_Order_Single (v\<lparr>nos_no_party_ids := [own_party c],
         nos_cl_ord_id := client_request_id (cs_party_id c) (nos_cl_ord_id v)\<rparr>))"
| "request_route c next (Order_Cancel_Request v) =
     Some (CL_ORD_ID, ocn_cl_ord_id v, client_request_id (cs_party_id c) (ocn_cl_ord_id v), True,
       Order_Cancel_Request (v\<lparr>ocn_no_party_ids := [own_party c],
         ocn_cl_ord_id := client_request_id (cs_party_id c) (ocn_cl_ord_id v),
         ocn_orig_cl_ord_id := client_request_id (cs_party_id c) (ocn_orig_cl_ord_id v)\<rparr>))"
| "request_route c next (Order_Cancel_Replace_Request v) =
     Some (CL_ORD_ID, ocr_cl_ord_id v, client_request_id (cs_party_id c) (ocr_cl_ord_id v), True,
       Order_Cancel_Replace_Request (v\<lparr>ocr_no_party_ids := [own_party c],
         ocr_cl_ord_id := client_request_id (cs_party_id c) (ocr_cl_ord_id v),
         ocr_orig_cl_ord_id := client_request_id (cs_party_id c) (ocr_orig_cl_ord_id v)\<rparr>))"
| "request_route c next (Order_Mass_Status_Request v) =
     Some (MASS_STATUS_REQ_ID, oms_mass_status_req_id v, client_request_id (cs_party_id c) (oms_mass_status_req_id v), False,
       Order_Mass_Status_Request (v\<lparr>oms_no_party_ids := [own_party c],
         oms_mass_status_req_id := client_request_id (cs_party_id c) (oms_mass_status_req_id v)\<rparr>))"
| "request_route c next (Order_Mass_Cancel_Request v) =
     Some (MASS_CANCEL_CL_ORD_ID, omc_cl_ord_id v, client_request_id (cs_party_id c) (omc_cl_ord_id v), False,
       Order_Mass_Cancel_Request (v\<lparr>omc_no_party_ids := [own_party c],
         omc_cl_ord_id := client_request_id (cs_party_id c) (omc_cl_ord_id v)\<rparr>))"
| "request_route c next (Order_Status_Request v) =
     (if osr_ord_status_req_id v = [] then None
      else Some (ORD_STATUS_REQ_ID, osr_ord_status_req_id v, client_request_id (cs_party_id c) (osr_ord_status_req_id v), False,
        Order_Status_Request (v\<lparr>osr_no_party_ids := [own_party c],
          osr_ord_status_req_id := client_request_id (cs_party_id c) (osr_ord_status_req_id v),
          osr_cl_ord_id := client_request_id (cs_party_id c) (osr_cl_ord_id v)\<rparr>)))"
| "request_route c next _ = None"

text \<open>The ids of a request that have to be valid, its parties, and the request with the session's own party.\<close>

fun request_ids :: "msg \<Rightarrow> string list" where
  "request_ids (Security_List_Request v) = [slr_security_req_id v]"
| "request_ids (Security_Definition_Request v) = [sdr_security_req_id v]"
| "request_ids (Security_Status_Request v) = [ssr_security_status_req_id v]"
| "request_ids (Market_Data_Request v) = [mdr_md_req_id v]"
| "request_ids (Request_For_Positions v) = [rfp_pos_req_id v]"
| "request_ids (Trade_Capture_Report_Request v) = [tcq_trade_request_id v]"
| "request_ids (New_Order_Single v) = [nos_cl_ord_id v]"
| "request_ids (Order_Cancel_Request v) = [ocn_cl_ord_id v, ocn_orig_cl_ord_id v]"
| "request_ids (Order_Cancel_Replace_Request v) = [ocr_cl_ord_id v, ocr_orig_cl_ord_id v]"
| "request_ids (Order_Mass_Status_Request v) = [oms_mass_status_req_id v]"
| "request_ids (Order_Mass_Cancel_Request v) = [omc_cl_ord_id v]"
| "request_ids (Order_Status_Request v) = [osr_ord_status_req_id v]"
| "request_ids _ = []"

fun request_parties :: "msg \<Rightarrow> party list" where
  "request_parties (Request_For_Positions v) = rfp_no_party_ids v"
| "request_parties (Trade_Capture_Report_Request v) = tcq_no_party_ids v"
| "request_parties (New_Order_Single v) = nos_no_party_ids v"
| "request_parties (Order_Cancel_Request v) = ocn_no_party_ids v"
| "request_parties (Order_Cancel_Replace_Request v) = ocr_no_party_ids v"
| "request_parties (Order_Mass_Status_Request v) = oms_no_party_ids v"
| "request_parties (Order_Mass_Cancel_Request v) = omc_no_party_ids v"
| "request_parties (Order_Status_Request v) = osr_no_party_ids v"
| "request_parties _ = []"

fun with_party :: "party \<Rightarrow> msg \<Rightarrow> msg" where
  "with_party p (Request_For_Positions v) = Request_For_Positions (v\<lparr>rfp_no_party_ids := [p]\<rparr>)"
| "with_party p (Trade_Capture_Report_Request v) = Trade_Capture_Report_Request (v\<lparr>tcq_no_party_ids := [p]\<rparr>)"
| "with_party p (New_Order_Single v) = New_Order_Single (v\<lparr>nos_no_party_ids := [p]\<rparr>)"
| "with_party p (Order_Cancel_Request v) = Order_Cancel_Request (v\<lparr>ocn_no_party_ids := [p]\<rparr>)"
| "with_party p (Order_Cancel_Replace_Request v) = Order_Cancel_Replace_Request (v\<lparr>ocr_no_party_ids := [p]\<rparr>)"
| "with_party p (Order_Mass_Status_Request v) = Order_Mass_Status_Request (v\<lparr>oms_no_party_ids := [p]\<rparr>)"
| "with_party p (Order_Mass_Cancel_Request v) = Order_Mass_Cancel_Request (v\<lparr>omc_no_party_ids := [p]\<rparr>)"
| "with_party p (Order_Status_Request v) = Order_Status_Request (v\<lparr>osr_no_party_ids := [p]\<rparr>)"
| "with_party p m = m"

text \<open>A request that the checks of the session and of the controller let pass.\<close>

definition passes_checks :: "env \<Rightarrow> client_session \<Rightarrow> msg \<Rightarrow> bool" where
  "passes_checks e c m \<longleftrightarrow> list_all (valid_req_id e) (request_ids m) \<and> request_parties m = [] \<and>
     is_valid e (with_party (own_party c) m)"

text \<open>The request has been sent once, is on its way, and no other route has changed.\<close>

definition forwarded :: "env \<Rightarrow> mapping_ref \<Rightarrow> string \<Rightarrow> string \<Rightarrow> u64 \<Rightarrow> bool \<Rightarrow> msg \<Rightarrow> sys \<Rightarrow> sys result \<Rightarrow> bool" where
  "forwarded e r cid rid sid ka m s x \<longleftrightarrow> (\<exists>t. x = Ok t \<and> out t = out s @ [To_Server (server_header e m s) m] \<and>
     on_its_way r cid rid sid ka t \<and> session_of sid t = session_of sid s \<and>
     (\<forall>r' rid'. (r', rid') \<noteq> (r, rid) \<longrightarrow> find_req_id r' rid' t = find_req_id r' rid' s))"

lemma find_add_route: "(r', rid') \<noteq> (r, rid) \<Longrightarrow> find_req_id r' rid' (add_route r cid rid sid ka s) = find_req_id r' rid' s"
  by (auto simp: find_req_id_def add_route_def table_simps try_emplace_apply)

lemma add_route_fields [simp]:
  "out (add_route r cid rid sid ka s) = out s" "session_of sid' (add_route r cid rid sid ka s) = session_of sid' s"
  by (simp_all add: add_route_def)

lemma forwardedI:
  assumes "server_ready u" and "out u = out s" and "session_of sid u = session_of sid s" and "server u = server s"
    and "clock_realtime u = clock_realtime s" and "\<And>r rid. find_req_id r rid u = find_req_id r rid s"
    and "\<not> req_id_in_use r sid cid u" and "find_req_id r rid s = None"
  shows "forwarded e r cid rid sid ka m s (and_then (dispatch_to_server e m u) (\<lambda>s. Ok (add_route r cid rid sid ka s)))"
proof -
  let ?t = "add_route r cid rid sid ka (server_send_helper e m u)"
  have "and_then (dispatch_to_server e m u) (\<lambda>s. Ok (add_route r cid rid sid ka s)) = Ok ?t"
    using assms(1) by (simp add: dispatch_to_server_ready)
  moreover have "out ?t = out s @ [To_Server (server_header e m s) m]"
    using assms(2,4,5) server_header_cong [of u s e m] by simp
  moreover have "on_its_way r cid rid sid ka ?t" using assms(6-8) by (intro on_its_way_add) simp_all
  ultimately show ?thesis
    unfolding forwarded_def using assms(3,6) by (intro exI [of _ ?t]) (simp add: find_add_route)
qed

lemma order_status_route:
  "cid \<noteq> [] \<Longrightarrow> update_mapping r (\<lambda>m. emplace_server rid (sid, cid, False) (emplace_client sid cid rid m)) s =
     add_route r cid rid sid False s"
  by (simp add: add_route_def add_req_id_def)

lemma order_forwarded:
  assumes "at_work sid c s" and "\<not> req_id_in_use r sid cid s" and "find_req_id r rid s = None"
  shows "forwarded e r cid rid sid ka m s
    (and_then (dispatch_to_server e m (open_table r sid s)) (\<lambda>s. Ok (add_route r cid rid sid ka s)))"
  using assms at_workD(3) [OF assms(1)] by (intro forwardedI) (simp_all add: server_ready_def)

lemma counted_forwarded:
  assumes "at_work sid c s" and "\<not> req_id_in_use r sid cid s" and "find_req_id r rid s = None"
  shows "forwarded e r cid rid sid ka m s
    (and_then (dispatch_to_server e m (take_request_id (open_table r sid s))) (\<lambda>s. Ok (add_route r cid rid sid ka s)))"
  using assms at_workD(3) [OF assms(1)] by (intro forwardedI) (simp_all add: server_ready_def)

lemma subscription_forwarded:
  assumes "at_work sid c s" and "\<not> req_id_in_use r sid cid s" and "find_req_id r (fresh_request_id s) s = None"
  shows "forwarded e r cid (fresh_request_id s) sid ka (mk (fresh_request_id s)) s
    (dispatch_subscription e r sid cid False mk ka (open_table r sid s))"
  using counted_forwarded [OF assms]
  by (simp add: dispatch_subscription_def Let_def fresh_request_id_def open_table_def)

lemma positions_forwarded:
  assumes "at_work sid c s" and "\<not> req_id_in_use POS_REQ_ID sid cid s"
    and "find_req_id POS_REQ_ID (fresh_request_id s) s = None" and "rfp_pos_req_id v = cid"
    and "m = Request_For_Positions (v\<lparr>rfp_pos_req_id := fresh_request_id s\<rparr>)"
  shows "forwarded e POS_REQ_ID cid (fresh_request_id s) sid ka m s
    (dispatch_positions e v sid ka (open_table POS_REQ_ID sid s))"
proof -
  have "find_client_req_id sid cid (mappings (open_table POS_REQ_ID sid s) POS_REQ_ID) = None"
    using assms(2) by (simp add: req_id_in_use_def open_table_def table_simps)
  with counted_forwarded [OF assms(1-3)] assms(4,5) show ?thesis
    by (simp add: dispatch_positions_def Let_def fresh_request_id_def)
qed

lemma subscription_request_forwarded:
  assumes "at_work sid c s" and "\<not> req_id_in_use r sid cid s" and "find_req_id r (fresh_request_id s) s = None"
    and "keeps t = Some ka" and "m = mk (fresh_request_id s)"
  shows "forwarded e r cid (fresh_request_id s) sid ka m s
    (subscription_switch t False x y z (dispatch_subscription e r sid cid False mk) (open_table r sid s))"
  using subscription_forwarded [OF assms(1-3), of e ka mk] assms(2,4,5)
  by (auto simp: keeps_def subscription_switch_def split: subscription_request_type.splits)

lemmas request_handler_defs =
  session_security_list_request_def session_security_definition_request_def session_security_status_request_def
  session_market_data_request_def session_order_status_request_def session_order_mass_status_request_def
  session_new_order_single_def session_order_cancel_request_def session_order_cancel_replace_request_def
  session_order_mass_cancel_request_def session_request_for_positions_def session_trade_capture_report_request_def
  on_security_list_request_def on_security_definition_request_def on_security_status_request_def
  on_market_data_request_def on_order_status_request_def on_order_mass_status_request_def on_new_order_single_def
  on_order_cancel_request_def on_order_cancel_replace_request_def on_order_mass_cancel_request_def
  on_request_for_positions_def on_trade_capture_report_request_def

lemma trades_forwarded:
  assumes "at_work sid c s" and "\<not> req_id_in_use TRADE_REQUEST_ID sid cid s" and "find_req_id TRADE_REQUEST_ID rid s = None"
    and "tcq_trade_request_id v = cid" and "rid = client_request_id (get_client_from_parties (tcq_no_party_ids v)) cid"
    and "m = Trade_Capture_Report_Request (v\<lparr>tcq_trade_request_id := rid\<rparr>)"
  shows "forwarded e TRADE_REQUEST_ID cid rid sid ka m s
    (dispatch_trades e v sid False ka (open_table TRADE_REQUEST_ID sid s))"
  using order_forwarded [OF assms(1-3)] assms(4-6) by (simp add: dispatch_trades_def Let_def)

lemma request_forwarded:
  assumes "at_work sid c s" and "request_route c (fresh_request_id s) m = Some (r, cid, rid, ka, m')"
    and "passes_checks e c m" and "\<not> req_id_in_use r sid cid s" and "find_req_id r rid s = None"
  shows "forwarded e r cid rid sid ka m' s (session_dispatch e h sid m s)"
proof -
  note act = when_ready_act [OF at_workD(1,2) [OF assms(1)]]
  show ?thesis
  proof (cases m)
    case (Security_List_Request v)
    with assms show ?thesis
      by (auto simp: request_handler_defs act passes_checks_def Let_def intro!: subscription_request_forwarded)
  next
    case (Security_Definition_Request v)
    with assms show ?thesis
      by (auto simp: request_handler_defs act passes_checks_def Let_def intro!: subscription_request_forwarded)
  next
    case (Security_Status_Request v)
    with assms show ?thesis
      by (auto simp: request_handler_defs act passes_checks_def Let_def intro!: subscription_request_forwarded)
  next
    case (Market_Data_Request v)
    with assms show ?thesis
      by (auto simp: request_handler_defs act passes_checks_def Let_def intro!: subscription_request_forwarded)
  qed (use assms in \<open>auto simp: request_handler_defs act passes_checks_def Let_def add_party_ids_def order_status_route
        subscription_switch_def keeps_def split: if_splits subscription_request_type.splits
        intro!: order_forwarded trades_forwarded positions_forwarded\<close>)
qed

text \<open>
  C3. Requests are forwarded as the table \<open>request_route\<close> says, for every kind of request that a client can
  make: a request of a ready session that passes the checks, under an id that the session is not using, goes upstream
  exactly once, with the session's own party and under the upstream id of the table. It is then on its way: a
  reply under that id will find the session and the client's id. No other route has changed. This needs that the
  upstream id is not in use.
\<close>

theorem requests_are_forwarded:
  assumes "at_work sid c s" and "request_route c (fresh_request_id s) m = Some (r, cid, rid, ka, m')"
    and "passes_checks e c m" and "\<not> req_id_in_use r sid cid s" and "find_req_id r rid s = None"
  shows "forwarded e r cid rid sid ka m' s (session_dispatch e h sid m s)"
  using assms by (rule request_forwarded)

theorem requests_are_forwarded_witness:
  "forwarded demo_env CL_ORD_ID ''o1'' ''proxy-42:o1'' 1 True
     (New_Order_Single ((demo_new_order ''o1'')\<lparr>nos_no_party_ids := [own_party demo_session], nos_cl_ord_id := ''proxy-42:o1''\<rparr>))
     (state_after demo_ready)
     (session_dispatch demo_env (demo_header ''ALICE'' 2 (New_Order_Single (demo_new_order ''o1''))) 1
       (New_Order_Single (demo_new_order ''o1'')) (state_after demo_ready)) \<and>
   forwarded demo_env MD_REQ_ID ''m1'' ''proxy-2'' 1 True
     (Market_Data_Request ((demo_market_data ''m1'' SNAPSHOT_UPDATES)\<lparr>mdr_md_req_id := ''proxy-2''\<rparr>))
     (state_after demo_ready)
     (session_dispatch demo_env (demo_header ''ALICE'' 2 (Market_Data_Request (demo_market_data ''m1'' SNAPSHOT_UPDATES))) 1
       (Market_Data_Request (demo_market_data ''m1'' SNAPSHOT_UPDATES)) (state_after demo_ready))"
proof (intro conjI; rule requests_are_forwarded [OF demo_at_work])
qed (simp_all add: demo_new_order_def demo_market_data_def demo_request_id demo_ready_state demo_ready_tables
    passes_checks_def keeps_def client_request_id_def)

section \<open>Requests that are not forwarded\<close>

text \<open>The client has been told, with one message, and nothing has gone upstream or into the tables.\<close>

definition refused :: "u64 \<Rightarrow> sys \<Rightarrow> sys result \<Rightarrow> bool" where
  "refused sid s x \<longleftrightarrow> (\<exists>t h m. x = Ok t \<and> out t = out s @ [To_Client sid h m] \<and> downstream_reply m \<and> same_routes s t)"

lemma refusedI:
  assumes "at_work sid c s" and "same_routes s u" and "out u = out s" and "session_of sid u = session_of sid s"
    and "downstream_reply m"
  shows "refused sid s (Ok (dispatch_to_client e m sid u))"
  using at_workD(1,2) [OF assms(1)] assms(2-5) delivered_ready [of sid u c] by (simp add: refused_def)

lemma refused_rejects:
  assumes "at_work sid c s" and "same_routes s u" and "out u = out s" and "session_of sid u = session_of sid s"
  shows "refused sid s (reject_security_list e v1 sid u)" "refused sid s (reject_security_definition e v2 sid u)"
    "refused sid s (reject_security_status e v3 sid u)" "refused sid s (reject_market_data e v4 sid r4 what u)"
    "refused sid s (reject_order_status e v5 sid r5 what u)" "refused sid s (reject_new_order e v6 sid r6 what u)"
    "refused sid s (reject_replace e v7 sid st7 r7 what u)" "refused sid s (reject_cancel e v8 sid st8 r8 what u)"
    "refused sid s (reject_mass_status e v9 sid r9 what u)" "refused sid s (reject_mass_cancel e v10 sid r10 what u)"
    "refused sid s (reject_positions e v11 sid what u)" "refused sid s (reject_trades e v12 sid what u)"
  using assms
  by (auto simp: reject_security_list_def reject_security_definition_def reject_security_status_def
      reject_market_data_def reject_order_status_def reject_new_order_def reject_replace_def reject_cancel_def
      reject_mass_status_def reject_mass_cancel_def reject_positions_def reject_trades_def intro!: refusedI)

lemma same_routes_send [simp]: "same_routes s (client_send e m sid t) = same_routes s t"
  by (simp add: same_routes_def)

lemma refused_business:
  assumes "at_work sid c s"
  shows "refused sid s (refuse e h sid i what s)"
  using at_workD(1) [OF assms]
  by (auto simp: refused_def refuse_def send_business_message_reject_def out_client_send)

lemma refused_switch:
  assumes "\<And>u. u = open_table r sid s \<Longrightarrow> refused sid s (x u) \<and> refused sid s (y u)" and "keeps t \<noteq> None"
  shows "refused sid s (subscription_switch t True x y z w (open_table r sid s))"
  using assms by (auto simp: subscription_switch_def keeps_def split: subscription_request_type.splits)

text \<open>
  C12. A request (of the twelve kinds that have ids) of a session that is ready, as the upstream session is, is never dropped when it does not pass
  the checks, or when it would have a line in the table \<open>request_route\<close> (it is not an unsubscribe, nor an order status
  request without an id) and the session is using its id already. It leaves no trace then: the client is told with
  exactly one message, nothing is sent upstream, and the routes stay as they are.
\<close>

theorem requests_are_refused:
  assumes "at_work sid c s" and "request_ids m \<noteq> []"
    and "\<not> passes_checks e c m \<or> (\<exists>r cid rid ka m'. request_route c (fresh_request_id s) m = Some (r, cid, rid, ka, m') \<and>
      req_id_in_use r sid cid s)"
  shows "refused sid s (session_dispatch e h sid m s)"
proof -
  note act = when_ready_act [OF at_workD(1,2) [OF assms(1)]]
  note rejects = refused_rejects [OF assms(1)] refused_business [OF assms(1)]
  show ?thesis
  proof (cases m)
    case (Security_List_Request v)
    with assms show ?thesis
      by (auto simp: request_handler_defs act passes_checks_def Let_def intro!: refused_switch rejects)
  qed (use assms in \<open>auto simp: request_handler_defs act passes_checks_def Let_def add_party_ids_def
        split: if_splits intro!: refused_switch rejects\<close>)
qed

theorem requests_are_refused_witness:
  "refused 1 (demo_with CL_ORD_ID ''o1'' ''r1'' True)
     (session_dispatch demo_env (demo_header ''ALICE'' 2 (New_Order_Single (demo_new_order ''o1''))) 1
       (New_Order_Single (demo_new_order ''o1'')) (demo_with CL_ORD_ID ''o1'' ''r1'' True)) \<and>
   refused 1 (state_after demo_ready)
     (session_dispatch demo_env (demo_header ''ALICE'' 2 (New_Order_Single (demo_new_order []))) 1
       (New_Order_Single (demo_new_order [])) (state_after demo_ready))"
proof -
  have used: "req_id_in_use CL_ORD_ID 1 ''o1'' (demo_with CL_ORD_ID ''o1'' ''r1'' True)"
    using demo_with_on_its_way [of CL_ORD_ID "''o1''" "''r1''" True] by (simp add: on_its_way_def req_id_in_use_def)
  show ?thesis
  proof (intro conjI)
    show "refused 1 (demo_with CL_ORD_ID ''o1'' ''r1'' True)
       (session_dispatch demo_env (demo_header ''ALICE'' 2 (New_Order_Single (demo_new_order ''o1''))) 1
         (New_Order_Single (demo_new_order ''o1'')) (demo_with CL_ORD_ID ''o1'' ''r1'' True))"
      using used by (intro requests_are_refused [OF demo_with_at_work]) (simp_all add: demo_new_order_def ex_bool_eq)
    show "refused 1 (state_after demo_ready)
       (session_dispatch demo_env (demo_header ''ALICE'' 2 (New_Order_Single (demo_new_order []))) 1
         (New_Order_Single (demo_new_order [])) (state_after demo_ready))"
      by (intro requests_are_refused [OF demo_at_work]) (simp_all add: demo_new_order_def passes_checks_def)
  qed
qed

section \<open>Replies\<close>

text \<open>
  The line of a reply, when the controller is in the state \<open>s\<close>: the table, the id upstream, the message for the
  client given its own id, and whether the request is over then, given its keep-alive flag. The report of an order
  action has no line (see \<open>reported_by\<close>). The last position report is known by the counter.
\<close>

fun reply_route :: "sys \<Rightarrow> msg \<Rightarrow> (mapping_ref \<times> string \<times> (string \<Rightarrow> msg) \<times> (bool \<Rightarrow> bool)) option" where
  "reply_route s (Business_Message_Reject v) =
     map_option (\<lambda>r. (r, bmr_business_reject_ref_id v,
       (\<lambda>cid. Business_Message_Reject (v\<lparr>bmr_business_reject_ref_id := cid\<rparr>)), (\<lambda>ka. False)))
       (business_reject_mapping (bmr_ref_msg_type v))"
| "reply_route s (Security_List v) =
     Some (SECURITY_REQ_ID, sl_security_req_id v, (\<lambda>cid. Security_List (v\<lparr>sl_security_req_id := cid\<rparr>)),
       (\<lambda>ka. sl_security_request_result v \<noteq> VALID_REQUEST \<or> \<not> ka))"
| "reply_route s (Security_Definition v) =
     Some (SECURITY_REQ_ID, sd_security_req_id v, (\<lambda>cid. Security_Definition (v\<lparr>sd_security_req_id := cid\<rparr>)),
       (\<lambda>ka. sd_security_response_type v \<noteq> ACCEPT_SECURITY_PROPOSAL_AS_IS \<or> \<not> ka))"
| "reply_route s (Security_Status v) =
     Some (SECURITY_STATUS_REQ_ID, ss_security_status_req_id v,
       (\<lambda>cid. Security_Status (v\<lparr>ss_security_status_req_id := cid\<rparr>)), (\<lambda>ka. \<not> ka))"
| "reply_route s (Market_Data_Request_Reject v) =
     Some (MD_REQ_ID, mrj_md_req_id v, (\<lambda>cid. Market_Data_Request_Reject (v\<lparr>mrj_md_req_id := cid\<rparr>)), (\<lambda>ka. True))"
| "reply_route s (Market_Data_Snapshot_Full_Refresh v) =
     Some (MD_REQ_ID, mds_md_req_id v, (\<lambda>cid. Market_Data_Snapshot_Full_Refresh (v\<lparr>mds_md_req_id := cid\<rparr>)), (\<lambda>ka. \<not> ka))"
| "reply_route s (Market_Data_Incremental_Refresh v) =
     Some (MD_REQ_ID, mdi_md_req_id v, (\<lambda>cid. Market_Data_Incremental_Refresh (v\<lparr>mdi_md_req_id := cid\<rparr>)), (\<lambda>ka. False))"
| "reply_route s (Order_Cancel_Reject v) =
     Some (CL_ORD_ID, ocj_cl_ord_id v,
       (\<lambda>cid. Order_Cancel_Reject (v\<lparr>ocj_cl_ord_id := cid, ocj_orig_cl_ord_id := get_client_cl_ord_id (ocj_orig_cl_ord_id v)\<rparr>)),
       (\<lambda>ka. True))"
| "reply_route s (Order_Mass_Cancel_Report v) =
     Some (MASS_CANCEL_CL_ORD_ID, omr_cl_ord_id v, (\<lambda>cid. Order_Mass_Cancel_Report (v\<lparr>omr_cl_ord_id := cid\<rparr>)), (\<lambda>ka. True))"
| "reply_route s (Execution_Report v) =
     (let w = v\<lparr>er_cl_ord_id := get_client_cl_ord_id (er_cl_ord_id v), er_orig_cl_ord_id := get_client_cl_ord_id (er_orig_cl_ord_id v)\<rparr>
      in if er_ord_status_req_id v \<noteq> [] then
           Some (ORD_STATUS_REQ_ID, er_ord_status_req_id v, (\<lambda>cid. Execution_Report (w\<lparr>er_ord_status_req_id := cid\<rparr>)), (\<lambda>ka. True))
         else if er_mass_status_req_id v \<noteq> [] then
           Some (MASS_STATUS_REQ_ID, er_mass_status_req_id v, (\<lambda>cid. Execution_Report (w\<lparr>er_mass_status_req_id := cid\<rparr>)),
             (\<lambda>ka. er_last_rpt_requested v))
         else None)"
| "reply_route s (Request_For_Positions_Ack v) =
     Some (POS_REQ_ID, rpa_pos_req_id v, (\<lambda>cid. Request_For_Positions_Ack (v\<lparr>rpa_pos_req_id := cid\<rparr>)),
       (\<lambda>ka. rpa_pos_req_result v \<noteq> POS_VALID \<or> rpa_pos_req_status v = POS_REJECTED \<or> rpa_total_num_pos_reports v = 0))"
| "reply_route s (Position_Report v) =
     Some (POS_REQ_ID, prp_pos_req_id v, (\<lambda>cid. Position_Report (v\<lparr>prp_pos_req_id := cid\<rparr>)),
       (\<lambda>ka. prp_pos_req_result v \<noteq> POS_VALID \<or> total_num_pos_reports s \<in> {0, 1} \<and> \<not> ka))"
| "reply_route s (Trade_Capture_Report_Request_Ack v) =
     Some (TRADE_REQUEST_ID, tca_trade_request_id v,
       (\<lambda>cid. Trade_Capture_Report_Request_Ack (v\<lparr>tca_trade_request_id := cid\<rparr>)), (\<lambda>ka. \<not> ka))"
| "reply_route s (Trade_Capture_Report v) =
     Some (TRADE_REQUEST_ID, tcr_trade_request_id v, (\<lambda>cid. Trade_Capture_Report (v\<lparr>tcr_trade_request_id := cid\<rparr>)),
       (\<lambda>ka. tcr_last_rpt_requested v \<and> \<not> ka))"
| "reply_route s _ = None"

text \<open>
  What the tables say happens to a reply: without a route it is dropped; otherwise it is delivered once, under the
  client's id, and the request is forgotten when it is over.
\<close>

definition routed_by ::
  "env \<Rightarrow> mapping_ref \<Rightarrow> string \<Rightarrow> (string \<Rightarrow> msg) \<Rightarrow> (bool \<Rightarrow> bool) \<Rightarrow> sys \<Rightarrow> sys \<Rightarrow> bool" where
  "routed_by e r rid mk final s t \<longleftrightarrow> (case find_req_id r rid s of
     None \<Rightarrow> out t = out s \<and> mappings t = mappings s
   | Some (sid, cid, ka) \<Rightarrow> out t = out s @ delivered e (mk cid) sid s \<and>
       mappings t = (if final ka then mappings (forget_req_id r rid s) else mappings s))"

lemma forget_unknown: "find_req_id r rid s = None \<Longrightarrow> mappings (forget_req_id r rid s) = mappings s"
  by (simp add: find_req_id_def forget_req_id_def remove_req_id_def update_mapping_def)

lemma forget_cong: "mappings u = mappings s \<Longrightarrow> mappings (forget_req_id r rid u) = mappings (forget_req_id r rid s)"
  by (simp add: forget_req_id_def)

lemma forget_deliver [simp]:
  "mappings (forget_req_id r rid (dispatch_to_client e m sid s)) = mappings (forget_req_id r rid s)"
  by (rule forget_cong) simp

lemma routed_by_cong:
  assumes "out u = out s" and "mappings u = mappings s" and "clock_realtime u = clock_realtime s"
    and "\<And>sid. session_of sid u = session_of sid s"
  shows "routed_by e r rid mk final u t = routed_by e r rid mk final s t"
  using assms delivered_cong [where t = u and s = s] forget_cong [OF assms(2)]
  by (simp add: routed_by_def find_req_id_def split: option.split)

lemma ensure_fields [simp]:
  "out (ensure_cl_ord_id i st s) = out s" "mappings (ensure_cl_ord_id i st s) = mappings s"
  "clock_realtime (ensure_cl_ord_id i st s) = clock_realtime s" "session_of sid (ensure_cl_ord_id i st s) = session_of sid s"
  by (simp_all add: ensure_cl_ord_id_def session_of_def)

lemma routed_status_report:
  assumes "er_ord_status_req_id v \<noteq> []"
  shows "routed_by e ORD_STATUS_REQ_ID (er_ord_status_req_id v) (\<lambda>cid. Execution_Report (v\<lparr>er_ord_status_req_id := cid\<rparr>)) (\<lambda>ka. True)
    s (on_order_status_report e i v s)"
proof -
  let ?u = "ensure_cl_ord_id i (er_ord_status v) s"
  have "routed_by e ORD_STATUS_REQ_ID (er_ord_status_req_id v) (\<lambda>cid. Execution_Report (v\<lparr>er_ord_status_req_id := cid\<rparr>)) (\<lambda>ka. True)
    ?u (on_order_status_report e i v s)"
    by (auto simp: routed_by_def on_order_status_report_def Let_def split: option.split)
  then show ?thesis by (subst (asm) routed_by_cong [where s = s]) simp_all
qed

lemma routed_mass_report:
  "routed_by e MASS_STATUS_REQ_ID (er_mass_status_req_id v) (\<lambda>cid. Execution_Report (v\<lparr>er_mass_status_req_id := cid\<rparr>))
    (\<lambda>ka. er_last_rpt_requested v) s (on_mass_status_report e i v s)"
proof -
  let ?u = "ensure_cl_ord_id i (er_ord_status v) s"
  have "routed_by e MASS_STATUS_REQ_ID (er_mass_status_req_id v) (\<lambda>cid. Execution_Report (v\<lparr>er_mass_status_req_id := cid\<rparr>))
    (\<lambda>ka. er_last_rpt_requested v) ?u (on_mass_status_report e i v s)"
    by (auto simp: routed_by_def on_mass_status_report_def Let_def split: option.split)
  then show ?thesis by (subst (asm) routed_by_cong [where s = s]) simp_all
qed

lemma count_fields [simp]:
  "delivered e m sid (s\<lparr>total_num_pos_reports := n\<rparr>) = delivered e m sid s"
  "mappings (forget_req_id r rid (s\<lparr>total_num_pos_reports := n\<rparr>)) = mappings (forget_req_id r rid s)"
  "find_req_id r rid (s\<lparr>total_num_pos_reports := n\<rparr>) = find_req_id r rid s"
  by (rule delivered_cong; simp add: session_of_def) (rule forget_cong, simp, simp add: find_req_id_def)

lemma positions_ack_routed:
  assumes "find_req_id POS_REQ_ID (rpa_pos_req_id v) s = Some (sid, cid, ka)"
  shows "out (on_request_for_positions_ack e v s) =
      out s @ delivered e (Request_For_Positions_Ack (v\<lparr>rpa_pos_req_id := cid\<rparr>)) sid s"
    and "mappings (on_request_for_positions_ack e v s) =
      (if rpa_pos_req_result v \<noteq> POS_VALID \<or> rpa_pos_req_status v = POS_REJECTED \<or> rpa_total_num_pos_reports v = 0
       then mappings (forget_req_id POS_REQ_ID (rpa_pos_req_id v) s) else mappings s)"
  using assms by (simp_all add: on_request_for_positions_ack_def Let_def)

lemma position_report_routed:
  assumes "find_req_id POS_REQ_ID (prp_pos_req_id v) s = Some (sid, cid, ka)"
  shows "out (on_position_report e v s) = out s @ delivered e (Position_Report (v\<lparr>prp_pos_req_id := cid\<rparr>)) sid s"
    and "mappings (on_position_report e v s) =
      (if prp_pos_req_result v \<noteq> POS_VALID \<or> total_num_pos_reports s \<in> {0, 1} \<and> \<not> ka
       then mappings (forget_req_id POS_REQ_ID (prp_pos_req_id v) s) else mappings s)"
  using assms by (simp_all add: on_position_report_def Let_def)

lemma unrouted_positions:
  "find_req_id POS_REQ_ID (rpa_pos_req_id v) s = None \<Longrightarrow> on_request_for_positions_ack e v s = s"
  "find_req_id POS_REQ_ID (prp_pos_req_id w) s = None \<Longrightarrow> out (on_position_report e w s) = out s"
  "find_req_id POS_REQ_ID (prp_pos_req_id w) s = None \<Longrightarrow> mappings (on_position_report e w s) = mappings s"
  by (simp_all add: on_request_for_positions_ack_def on_position_report_def Let_def)

lemma routed_positions_ack:
  "routed_by e POS_REQ_ID (rpa_pos_req_id v) (\<lambda>cid. Request_For_Positions_Ack (v\<lparr>rpa_pos_req_id := cid\<rparr>))
    (\<lambda>ka. rpa_pos_req_result v \<noteq> POS_VALID \<or> rpa_pos_req_status v = POS_REJECTED \<or> rpa_total_num_pos_reports v = 0)
    s (on_request_for_positions_ack e v s)"
  unfolding routed_by_def
  by (cases "find_req_id POS_REQ_ID (rpa_pos_req_id v) s") (auto simp: positions_ack_routed unrouted_positions split: prod.split)

lemma routed_position_report:
  "routed_by e POS_REQ_ID (prp_pos_req_id v) (\<lambda>cid. Position_Report (v\<lparr>prp_pos_req_id := cid\<rparr>))
    (\<lambda>ka. prp_pos_req_result v \<noteq> POS_VALID \<or> total_num_pos_reports s \<in> {0, 1} \<and> \<not> ka) s (on_position_report e v s)"
  unfolding routed_by_def
  by (cases "find_req_id POS_REQ_ID (prp_pos_req_id v) s") (auto simp: position_report_routed unrouted_positions split: prod.split)

lemmas reply_handler_defs =
  on_business_message_reject_def on_security_list_def on_security_definition_def on_security_status_def
  on_market_data_request_reject_def on_market_data_snapshot_def on_market_data_incremental_def on_order_cancel_reject_def
  on_order_mass_cancel_report_def on_trade_capture_report_request_ack_def on_trade_capture_report_def

lemma reply_routed:
  assumes "reply_route s m = Some (r, rid, mk, final)"
  shows "\<exists>t. server_dispatch e m s = Ok t \<and> routed_by e r rid mk final s t"
proof (cases m)
  case (Execution_Report v)
  let ?w = "v\<lparr>er_cl_ord_id := get_client_cl_ord_id (er_cl_ord_id v), er_orig_cl_ord_id := get_client_cl_ord_id (er_orig_cl_ord_id v)\<rparr>"
  from Execution_Report assms routed_status_report [of ?w] routed_mass_report [of e ?w] show ?thesis
    by (auto simp: on_execution_report_def Let_def split: if_splits)
next
  case (Request_For_Positions_Ack v)
  with assms routed_positions_ack show ?thesis by auto
next
  case (Position_Report v)
  with assms routed_position_report [of e v s] show ?thesis by auto
next
  case (Order_Cancel_Reject v)
  with assms show ?thesis
    by (auto simp: routed_by_def on_order_cancel_reject_def Let_def forget_unknown split: option.split)
next
  case (Order_Mass_Cancel_Report v)
  with assms show ?thesis
    by (auto simp: routed_by_def on_order_mass_cancel_report_def Let_def forget_unknown split: option.split)
qed (use assms in \<open>auto simp: routed_by_def reply_handler_defs Let_def split: option.split\<close>)

text \<open>
  The report of an order action has no line in the table: it belongs to the session with the route of the party in it
  or, when it rejects the request, to the session that made it. The report is passed on with the client's order ids,
  and the request it names is forgotten unless it is still pending.
\<close>

definition report_owner :: "execution_report \<Rightarrow> sys \<Rightarrow> u64 option" where
  "report_owner v s =
     (if er_exec_type v = EXEC_REJECTED then map_option fst (find_req_id CL_ORD_ID (er_cl_ord_id v) s)
      else client_to_session s (get_client_from_parties (er_no_party_ids v)))"

definition reported_by :: "env \<Rightarrow> execution_report \<Rightarrow> sys \<Rightarrow> sys \<Rightarrow> bool" where
  "reported_by e v s t \<longleftrightarrow>
     (let w = v\<lparr>er_cl_ord_id := get_client_cl_ord_id (er_cl_ord_id v), er_orig_cl_ord_id := get_client_cl_ord_id (er_orig_cl_ord_id v)\<rparr>
      in out t = out s @ (case report_owner v s of None \<Rightarrow> [] | Some sid \<Rightarrow> delivered e (Execution_Report w) sid s) \<and>
         mappings t = (if is_pending (er_exec_type v) then mappings s else mappings (forget_req_id CL_ORD_ID (er_cl_ord_id v) s)))"

lemma order_table_fields [simp]:
  "out (remove_cl_ord_id e i s) = out s" "client_to_session (remove_cl_ord_id e i s) = client_to_session s"
  "clock_realtime (remove_cl_ord_id e i s) = clock_realtime s" "session_of sid (remove_cl_ord_id e i s) = session_of sid s"
  "client_to_session (ensure_cl_ord_id i st s) = client_to_session s"
  by (simp_all add: remove_cl_ord_id_def ensure_cl_ord_id_def session_of_def)

lemma delivered_order_table [simp]:
  "delivered e' m sid (remove_cl_ord_id e i s) = delivered e' m sid s"
  "delivered e' m sid (ensure_cl_ord_id i st s) = delivered e' m sid s"
  by (rule delivered_cong; simp)+

lemma order_action_reported:
  assumes "er_ord_status_req_id v = []" and "er_mass_status_req_id v = []"
  shows "reported_by e v s (on_execution_report e v s)"
proof -
  let ?w = "v\<lparr>er_cl_ord_id := get_client_cl_ord_id (er_cl_ord_id v), er_orig_cl_ord_id := get_client_cl_ord_id (er_orig_cl_ord_id v)\<rparr>"
  have "mappings (on_execution_report e v s) =
      (if is_pending (er_exec_type v) then mappings s else mappings (forget_req_id CL_ORD_ID (er_cl_ord_id v) s))"
    using assms by (simp add: on_execution_report_def Let_def mappings_order_action_report)
  moreover have "out (on_execution_report e v s) =
      out s @ (case report_owner v s of None \<Rightarrow> [] | Some sid \<Rightarrow> delivered e (Execution_Report ?w) sid s)"
    using assms
    by (cases "find_req_id CL_ORD_ID (er_cl_ord_id v) s"; cases "client_to_session s (get_client_from_parties (er_no_party_ids v))")
      (auto simp: report_owner_def on_execution_report_def on_order_action_report_def broadcast_def Let_def)
  ultimately show ?thesis by (simp add: reported_by_def)
qed

text \<open>
  C4. Replies of every kind that a client can get (\<open>downstream_reply\<close>: all but user responses, which the controller
  answers itself) are routed as the table \<open>reply_route\<close> says, and the reports of order actions as \<open>reported_by\<close> says.
  The handler returns. A reply with a line whose upstream id has no route is dropped without a trace in the tables; any
  other is delivered, once and if the session is ready, to the session that made the request, under the client's own id
  and otherwise unchanged (but for the order ids, which are the client's as well), and the request is forgotten
  exactly when the table says that it is over. The report of an order action goes to the owner of the order,
  once at most. A business reject of a kind of message that has no table changes nothing.
\<close>

theorem replies_are_routed:
  assumes "downstream_reply m"
  shows "\<exists>t. server_dispatch e m s = Ok t \<and>
    (case reply_route s m of
       Some (r, rid, mk, final) \<Rightarrow> routed_by e r rid mk final s t
     | None \<Rightarrow> (case m of Execution_Report v \<Rightarrow> reported_by e v s t | _ \<Rightarrow> t = s))"
proof (cases "reply_route s m")
  case None
  with assms order_action_reported show ?thesis
    by (cases m) (auto simp: on_business_message_reject_def Let_def split: if_splits)
next
  case (Some line)
  then show ?thesis using reply_routed [of s m _ _ _ _ e] by (cases line) auto
qed

theorem replies_are_routed_witness:
  "(\<exists>t. server_dispatch demo_env (Market_Data_Snapshot_Full_Refresh \<lparr>mds_md_req_id = ''r1'', mds_rest = []\<rparr>)
      (demo_with MD_REQ_ID ''m1'' ''r1'' True) = Ok t \<and>
    out t = out (demo_with MD_REQ_ID ''m1'' ''r1'' True) @
      delivered demo_env (Market_Data_Snapshot_Full_Refresh \<lparr>mds_md_req_id = ''m1'', mds_rest = []\<rparr>) 1
        (demo_with MD_REQ_ID ''m1'' ''r1'' True)) \<and>
   (\<exists>t. server_dispatch demo_env (Execution_Report (demo_report ''proxy-42:o1'' PENDING_NEW (Other_ord_status ''A''))) (state_after demo_ready) = Ok t \<and>
    out t = out (state_after demo_ready) @
      delivered demo_env (Execution_Report (demo_report ''o1'' PENDING_NEW (Other_ord_status ''A''))) 1 (state_after demo_ready))"
proof (intro conjI)
  show "\<exists>t. server_dispatch demo_env (Market_Data_Snapshot_Full_Refresh \<lparr>mds_md_req_id = ''r1'', mds_rest = []\<rparr>)
      (demo_with MD_REQ_ID ''m1'' ''r1'' True) = Ok t \<and>
    out t = out (demo_with MD_REQ_ID ''m1'' ''r1'' True) @
      delivered demo_env (Market_Data_Snapshot_Full_Refresh \<lparr>mds_md_req_id = ''m1'', mds_rest = []\<rparr>) 1
        (demo_with MD_REQ_ID ''m1'' ''r1'' True)"
    using replies_are_routed [of "Market_Data_Snapshot_Full_Refresh \<lparr>mds_md_req_id = ''r1'', mds_rest = []\<rparr>" demo_env
        "demo_with MD_REQ_ID ''m1'' ''r1'' True"]
    by (auto simp: routed_by_def demo_with_others)
  have owner: "client_to_session (state_after demo_ready) ''42'' = Some 1" by code_simp
  show "\<exists>t. server_dispatch demo_env (Execution_Report (demo_report ''proxy-42:o1'' PENDING_NEW (Other_ord_status ''A''))) (state_after demo_ready) = Ok t \<and>
    out t = out (state_after demo_ready) @
      delivered demo_env (Execution_Report (demo_report ''o1'' PENDING_NEW (Other_ord_status ''A''))) 1 (state_after demo_ready)"
    using replies_are_routed [of "Execution_Report (demo_report ''proxy-42:o1'' PENDING_NEW (Other_ord_status ''A''))" demo_env
        "state_after demo_ready"] owner
    by (auto simp: reported_by_def report_owner_def demo_report_def get_client_from_parties_def get_client_cl_ord_id_def)
qed

section \<open>There and back\<close>

lemma request_route_id: "request_route c (fresh_request_id s) m = Some (r, cid, rid, ka, m') \<Longrightarrow> rid \<noteq> []"
  by (cases m) (auto split: if_splits)

lemma over_of: "mappings t = mappings (forget_req_id r rid s) \<Longrightarrow> on_its_way r cid rid sid ka s \<Longrightarrow> rid \<noteq> [] \<Longrightarrow> over r cid rid sid t"
  using over_forget over_cong by metis

lemma answer_delivered:
  assumes "reply_route t w = Some (r, rid, mk, final)" and "on_its_way r cid rid sid ka t" and "rid \<noteq> []"
    and "session_of sid t = Some c" and "cs_state c = READY"
  shows "\<exists>u. server_dispatch e w t = Ok u \<and> out u = out t @ [To_Client sid (client_header e (mk cid) c t) (mk cid)] \<and>
    (if final ka then over r cid rid sid u else on_its_way r cid rid sid ka u)"
proof -
  from reply_routed [OF assms(1)] obtain u where u: "server_dispatch e w t = Ok u" "routed_by e r rid mk final t u"
    by blast
  from u(2) on_its_wayD [OF assms(2)]
  have o: "out u = out t @ delivered e (mk cid) sid t"
    and m: "mappings u = (if final ka then mappings (forget_req_id r rid t) else mappings t)"
    by (simp_all add: routed_by_def)
  show ?thesis
    using u(1) o m delivered_ready [OF assms(4,5)] over_of [OF _ assms(2,3)] on_its_way_cong [of u r t] assms(2)
    by (auto split: if_splits)
qed

text \<open>
  What reading a frame notes about the session first does not
  matter to its requests.
\<close>

definition noted_frame :: "header \<Rightarrow> client_session \<Rightarrow> client_session" where
  "noted_frame h c = (let c = c\<lparr>cs_inbound := hd_msg_seq_num h\<rparr>
     in if cs_comp_id c = [] then c\<lparr>cs_comp_id := hd_sender_comp_id h\<rparr> else c)"

lemma noted_frame_fields [simp]:
  "cs_state (noted_frame h c) = cs_state c" "cs_party_id (noted_frame h c) = cs_party_id c"
  by (simp_all add: noted_frame_def Let_def)

lemma request_route_noted [simp]: "request_route (noted_frame h c) next m = request_route c next m"
  by (cases m) (simp_all add: own_party_def)

lemma passes_checks_noted [simp]: "passes_checks e (noted_frame h c) m = passes_checks e c m"
  by (simp add: passes_checks_def own_party_def)

lemma session_frame_dispatches:
  "session_frame e sid (Decoded h m) s = session_dispatch e h sid m (update_session sid (noted_frame h) s)"
  by (simp add: session_frame_def session_parse_def Let_def session_check_def update_session_twice noted_frame_def [abs_def])

lemma client_read_one:
  assumes "session_of sid s = Some c" and "cs_state c = READY"
    and "session_dispatch e h sid m (update_session sid (noted_frame h) s) = Ok t"
  shows "handle_event e (Client_Read sid [Decoded h m]) s = Ok t"
proof -
  have "session_frames e sid [Decoded h m] s = Ok t"
    using assms(3) by (cases "session_of sid t") (auto simp: session_frame_dispatches)
  with assms(1,2) show ?thesis by (simp add: session_read_def del: session_frames.simps)
qed

lemma server_read_one: "server_read e [Decoded h m] s = server_dispatch e m (server_check h s)"
  by (cases "server_dispatch e m (server_check h s)") (simp_all add: server_read_def server_frame_def Let_def)

lemma session_of_at_time [simp]: "session_of sid (at_time system realtime s) = session_of sid s"
  by (simp add: at_time_def session_of_def)

lemma server_ready_at_time [simp]: "server_ready (at_time system realtime s) = server_ready s"
  by (simp add: at_time_def server_ready_def)

lemma at_work_noted:
  assumes "at_work sid c s"
  shows "at_work sid (noted_frame h c) (update_session sid (noted_frame h) (at_time system realtime s))"
  using at_workD [OF assms] by (simp add: at_work_def)

lemma quiet_changes [simp]:
  "fresh_request_id (update_session sid f (at_time system realtime s)) = fresh_request_id s"
  "req_id_in_use r sid' cid (update_session sid f (at_time system realtime s)) = req_id_in_use r sid' cid s"
  "find_req_id r rid (update_session sid f (at_time system realtime s)) = find_req_id r rid s"
  "out (update_session sid f (at_time system realtime s)) = out s"
  by (simp_all add: fresh_request_id_def req_id_in_use_def find_req_id_def at_time_def)

lemma quiet_check [simp]:
  "reply_route (server_check h (at_time system realtime s)) m = reply_route s m"
  "find_req_id r rid (server_check h (at_time system realtime s)) = find_req_id r rid s"
  "on_its_way r cid rid sid ka (server_check h (at_time system realtime s)) = on_its_way r cid rid sid ka s"
  "session_of sid (server_check h (at_time system realtime s)) = session_of sid s"
  "out (server_check h (at_time system realtime s)) = out s"
  by (cases m) (simp_all add: server_check_def at_time_def find_req_id_def on_its_way_def session_of_def)

lemma request_event:
  assumes "reachable e s" and "session_of sid s = Some c" and "cs_state c = READY"
    and "request_route c (fresh_request_id s) m = Some (r, cid, rid, ka, m')" and "passes_checks e c m"
    and "\<not> req_id_in_use r sid cid s" and "find_req_id r rid s = None"
  shows "\<exists>t. handle_event e (Client_Read sid [Decoded h m]) (at_time clock realtime s) = Ok t \<and>
    (\<exists>h'. out t = out s @ [To_Server h' m']) \<and> on_its_way r cid rid sid ka t \<and> session_of sid t = Some (noted_frame h c)"
proof -
  let ?s = "update_session sid (noted_frame h) (at_time clock realtime s)"
  have work: "at_work sid (noted_frame h c) ?s" by (rule at_work_noted [OF at_work_reachable [OF assms(1-3)]])
  have "forwarded e r cid rid sid ka m' ?s (session_dispatch e h sid m ?s)"
    using assms(4-7) by (intro request_forwarded [OF work]) simp_all
  then obtain t where t: "session_dispatch e h sid m ?s = Ok t" "out t = out s @ [To_Server (server_header e m' ?s) m']"
    "on_its_way r cid rid sid ka t" "session_of sid t = Some (noted_frame h c)"
    using at_workD(1) [OF work] by (auto simp: forwarded_def)
  with client_read_one [OF _ assms(3) t(1)] assms(2) show ?thesis by auto
qed

text \<open>
  C2. A request and a reply to it, event by event, for every pair of kinds that the tables relate. In a reachable
  state a ready session sends a request that passes the checks, under an id that it is not using; the upstream id is
  not in use. Then the event that brings the request sends the message of the table upstream, and nothing else. When
  the next event brings a reply with the upstream id, it returns, and the client gets the reply once, under its own
  id, and nothing else is sent; after that either the request is over and its id free again, or it is still on its
  way and the next reply is delivered the same way.
\<close>

theorem requests_are_answered:
  assumes "reachable e s" and "session_of sid s = Some c" and "cs_state c = READY"
    and "request_route c (fresh_request_id s) m = Some (r, cid, rid, ka, m')" and "passes_checks e c m"
    and "\<not> req_id_in_use r sid cid s" and "find_req_id r rid s = None"
    and "step e (Client_Read sid [Decoded h m]) s t" and "reply_route t w = Some (r, rid, mk, final)"
  shows "(\<exists>h'. out t = out s @ [To_Server h' m']) \<and> (\<exists>u. step e (Server_Read [Decoded g w]) t u) \<and>
    (\<forall>u. step e (Server_Read [Decoded g w]) t u \<longrightarrow>
      (\<exists>h'. out u = out t @ [To_Client sid h' (mk cid)]) \<and>
      (if final ka then over r cid rid sid u else on_its_way r cid rid sid ka u))"
proof -
  from assms(8) obtain clock realtime where "handle_event e (Client_Read sid [Decoded h m]) (at_time clock realtime s) = Ok t"
    by (auto elim: stepE)
  with request_event [OF assms(1-7), of h clock realtime]
  have o: "\<exists>h'. out t = out s @ [To_Server h' m']" and way: "on_its_way r cid rid sid ka t"
    and sess: "session_of sid t = Some (noted_frame h c)" by auto
  have "reachable e t" using assms(1,8) by (rule reachable.turn)
  from at_work_reachable [OF this sess] assms(3) have up: "sv_state (server t) = SERVER_READY"
    by (simp add: at_work_def server_ready_def)
  have reply: "\<exists>u. handle_event e (Server_Read [Decoded g w]) (at_time a b t) = Ok u \<and>
      (\<exists>h'. out u = out t @ [To_Client sid h' (mk cid)]) \<and>
      (if final ka then over r cid rid sid u else on_its_way r cid rid sid ka u)" for a b
  proof -
    let ?t = "server_check g (at_time a b t)"
    from answer_delivered [of ?t w r rid mk final cid sid ka "noted_frame h c" e] assms(3,9) way sess
      request_route_id [OF assms(4)] obtain u where "server_dispatch e w ?t = Ok u"
      "out u = out t @ [To_Client sid (client_header e (mk cid) (noted_frame h c) ?t) (mk cid)]"
      "if final ka then over r cid rid sid u else on_its_way r cid rid sid ka u" by auto
    then show ?thesis by (intro exI [of _ u]) (simp add: server_read_one)
  qed
  have "enabled (Server_Read [Decoded g w]) t" using up by (simp add: state_order)
  with reply have "\<exists>u. step e (Server_Read [Decoded g w]) t u" by (meson step.step)
  moreover have "(\<exists>h'. out u = out t @ [To_Client sid h' (mk cid)]) \<and>
      (if final ka then over r cid rid sid u else on_its_way r cid rid sid ka u)"
    if "step e (Server_Read [Decoded g w]) t u" for u
    using that reply by (auto elim!: stepE) (metis result.inject(1))+
  ultimately show ?thesis using o by blast
qed

definition demo_mass_cancel :: order_mass_cancel_request where
  "demo_mass_cancel =
     \<lparr>omc_cl_ord_id = ''c1'', omc_mass_cancel_request_type = ''7'', omc_symbol = [], omc_security_exchange = [],
      omc_side = [], omc_no_party_ids = [], omc_rest = []\<rparr>"

definition demo_mass_cancel_report :: "string \<Rightarrow> order_mass_cancel_report" where
  "demo_mass_cancel_report i =
     \<lparr>omr_cl_ord_id = i, omr_order_id = ''x1'', omr_mass_cancel_request_type = ''7'',
      omr_mass_cancel_response = Other_mass_cancel_response ''7'',
      omr_mass_cancel_reject_reason = MASS_CANCEL_REJECT_OTHER, omr_symbol = [], omr_security_exchange = [],
      omr_side = [], omr_text = [], omr_no_party_ids = [], omr_rest = []\<rparr>"

lemma demo_mass_cancel_route:
  "request_route demo_session (fresh_request_id (state_after demo_ready)) (Order_Mass_Cancel_Request demo_mass_cancel) =
     Some (MASS_CANCEL_CL_ORD_ID, ''c1'', ''proxy-42:c1'', False, Order_Mass_Cancel_Request (demo_mass_cancel
       \<lparr>omc_no_party_ids := [own_party demo_session], omc_cl_ord_id := ''proxy-42:c1''\<rparr>))"
  "passes_checks demo_env demo_session (Order_Mass_Cancel_Request demo_mass_cancel)"
  by (simp_all add: demo_mass_cancel_def demo_ready_state client_request_id_def passes_checks_def)

theorem requests_are_answered_witness:
  "\<exists>t u h. step demo_env (Client_Read 1 [frame ''ALICE'' 2 (Order_Mass_Cancel_Request demo_mass_cancel)])
      (state_after demo_ready) t \<and>
    step demo_env (Server_Read [frame ''BRIDGE'' 3 (Order_Mass_Cancel_Report (demo_mass_cancel_report ''proxy-42:c1''))]) t u \<and>
    out u = out t @ [To_Client 1 h (Order_Mass_Cancel_Report (demo_mass_cancel_report ''c1''))] \<and>
    over MASS_CANCEL_CL_ORD_ID ''c1'' ''proxy-42:c1'' 1 u"
proof -
  let ?m = "Order_Mass_Cancel_Request demo_mass_cancel"
  let ?w = "Order_Mass_Cancel_Report (demo_mass_cancel_report ''proxy-42:c1'')"
  note ready = state_after_reachable [of demo_ready] demo_ready_state(1,2)
  have free: "\<not> req_id_in_use MASS_CANCEL_CL_ORD_ID 1 ''c1'' (state_after demo_ready)"
    "find_req_id MASS_CANCEL_CL_ORD_ID ''proxy-42:c1'' (state_after demo_ready) = None"
    by (simp_all add: demo_ready_tables)
  from request_event [OF ready demo_mass_cancel_route free, of "demo_header ''ALICE'' 2 ?m" 6 6] obtain t
    where "handle_event demo_env (Client_Read 1 [frame ''ALICE'' 2 ?m]) (at_time 6 6 (state_after demo_ready)) = Ok t"
    by (auto simp: frame_def)
  then have t: "step demo_env (Client_Read 1 [Decoded (demo_header ''ALICE'' 2 ?m) ?m]) (state_after demo_ready) t"
    unfolding frame_def by (intro step.step) simp_all
  have w: "reply_route t ?w = Some (MASS_CANCEL_CL_ORD_ID, ''proxy-42:c1'',
      \<lambda>cid. Order_Mass_Cancel_Report (demo_mass_cancel_report cid), \<lambda>ka. True)"
    by (simp add: demo_mass_cancel_report_def)
  from requests_are_answered [OF ready demo_mass_cancel_route free t w, of "demo_header ''BRIDGE'' 3 ?w"] t
  show ?thesis unfolding frame_def by (simp only: if_True) blast
qed

end
