(* ===== verification/Protocol.thy ===== *)
theory Protocol
  imports Routing
begin

text \<open>
  What the proxy says on its connections, as far as it does not depend on what is asked: every message goes
  out under the header of its own type and only in the direction it belongs to, and a client gets nothing
  from the bridge before its logon has been answered.
\<close>

section \<open>Directions\<close>

fun well_typed :: "wire \<Rightarrow> bool" where
  "well_typed (To_Client sid h m) \<longleftrightarrow> hd_msg_type h = msg_type_of m \<and> (downstream_session m \<or> downstream_reply m)"
| "well_typed (To_Server h m) \<longleftrightarrow> hd_msg_type h = msg_type_of m \<and>
     ((\<exists>l. m = Logon l) \<or> upstream_keep_alive m \<or> upstream_request m)"
| "well_typed (To_Auth text) \<longleftrightarrow> text = auth_subscribe_request"
| "well_typed _ \<longleftrightarrow> True"

definition all_typed :: "sys \<Rightarrow> bool" where
  "all_typed s \<longleftrightarrow> (\<forall>x \<in> set (out s). well_typed x)"

lemma well_typed_sent:
  "well_typed (To_Client sid (client_header e m c s) m) \<longleftrightarrow> downstream_session m \<or> downstream_reply m"
  "well_typed (To_Server (server_header e m s) m) \<longleftrightarrow> (\<exists>l. m = Logon l) \<or> upstream_keep_alive m \<or> upstream_request m"
  by (simp_all add: client_header_def)

section \<open>The logon comes first\<close>

definition answered :: "u64 \<Rightarrow> wire list \<Rightarrow> bool" where
  "answered sid xs \<longleftrightarrow> (\<exists>h l. To_Client sid h (Logon l) \<in> set xs)"

lemma answered_append: "answered sid xs \<Longrightarrow> answered sid (xs @ ys)"
  by (auto simp: answered_def)

text \<open>A rejected message is reported at any time, so the reject is not counted as a reply here.\<close>

definition from_bridge :: "msg \<Rightarrow> bool" where
  "from_bridge m \<longleftrightarrow> downstream_reply m \<and> \<not> downstream_session m"

fun orderly :: "wire list \<Rightarrow> wire \<Rightarrow> bool" where
  "orderly xs (To_Client sid h m) \<longleftrightarrow> (from_bridge m \<longrightarrow> answered sid xs)"
| "orderly xs _ \<longleftrightarrow> True"

definition all_orderly :: "sys \<Rightarrow> bool" where
  "all_orderly s \<longleftrightarrow> (\<forall>before x after. out s = before @ x # after \<longrightarrow> orderly before x) \<and>
     (\<forall>sid. state_of sid s = Some READY \<longrightarrow> answered sid (out s))"

lemma all_orderlyI:
  assumes "all_orderly s" and "out t = out s @ sent" and "\<And>x. x \<in> set sent \<Longrightarrow> orderly (out s) x" and "length sent \<le> 1"
    and "\<And>sid. state_of sid t = Some READY \<Longrightarrow> state_of sid s = Some READY \<or> answered sid (out t)"
  shows "all_orderly t"
  unfolding all_orderly_def
proof (intro conjI allI impI)
  fix before x after
  assume t: "out t = before @ x # after"
  show "orderly before x"
  proof (cases sent)
    case Nil
    with t assms(1,2) show ?thesis by (simp add: all_orderly_def)
  next
    case (Cons y ys)
    with assms(4) have "out t = out s @ [y]" using assms(2) by simp
    with t have "before = out s \<and> x = y \<or> (\<exists>after'. out s = before @ x # after')"
      by (cases after rule: rev_cases) auto
    with assms(1,3) Cons show ?thesis by (auto simp: all_orderly_def)
  qed
next
  fix sid
  assume "state_of sid t = Some READY"
  with assms(5) have "state_of sid s = Some READY \<or> answered sid (out t)" by blast
  with assms(1,2) show "answered sid (out t)" by (auto simp: all_orderly_def intro: answered_append)
qed

section \<open>Every change keeps to it\<close>

definition keeps_protocol :: "sys \<Rightarrow> bool" where
  "keeps_protocol s \<longleftrightarrow> all_typed s \<and> all_orderly s"

lemma protocolI:
  assumes "keeps_protocol s" and "out t = out s @ sent" and "length sent \<le> 1"
    and "\<And>x. x \<in> set sent \<Longrightarrow> well_typed x \<and> orderly (out s) x"
    and "\<And>sid. state_of sid t = Some READY \<Longrightarrow> state_of sid s = Some READY \<or> answered sid (out t)"
  shows "keeps_protocol t"
  using assms all_orderlyI [of s t sent] by (auto simp: all_typed_def keeps_protocol_def)

lemmas silent = protocolI [where sent = "[]"]

lemma protocol_effect:
  assumes "effect e s t" and "good s" and p: "keeps_protocol s"
  shows "keeps_protocol t"
  using assms(1)
proof (cases rule: effect.cases)
  case (to_client sid st m)
  then obtain c where c: "session_of sid s = Some c" "cs_state c = st" by (auto simp: state_of_Some)
  let ?x = "To_Client sid (client_header e m c s) m"
  have "orderly (out s) ?x" using p to_client(2,4)
    by (auto simp: from_bridge_def all_orderly_def keeps_protocol_def)
  moreover have "well_typed ?x" using to_client(4) by (auto simp: client_header_def)
  ultimately show ?thesis
    using c to_client(1) by (intro protocolI [OF p, where sent = "[?x]"]) (auto simp: out_client_send)
next
  case (to_server m)
  then show ?thesis by (intro protocolI [OF p, where sent = "[To_Server (server_header e m s) m]"]) auto
next
  case connected
  then show ?thesis
    by (intro protocolI [OF p, where sent = "[To_Server (server_header e m s) m]" for m])
      (auto simp: server_connected_def server_send_logon_def set_server_state_def)
next
  case (hang_up sid)
  then show ?thesis by (intro protocolI [OF p, where sent = "[Close_Client sid]"]) auto
next
  case subscribed
  then show ?thesis by (intro protocolI [OF p, where sent = "[To_Auth auth_subscribe_request]"]) auto
next
  case (accept sid)
  then have "answered sid (out s)" by (simp add: answered_def)
  with accept(1) show ?thesis by (intro silent [OF p]) (auto split: if_splits)
next
  case (noted f sid)
  then show ?thesis by (intro silent [OF p]) (auto simp: state_of_update_session)
next
  case (enter sid u f pending asked)
  then show ?thesis
    by (intro silent [OF p]) (auto simp: state_of_enter [where st = WAITING_CREATE_ROUTE] split: if_splits)
next
  case session_added
  with goodD(6) [OF assms(2)] show ?thesis
    by (intro silent [OF p]) (auto simp: state_of_add next_is_free shared_manager split: if_splits)
next
  case (collected now)
  with goodD(6) [OF assms(2)] show ?thesis
    by (intro silent [OF p]) (auto simp: state_of_collected split: if_splits)
qed (auto intro!: silent [OF p] simp: event_defs shared_op_fields split: if_splits)

lemma protocol_create: "keeps_protocol (create_sys users symbols now)"
  by (simp add: keeps_protocol_def all_typed_def all_orderly_def create_sys_def new_sys_def state_of_def session_of_def)

interpretation protocol: effect_invariant keeps_protocol
  by unfold_locales (auto intro: protocol_create protocol_effect)

text \<open>
  C20. Everything that the proxy has put on a connection is of its type: the header names the type of the
  message, upstream go the logon, the keep-alive messages and the thirteen requests, and a client gets
  session messages and the fourteen replies. So no request ever reaches a client, and no report the bridge.
\<close>

theorem messages_are_typed:
  assumes "reachable e s"
  shows "(\<forall>sid h m. To_Client sid h m \<in> set (out s) \<longrightarrow>
      hd_msg_type h = msg_type_of m \<and> (downstream_session m \<or> downstream_reply m) \<and> \<not> upstream_request m) \<and>
    (\<forall>h m. To_Server h m \<in> set (out s) \<longrightarrow>
      hd_msg_type h = msg_type_of m \<and> ((\<exists>l. m = Logon l) \<or> upstream_keep_alive m \<or> upstream_request m) \<and>
      \<not> downstream_reply m)"
proof -
  have apart: "\<not> upstream_request m" if "downstream_session m \<or> downstream_reply m" for m using that by (cases m) auto
  have apart': "\<not> downstream_reply m" if "(\<exists>l. m = Logon l) \<or> upstream_keep_alive m \<or> upstream_request m" for m
    using that by (cases m) auto
  have "\<forall>x \<in> set (out s). well_typed x"
    using protocol.always [OF assms] by (simp add: keeps_protocol_def all_typed_def)
  then have "To_Client sid h m \<in> set (out s) \<Longrightarrow> well_typed (To_Client sid h m)"
    "To_Server h m \<in> set (out s) \<Longrightarrow> well_typed (To_Server h m)" for sid h m by blast+
  with apart apart' show ?thesis by (metis well_typed.simps(1,2))
qed

fun to_server :: "wire \<Rightarrow> bool" where
  "to_server (To_Server h m) \<longleftrightarrow> True"
| "to_server _ \<longleftrightarrow> False"

lemma demo_trading_out: "map to_server (out (state_after demo_trading)) = [True, True, False, True, True]"
  by code_simp

theorem messages_are_typed_witness:
  "\<exists>h m. out (state_after demo_trading) ! 3 = To_Server h m \<and> hd_msg_type h = msg_type_of m \<and> \<not> downstream_reply m"
proof -
  let ?out = "out (state_after demo_trading)"
  have l: "length ?out = 5" using arg_cong [OF demo_trading_out, of length] by simp
  have "to_server (?out ! 3)" using arg_cong [OF demo_trading_out, of "\<lambda>xs. xs ! 3"] l by simp
  then obtain h m where m: "?out ! 3 = To_Server h m" by (cases "?out ! 3") auto
  with l nth_mem [of 3 ?out] have "To_Server h m \<in> set ?out" by simp
  with messages_are_typed [OF state_after_reachable, of demo_trading] m show ?thesis by blast
qed

text \<open>What a reply of the bridge puts on the connections: it goes to one session at most, and only if that is ready.\<close>

lemma reply_sent:
  assumes "downstream_reply m" and "server_dispatch e m s = Ok t"
  shows "out t = out s \<or> (\<exists>w sid. out t = out s @ delivered e w sid s)"
proof (cases "reply_route s m")
  case None
  show ?thesis
  proof (cases m)
    case (Execution_Report v)
    with None assms(2) order_action_reported [of v e s] have "reported_by e v s t" by (auto simp: Let_def split: if_splits)
    then show ?thesis by (cases "report_owner v s") (simp_all add: reported_by_def Let_def, blast)
  qed (use None assms in \<open>auto simp: on_business_message_reject_def split: option.splits\<close>)
next
  case (Some line)
  with reply_routed [of s m _ _ _ _ e] assms(2) show ?thesis
    by (cases line) (auto simp: routed_by_def split: option.splits)
qed

lemma delivered_answered:
  assumes "keeps_protocol s" and "To_Client sid h w \<in> set (delivered e m sid' s)"
  shows "answered sid (out s)"
proof -
  from assms(2) obtain c where "session_of sid s = Some c" "cs_state c = READY"
    by (cases "session_of sid s"; cases "session_of sid' s") (auto simp: delivered_def session_ready_def split: if_splits)
  then have "state_of sid s = Some READY" by (simp add: state_of_def)
  with assms(1) show ?thesis by (simp add: keeps_protocol_def all_orderly_def)
qed

text \<open>
  C16. Nothing from the bridge, and nothing in its place, reaches a client before its logon has been answered. First, a
  reply on the connection of a session comes after a logon there, for every kind of reply but the business reject: with
  this one the session itself may refuse a message at any time. Second, no reply of the bridge, business rejects
  included, is sent to a session whose logon has not been answered, at any point of an event.
\<close>

theorem replies_follow_logon:
  assumes "reachable e s"
  shows "(\<forall>before sid h m after. out s = before @ To_Client sid h m # after \<longrightarrow> downstream_reply m \<longrightarrow>
      \<not> downstream_session m \<longrightarrow> (\<exists>h' l. To_Client sid h' (Logon l) \<in> set before)) \<and>
    (\<forall>u m t sent sid h w. effects e s u \<longrightarrow> downstream_reply m \<longrightarrow> server_dispatch e m u = Ok t \<longrightarrow>
      out t = out u @ sent \<longrightarrow> To_Client sid h w \<in> set sent \<longrightarrow> (\<exists>h' l. To_Client sid h' (Logon l) \<in> set (out u)))"
proof (intro conjI allI impI)
  note p = protocol.always [OF assms]
  fix before sid h m after
  assume "out s = before @ To_Client sid h m # after" "downstream_reply m" "\<not> downstream_session m"
  with p show "\<exists>h' l. To_Client sid h' (Logon l) \<in> set before"
    unfolding keeps_protocol_def all_orderly_def by (fastforce simp: from_bridge_def answered_def)
next
  fix u m t sent sid h w
  assume u: "effects e s u" and m: "downstream_reply m" "server_dispatch e m u = Ok t" "out t = out u @ sent"
    "To_Client sid h w \<in> set sent"
  have "keeps_protocol u" by (rule protocol.changes [OF u reachable_good [OF assms] protocol.always [OF assms]])
  moreover from reply_sent [OF m(1,2)] m(3,4) obtain x i where "To_Client sid h w \<in> set (delivered e x i u)" by auto
  ultimately show "\<exists>h' l. To_Client sid h' (Logon l) \<in> set (out u)"
    using delivered_answered by (simp add: answered_def)
qed

text \<open>The same order twice: the second one is refused with an execution report.\<close>

definition demo_refused :: "(nanos \<times> event) list" where
  "demo_refused = demo_ready @ [(6, Client_Read 1 [frame ''ALICE'' 2 (New_Order_Single (demo_new_order ''o1'')),
     frame ''ALICE'' 3 (New_Order_Single (demo_new_order ''o1''))])]"

fun reply_to :: "u64 \<Rightarrow> wire \<Rightarrow> bool" where
  "reply_to sid (To_Client sid' h m) \<longleftrightarrow> sid' = sid \<and> downstream_reply m \<and> \<not> downstream_session m"
| "reply_to sid _ \<longleftrightarrow> False"

lemma demo_refused_out: "map (reply_to 1) (out (state_after demo_refused)) = [False, False, False, False, True]"
  by code_simp

text \<open>A business reject of the bridge for a market data request.\<close>

definition demo_bridge_reject :: msg where
  "demo_bridge_reject = Business_Message_Reject \<lparr>bmr_ref_seq_num = 1, bmr_ref_msg_type = MT_MARKET_DATA_REQUEST,
     bmr_business_reject_ref_id = ''proxy-2'', bmr_business_reject_reason = BUSINESS_REJECT_OTHER, bmr_text = []\<rparr>"

theorem replies_follow_logon_witness:
  "(\<exists>h l. To_Client 1 h (Logon l) \<in> set (take 4 (out (state_after demo_refused)))) \<and>
   (\<exists>h l. To_Client 1 h (Logon l) \<in> set (out (state_after demo_trading)))"
proof
  let ?out = "out (state_after demo_refused)"
  have l: "length ?out = 5" using arg_cong [OF demo_refused_out, of length] by simp
  have "reply_to 1 (?out ! 4)" using arg_cong [OF demo_refused_out, of "\<lambda>xs. xs ! 4"] l by simp
  then obtain h m where m: "?out ! 4 = To_Client 1 h m" "downstream_reply m" "\<not> downstream_session m"
    by (cases "?out ! 4") auto
  have "?out = take 4 ?out @ To_Client 1 h m # drop (Suc 4) ?out"
    using l m(1) id_take_nth_drop [of 4 ?out] by simp
  with replies_follow_logon [OF state_after_reachable, of demo_refused] m(2,3)
  show "\<exists>h l. To_Client 1 h (Logon l) \<in> set (take 4 ?out)" by blast
next
  let ?s = "state_after demo_trading"
  have find: "find_req_id MD_REQ_ID ''proxy-2'' ?s = Some (1, ''m1'', True)" by code_simp
  have "downstream_reply demo_bridge_reject" by (simp add: demo_bridge_reject_def)
  obtain c where c: "session_of 1 ?s = Some c" "cs_state c = READY"
    using demo_trading_state by (auto simp: state_of_def)
  define w where "w = Business_Message_Reject \<lparr>bmr_ref_seq_num = 1, bmr_ref_msg_type = MT_MARKET_DATA_REQUEST,
     bmr_business_reject_ref_id = ''m1'', bmr_business_reject_reason = BUSINESS_REJECT_OTHER, bmr_text = []\<rparr>"
  obtain t where t: "server_dispatch demo_env demo_bridge_reject ?s = Ok t"
    "out t = out ?s @ [To_Client 1 (client_header demo_env w c ?s) w]"
    using find delivered_ready [OF c, of demo_env w]
    by (auto simp: demo_bridge_reject_def on_business_message_reject_def w_def)
  from replies_follow_logon [OF state_after_reachable, of demo_trading] t \<open>downstream_reply demo_bridge_reject\<close>
  show "\<exists>h l. To_Client 1 h (Logon l) \<in> set (out ?s)"
    by (metis effects_refl list.set_intros(1))
qed

text \<open>
  C10. The proxy implements the abstract specification of its changes: whatever an event does to a state
  that the proxy can get to, it is a sequence of the changes that \<open>effect\<close> lists, each under its condition.
\<close>

theorem events_refine_effects:
  assumes "reachable e s" and "enabled ev s"
  shows "(\<forall>t. handle_event e ev s = Ok t \<longrightarrow> effects e s t) \<and>
    (\<forall>what t. handle_event e ev s = Throw what t \<longrightarrow> effects e s t)"
  using handle_event_leaves [OF reachable_good [OF assms(1)] assms(2), of e] by auto

theorem events_refine_effects_witness:
  "\<exists>t. handle_event demo_env (Client_Disconnected 1) (state_after demo_trading) = Ok t \<and>
     effects demo_env (state_after demo_trading) t"
proof -
  obtain t where "handle_event demo_env (Client_Disconnected 1) (state_after demo_trading) = Ok t"
    using session_disconnected_returns [OF reachable_good [OF state_after_reachable [of demo_trading]], of demo_env 1]
    by (cases "session_disconnected demo_env 1 (state_after demo_trading)") auto
  with events_refine_effects [OF state_after_reachable, where ev = "Client_Disconnected 1"] show ?thesis by fastforce
qed

end
