(* ===== verification/Config.thy ===== *)
theory Config
  imports Shared_State
begin

text \<open>
  The configuration file (\<open>config.cpp\<close>): how the proxy's users and symbols are read from a TOML document.
  The document is what \<open>toml::parse\<close> returns. A scalar is left abstract (\<open>'v\<close>): its conversion to a string
  or to a number is the library's, and an argument here. An empty optional that the code dereferences is
  \<open>Undefined\<close>, \<open>log::fatal\<close> is \<open>Rejected\<close>.
\<close>

section \<open>Documents\<close>

text \<open>A table is an association list in the order of iteration; TOML does not allow a key twice.\<close>

datatype 'v toml = Value 'v | Array "'v toml list" | Table "(string \<times> 'v toml) list"

fun is_table :: "'v toml \<Rightarrow> bool" where
  "is_table (Table al) \<longleftrightarrow> True"
| "is_table _ \<longleftrightarrow> False"

text \<open>\<open>node.value<T>()\<close>, which is empty for an array and a table.\<close>

fun node_value :: "('v \<Rightarrow> 'a option) \<Rightarrow> 'v toml \<Rightarrow> 'a option" where
  "node_value conv (Value v) = conv v"
| "node_value conv _ = None"

datatype 'a parsed = Parsed 'a | Rejected string | Undefined

fun parsed_then :: "'a parsed \<Rightarrow> ('a \<Rightarrow> 'b parsed) \<Rightarrow> 'b parsed" where
  "parsed_then (Parsed x) f = f x"
| "parsed_then (Rejected what) f = Rejected what"
| "parsed_then Undefined f = Undefined"

text \<open>\<open>*node.value<T>()\<close>.\<close>

definition deref :: "'a option \<Rightarrow> 'a parsed" where
  "deref x = (case x of None \<Rightarrow> Undefined | Some y \<Rightarrow> Parsed y)"

lemma parsed_then_Parsed [simp]:
  "parsed_then m f = Parsed y \<longleftrightarrow> (\<exists>x. m = Parsed x \<and> f x = Parsed y)"
  by (cases m) auto

lemma deref_Parsed [simp]: "deref x = Parsed y \<longleftrightarrow> x = Some y"
  by (simp add: deref_def split: option.split)

text \<open>The loop over the items of a container that builds a result.\<close>

fun parse_all :: "('i \<Rightarrow> 'r \<Rightarrow> 'r parsed) \<Rightarrow> 'i list \<Rightarrow> 'r \<Rightarrow> 'r parsed" where
  "parse_all f [] r = Parsed r"
| "parse_all f (x # xs) r = parsed_then (f x r) (parse_all f xs)"

section \<open>Parsing\<close>

text \<open>\<open>struct User\<close>.\<close>

record user =
  us_component :: string
  us_username :: string
  us_password :: string
  us_accounts :: string
  us_strategy_id :: u32

record config =
  cf_symbols :: "string list"
  cf_users :: "(string \<times> user) list"

definition check_empty :: "'v toml \<Rightarrow> unit parsed" where
  "check_empty node =
     (case node of Table al \<Rightarrow> if al \<noteq> [] then Rejected ''Unexpected'' else Parsed () | _ \<Rightarrow> Parsed ())"

text \<open>The node under the key, and the document without it; \<open>None\<close> when the result is false.\<close>

definition find_and_remove :: "'v toml \<Rightarrow> string \<Rightarrow> ('v toml \<times> 'v toml) option" where
  "find_and_remove node key =
     (case node of
        Table al \<Rightarrow> (case map_of al key of None \<Rightarrow> None | Some n \<Rightarrow> Some (n, Table (AList.delete key al)))
      | _ \<Rightarrow> None)"

text \<open>\<open>emplace\<close> of a set; the list is in the order of iteration.\<close>

definition emplace_symbol :: "string \<Rightarrow> string list \<Rightarrow> string list" where
  "emplace_symbol x xs = (if x \<in> set xs then xs else xs @ [x])"

definition parse_symbol :: "('v \<Rightarrow> string option) \<Rightarrow> 'v toml \<Rightarrow> string list \<Rightarrow> string list parsed" where
  "parse_symbol to_string node result =
     parsed_then (deref (node_value to_string node)) (\<lambda>x. Parsed (emplace_symbol x result))"

definition parse_symbols :: "('v \<Rightarrow> string option) \<Rightarrow> 'v toml \<Rightarrow> (string list \<times> 'v toml) parsed" where
  "parse_symbols to_string node =
     (case find_and_remove node ''symbols'' of
        None \<Rightarrow> Rejected ''Unexpected: did not find the \"symbols\" table''
      | Some (n, rest) \<Rightarrow>
          parsed_then
            (case n of
               Value v \<Rightarrow> parse_symbol to_string n []
             | Array ns \<Rightarrow> parse_all (parse_symbol to_string) ns []
             | Table al \<Rightarrow> Rejected ''Unexpected'')
            (\<lambda>symbols. Parsed (symbols, rest)))"

definition empty_user :: user where
  "empty_user = \<lparr>us_component = [], us_username = [], us_password = [], us_accounts = [], us_strategy_id = 0\<rparr>"

definition parse_user_key ::
  "('v \<Rightarrow> string option) \<Rightarrow> ('v \<Rightarrow> u32 option) \<Rightarrow> string \<times> 'v toml \<Rightarrow> user \<Rightarrow> user parsed" where
  "parse_user_key to_string to_u32 kv u =
     (let (key, node) = kv; text_value = deref (node_value to_string node)
      in if key = ''component'' then parsed_then text_value (\<lambda>x. Parsed (u\<lparr>us_component := x\<rparr>))
         else if key = ''username'' then parsed_then text_value (\<lambda>x. Parsed (u\<lparr>us_username := x\<rparr>))
         else if key = ''password'' then parsed_then text_value (\<lambda>x. Parsed (u\<lparr>us_password := x\<rparr>))
         else if key = ''accounts'' then Parsed u
         else if key = ''strategy_id''
         then parsed_then (deref (node_value to_u32 node)) (\<lambda>x. Parsed (u\<lparr>us_strategy_id := x\<rparr>))
         else Rejected (''Unexpected: user key='' @ key))"

definition parse_user ::
  "('v \<Rightarrow> string option) \<Rightarrow> ('v \<Rightarrow> u32 option) \<Rightarrow> (string \<times> 'v toml) list \<Rightarrow> user parsed" where
  "parse_user to_string to_u32 al = parse_all (parse_user_key to_string to_u32) al empty_user"

definition parse_user_entry ::
  "('v \<Rightarrow> string option) \<Rightarrow> ('v \<Rightarrow> u32 option) \<Rightarrow> string \<times> 'v toml \<Rightarrow>
     (string \<times> user) list \<Rightarrow> (string \<times> user) list parsed" where
  "parse_user_entry to_string to_u32 kv result =
     (case snd kv of
        Table al \<Rightarrow> parsed_then (parse_user to_string to_u32 al) (\<lambda>u. Parsed (emplace_list result (fst kv) u))
      | _ \<Rightarrow> Rejected (''Unexpected: users.'' @ fst kv @ '' must be a table''))"

definition parse_users ::
  "('v \<Rightarrow> string option) \<Rightarrow> ('v \<Rightarrow> u32 option) \<Rightarrow> 'v toml \<Rightarrow> ((string \<times> user) list \<times> 'v toml) parsed" where
  "parse_users to_string to_u32 node =
     (case find_and_remove node ''users'' of
        None \<Rightarrow> Rejected ''Unexpected: did not find the \"users\" table''
      | Some (n, rest) \<Rightarrow>
          parsed_then
            (case n of
               Table al \<Rightarrow> parse_all (parse_user_entry to_string to_u32) al []
             | _ \<Rightarrow> Rejected ''Unexpected: users must be a table'')
            (\<lambda>users. Parsed (users, rest)))"

text \<open>The constructor of \<open>Config\<close>: the members in the order of their declaration, then the check.\<close>

definition parse_config :: "('v \<Rightarrow> string option) \<Rightarrow> ('v \<Rightarrow> u32 option) \<Rightarrow> 'v toml \<Rightarrow> config parsed" where
  "parse_config to_string to_u32 root =
     parsed_then (parse_symbols to_string root) (\<lambda>(symbols, rest).
     parsed_then (parse_users to_string to_u32 rest) (\<lambda>(users, rest).
     parsed_then (check_empty rest) (\<lambda>_.
       Parsed \<lparr>cf_symbols = symbols, cf_users = users\<rparr>)))"

text \<open>The users as the shared state takes them.\<close>

definition login_users :: "config \<Rightarrow> (string \<times> string \<times> u32) list" where
  "login_users c = map (\<lambda>(_, u). (us_username u, us_password u, us_strategy_id u)) (cf_users c)"

section \<open>A document for every configuration\<close>

definition render_user :: "(string \<Rightarrow> 'v) \<Rightarrow> (u32 \<Rightarrow> 'v) \<Rightarrow> user \<Rightarrow> 'v toml" where
  "render_user of_string of_u32 u =
     Table [(''component'', Value (of_string (us_component u))), (''password'', Value (of_string (us_password u))),
            (''strategy_id'', Value (of_u32 (us_strategy_id u))), (''username'', Value (of_string (us_username u)))]"

definition render_config :: "(string \<Rightarrow> 'v) \<Rightarrow> (u32 \<Rightarrow> 'v) \<Rightarrow> config \<Rightarrow> 'v toml" where
  "render_config of_string of_u32 c =
     Table [(''symbols'', Array (map (\<lambda>x. Value (of_string x)) (cf_symbols c))),
            (''users'', Table (map (\<lambda>(k, u). (k, render_user of_string of_u32 u)) (cf_users c)))]"

lemma parse_rendered_symbols:
  assumes "\<And>x. to_string (of_string x) = Some x" and "distinct (acc @ xs)"
  shows "parse_all (parse_symbol to_string) (map (\<lambda>x. Value (of_string x)) xs) acc = Parsed (acc @ xs)"
  using assms(2)
  by (induction xs arbitrary: acc) (auto simp: parse_symbol_def assms(1) deref_def emplace_symbol_def)

lemma parse_rendered_user:
  assumes "\<And>x. to_string (of_string x) = Some x" and "\<And>n. to_u32 (of_u32 n) = Some n"
  shows "(case render_user of_string of_u32 u of Table al \<Rightarrow> parse_user to_string to_u32 al | _ \<Rightarrow> Undefined) =
    Parsed (u\<lparr>us_accounts := []\<rparr>)"
  by (cases u) (simp add: render_user_def parse_user_def parse_user_key_def empty_user_def deref_def assms)

lemma parse_rendered_users:
  assumes "\<And>x. to_string (of_string x) = Some x" and "\<And>n. to_u32 (of_u32 n) = Some n"
    and "distinct (map fst (acc @ us))" and "\<forall>(k, u) \<in> set us. us_accounts u = []"
  shows "parse_all (parse_user_entry to_string to_u32) (map (\<lambda>(k, u). (k, render_user of_string of_u32 u)) us) acc =
    Parsed (acc @ us)"
  using assms(3,4)
proof (induction us arbitrary: acc)
  case (Cons ku us)
  obtain k u where ku: "ku = (k, u)" by (cases ku)
  with Cons.prems(2) have u: "u\<lparr>us_accounts := []\<rparr> = u" by simp
  from ku Cons.prems(1) have "k \<notin> fst ` set acc" by auto
  then have "emplace_list acc k u = acc @ [(k, u)]"
    by (simp add: emplace_list_def map_of_eq_None_iff)
  moreover have "parse_user_entry to_string to_u32 (k, render_user of_string of_u32 u) acc = Parsed (emplace_list acc k u)"
    using parse_rendered_user [of to_string of_string to_u32 of_u32 u] assms(1,2) u
    by (simp add: parse_user_entry_def render_user_def)
  ultimately show ?case
    using Cons.IH [of "acc @ [ku]"] Cons.prems ku by simp
qed simp

text \<open>
  C34. Every configuration has a document that is read back as it is: symbols in their order, users under
  their keys, each with its fields, and nothing is left over. (The field \<open>accounts\<close> is not read.)
\<close>

theorem config_roundtrip:
  assumes "\<forall>x. to_string (of_string x) = Some x" and "\<forall>n. to_u32 (of_u32 n) = Some n"
    and "distinct (cf_symbols c)" and "distinct (map fst (cf_users c))"
    and "\<forall>(k, u) \<in> set (cf_users c). us_accounts u = []"
  shows "parse_config to_string to_u32 (render_config of_string of_u32 c) = Parsed c"
  using assms parse_rendered_symbols [of to_string of_string "[]" "cf_symbols c"]
    parse_rendered_users [of to_string of_string to_u32 of_u32 "[]" "cf_users c"]
  by (simp add: parse_config_def parse_symbols_def parse_users_def find_and_remove_def render_config_def check_empty_def)

definition demo_config :: config where
  "demo_config = \<lparr>cf_symbols = [''BTC.*'', ''ETH.*''],
     cf_users = [(''trader'', \<lparr>us_component = ''bridge'', us_username = ''alice'', us_password = ''secret'',
                               us_accounts = [], us_strategy_id = 42\<rparr>)]\<rparr>"

theorem config_roundtrip_witness:
  "parse_config (\<lambda>v. case v of Inl x \<Rightarrow> Some x | Inr n \<Rightarrow> None) (\<lambda>v. case v of Inl x \<Rightarrow> None | Inr n \<Rightarrow> Some n)
     (render_config Inl Inr demo_config) = Parsed demo_config"
  by (rule config_roundtrip) (simp_all add: demo_config_def)

section \<open>What is accepted\<close>

definition is_text :: "('v \<Rightarrow> string option) \<Rightarrow> 'v toml \<Rightarrow> bool" where
  "is_text to_string node \<longleftrightarrow> node_value to_string node \<noteq> None"

definition well_formed_field :: "('v \<Rightarrow> string option) \<Rightarrow> ('v \<Rightarrow> u32 option) \<Rightarrow> string \<times> 'v toml \<Rightarrow> bool" where
  "well_formed_field to_string to_u32 kv \<longleftrightarrow>
     (let (key, node) = kv
      in key = ''accounts'' \<or> key = ''strategy_id'' \<and> node_value to_u32 node \<noteq> None \<or>
         key \<in> {''component'', ''username'', ''password''} \<and> is_text to_string node)"

definition well_formed_user :: "('v \<Rightarrow> string option) \<Rightarrow> ('v \<Rightarrow> u32 option) \<Rightarrow> string \<times> 'v toml \<Rightarrow> bool" where
  "well_formed_user to_string to_u32 kv \<longleftrightarrow>
     (case snd kv of Table kvs \<Rightarrow> list_all (well_formed_field to_string to_u32) kvs | _ \<Rightarrow> False)"

definition well_formed_symbols :: "('v \<Rightarrow> string option) \<Rightarrow> 'v toml \<Rightarrow> bool" where
  "well_formed_symbols to_string node \<longleftrightarrow>
     (case node of Value v \<Rightarrow> is_text to_string node | Array ns \<Rightarrow> list_all (is_text to_string) ns | Table al \<Rightarrow> False)"

definition well_formed_users :: "('v \<Rightarrow> string option) \<Rightarrow> ('v \<Rightarrow> u32 option) \<Rightarrow> 'v toml \<Rightarrow> bool" where
  "well_formed_users to_string to_u32 node \<longleftrightarrow>
     (case node of Table us \<Rightarrow> list_all (well_formed_user to_string to_u32) us | _ \<Rightarrow> False)"

definition well_formed_document :: "('v \<Rightarrow> string option) \<Rightarrow> ('v \<Rightarrow> u32 option) \<Rightarrow> 'v toml \<Rightarrow> bool" where
  "well_formed_document to_string to_u32 root \<longleftrightarrow>
     (case root of
        Table al \<Rightarrow>
          list_all (\<lambda>kv. fst kv = ''symbols'' \<or> fst kv = ''users'') al \<and>
          (case map_of al ''symbols'' of None \<Rightarrow> False | Some n \<Rightarrow> well_formed_symbols to_string n) \<and>
          (case map_of al ''users'' of None \<Rightarrow> False | Some n \<Rightarrow> well_formed_users to_string to_u32 n)
      | _ \<Rightarrow> False)"

lemma parse_all_accepts:
  assumes "\<And>x r. (\<exists>r'. f x r = Parsed r') \<longleftrightarrow> P x"
  shows "(\<exists>r'. parse_all f xs r = Parsed r') \<longleftrightarrow> list_all P xs"
proof (induction xs arbitrary: r)
  case (Cons x xs)
  have "(\<exists>r'. parse_all f (x # xs) r = Parsed r') \<longleftrightarrow>
      (\<exists>q. f x r = Parsed q \<and> (\<exists>r'. parse_all f xs q = Parsed r'))"
    by auto
  then show ?case by (simp add: Cons.IH assms [symmetric, of x r])
qed simp

lemma parse_symbol_accepts: "(\<exists>r'. parse_symbol to_string node r = Parsed r') \<longleftrightarrow> is_text to_string node"
  by (auto simp: parse_symbol_def is_text_def)

lemma parse_user_key_accepts:
  "(\<exists>u'. parse_user_key to_string to_u32 kv u = Parsed u') \<longleftrightarrow> well_formed_field to_string to_u32 kv"
  by (cases kv) (auto simp: parse_user_key_def well_formed_field_def is_text_def Let_def)

lemma parse_user_entry_accepts:
  "(\<exists>r'. parse_user_entry to_string to_u32 kv r = Parsed r') \<longleftrightarrow> well_formed_user to_string to_u32 kv"
  by (auto simp: parse_user_entry_def parse_user_def well_formed_user_def parse_user_key_accepts
      split: toml.split intro: iffD2 [OF parse_all_accepts [OF parse_user_key_accepts]]
      dest: iffD1 [OF parse_all_accepts [OF parse_user_key_accepts], OF exI])

lemma parse_symbols_accepts:
  "(\<exists>s. parse_symbols to_string (Table al) = Parsed (s, rest)) \<longleftrightarrow>
     (\<exists>n. map_of al ''symbols'' = Some n \<and> well_formed_symbols to_string n) \<and>
     rest = Table (AList.delete ''symbols'' al)"
  by (auto simp: parse_symbols_def find_and_remove_def well_formed_symbols_def
      parse_symbol_accepts split: option.split toml.split
      intro: iffD2 [OF parse_all_accepts [OF parse_symbol_accepts]]
      dest: iffD1 [OF parse_all_accepts [OF parse_symbol_accepts], OF exI])

lemma parse_users_accepts:
  "(\<exists>us. parse_users to_string to_u32 (Table al) = Parsed (us, rest)) \<longleftrightarrow>
     (\<exists>n. map_of al ''users'' = Some n \<and> well_formed_users to_string to_u32 n) \<and>
     rest = Table (AList.delete ''users'' al)"
  by (auto simp: parse_users_def find_and_remove_def well_formed_users_def
      split: option.split toml.split intro: iffD2 [OF parse_all_accepts [OF parse_user_entry_accepts]]
      dest: iffD1 [OF parse_all_accepts [OF parse_user_entry_accepts], OF exI])

lemma check_empty_accepts:
  "check_empty (Table (AList.delete k (AList.delete k' al))) = Parsed () \<longleftrightarrow> list_all (\<lambda>kv. fst kv = k' \<or> fst kv = k) al"
  by (induction al) (auto simp: check_empty_def split: if_splits)

lemma parse_config_parts:
  "(\<exists>c. parse_config to_string to_u32 root = Parsed c) \<longleftrightarrow>
     (\<exists>rest. (\<exists>s. parse_symbols to_string root = Parsed (s, rest)) \<and>
       (\<exists>rest'. (\<exists>us. parse_users to_string to_u32 rest = Parsed (us, rest')) \<and> check_empty rest' = Parsed ()))"
  by (fastforce simp: parse_config_def)

lemma parse_config_accepts:
  "(\<exists>c. parse_config to_string to_u32 root = Parsed c) \<longleftrightarrow> well_formed_document to_string to_u32 root"
proof (cases root)
  case (Table al)
  have "map_of (AList.delete ''symbols'' al) ''users'' = map_of al ''users''" by (simp add: delete_conv')
  then show ?thesis
    by (auto simp: Table parse_config_parts parse_symbols_accepts parse_users_accepts check_empty_accepts
        well_formed_document_def split: option.split)
qed (simp_all add: parse_config_parts parse_symbols_def find_and_remove_def well_formed_document_def)

text \<open>
  C33. Exactly the well-formed documents are accepted: a table with the keys \<open>symbols\<close> and \<open>users\<close> and no
  other, the symbols a string or an array of strings, the users a table of tables whose keys are known and
  whose values have the type of the field. Anything else is refused.
\<close>

theorem config_accepts_well_formed:
  "(\<exists>c. parse_config to_string to_u32 root = Parsed c) \<longleftrightarrow> well_formed_document to_string to_u32 root"
  by (rule parse_config_accepts)

section \<open>From the document to the logon\<close>

text \<open>The table of users, as a lookup in the list: the first entry of a user name counts.\<close>

lemma fold_try_emplace: "fold (\<lambda>(k, v) m. try_emplace m k v) al m = map_of al ++ m"
proof (induction al arbitrary: m)
  case (Cons kv al)
  have "map_of al ++ try_emplace m k v = (map_of al)(k \<mapsto> v) ++ m" for k v
    by (auto simp: try_emplace_def map_add_def split: option.splits)
  with Cons show ?case by (cases kv) (simp add: fun_upd_def)
qed simp

lemma create_user_table_lookup: "create_user_table users = map_of users"
proof -
  have "(\<lambda>(k, p, i) m. try_emplace m k (p, i)) = (\<lambda>(k, v) (m :: string \<rightharpoonup> string \<times> u32). try_emplace m k v)"
    by (simp add: fun_eq_iff)
  then show ?thesis using fold_try_emplace [of users Map.empty] by (simp add: create_user_table_def)
qed

lemma map_of_find:
  "map_of (map (\<lambda>(_, u). (us_username u, us_password u, us_strategy_id u)) us) name =
     map_option (\<lambda>(_, u). (us_password u, us_strategy_id u)) (find (\<lambda>(_, u). us_username u = name) us)"
  by (induction us) auto

text \<open>
  With the tables that the proxy starts with, a logon is decided by the first configured user of that
  name: without one the user name is invalid, with one the password is checked against the configured one,
  and the strategy id is the configured one.
\<close>

theorem configured_user_logs_on:
  "fst (session_logon valid session_id name password raw_data (new_shared (login_users c) (cf_symbols c) now)) =
     (case find (\<lambda>(_, u). us_username u = name) (cf_users c) of
        None \<Rightarrow> Inl error_invalid_username
      | Some (_, u) \<Rightarrow>
          if valid password (us_password u) raw_data then Inr (us_strategy_id u) else Inl error_invalid_password)"
  by (simp add: session_logon_result new_shared_def create_user_table_lookup login_users_def map_of_find split: option.split)

end
