(* ===== verification/No_Abort.thy ===== *)
theory No_Abort
  imports Routing
begin

text \<open>
  Who can end the process: \<open>log::fatal\<close> in a handler ends it for every client. Which messages can lead there is
  shown for the handlers one by one and then for the events.
\<close>

section \<open>Operations that do not abort\<close>

fun aborts :: "'a result \<Rightarrow> bool" where
  "aborts (Fatal x) \<longleftrightarrow> True"
| "aborts (Ok s) \<longleftrightarrow> False"
| "aborts (Throw x s) \<longleftrightarrow> False"

lemma aborts_and_then: "aborts (and_then m f) \<longleftrightarrow> aborts m \<or> (\<exists>s. m = Ok s \<and> aborts (f s))"
  by (cases m) auto

lemma returns_not_aborts: "returns P m \<Longrightarrow> \<not> aborts m"
  by (cases m) auto

lemma aborts_dispatch [simp]: "\<not> aborts (dispatch_to_server e m s)"
  by (simp add: dispatch_to_server_sends)

lemma aborts_refuse [simp]: "\<not> aborts (refuse e h sid i what s)"
  by (simp add: refuse_def)

lemma aborts_rejects [simp]:
  "\<not> aborts (reject_security_list e v1 sid s)" "\<not> aborts (reject_security_definition e v2 sid s)"
  "\<not> aborts (reject_security_status e v3 sid s)" "\<not> aborts (reject_market_data e v4 sid r4 what s)"
  "\<not> aborts (reject_order_status e v5 sid r5 what s)" "\<not> aborts (reject_new_order e v6 sid r6 what s)"
  "\<not> aborts (reject_replace e v7 sid st7 r7 what s)" "\<not> aborts (reject_cancel e v8 sid st8 r8 what s)"
  "\<not> aborts (reject_mass_status e v9 sid r9 what s)" "\<not> aborts (reject_mass_cancel e v10 sid r10 what s)"
  "\<not> aborts (reject_positions e v11 sid what s)" "\<not> aborts (reject_trades e v12 sid what s)"
  by (simp_all add: reject_security_list_def reject_security_definition_def reject_security_status_def
      reject_market_data_def reject_order_status_def reject_new_order_def reject_replace_def reject_cancel_def
      reject_mass_status_def reject_mass_cancel_def reject_positions_def reject_trades_def)

lemma aborts_switch:
  "aborts (subscription_switch t already x y z w s) \<longleftrightarrow>
     (case t of SNAPSHOT \<Rightarrow> if already then aborts (y s) else aborts (w False s)
      | SNAPSHOT_UPDATES \<Rightarrow> if already then aborts (y s) else aborts (w True s)
      | UNSUBSCRIBE \<Rightarrow> if already then aborts (w False s) else aborts (z s)
      | _ \<Rightarrow> aborts (x s))"
  by (simp add: subscription_switch_def split: subscription_request_type.split)

lemma aborts_sent [simp]:
  "\<not> aborts (dispatch_subscription e r sid cid already mk ka s)"
  "\<not> aborts (dispatch_trades e v sid already ka s)"
  by (simp_all add: dispatch_subscription_def dispatch_trades_def Let_def aborts_and_then)

section \<open>Requests\<close>

text \<open>An unsubscribe from positions whose request has lost its route to the client.\<close>

definition dangling :: "request_for_positions \<Rightarrow> u64 \<Rightarrow> sys \<Rightarrow> bool" where
  "dangling v sid s \<longleftrightarrow> get_subscription_request_type (rfp_subscription_request_type v) = UNSUBSCRIBE \<and>
     (\<exists>rid. find_client_req_id sid (rfp_pos_req_id v) (mappings s POS_REQ_ID) = Some rid \<and>
       find_req_id POS_REQ_ID rid s = None)"

lemma aborts_positions:
  assumes "aborts (dispatch_positions e v sid ka s)"
  shows "\<exists>rid. find_client_req_id sid (rfp_pos_req_id v) (mappings s POS_REQ_ID) = Some rid \<and>
    find_req_id POS_REQ_ID rid s = None"
  using assms
  by (auto simp: dispatch_positions_def Let_def aborts_and_then dispatch_to_server_sends set_keep_alive_def find_req_id_def
      split: option.splits if_splits)

lemma aborts_request_for_positions:
  assumes "aborts (on_request_for_positions e v sid s)"
  shows "dangling v sid s"
proof -
  let ?s = "open_table POS_REQ_ID sid s"
  from assms have t: "get_subscription_request_type (rfp_subscription_request_type v) = UNSUBSCRIBE \<or>
      \<not> req_id_in_use POS_REQ_ID sid (rfp_pos_req_id v) s" and "\<exists>ka. aborts (dispatch_positions e v sid ka ?s)"
    by (auto simp: on_request_for_positions_def Let_def aborts_switch split: if_splits subscription_request_type.splits)
  from aborts_positions this(2) obtain rid where "find_client_req_id sid (rfp_pos_req_id v) (mappings s POS_REQ_ID) = Some rid"
    "find_req_id POS_REQ_ID rid s = None" by fastforce
  with t show ?thesis by (auto simp: dangling_def req_id_in_use_def)
qed

lemma requests_do_not_abort [simp]:
  "\<not> aborts (on_security_list_request e v1 sid s)" "\<not> aborts (on_security_definition_request e v2 sid s)"
  "\<not> aborts (on_security_status_request e v3 sid s)" "\<not> aborts (on_market_data_request e v4 sid s)"
  "\<not> aborts (on_order_status_request e v5 sid s)" "\<not> aborts (on_new_order_single e v6 sid s)"
  "\<not> aborts (on_order_cancel_replace_request e v7 sid s)" "\<not> aborts (on_order_cancel_request e v8 sid s)"
  "\<not> aborts (on_order_mass_status_request e v9 sid s)" "\<not> aborts (on_order_mass_cancel_request e v10 sid s)"
  "\<not> aborts (on_trade_capture_report_request e v12 sid s)"
  by (simp_all add: on_security_list_request_def on_security_definition_request_def on_security_status_request_def
      on_market_data_request_def on_order_status_request_def on_new_order_single_def on_order_cancel_replace_request_def
      on_order_cancel_request_def on_order_mass_status_request_def on_order_mass_cancel_request_def
      on_trade_capture_report_request_def Let_def aborts_switch aborts_and_then split: subscription_request_type.split)

lemma when_ready_aborts:
  assumes "good s" and "aborts (when_ready e h sid act s)"
  shows "\<exists>c. session_of sid s = Some c \<and> cs_state c = READY \<and> aborts (act c s)"
proof (rule ccontr)
  assume not: "\<not> ?thesis"
  from assms(2) obtain c where c: "session_of sid s = Some c" "cs_state c \<noteq> ZOMBIE"
    by (cases "session_of sid s") (auto simp: when_ready_def split: client_state.splits)
  then have st: "state_of sid s = Some (cs_state c)" by (simp add: state_of_def)
  have "\<not> aborts (make_zombie e sid s)"
    using st by (intro returns_not_aborts [OF make_zombie_returns [OF assms(1)]]) simp
  moreover have "\<not> aborts (send_reject_and_close e h SESSION_REJECT_OTHER what sid s)" for what
    using returns_not_aborts [OF send_reject_and_close_returns [OF assms(1) st c(2)]] .
  ultimately show False
    using c assms(2) not by (auto simp: when_ready_def split: client_state.splits)
qed

section \<open>Messages of a client\<close>

text \<open>A message that may end the process: an unsubscribe from positions.\<close>

fun may_dangle :: "msg \<Rightarrow> bool" where
  "may_dangle (Request_For_Positions v) \<longleftrightarrow> get_subscription_request_type (rfp_subscription_request_type v) = UNSUBSCRIBE"
| "may_dangle m \<longleftrightarrow> False"

lemma logout_does_not_abort:
  assumes "good s"
  shows "\<not> aborts (session_logout_request e h sid s)"
proof
  assume "aborts (session_logout_request e h sid s)"
  then obtain c where c: "session_of sid s = Some c" "cs_state c = READY"
    and a: "aborts (on_user_request e (user_request_of LOG_OFF_USER (cs_party_id c) (fresh_request_id s)) sid (take_request_id s))"
    unfolding session_logout_request_def
    by (auto simp: aborts_and_then Let_def dest!: when_ready_aborts [OF assms])
  from c goodD(5) [OF assms] have "user_client_to_server s sid = None" by (auto simp: undecided_def state_of_def)
  with a show False by (simp add: on_user_request_def user_request_of_def)
qed

lemma session_messages_do_not_abort:
  assumes "good s"
  shows "\<not> aborts (session_test_request e v1 h sid s)" "\<not> aborts (session_resend_request e h sid s)"
    "\<not> aborts (session_heartbeat e h sid s)" "\<not> aborts (close e sid s)"
proof -
  have zombie: "\<not> aborts (make_zombie e sid s)"
    using returns_not_aborts [OF make_zombie_returns [OF assms], of sid e]
    by (cases "session_of sid s") (auto simp: make_zombie_def state_of_def)
  have reject: "\<not> aborts (send_reject_and_close e h SESSION_REJECT_OTHER what sid s)"
    if "session_of sid s = Some c" "cs_state c \<noteq> ZOMBIE" for c what
    using that by (intro returns_not_aborts [OF send_reject_and_close_returns [OF assms]]) (auto simp: state_of_def)
  show "\<not> aborts (session_test_request e v1 h sid s)" "\<not> aborts (session_resend_request e h sid s)"
    "\<not> aborts (session_heartbeat e h sid s)"
    using reject zombie
    by (cases "session_of sid s";
      auto simp: session_test_request_def session_resend_request_def session_heartbeat_def Let_def split: client_state.splits)+
  show "\<not> aborts (close e sid s)"
    using returns_not_aborts [OF close_returns [OF assms], of sid e]
    by (cases "session_of sid s") (auto simp: close_def state_of_def)
qed

lemma business_does_not_abort:
  assumes "good s"
  shows "\<not> aborts (session_security_list_request e v1 h sid s)"
    and "\<not> aborts (session_security_definition_request e v2 h sid s)"
    and "\<not> aborts (session_security_status_request e v3 h sid s)"
    and "\<not> aborts (session_market_data_request e v4 h sid s)"
    and "\<not> aborts (session_order_status_request e v5 h sid s)"
    and "\<not> aborts (session_order_mass_status_request e v6 h sid s)"
    and "\<not> aborts (session_new_order_single e v7 h sid s)"
    and "\<not> aborts (session_order_cancel_request e v8 h sid s)"
    and "\<not> aborts (session_order_cancel_replace_request e v9 h sid s)"
    and "\<not> aborts (session_order_mass_cancel_request e v10 h sid s)"
    and "\<not> aborts (session_trade_capture_report_request e v12 h sid s)"
  unfolding session_security_list_request_def session_security_definition_request_def
    session_security_status_request_def session_market_data_request_def session_order_status_request_def
    session_order_mass_status_request_def session_new_order_single_def session_order_cancel_request_def
    session_order_cancel_replace_request_def session_order_mass_cancel_request_def
    session_trade_capture_report_request_def add_party_ids_def
  by (auto dest!: when_ready_aborts [OF assms] split: if_splits)

lemma positions_abort:
  "good s \<Longrightarrow> aborts (session_request_for_positions e v h sid s) \<Longrightarrow> dangling v sid s"
  unfolding session_request_for_positions_def add_party_ids_def
  by (auto simp: dangling_def dest!: when_ready_aborts aborts_request_for_positions split: if_splits)

lemma session_dispatch_aborts:
  assumes "good s" and "aborts (session_dispatch e h sid m s)"
  shows "may_dangle m"
proof -
  note logon = returns_not_aborts [OF session_logon_request_returns [OF assms(1)]]
  show ?thesis
    using assms(2)
    by (cases m) (simp_all add: business_does_not_abort [OF assms(1)] session_messages_do_not_abort [OF assms(1)]
        logout_does_not_abort [OF assms(1)] logon session_trading_session_status_request_def session_reject_def
        positions_abort [OF assms(1), unfolded dangling_def])
qed

fun names :: "(msg \<Rightarrow> bool) \<Rightarrow> frame_in \<Rightarrow> bool" where
  "names P (Decoded h m) \<longleftrightarrow> P m"
| "names P (Undecodable h) \<longleftrightarrow> False"
| "names P Unreadable \<longleftrightarrow> False"

lemma session_frame_aborts:
  assumes "good s" and "aborts (session_frame e sid f s)"
  shows "names may_dangle f"
proof (cases f)
  case (Decoded h m)
  let ?s = "update_session sid (\<lambda>c. if cs_comp_id c = [] then c\<lparr>cs_comp_id := hd_sender_comp_id h\<rparr> else c) (session_check h sid s)"
  have "effects e s ?s" unfolding session_check_def by (intro eff_noted effects_refl) simp_all
  from session_dispatch_aborts [OF effects_good [OF this assms(1)], of e h sid m] assms(2) Decoded show ?thesis
    by (simp add: session_frame_def session_parse_def Let_def)
qed (use assms(2) in \<open>simp_all add: session_frame_def session_parse_def Let_def\<close>)

lemma session_frames_abort:
  assumes "good s" and "state_of sid s \<noteq> Some ZOMBIE" and "aborts (session_frames e sid fs s)"
  shows "list_ex (names may_dangle) fs"
  using assms
proof (induction fs arbitrary: s)
  case (Cons f fs)
  show ?case
  proof (cases "session_frame e sid f s")
    case (Ok t)
    with session_frame_leaves [OF Cons.prems(1,2), of e f] have g: "good t"
      using effects_good [OF _ Cons.prems(1)] by simp
    from Ok Cons.prems(3) have "aborts (with_session sid (\<lambda>c s. if cs_state c = ZOMBIE then Ok s else session_frames e sid fs s) t)"
      by simp
    then have "state_of sid t \<noteq> Some ZOMBIE \<and> aborts (session_frames e sid fs t)"
      by (cases "session_of sid t") (auto simp: state_of_def split: if_splits)
    with Cons.IH [OF g] show ?thesis by simp
  next
    case (Fatal x)
    with session_frame_aborts [OF Cons.prems(1), of e sid f] show ?thesis by simp
  qed (use Cons.prems(3) in simp)
qed simp

lemma session_read_aborts:
  assumes "good s" and "aborts (session_read e fs sid s)"
  shows "list_ex (names may_dangle) fs"
proof -
  from assms(2) obtain c where c: "session_of sid s = Some c" "cs_state c \<noteq> ZOMBIE"
    by (cases "session_of sid s") (auto simp: session_read_def split: if_splits)
  then have st: "state_of sid s \<noteq> Some ZOMBIE" by (simp add: state_of_def)
  show ?thesis
  proof (cases "session_frames e sid fs s")
    case (Throw x t)
    with session_frames_leaves [OF assms(1) st, of e fs] have "good t" using effects_good [OF _ assms(1)] by simp
    with Throw c assms(2) session_messages_do_not_abort(4) show ?thesis by (simp add: session_read_def)
  qed (use c assms session_frames_abort [OF assms(1) st, of e fs] in \<open>simp_all add: session_read_def\<close>)
qed

section \<open>Messages of the server\<close>

fun is_user_response :: "msg \<Rightarrow> bool" where
  "is_user_response (User_Response v) \<longleftrightarrow> True"
| "is_user_response m \<longleftrightarrow> False"

lemma server_frame_aborts: "aborts (server_frame e f s) \<Longrightarrow> names is_user_response f"
proof (cases f)
  case (Decoded h m)
  assume "aborts (server_frame e f s)"
  with Decoded show ?thesis by (cases m) (simp_all add: server_frame_def)
qed (simp_all add: server_frame_def)

lemma server_read_aborts: "aborts (server_read e fs s) \<Longrightarrow> list_ex (names is_user_response) fs"
proof (induction fs arbitrary: s)
  case (Cons f fs)
  then show ?case
    using server_frame_aborts [of e f s] by (cases "server_frame e f s") (auto simp: server_read_def aborts_and_then)
qed (simp add: server_read_def)

section \<open>Events\<close>

lemma auth_text_does_not_abort: "\<not> aborts (auth_text payload s)"
proof -
  have entry: "\<not> aborts (auth_apply a s)" for a s by (simp add: auth_apply_def split: option.split)
  have "\<not> aborts (in_order (map auth_apply entries) s)" for entries
    by (induction entries arbitrary: s) (auto simp: aborts_and_then entry)
  then show ?thesis by (simp add: auth_text_def split: option.split)
qed

lemma event_aborts:
  assumes "good s" and "aborts (handle_event e ev s)"
  shows "(\<exists>fs. ev = Server_Read fs \<and> list_ex (names is_user_response) fs) \<or>
    (\<exists>sid fs. ev = Client_Read sid fs \<and> list_ex (names may_dangle) fs)"
proof (cases ev)
  case (Timer_Event now)
  with assms returns_not_aborts [OF controller_timer_returns [OF assms(1)]] show ?thesis by auto
next
  case (Client_Disconnected sid)
  with assms returns_not_aborts [OF session_disconnected_returns [OF assms(1)]] show ?thesis by auto
next
  case Server_Disconnected
  with assms returns_not_aborts [OF server_disconnected_returns [OF assms(1)]] show ?thesis by auto
qed (use assms session_read_aborts server_read_aborts auth_text_does_not_abort in auto)

text \<open>
  C13. What can end the process for everybody by \<open>log::fatal\<close>: in a reachable state only an event that brings a user
  response of the bridge, or a client's unsubscribe from positions. Nothing else that a client sends, no loss of a
  connection, no timer and no update of the users can.
\<close>

theorem who_can_end_the_process:
  assumes "reachable e s" and "handle_event e ev (at_time system realtime s) = Fatal what"
  shows "(\<exists>fs h v. ev = Server_Read fs \<and> Decoded h (User_Response v) \<in> set fs) \<or>
    (\<exists>sid fs h v. ev = Client_Read sid fs \<and> Decoded h (Request_For_Positions v) \<in> set fs \<and>
      get_subscription_request_type (rfp_subscription_request_type v) = UNSUBSCRIBE)"
proof -
  have response: "\<exists>h v. f = Decoded h (User_Response v)" if "names is_user_response f" for f
    using that by (cases f) (auto elim: is_user_response.elims)
  have dangle: "\<exists>h v. f = Decoded h (Request_For_Positions v) \<and>
      get_subscription_request_type (rfp_subscription_request_type v) = UNSUBSCRIBE" if "names may_dangle f" for f
    using that by (cases f) (auto elim: may_dangle.elims)
  have "good (at_time system realtime s)" by (rule effects_good [OF at_time_effects reachable_good [OF assms(1)]])
  from event_aborts [OF this, of e ev] assms(2) show ?thesis
    by (fastforce simp: list_ex_iff dest: response dangle)
qed

theorem who_can_end_the_process_witness:
  "\<exists>fs h v. Server_Read [frame ''BRIDGE'' 9 (demo_user_response ''unknown'' ''42'' LOGGED_IN)] = Server_Read fs \<and>
    Decoded h (User_Response v) \<in> set fs"
proof -
  have "user_server_to_client demo_start i = None" for i by (simp add: demo_start_def create_sys_def new_sys_def)
  then have "handle_event demo_env (Server_Read [frame ''BRIDGE'' 9 (demo_user_response ''unknown'' ''42'' LOGGED_IN)])
      (at_time 1 1 demo_start) = Fatal ''Unexpected''"
    by (simp add: server_read_def server_frame_def frame_def demo_user_response_def server_check_def on_user_response_def
        at_time_def Let_def)
  from who_can_end_the_process [OF demo_start_reachable this] show ?thesis by blast
qed

end
