(* ===== verification/Application.thy ===== *)
theory Application
  imports Config No_Abort
begin

text \<open>
  The program from its start to its end (\<open>application.cpp\<close>, the constructor and \<open>run\<close> in
  \<open>controller.cpp\<close>): the configuration is read, the controller is created and its event loop runs until a
  signal stops it or an exception leaves it.

  The event loop is the engine's (\<open>io::Context\<close>): it calls the handler of one event after the other, it
  returns after \<open>stop\<close>, and an exception of a handler leaves it.
\<close>

section \<open>The event loop\<close>

text \<open>What the engine reports: an event at the two clocks, or a signal to terminate.\<close>

datatype loop_event = Io_Event nanos nanos event | Signal_Event

text \<open>
  An event that cannot happen in a state is not reported there: nobody connects without a listener, and there
  is nothing from an authentication service without a session with it.
\<close>

fun has_source :: "env \<Rightarrow> event \<Rightarrow> bool" where
  "has_source e Client_Connected \<longleftrightarrow> create_listener e \<noteq> None"
| "has_source e Auth_Ready \<longleftrightarrow> create_auth_session e \<noteq> None"
| "has_source e (Auth_Text payload) \<longleftrightarrow> create_auth_session e \<noteq> None"
| "has_source e _ \<longleftrightarrow> True"

definition reported :: "env \<Rightarrow> event \<Rightarrow> sys \<Rightarrow> bool" where
  "reported e ev s \<longleftrightarrow> has_source e ev \<and> enabled ev s"

text \<open>\<open>context_.dispatch()\<close> on the events so far: \<open>None\<close> while it waits for the next one.\<close>

fun context_dispatch :: "env \<Rightarrow> loop_event list \<Rightarrow> sys \<Rightarrow> sys result option" where
  "context_dispatch e [] s = None"
| "context_dispatch e (Signal_Event # evs) s = Some (Ok s)"
| "context_dispatch e (Io_Event system realtime ev # evs) s =
     (if \<not> reported e ev s then context_dispatch e evs s
      else case handle_event e ev (at_time system realtime s) of
        Ok s \<Rightarrow> context_dispatch e evs s
      | Throw what s \<Rightarrow> Some (Throw what s)
      | Fatal what \<Rightarrow> Some (Fatal what))"

section \<open>The program\<close>

text \<open>
  How the program is: waiting for events, at its end with an exit code, ended by \<open>log::fatal\<close>, left by an
  exception that \<open>main\<close> does not catch, or without a specified behaviour.
\<close>

datatype outcome = Running | Exit_Success | Exit_Failure | Aborted string | Escaped | Unspecified

text \<open>
  The functions of other libraries, with \<open>toml::parse_file\<close> and the conversions of its values. For those that
  parse or create something the proxy only hands on, it matters whether they return or throw: a regular
  expression, an address, the event loop, the signals and the timer, the connections and the listener, and
  the calls that start and stop the connections.
\<close>

record 'v library =
  lib_is_valid :: "msg \<Rightarrow> bool"
  lib_valid_req_id :: "string \<Rightarrow> bool"
  lib_is_order_complete :: "ord_status \<Rightarrow> bool"
  lib_signature :: "string \<Rightarrow> string \<Rightarrow> string"
  lib_from_chars :: "string \<Rightarrow> int"
  lib_parse_file :: "string \<Rightarrow> 'v toml option"
  lib_to_string :: "'v \<Rightarrow> string option"
  lib_to_u32 :: "'v \<Rightarrow> u32 option"
  lib_regex :: "string \<Rightarrow> bool"
  lib_uri :: "string \<Rightarrow> bool"
  lib_network_address :: "string \<Rightarrow> bool"
  lib_create_context :: bool
  lib_create_signals :: bool
  lib_create_timer :: "nanos \<Rightarrow> bool"
  lib_create_web_socket :: "web_socket_config \<Rightarrow> bool"
  lib_create_connection_manager :: "connection_config \<Rightarrow> bool"
  lib_create_tcp_listener :: "string \<Rightarrow> bool"
  lib_start :: bool
  lib_stop :: bool

section \<open>Running\<close>

text \<open>
  \<open>Start\<close> and \<open>Stop\<close> only start and stop the connections (the library's calls), and the sessions of the
  clients ignore \<open>Stop\<close>.
\<close>

definition dispatch_start :: "'v library \<Rightarrow> sys \<Rightarrow> sys result" where
  "dispatch_start lib s = (if lib_start lib then Ok s else Throw ''start'' s)"

definition session_stop :: "u64 \<Rightarrow> sys \<Rightarrow> sys" where
  "session_stop sid s = s"

definition dispatch_stop :: "'v library \<Rightarrow> sys \<Rightarrow> sys result" where
  "dispatch_stop lib s =
     (if lib_stop lib then Ok (fold session_stop (map fst (sessions s)) s) else Throw ''stop'' s)"

definition controller_run :: "'v library \<Rightarrow> env \<Rightarrow> loop_event list \<Rightarrow> sys \<Rightarrow> sys result option" where
  "controller_run lib e evs s =
     (case dispatch_start lib s of
        Ok s \<Rightarrow> map_option (\<lambda>r. and_then r (dispatch_stop lib)) (context_dispatch e evs s)
      | r \<Rightarrow> Some r)"

section \<open>Construction\<close>

text \<open>What stays as it is after the construction.\<close>

definition create_env :: "'v library \<Rightarrow> settings \<Rightarrow> crypto_method \<Rightarrow> env" where
  "create_env lib st mth =
     settings.extend st
       (env.fields mth (lib_is_valid lib) (lib_valid_req_id lib) (lib_is_order_complete lib)
         (lib_signature lib) (lib_from_chars lib))"

text \<open>
  The members of the controller with a connection: the address is parsed, then the connection is created. There is
  no authentication session and no listener without an address.
\<close>

definition construct_auth_session :: "'v library \<Rightarrow> settings \<Rightarrow> unit built" where
  "construct_auth_session lib st =
     (case create_auth_session st of
        None \<Rightarrow> Built ()
      | Some cfg \<Rightarrow> built_then (may_throw (lib_uri lib (auth_uri st))) (\<lambda>_. may_throw (lib_create_web_socket lib cfg)))"

definition construct_server_session :: "'v library \<Rightarrow> settings \<Rightarrow> string list \<Rightarrow> unit built" where
  "construct_server_session lib st connections =
     (case create_server_session st connections of
        Inl what \<Rightarrow> Broken what
      | Inr cfg \<Rightarrow> built_then (may_throw (list_all (lib_uri lib) (cc_uris cfg)))
          (\<lambda>_. may_throw (lib_create_connection_manager lib cfg)))"

definition construct_listener :: "'v library \<Rightarrow> settings \<Rightarrow> unit built" where
  "construct_listener lib st =
     (case create_listener st of
        None \<Rightarrow> Built ()
      | Some address \<Rightarrow> built_then (may_throw (lib_network_address lib address))
          (\<lambda>_. may_throw (lib_create_tcp_listener lib address)))"

definition timer_frequency :: nanos where
  "timer_frequency = 100000000"

text \<open>
  The constructor of the controller, in the order of its members: the signals and the timer, the shared state with
  the check of passwords, the authentication session, the upstream session, the manager with the listener.
\<close>

definition create_controller ::
  "'v library \<Rightarrow> settings \<Rightarrow> config \<Rightarrow> string list \<Rightarrow> nanos \<Rightarrow> (env \<times> sys) built" where
  "create_controller lib st c connections now =
     built_then (may_throw (lib_create_signals lib)) (\<lambda>_.
     built_then (may_throw (lib_create_timer lib timer_frequency)) (\<lambda>_.
     built_then (create_shared (lib_regex lib) (client_auth_method st) (login_users c) (cf_symbols c) now) (\<lambda>(sh, mth).
     built_then (construct_auth_session lib st) (\<lambda>_.
     built_then (construct_server_session lib st connections) (\<lambda>_.
     built_then (construct_listener lib st) (\<lambda>_.
       Built (create_env lib st mth, new_sys sh now)))))))"

definition exit_of :: "sys result option \<Rightarrow> outcome" where
  "exit_of r =
     (case r of None \<Rightarrow> Running | Some (Ok s) \<Rightarrow> Exit_Success | Some (Throw what s) \<Rightarrow> Exit_Failure
      | Some (Fatal what) \<Rightarrow> Aborted what)"

text \<open>
  \<open>Application::main\<close>. When \<open>toml::parse_file\<close> or the creation of the event loop throws, the exception leaves the
  program, since these calls are outside of the block with the handlers; what the controller throws, from its
  constructor on, is a failure.
\<close>

definition application_main :: "'v library \<Rightarrow> flags \<Rightarrow> string list \<Rightarrow> nanos \<Rightarrow> loop_event list \<Rightarrow> outcome" where
  "application_main lib f connections now evs =
     (let st = settings_create f
      in case lib_parse_file lib (config_file st) of
           None \<Rightarrow> Escaped
         | Some root \<Rightarrow>
             (case parse_config (lib_to_string lib) (lib_to_u32 lib) root of
                Rejected what \<Rightarrow> Aborted what
              | Undefined \<Rightarrow> Unspecified
              | Parsed c \<Rightarrow>
                  if \<not> lib_create_context lib then Escaped
                  else case create_controller lib st c connections now of
                    Thrown \<Rightarrow> Exit_Failure
                  | Broken what \<Rightarrow> Aborted what
                  | Built (e, s) \<Rightarrow> exit_of (controller_run lib e evs s)))"

section \<open>How it starts\<close>

lemma parse_method_known:
  "(\<exists>m. parse_method mth = Some m) \<longleftrightarrow> mth \<in> {[], ''hmac_sha256'', ''hmac_sha256_ts''}"
  by (auto simp: parse_method_def)

text \<open>The calls of the libraries that parse and create things return: those with which the program starts.\<close>

definition libraries_return :: "'v library \<Rightarrow> flags \<Rightarrow> string list \<Rightarrow> bool" where
  "libraries_return lib f connections \<longleftrightarrow>
     (let st = settings_create f
      in lib_create_context lib \<and> lib_create_signals lib \<and> lib_create_timer lib timer_frequency \<and>
        (auth_uri f \<noteq> [] \<longrightarrow> lib_uri lib (auth_uri f) \<and> lib_create_web_socket lib (create_connection st (auth_uri f))) \<and>
        list_all (\<lambda>uri. lib_uri lib uri \<and> lib_create_connection_manager lib (create_connection_manager st uri)) connections \<and>
        (client_listen_address f \<noteq> [] \<longrightarrow> lib_network_address lib (client_listen_address f) \<and>
           lib_create_tcp_listener lib (client_listen_address f)) \<and>
        lib_start lib)"

lemma create_shared_accepts:
  "create_shared compiles method users symbols now = Built (sh, mth) \<longleftrightarrow>
     list_all compiles symbols \<and> parse_method method = Some mth \<and> sh = new_shared users symbols now"
  by (auto simp: create_shared_def create_regex_symbols_def split: option.splits if_splits)

lemma constructs:
  "construct_auth_session lib st = Built () \<longleftrightarrow>
     (auth_uri st \<noteq> [] \<longrightarrow> lib_uri lib (auth_uri st) \<and> lib_create_web_socket lib (create_connection st (auth_uri st)))"
  "construct_server_session lib st connections = Built () \<longleftrightarrow> length connections = 1 \<and>
     list_all (\<lambda>uri. lib_uri lib uri \<and> lib_create_connection_manager lib (create_connection_manager st uri)) connections"
  "construct_listener lib st = Built () \<longleftrightarrow> (client_listen_address st \<noteq> [] \<longrightarrow>
     lib_network_address lib (client_listen_address st) \<and> lib_create_tcp_listener lib (client_listen_address st))"
  by (auto simp: construct_auth_session_def create_auth_session_def construct_server_session_def create_server_session_def
      create_connection_manager_def construct_listener_def create_listener_def split: list.splits)

lemma create_controller_accepts:
  "create_controller lib st c connections now = Built (e, s) \<longleftrightarrow>
     (\<exists>mth. parse_method (client_auth_method st) = Some mth \<and> list_all (lib_regex lib) (cf_symbols c) \<and>
        lib_create_signals lib \<and> lib_create_timer lib timer_frequency \<and> construct_auth_session lib st = Built () \<and>
        construct_server_session lib st connections = Built () \<and> construct_listener lib st = Built () \<and>
        e = create_env lib st mth \<and> s = create_sys (login_users c) (cf_symbols c) now)"
  by (auto simp: create_controller_def create_shared_accepts create_sys_def)

lemma exit_of_Some [simp]: "exit_of (Some r) \<noteq> Running"
  by (cases r) (simp_all add: exit_of_def)

lemma application_running:
  "application_main lib f connections now [] = Running \<longleftrightarrow>
     (\<exists>root c e s. lib_parse_file lib (flag_config_file f) = Some root \<and>
        parse_config (lib_to_string lib) (lib_to_u32 lib) root = Parsed c \<and> lib_create_context lib \<and>
        create_controller lib (settings_create f) c connections now = Built (e, s) \<and> lib_start lib)"
  by (auto simp: application_main_def Let_def controller_run_def dispatch_start_def exit_of_def
      split: option.splits parsed.splits built.splits if_splits)

text \<open>
  C24. The program starts, and waits for events, exactly when all of this holds: the file of the flag
  \<open>config_file\<close> can be parsed and is a well-formed configuration, each of its symbols is a regular expression, the
  flag \<open>client_auth_method\<close> is empty or names a known method, there is exactly one upstream connection, and the
  libraries accept the addresses and create and start the event loop, the signals, the timer, the connections and the
  listener that the flags ask for.
\<close>

theorem program_starts:
  "application_main lib f connections now [] = Running \<longleftrightarrow>
     (\<exists>root c. lib_parse_file lib (flag_config_file f) = Some root \<and>
        well_formed_document (lib_to_string lib) (lib_to_u32 lib) root \<and>
        parse_config (lib_to_string lib) (lib_to_u32 lib) root = Parsed c \<and> list_all (lib_regex lib) (cf_symbols c)) \<and>
     client_auth_method f \<in> {[], ''hmac_sha256'', ''hmac_sha256_ts''} \<and> length connections = 1 \<and>
     libraries_return lib f connections"
  unfolding application_running create_controller_accepts parse_method_known [symmetric] parse_config_accepts [symmetric]
    constructs libraries_return_def Let_def settings_create_fields
  by blast

section \<open>How it ends\<close>

text \<open>The state after events none of which ends the loop; what cannot happen in a state is not reported.\<close>

fun handled :: "env \<Rightarrow> loop_event list \<Rightarrow> sys \<Rightarrow> sys option" where
  "handled e [] s = Some s"
| "handled e (Signal_Event # evs) s = None"
| "handled e (Io_Event system realtime ev # evs) s =
     (if \<not> reported e ev s then handled e evs s
      else case handle_event e ev (at_time system realtime s) of Ok s \<Rightarrow> handled e evs s | _ \<Rightarrow> None)"

text \<open>An event that ends the loop in a state, with what comes out of the handler.\<close>

fun ends_loop :: "env \<Rightarrow> loop_event \<Rightarrow> sys \<Rightarrow> sys result \<Rightarrow> bool" where
  "ends_loop e Signal_Event s r \<longleftrightarrow> r = Ok s"
| "ends_loop e (Io_Event system realtime ev) s r \<longleftrightarrow>
     reported e ev s \<and> handle_event e ev (at_time system realtime s) = r \<and> (\<forall>t. r \<noteq> Ok t)"

lemma dispatch_waits: "context_dispatch e evs s = None \<longleftrightarrow> handled e evs s \<noteq> None"
  by (induction e evs s rule: context_dispatch.induct) (auto split: result.split)

lemma dispatch_ends_here:
  "handled e before s = Some t \<Longrightarrow> ends_loop e x t r \<Longrightarrow> context_dispatch e (before @ x # rest) s = Some r"
proof (induction e before s rule: handled.induct)
  case (1 e s)
  then show ?case by (cases x; cases r) auto
qed (auto split: if_splits result.splits)

lemma dispatch_ended:
  assumes "context_dispatch e evs s = Some r"
  shows "\<exists>before x rest t. evs = before @ x # rest \<and> handled e before s = Some t \<and> ends_loop e x t r"
  using assms
proof (induction e evs s rule: context_dispatch.induct)
  case (2 e evs s)
  then have "Signal_Event # evs = [] @ Signal_Event # evs \<and> handled e [] s = Some s \<and> ends_loop e Signal_Event s r" by simp
  then show ?case by blast
next
  case (3 e system realtime ev evs s)
  let ?x = "Io_Event system realtime ev"
  show ?case
  proof (cases "reported e ev s \<and> (\<forall>t. handle_event e ev (at_time system realtime s) \<noteq> Ok t)")
    case True
    with "3.prems" have "?x # evs = [] @ ?x # evs \<and> handled e [] s = Some s \<and> ends_loop e ?x s r"
      by (auto split: result.splits)
    then show ?thesis by blast
  next
    case False
    then obtain u where u: "context_dispatch e evs u = Some r" "\<And>before. handled e (?x # before) s = handled e before u"
      "\<exists>before x rest t. evs = before @ x # rest \<and> handled e before u = Some t \<and> ends_loop e x t r"
      using "3.IH" "3.prems" by (cases "reported e ev s") auto
    from u(3) obtain before x rest t where "evs = before @ x # rest" "handled e before u = Some t" "ends_loop e x t r"
      by blast
    with u(2) [of before] show ?thesis by (intro exI [of _ "?x # before"]) auto
  qed
qed simp

lemma dispatch_ends:
  "context_dispatch e evs s = Some r \<longleftrightarrow>
     (\<exists>before x rest t. evs = before @ x # rest \<and> handled e before s = Some t \<and> ends_loop e x t r)"
  using dispatch_ended dispatch_ends_here by blast

lemma handled_good: "good s \<Longrightarrow> handled e evs s = Some t \<Longrightarrow> good t"
proof (induction e evs s rule: handled.induct)
  case (3 e system realtime ev evs s)
  let ?s = "at_time system realtime s"
  have g: "good ?s" by (rule effects_good [OF at_time_effects "3.prems"(1)])
  show ?case
  proof (cases "reported e ev s")
    case True
    with "3.prems"(2) obtain u where u: "handle_event e ev ?s = Ok u" "handled e evs u = Some t" by (auto split: result.splits)
    with handle_event_leaves [OF g, of ev e] True have "good u" using effects_good g by (auto simp: reported_def)
    with "3.IH"(2) u True show ?thesis by simp
  qed (use "3.IH"(1) "3.prems" in simp)
qed simp_all

text \<open>The events that can end the process by \<open>log::fatal\<close>.\<close>

fun may_abort :: "event \<Rightarrow> bool" where
  "may_abort (Server_Read fs) \<longleftrightarrow> list_ex (names is_user_response) fs"
| "may_abort (Client_Read sid fs) \<longleftrightarrow> list_ex (names may_dangle) fs"
| "may_abort _ \<longleftrightarrow> False"

text \<open>Why the last event ends the loop.\<close>

lemma ends_loop_kinds:
  assumes "good s"
  shows "(\<exists>t. ends_loop e x s (Ok t)) \<longleftrightarrow> x = Signal_Event"
    and "(\<exists>what t. ends_loop e x s (Throw what t)) \<longleftrightarrow> (\<exists>system realtime ev. x = Io_Event system realtime ev \<and>
      reported e ev s \<and> bad_input ev \<and> (\<forall>what. handle_event e ev (at_time system realtime s) \<noteq> Fatal what))"
    and "ends_loop e x s (Fatal what) \<longleftrightarrow> (\<exists>system realtime ev. x = Io_Event system realtime ev \<and>
      reported e ev s \<and> may_abort ev \<and> handle_event e ev (at_time system realtime s) = Fatal what)"
proof -
  show "(\<exists>t. ends_loop e x s (Ok t)) \<longleftrightarrow> x = Signal_Event" by (cases x) auto
  have thrown: "(\<exists>what t. handle_event e ev (at_time system realtime s) = Throw what t) \<longleftrightarrow>
      bad_input ev \<and> (\<forall>what. handle_event e ev (at_time system realtime s) \<noteq> Fatal what)" if "reported e ev s" for system realtime ev
    using handle_event_throws [OF effects_good [OF at_time_effects assms], of ev system realtime e] that
    by (cases "handle_event e ev (at_time system realtime s)") (auto simp: reported_def)
  show "(\<exists>what t. ends_loop e x s (Throw what t)) \<longleftrightarrow> (\<exists>system realtime ev. x = Io_Event system realtime ev \<and>
      reported e ev s \<and> bad_input ev \<and> (\<forall>what. handle_event e ev (at_time system realtime s) \<noteq> Fatal what))"
  proof (cases x)
    case (Io_Event system realtime ev)
    then show ?thesis by (cases "reported e ev s") (simp_all add: thrown)
  qed simp
  have aborted: "may_abort ev" if "handle_event e ev (at_time system realtime s) = Fatal what" for system realtime ev
    using event_aborts [OF effects_good [OF at_time_effects assms], of e ev system realtime] that by auto
  show "ends_loop e x s (Fatal what) \<longleftrightarrow> (\<exists>system realtime ev. x = Io_Event system realtime ev \<and>
      reported e ev s \<and> may_abort ev \<and> handle_event e ev (at_time system realtime s) = Fatal what)"
    using aborted by (cases x) auto
qed

lemma dispatch_throws:
  assumes "good s"
  shows "(\<exists>what t. context_dispatch e evs s = Some (Throw what t)) \<longleftrightarrow>
    (\<exists>before system realtime ev rest t. evs = before @ Io_Event system realtime ev # rest \<and> handled e before s = Some t \<and>
      reported e ev t \<and> bad_input ev \<and> (\<forall>what. handle_event e ev (at_time system realtime t) \<noteq> Fatal what))"
proof -
  note kinds = ends_loop_kinds(2) [OF handled_good [OF assms]]
  have "(\<exists>what t. context_dispatch e evs s = Some (Throw what t)) \<longleftrightarrow>
    (\<exists>before x rest t. evs = before @ x # rest \<and> handled e before s = Some t \<and> (\<exists>what u. ends_loop e x t (Throw what u)))"
    unfolding dispatch_ends by blast
  also have "\<dots> \<longleftrightarrow> (\<exists>before x rest t. evs = before @ x # rest \<and> handled e before s = Some t \<and>
    (\<exists>system realtime ev. x = Io_Event system realtime ev \<and> reported e ev t \<and> bad_input ev \<and>
      (\<forall>what. handle_event e ev (at_time system realtime t) \<noteq> Fatal what)))"
    by (simp add: kinds cong: conj_cong del: ends_loop.simps)
  finally show ?thesis by blast
qed

lemma dispatch_aborts:
  assumes "good s"
  shows "context_dispatch e evs s = Some (Fatal what) \<longleftrightarrow>
    (\<exists>before system realtime ev rest t. evs = before @ Io_Event system realtime ev # rest \<and> handled e before s = Some t \<and>
      reported e ev t \<and> may_abort ev \<and> handle_event e ev (at_time system realtime t) = Fatal what)"
proof -
  note kinds = ends_loop_kinds(3) [OF handled_good [OF assms]]
  have "context_dispatch e evs s = Some (Fatal what) \<longleftrightarrow>
    (\<exists>before x rest t. evs = before @ x # rest \<and> handled e before s = Some t \<and>
      (\<exists>system realtime ev. x = Io_Event system realtime ev \<and> reported e ev t \<and> may_abort ev \<and>
        handle_event e ev (at_time system realtime t) = Fatal what))"
    unfolding dispatch_ends by (simp add: kinds cong: conj_cong del: ends_loop.simps)
  then show ?thesis by blast
qed

lemma exit_of_run:
  assumes "lib_start lib" and "r = context_dispatch e evs s"
  shows "exit_of (controller_run lib e evs s) = Running \<longleftrightarrow> r = None"
    and "exit_of (controller_run lib e evs s) = Exit_Success \<longleftrightarrow> lib_stop lib \<and> (\<exists>t. r = Some (Ok t))"
    and "exit_of (controller_run lib e evs s) = Exit_Failure \<longleftrightarrow>
      \<not> lib_stop lib \<and> (\<exists>t. r = Some (Ok t)) \<or> (\<exists>what t. r = Some (Throw what t))"
    and "exit_of (controller_run lib e evs s) = Aborted what \<longleftrightarrow> r = Some (Fatal what)"
    and "exit_of (controller_run lib e evs s) \<notin> {Escaped, Unspecified}"
proof -
  have run: "controller_run lib e evs s = map_option (\<lambda>r. and_then r (dispatch_stop lib)) r"
    using assms by (simp add: controller_run_def dispatch_start_def)
  consider "r = None" | t where "r = Some (Ok t)" | x t where "r = Some (Throw x t)" | x where "r = Some (Fatal x)"
    by (metis option.exhaust result.exhaust)
  note by_kind = this
  show "exit_of (controller_run lib e evs s) = Running \<longleftrightarrow> r = None"
    by (rule by_kind) (simp_all add: run exit_of_def dispatch_stop_def)
  show "exit_of (controller_run lib e evs s) = Exit_Success \<longleftrightarrow> lib_stop lib \<and> (\<exists>t. r = Some (Ok t))"
    by (rule by_kind) (simp_all add: run exit_of_def dispatch_stop_def)
  show "exit_of (controller_run lib e evs s) = Exit_Failure \<longleftrightarrow>
      \<not> lib_stop lib \<and> (\<exists>t. r = Some (Ok t)) \<or> (\<exists>what t. r = Some (Throw what t))"
    by (rule by_kind) (simp_all add: run exit_of_def dispatch_stop_def)
  show "exit_of (controller_run lib e evs s) = Aborted what \<longleftrightarrow> r = Some (Fatal what)"
    by (rule by_kind) (auto simp: run exit_of_def dispatch_stop_def)
  show "exit_of (controller_run lib e evs s) \<notin> {Escaped, Unspecified}"
    by (rule by_kind) (simp_all add: run exit_of_def dispatch_stop_def)
qed

text \<open>
  C14. A program that has started ends with the first event that ends it, in the state that the events before it lead
  to. A signal ends it with success (with failure, if the connections cannot be stopped), input of the bridge or of the
  authentication service that cannot be decoded with failure, and \<open>log::fatal\<close> aborts it, which only a user response of
  the bridge or an unsubscribe from positions can bring about. Until then it is running, and it ends in no other way.
\<close>

theorem application_ends:
  assumes "application_main lib f connections now [] = Running"
  shows "\<exists>root c mth e s. lib_parse_file lib (flag_config_file f) = Some root \<and>
    parse_config (lib_to_string lib) (lib_to_u32 lib) root = Parsed c \<and> parse_method (client_auth_method f) = Some mth \<and>
    e = create_env lib (settings_create f) mth \<and> s = create_sys (login_users c) (cf_symbols c) now \<and>
    (application_main lib f connections now evs = Running \<longleftrightarrow> handled e evs s \<noteq> None) \<and>
    (application_main lib f connections now evs = Exit_Success \<longleftrightarrow> lib_stop lib \<and>
      (\<exists>before rest. evs = before @ Signal_Event # rest \<and> handled e before s \<noteq> None)) \<and>
    (application_main lib f connections now evs = Exit_Failure \<longleftrightarrow>
      \<not> lib_stop lib \<and> (\<exists>before rest. evs = before @ Signal_Event # rest \<and> handled e before s \<noteq> None) \<or>
      (\<exists>before system realtime ev rest t. evs = before @ Io_Event system realtime ev # rest \<and> handled e before s = Some t \<and>
        reported e ev t \<and> bad_input ev \<and> (\<forall>what. handle_event e ev (at_time system realtime t) \<noteq> Fatal what))) \<and>
    (\<forall>what. application_main lib f connections now evs = Aborted what \<longleftrightarrow>
      (\<exists>before system realtime ev rest t. evs = before @ Io_Event system realtime ev # rest \<and> handled e before s = Some t \<and>
        reported e ev t \<and> may_abort ev \<and> handle_event e ev (at_time system realtime t) = Fatal what)) \<and>
    application_main lib f connections now evs \<notin> {Escaped, Unspecified}"
proof -
  from assms obtain root c mth where up: "lib_parse_file lib (flag_config_file f) = Some root"
    "parse_config (lib_to_string lib) (lib_to_u32 lib) root = Parsed c" "parse_method (client_auth_method f) = Some mth"
    and made: "create_controller lib (settings_create f) c connections now =
      Built (create_env lib (settings_create f) mth, create_sys (login_users c) (cf_symbols c) now)"
    and lib: "lib_create_context lib" "lib_start lib"
    unfolding application_running create_controller_accepts by auto
  let ?e = "create_env lib (settings_create f) mth" and ?s = "create_sys (login_users c) (cf_symbols c) now"
  have main: "application_main lib f connections now evs = exit_of (controller_run lib ?e evs ?s)"
    using up made lib(1) by (simp add: application_main_def Let_def)
  have ok: "(\<exists>t. context_dispatch ?e evs ?s = Some (Ok t)) \<longleftrightarrow>
      (\<exists>before rest. evs = before @ Signal_Event # rest \<and> handled ?e before ?s \<noteq> None)"
    unfolding dispatch_ends using ends_loop_kinds(1) by (metis ends_loop.simps(1) not_None_eq handled_good good_create)
  have throw: "(\<exists>what t. context_dispatch ?e evs ?s = Some (Throw what t)) \<longleftrightarrow>
      (\<exists>before system realtime ev rest t. evs = before @ Io_Event system realtime ev # rest \<and> handled ?e before ?s = Some t \<and>
        reported ?e ev t \<and> bad_input ev \<and> (\<forall>what. handle_event ?e ev (at_time system realtime t) \<noteq> Fatal what))"
    by (rule dispatch_throws [OF good_create])
  have fatal: "context_dispatch ?e evs ?s = Some (Fatal what) \<longleftrightarrow>
      (\<exists>before system realtime ev rest t. evs = before @ Io_Event system realtime ev # rest \<and> handled ?e before ?s = Some t \<and>
        reported ?e ev t \<and> may_abort ev \<and> handle_event ?e ev (at_time system realtime t) = Fatal what)" for what
    by (rule dispatch_aborts [OF good_create])
  show ?thesis
    unfolding main exit_of_run(1-4) [OF lib(2) refl] ok throw fatal dispatch_waits
    using up exit_of_run(5) [OF lib(2) refl, of ?e evs ?s] by blast
qed

definition demo_flags :: flags where
  "demo_flags =
     \<lparr>auth_uri = [], auth_decode_buffer_size = 1048576, auth_encode_buffer_size = 65536, auth_ping_freq = 1000,
      server_target_comp_id = ''BRIDGE'', server_sender_comp_id = ''PROXY'', server_username = ''bridge'',
      server_password = ''pw'', server_auth_method = [], server_decode_buffer_size = 65536,
      server_encode_buffer_size = 65536, server_ping_freq = 1000, server_request_timeout = 500,
      server_debug = False, client_listen_address = ''localhost:1234'', client_comp_id = ''PROXY'',
      client_auth_method = ''hmac_sha256'', client_auth_timestamp_tolerance = 0, client_logon_timeout = 5000,
      client_logon_heartbeat_min = 0, client_logon_heartbeat_max = 60000000000, client_heartbeat_freq = 1000,
      client_decode_buffer_size = 65536, client_encode_buffer_size = 65536, flag_config_file = ''proxy.toml'',
      flag_enable_order_mass_cancel = False, flag_disable_remove_cl_ord_id = False, flag_fix_debug = False\<rparr>"

definition demo_library :: "(string + u32) library" where
  "demo_library =
     \<lparr>lib_is_valid = (\<lambda>_. True), lib_valid_req_id = (\<lambda>i. i \<noteq> []),
      lib_is_order_complete = (\<lambda>st. st = ORD_REJECTED), lib_signature = (\<lambda>key data. key @ data),
      lib_from_chars = (\<lambda>_. 0),
      lib_parse_file = (\<lambda>path. if path = ''proxy.toml'' then Some (render_config Inl Inr demo_config) else None),
      lib_to_string = (\<lambda>v. case v of Inl x \<Rightarrow> Some x | Inr n \<Rightarrow> None),
      lib_to_u32 = (\<lambda>v. case v of Inl x \<Rightarrow> None | Inr n \<Rightarrow> Some n),
      lib_regex = (\<lambda>symbol. symbol \<noteq> []), lib_uri = (\<lambda>uri. uri \<noteq> []), lib_network_address = (\<lambda>address. CHR '':'' \<in> set address),
      lib_create_context = True, lib_create_signals = True, lib_create_timer = (\<lambda>t. t > 0),
      lib_create_web_socket = (\<lambda>cfg. cc_uris cfg \<noteq> []), lib_create_connection_manager = (\<lambda>cfg. cc_uris cfg \<noteq> []),
      lib_create_tcp_listener = (\<lambda>_. True), lib_start = True, lib_stop = True\<rparr>"

text \<open>The bridge comes up and a client connects; then there is a signal, or the bridge answers a request that nobody made.\<close>

definition demo_begin :: "loop_event list" where
  "demo_begin = [Io_Event 1 1 Server_Connected, Io_Event 2 2 Client_Connected, Io_Event 3 3 Auth_Ready]"

definition stray_answer :: event where
  "stray_answer = Server_Read [frame ''BRIDGE'' 1 (demo_user_response ''unknown'' ''42'' LOGGED_IN)]"

theorem application_ends_witness:
  "application_main demo_library demo_flags [''bridge''] 0 demo_begin = Running \<and>
   application_main demo_library demo_flags [''bridge''] 0 (demo_begin @ [Signal_Event]) = Exit_Success \<and>
   application_main demo_library demo_flags [''bridge''] 0 (demo_begin @ [Io_Event 4 4 stray_answer]) = Aborted ''Unexpected'' \<and>
   may_abort stray_answer"
proof (intro conjI)
  show "application_main demo_library demo_flags [''bridge''] 0 demo_begin = Running" by code_simp
  have start: "application_main demo_library demo_flags [''bridge''] 0 [] = Running" by code_simp
  show "application_main demo_library demo_flags [''bridge''] 0 (demo_begin @ [Signal_Event]) = Exit_Success"
  proof -
    have "application_main demo_library demo_flags [''bridge''] 0 demo_begin = Running" by code_simp
    with application_ends [OF start, of demo_begin] application_ends [OF start, of "demo_begin @ [Signal_Event]"]
    show ?thesis by (auto simp: demo_library_def)
  qed
  show fatal: "application_main demo_library demo_flags [''bridge''] 0 (demo_begin @ [Io_Event 4 4 stray_answer]) =
      Aborted ''Unexpected''" by code_simp
  with application_ends [OF start, of "demo_begin @ [Io_Event 4 4 stray_answer]"]
  obtain system realtime ev before rest where
    "demo_begin @ [Io_Event 4 4 stray_answer] = before @ Io_Event system realtime ev # rest" "may_abort ev"
    by metis
  then show "may_abort stray_answer"
    by (auto simp: demo_begin_def Cons_eq_append_conv append_eq_Cons_conv)
qed

end
