(* ===== verification/Framing.thy ===== *)
theory Framing
  imports Scenario
begin

text \<open>
  The bytes below the frames: the buffers and the loops of the two handlers of \<open>Read\<close> (\<open>client/session.cpp\<close>,
  \<open>server/session.cpp\<close>). \<open>roq::fix::Reader\<close> is foreign code; it is an argument, a function from the bytes
  that are there to what it does with them. The events of \<open>Proxy\<close> carry the frames these loops find.
\<close>

section \<open>The loop over the bytes\<close>

text \<open>
  A call of \<open>Reader::dispatch\<close>: it returns 0 when there is no complete frame yet; it calls the parser with a
  frame and returns how many bytes that has; or it throws.
\<close>

datatype found = Incomplete | Found frame_in nat | Broken

text \<open>
  The loop that both handlers have, with \<open>total_bytes\<close> as an accumulator and the test that ends it early.
  It terminates whatever the reader returns, since a frame of no bytes ends it.
\<close>

function read_loop ::
  "('b list \<Rightarrow> found) \<Rightarrow> (frame_in \<Rightarrow> 'a \<Rightarrow> 'a result) \<Rightarrow> ('a \<Rightarrow> bool) \<Rightarrow> 'b list \<Rightarrow> nat \<Rightarrow> 'a \<Rightarrow> (nat \<times> 'a) result" where
  "read_loop reader parser stop buffer total_bytes s =
     (if buffer = [] then Ok (total_bytes, s)
      else case reader buffer of
             Incomplete \<Rightarrow> Ok (total_bytes, s)
           | Broken \<Rightarrow> Throw undecodable_text (total_bytes, s)
           | Found f bytes \<Rightarrow>
               (case parser f s of
                  Ok s \<Rightarrow>
                    if bytes = 0 then Ok (total_bytes, s)
                    else if stop s then Ok (total_bytes + bytes, s)
                    else read_loop reader parser stop (drop bytes buffer) (total_bytes + bytes) s
                | Throw what s \<Rightarrow> Throw what (total_bytes, s)
                | Fatal what \<Rightarrow> Fatal what))"
  by pat_completeness auto
termination by (relation "measure (\<lambda>(reader, parser, stop, buffer, total_bytes, s). length buffer)") auto

declare read_loop.simps [simp del]

text \<open>Whether a session is in state \<open>ZOMBIE\<close>; a handler never removes its own session.\<close>

definition session_over :: "u64 \<Rightarrow> sys \<Rightarrow> bool" where
  "session_over sid s \<longleftrightarrow> (case session_of sid s of None \<Rightarrow> True | Some c \<Rightarrow> cs_state c = ZOMBIE)"

text \<open>
  The session's handler: the new bytes are appended to \<open>buffer_\<close>, and what the loop has read is drained from
  it, unless an exception has left the loop. The result has the new buffer.
\<close>

definition session_bytes ::
  "('b list \<Rightarrow> found) \<Rightarrow> env \<Rightarrow> u64 \<Rightarrow> 'b list \<Rightarrow> 'b list \<times> sys \<Rightarrow> ('b list \<times> sys) result" where
  "session_bytes reader e sid arrived = (\<lambda>(buffer, s).
     if session_over sid s then Ok (buffer, s)
     else
       let buffer = buffer @ arrived
       in case read_loop reader (session_frame e sid) (session_over sid) buffer 0 s of
            Ok (total_bytes, s) \<Rightarrow> Ok (drop total_bytes buffer, s)
          | Throw what (total_bytes, s) \<Rightarrow> map_result (Pair buffer) (close e sid s)
          | Fatal what \<Rightarrow> Fatal what)"

text \<open>The upstream session reads from the buffer of its connection manager, and tells it how much to drain.\<close>

definition server_bytes :: "('b list \<Rightarrow> found) \<Rightarrow> env \<Rightarrow> 'b list \<times> sys \<Rightarrow> ('b list \<times> sys) result" where
  "server_bytes reader e = (\<lambda>(buffer, s).
     case read_loop reader (server_frame e) (\<lambda>_. False) buffer 0 s of
       Ok (total_bytes, s) \<Rightarrow> Ok (drop total_bytes buffer, s)
     | Throw what (total_bytes, s) \<Rightarrow> Throw what (buffer, s)
     | Fatal what \<Rightarrow> Fatal what)"

section \<open>Events of bytes\<close>

text \<open>The proxy with the buffer of each of its sessions.\<close>

record 'b net =
  proxy :: sys
  buffers :: "u64 \<Rightarrow> 'b list"

text \<open>
  Bytes that arrive from a client, the bytes of the connection manager's buffer, or an event without bytes. A
  new session has an empty buffer.
\<close>

datatype 'b net_event = Client_Bytes u64 "'b list" | Server_Bytes "'b list" | Other_Event event

fun net_handle :: "('b list \<Rightarrow> found) \<Rightarrow> env \<Rightarrow> 'b net_event \<Rightarrow> 'b net \<Rightarrow> 'b net result" where
  "net_handle reader e (Client_Bytes sid arrived) w =
     map_result (\<lambda>(buffer, s). w\<lparr>proxy := s, buffers := (buffers w)(sid := buffer)\<rparr>)
       (session_bytes reader e sid arrived (buffers w sid, proxy w))"
| "net_handle reader e (Server_Bytes buffer) w =
     map_result (\<lambda>(rest, s). w\<lparr>proxy := s\<rparr>) (server_bytes reader e (buffer, proxy w))"
| "net_handle reader e (Other_Event ev) w =
     map_result (\<lambda>s. w\<lparr>proxy := s,
         buffers := (if ev = Client_Connected then (buffers w)(next_session_id (shared s) := []) else buffers w)\<rparr>)
       (handle_event e ev (proxy w))"

text \<open>All frames at the front of a buffer.\<close>

function frames_in :: "('b list \<Rightarrow> found) \<Rightarrow> 'b list \<Rightarrow> frame_in list" where
  "frames_in reader buffer =
     (if buffer = [] then []
      else case reader buffer of
             Incomplete \<Rightarrow> []
           | Broken \<Rightarrow> [Unreadable]
           | Found f bytes \<Rightarrow> f # (if bytes = 0 then [] else frames_in reader (drop bytes buffer)))"
  by pat_completeness auto
termination by (relation "measure (\<lambda>(reader, buffer). length buffer)") auto

declare frames_in.simps [simp del]

lemma frames_in_Nil [simp]: "frames_in reader [] = []"
  by (subst frames_in.simps) simp

text \<open>The event that an arrival of bytes is.\<close>

fun event_of :: "('b list \<Rightarrow> found) \<Rightarrow> 'b net \<Rightarrow> 'b net_event \<Rightarrow> event" where
  "event_of reader w (Client_Bytes sid arrived) = Client_Read sid (frames_in reader (buffers w sid @ arrived))"
| "event_of reader w (Server_Bytes buffer) = Server_Read (frames_in reader buffer)"
| "event_of reader w (Other_Event ev) = ev"

fun reads :: "event \<Rightarrow> bool" where
  "reads (Client_Read sid fs) \<longleftrightarrow> True"
| "reads (Server_Read fs) \<longleftrightarrow> True"
| "reads ev \<longleftrightarrow> False"

fun net_enabled :: "'b net_event \<Rightarrow> sys \<Rightarrow> bool" where
  "net_enabled (Client_Bytes sid arrived) s \<longleftrightarrow> True"
| "net_enabled (Server_Bytes buffer) s \<longleftrightarrow> DISCONNECTED < sv_state (server s)"
| "net_enabled (Other_Event ev) s \<longleftrightarrow> enabled ev s \<and> \<not> reads ev"

inductive net_step :: "('b list \<Rightarrow> found) \<Rightarrow> env \<Rightarrow> 'b net_event \<Rightarrow> 'b net \<Rightarrow> 'b net \<Rightarrow> bool" for reader e where
  net_step: "net_enabled ev (proxy w) \<Longrightarrow>
    net_handle reader e ev (w\<lparr>proxy := at_time system realtime (proxy w)\<rparr>) = Ok w' \<Longrightarrow> net_step reader e ev w w'"

inductive net_reachable :: "('b list \<Rightarrow> found) \<Rightarrow> env \<Rightarrow> 'b net \<Rightarrow> bool" for reader e where
  net_start: "net_reachable reader e \<lparr>proxy = create_sys users symbols now, buffers = \<lambda>_. []\<rparr>"
| net_turn: "net_reachable reader e w \<Longrightarrow> net_step reader e ev w w' \<Longrightarrow> net_reachable reader e w'"

section \<open>Reading bytes is reading frames\<close>

text \<open>The loop over a list of frames, of which the reading of both sessions is an instance.\<close>

fun run_frames :: "(frame_in \<Rightarrow> 'a \<Rightarrow> 'a result) \<Rightarrow> ('a \<Rightarrow> bool) \<Rightarrow> frame_in list \<Rightarrow> 'a \<Rightarrow> 'a result" where
  "run_frames parser stop [] s = Ok s"
| "run_frames parser stop (f # fs) s =
     and_then (parser f s) (\<lambda>s. if stop s then Ok s else run_frames parser stop fs s)"

lemma session_frames_run: "session_frames e sid fs s = run_frames (session_frame e sid) (session_over sid) fs s"
proof (induction fs arbitrary: s)
  case (Cons f fs)
  have "with_session sid (\<lambda>c s. if cs_state c = ZOMBIE then Ok s else session_frames e sid fs s) t =
      (if session_over sid t then Ok t else run_frames (session_frame e sid) (session_over sid) fs t)" for t
    unfolding Cons.IH [symmetric] by (cases "session_of sid t") (simp_all add: session_over_def)
  then have "with_session sid (\<lambda>c s. if cs_state c = ZOMBIE then Ok s else session_frames e sid fs s) =
      (\<lambda>t. if session_over sid t then Ok t else run_frames (session_frame e sid) (session_over sid) fs t)"
    by (rule ext)
  then show ?case by simp
qed simp

lemma server_read_run: "server_read e fs s = run_frames (server_frame e) (\<lambda>_. False) fs s"
proof (induction fs arbitrary: s)
  case (Cons f fs)
  then show ?case by (cases "server_frame e f s") (simp_all add: server_read_def)
qed (simp add: server_read_def)

lemma run_frames_one [simp]: "run_frames parser stop [f] s = parser f s"
  by (cases "parser f s") simp_all

text \<open>A reader that breaks throws the exception that a frame \<open>Unreadable\<close> stands for.\<close>

lemma read_loop_frames:
  assumes "\<And>s. parser Unreadable s = Throw undecodable_text s"
  shows "map_result snd (read_loop reader parser stop buffer n s) = run_frames parser stop (frames_in reader buffer) s"
  using assms
proof (induction reader parser stop buffer n s rule: read_loop.induct)
  case (1 reader parser stop buffer n s)
  show ?case
  proof (cases "buffer = []")
    case False
    show ?thesis
    proof (cases "reader buffer")
      case (Found f k)
      with 1 False show ?thesis
        by (subst read_loop.simps, subst frames_in.simps) (auto split: result.split)
    qed (use False 1(2) in \<open>simp_all add: read_loop.simps [of _ _ _ buffer] frames_in.simps [of _ buffer]\<close>)
  qed (simp add: read_loop.simps)
qed

lemma session_frame_Unreadable: "session_frame e sid Unreadable s = Throw undecodable_text s"
  by (simp add: session_frame_def)

lemma server_frame_Unreadable: "server_frame e Unreadable s = Throw undecodable_text s"
  by (simp add: server_frame_def)

lemma session_loop_frames:
  "map_result snd (read_loop reader (session_frame e sid) (session_over sid) buffer n s) =
    session_frames e sid (frames_in reader buffer) s"
  by (simp add: read_loop_frames session_frame_Unreadable session_frames_run)

lemma server_loop_frames:
  "map_result snd (read_loop reader (server_frame e) (\<lambda>_. False) buffer n s) = server_read e (frames_in reader buffer) s"
  by (simp add: read_loop_frames server_frame_Unreadable server_read_run)

lemma session_bytes_frames:
  "map_result snd (session_bytes reader e sid arrived (buffer, s)) = session_read e (frames_in reader (buffer @ arrived)) sid s"
proof (cases "session_of sid s")
  case (Some c)
  let ?m = "read_loop reader (session_frame e sid) (session_over sid) (buffer @ arrived) 0 s"
  have close: "map_result snd (map_result (Pair b) m) = m" for b :: "'a list" and m :: "sys result"
    by (cases m) simp_all
  from session_loop_frames [of reader e sid "buffer @ arrived" 0 s, symmetric] Some show ?thesis
    by (cases ?m) (auto simp: session_bytes_def session_read_def session_over_def Let_def close)
qed (simp add: session_bytes_def session_read_def session_over_def)

lemma server_bytes_frames:
  "map_result snd (server_bytes reader e (buffer, s)) = server_read e (frames_in reader buffer) s"
  using server_loop_frames [of reader e buffer 0 s]
  by (cases "read_loop reader (server_frame e) (\<lambda>_. False) buffer 0 s") (auto simp: server_bytes_def)

section \<open>Every state is reachable by frames\<close>

lemma net_handle_event:
  assumes "net_handle reader e ev w = Ok w'"
  shows "handle_event e (event_of reader w ev) (proxy w) = Ok (proxy w')"
proof (cases ev)
  case (Client_Bytes sid arrived)
  with assms session_bytes_frames [of reader e sid arrived "buffers w sid" "proxy w"] show ?thesis
    by (cases "session_bytes reader e sid arrived (buffers w sid, proxy w)") (auto simp: eq_commute)
next
  case (Server_Bytes buffer)
  with assms server_bytes_frames [of reader e buffer "proxy w"] show ?thesis
    by (cases "server_bytes reader e (buffer, proxy w)") (auto simp: eq_commute)
next
  case (Other_Event ev)
  with assms show ?thesis by (cases "handle_event e ev (proxy w)") auto
qed

lemma net_step_step:
  assumes "net_step reader e ev w w'"
  shows "step e (event_of reader w ev) (proxy w) (proxy w')"
  using assms
proof cases
  case (net_step system realtime)
  from net_handle_event [OF this(2)] have "handle_event e (event_of reader w ev) (at_time system realtime (proxy w)) = Ok (proxy w')"
    by (cases ev) simp_all
  moreover from net_step(1) have "enabled (event_of reader w ev) (proxy w)" by (cases ev) simp_all
  ultimately show ?thesis by (rule step.step [rotated])
qed

lemma net_reachable_reachable: "net_reachable reader e w \<Longrightarrow> reachable e (proxy w)"
  by (induction rule: net_reachable.induct) (auto intro: reachable.intros net_step_step)

section \<open>Stable readers\<close>

text \<open>
  What the loops rely on: a frame has bytes and lies in the buffer, and what the reader says about it does not
  depend on what comes after it. A FIX message carries its own length and ends with its checksum.
\<close>

definition stable_reader :: "('b list \<Rightarrow> found) \<Rightarrow> bool" where
  "stable_reader reader \<longleftrightarrow>
     (\<forall>b f n. reader b = Found f n \<longrightarrow> 0 < n \<and> n \<le> length b \<and> (\<forall>rest. reader (b @ rest) = Found f n)) \<and>
     (\<forall>b. reader b = Broken \<longrightarrow> (\<forall>rest. reader (b @ rest) = Broken))"

lemma stable_readerD:
  assumes "stable_reader reader"
  shows "reader b = Found f n \<Longrightarrow> 0 < n" and "reader b = Found f n \<Longrightarrow> n \<le> length b"
    and "reader b = Found f n \<Longrightarrow> reader (b @ rest) = Found f n"
    and "reader b = Broken \<Longrightarrow> reader (b @ rest) = Broken"
  using assms by (auto simp: stable_reader_def)

text \<open>What the loop drains is what it has read: no frame is left at the front, unless it ended early.\<close>

lemma read_loop_drains:
  assumes "stable_reader reader" and "read_loop reader parser stop buffer n s = Ok (m, t)" and "\<not> stop t"
  shows "n \<le> m \<and> m \<le> n + length buffer \<and> frames_in reader (drop (m - n) buffer) = []"
  using assms
proof (induction reader parser stop buffer n s rule: read_loop.induct)
  case (1 reader parser stop buffer n s)
  show ?case
  proof (cases "buffer = []")
    case False
    show ?thesis
    proof (cases "reader buffer")
      case Incomplete
      with False 1(3) show ?thesis by (simp add: read_loop.simps [of _ _ _ buffer] frames_in.simps [of _ buffer])
    next
      case (Found f k)
      note k = stable_readerD(1,2) [OF 1(2) Found]
      from Found False 1(3) k obtain u where u: "parser f s = Ok u"
        by (cases "parser f s") (simp_all add: read_loop.simps [of _ _ _ buffer])
      show ?thesis
      proof (cases "stop u")
        case True
        with Found False 1(3,4) u k show ?thesis by (simp add: read_loop.simps [of _ _ _ buffer])
      next
        case go: False
        with Found False 1(3) u k have "read_loop reader parser stop (drop k buffer) (n + k) u = Ok (m, t)"
          by (simp add: read_loop.simps [of _ _ _ buffer])
        from 1(1) [OF False Found u _ go 1(2) this 1(4)] k show ?thesis
          by (auto simp: add.commute)
      qed
    qed (use False 1(3) in \<open>simp add: read_loop.simps [of _ _ _ buffer]\<close>)
  qed (use 1(3) in \<open>simp add: read_loop.simps\<close>)
qed

text \<open>Bytes that come later are read from where the loop has stopped.\<close>

lemma read_loop_later:
  assumes "stable_reader reader" and "\<not> stop s"
  shows "read_loop reader parser stop (buffer @ rest) n s =
    (case read_loop reader parser stop buffer n s of
       Ok (m, t) \<Rightarrow> if stop t then Ok (m, t) else read_loop reader parser stop (drop (m - n) buffer @ rest) m t
     | Throw what x \<Rightarrow> Throw what x | Fatal what \<Rightarrow> Fatal what)"
  using assms
proof (induction reader parser stop buffer n s rule: read_loop.induct)
  case (1 reader parser stop buffer n s)
  show ?case
  proof (cases "buffer = []")
    case True
    with 1(3) show ?thesis by (simp add: read_loop.simps [of _ _ _ "[]"])
  next
    case False
    show ?thesis
    proof (cases "reader buffer")
      case Incomplete
      with False 1(3) show ?thesis by (simp add: read_loop.simps [of _ _ _ buffer])
    next
      case Broken
      with False stable_readerD(4) [OF 1(2) Broken] show ?thesis
        by (simp add: read_loop.simps [of _ _ _ "buffer @ rest"] read_loop.simps [of _ _ _ buffer])
    next
      case (Found f k)
      note k = stable_readerD(1,2) [OF 1(2) Found] and found = stable_readerD(3) [OF 1(2) Found, of rest]
      show ?thesis
      proof (cases "parser f s")
        case (Ok u)
        show ?thesis
        proof (cases "stop u")
          case True
          with Ok Found found False k show ?thesis
            by (simp add: read_loop.simps [of _ _ _ "buffer @ rest"] read_loop.simps [of _ _ _ buffer])
        next
          case go: False
          have "read_loop reader parser stop (buffer @ rest) n s = read_loop reader parser stop (drop k buffer @ rest) (n + k) u"
            using Ok go Found found False k by (simp add: read_loop.simps [of _ _ _ "buffer @ rest"])
          moreover have "read_loop reader parser stop buffer n s = read_loop reader parser stop (drop k buffer) (n + k) u"
            using Ok go Found False k by (simp add: read_loop.simps [of _ _ _ buffer])
          moreover note 1(1) [OF False Found Ok _ go 1(2) go] k
          moreover have "drop (m - n) buffer = drop (m - (n + k)) (drop k buffer)"
            if "read_loop reader parser stop (drop k buffer) (n + k) u = Ok (m, t)" "\<not> stop t" for m t
            using read_loop_drains [OF 1(2) that] by (simp add: add.commute)
          ultimately show ?thesis
            by (cases "read_loop reader parser stop (drop k buffer) (n + k) u") auto
        qed
      qed (use Found found False in
          \<open>simp_all add: read_loop.simps [of _ _ _ "buffer @ rest"] read_loop.simps [of _ _ _ buffer]\<close>)
    qed
  qed
qed

section \<open>However the bytes arrive\<close>

lemma map_result_and_then: "map_result f (and_then m g) = (case m of Ok s \<Rightarrow> map_result f (g s) | Throw what s \<Rightarrow> Throw what (f s) | Fatal what \<Rightarrow> Fatal what)"
  by (cases m) simp_all

lemma leaves_True: "leaves (\<lambda>_. True) m"
  by (cases m) simp_all

text \<open>If two arrivals are read like one, then any number of them is.\<close>

lemma arrivals:
  fixes read :: "'b list \<Rightarrow> 'b list \<times> 'a \<Rightarrow> ('b list \<times> 'a) result"
  assumes "\<And>xs p. keep (snd p) \<Longrightarrow> leaves (keep \<circ> snd) (read xs p)"
    and "\<And>xs ys p. keep (snd p) \<Longrightarrow> map_result snd (and_then (read xs p) (read ys)) = map_result snd (read (xs @ ys) p)"
  shows "keep (snd p) \<Longrightarrow> map_result snd (in_order (map read (x # chunks)) p) = map_result snd (read (concat (x # chunks)) p)"
proof (induction chunks arbitrary: x p)
  case Nil
  then show ?case by (cases "read x p") simp_all
next
  case (Cons y chunks)
  have "map_result snd (in_order (map read (y # chunks)) q) = map_result snd (read (concat (y # chunks)) q)"
    if "read x p = Ok q" for q
    using Cons.IH [of q y] assms(1) [OF Cons.prems, of x] that by simp
  then have "map_result snd (in_order (map read (x # y # chunks)) p) =
      map_result snd (and_then (read x p) (read (concat (y # chunks))))"
    by (cases "read x p") simp_all
  also have "\<dots> = map_result snd (read (concat (x # y # chunks)) p)"
    using assms(2) [OF Cons.prems, of x "concat (y # chunks)"] by simp
  finally show ?case .
qed

lemma session_over_state: "session_over sid s \<longleftrightarrow> state_of sid s = None \<or> state_of sid s = Some ZOMBIE"
  by (cases "session_of sid s") (simp_all add: session_over_def state_of_def)

lemma session_bytes_over [simp]: "session_over sid s \<Longrightarrow> session_bytes reader e sid arrived (buffer, s) = Ok (buffer, s)"
  by (simp add: session_bytes_def)

lemma close_ends_session:
  assumes "good s" and "close e sid s = Ok t"
  shows "session_over sid t"
  using close_returns [OF assms(1), of sid e] assms(2)
  by (cases "session_of sid s") (auto simp: session_over_state ended_def state_of_def close_def)

lemma session_loop_leaves:
  assumes "good s" and "\<not> session_over sid s"
  shows "leaves (good \<circ> snd) (read_loop reader (session_frame e sid) (session_over sid) buffer n s)"
proof -
  have "leaves (effects e s) (session_frames e sid (frames_in reader buffer) s)"
    using assms by (intro session_frames_leaves) (simp_all add: session_over_state)
  with session_loop_frames [of reader e sid buffer n s, symmetric] effects_good [OF _ assms(1)] show ?thesis
    by (cases "read_loop reader (session_frame e sid) (session_over sid) buffer n s") auto
qed

lemma session_bytes_leaves:
  assumes "good s"
  shows "leaves (good \<circ> snd) (session_bytes reader e sid arrived (buffer, s))"
  using session_bytes_frames [of reader e sid arrived buffer s, symmetric]
    session_read_lands [OF assms, of e "frames_in reader (buffer @ arrived)" sid] effects_good [OF _ assms]
  by (cases "session_bytes reader e sid arrived (buffer, s)") auto

lemma session_bytes_twice:
  assumes "stable_reader reader" and "good s"
  shows "map_result snd (and_then (session_bytes reader e sid xs (buffer, s)) (session_bytes reader e sid ys)) =
    map_result snd (session_bytes reader e sid (xs @ ys) (buffer, s))"
proof (cases "session_over sid s")
  case False
  let ?loop = "read_loop reader (session_frame e sid) (session_over sid)"
  note rest = read_loop_later [where parser = "session_frame e sid" and stop = "session_over sid" and rest = ys and buffer = "buffer @ xs" and n = 0,
      OF assms(1) False]
  show ?thesis
  proof (cases "?loop (buffer @ xs) 0 s")
    case (Ok p)
    then obtain m t where m: "?loop (buffer @ xs) 0 s = Ok (m, t)" by (cases p) auto
    show ?thesis
    proof (cases "session_over sid t")
      case True
      with m rest False show ?thesis by (simp add: session_bytes_def Let_def)
    next
      case go: False
      let ?left = "drop m (buffer @ xs)"
      have "map_result snd (?loop (?left @ ys) 0 t) = map_result snd (?loop (?left @ ys) m t)"
        by (simp only: session_loop_frames)
      with m rest False go show ?thesis
        by (cases "?loop (?left @ ys) m t"; cases "?loop (?left @ ys) 0 t")
          (auto simp: session_bytes_def Let_def split_def result.map_comp comp_def)
    qed
  next
    case (Throw what p)
    then obtain m t where m: "?loop (buffer @ xs) 0 s = Throw what (m, t)" by (cases p) auto
    with session_loop_leaves [OF assms(2) False, of reader e "buffer @ xs" 0] have "good t" by simp
    note over = close_ends_session [OF this, of e sid]
    show ?thesis
      using m rest False over by (cases "close e sid t") (simp_all add: session_bytes_def Let_def)
  next
    case (Fatal what)
    with rest False show ?thesis by (simp add: session_bytes_def Let_def)
  qed
qed simp

lemma server_bytes_twice:
  assumes "stable_reader reader"
  shows "map_result snd (and_then (server_bytes reader e (buffer @ xs, s)) (\<lambda>(b, s). server_bytes reader e (b @ ys, s))) =
    map_result snd (server_bytes reader e (buffer @ xs @ ys, s))"
proof -
  let ?loop = "read_loop reader (server_frame e) (\<lambda>_. False)"
  note rest = read_loop_later [where parser = "server_frame e" and stop = "\<lambda>_. False" and s = s and rest = ys and
      buffer = "buffer @ xs" and n = 0, OF assms]
  show ?thesis
  proof (cases "?loop (buffer @ xs) 0 s")
    case (Ok p)
    then obtain m t where m: "?loop (buffer @ xs) 0 s = Ok (m, t)" by (cases p) auto
    let ?left = "drop m (buffer @ xs)"
    have "map_result snd (?loop (?left @ ys) 0 t) = map_result snd (?loop (?left @ ys) m t)"
      by (simp only: server_loop_frames)
    with m rest show ?thesis
      by (cases "?loop (?left @ ys) m t"; cases "?loop (?left @ ys) 0 t") (auto simp: server_bytes_def split_def)
  qed (use rest in \<open>auto simp: server_bytes_def split_def\<close>)
qed

section \<open>No frame waits in a buffer\<close>

lemma session_bytes_drains:
  assumes "stable_reader reader" and "good s" and "session_bytes reader e sid arrived (buffer, s) = Ok (left, t)"
    and "\<not> session_over sid t"
  shows "frames_in reader left = []"
proof (cases "session_over sid s")
  case False
  let ?m = "read_loop reader (session_frame e sid) (session_over sid) (buffer @ arrived) 0 s"
  show ?thesis
  proof (cases ?m)
    case (Ok p)
    then obtain m u where m: "?m = Ok (m, u)" by (cases p) auto
    with False assms(3,4) read_loop_drains [OF assms(1) m] show ?thesis by (simp add: session_bytes_def Let_def)
  next
    case (Throw what p)
    then obtain m u where m: "?m = Throw what (m, u)" by (cases p) auto
    with session_loop_leaves [OF assms(2) False, of reader e "buffer @ arrived" 0] have "good u" by simp
    moreover from m False assms(3) have "close e sid u = Ok t"
      by (cases "close e sid u") (simp_all add: session_bytes_def Let_def)
    ultimately show ?thesis using close_ends_session assms(4) by blast
  qed (use False assms(3) in \<open>simp add: session_bytes_def Let_def\<close>)
qed (use assms(3,4) in simp)

text \<open>A buffer that is not of a session holds nothing, and what a session that goes on has is not a frame.\<close>

definition no_backlog :: "('b list \<Rightarrow> found) \<Rightarrow> 'b net \<Rightarrow> bool" where
  "no_backlog reader w \<longleftrightarrow>
     (\<forall>sid. session_over sid (proxy w) \<or> frames_in reader (buffers w sid) = []) \<and>
     (\<forall>sid. next_session_id (shared (proxy w)) < sid \<longrightarrow> buffers w sid = [])"

lemma net_handle_buffers:
  assumes "stable_reader reader" and "good (proxy w)" and "net_handle reader e ev w = Ok w'"
  shows "session_over sid (proxy w') \<or> frames_in reader (buffers w' sid) = [] \<or> buffers w' sid = buffers w sid"
    and "next_session_id (shared (proxy w)) < sid \<Longrightarrow> buffers w' sid = [] \<or> buffers w' sid = buffers w sid"
proof -
  have "(session_over sid (proxy w') \<or> frames_in reader (buffers w' sid) = [] \<or> buffers w' sid = buffers w sid) \<and>
      (next_session_id (shared (proxy w)) < sid \<longrightarrow> buffers w' sid = [] \<or> buffers w' sid = buffers w sid)"
  proof (cases ev)
    case (Client_Bytes i arrived)
    with assms(3) obtain left t where read: "session_bytes reader e i arrived (buffers w i, proxy w) = Ok (left, t)"
      and w': "w' = w\<lparr>proxy := t, buffers := (buffers w)(i := left)\<rparr>"
      by (cases "session_bytes reader e i arrived (buffers w i, proxy w)") auto
    have "session_over sid (proxy w)" if "next_session_id (shared (proxy w)) < sid"
      using numbered_sessionsD(2) [OF goodD(6) [OF assms(2)], of sid] that by (force simp: session_over_state)
    with session_bytes_drains [OF assms(1,2) read] read w' show ?thesis by auto
  next
    case (Server_Bytes buffer)
    with assms(3) show ?thesis by (cases "server_bytes reader e (buffer, proxy w)") auto
  next
    case (Other_Event v)
    with assms(3) show ?thesis by (cases "handle_event e v (proxy w)"; cases "v = Client_Connected") auto
  qed
  then show "session_over sid (proxy w') \<or> frames_in reader (buffers w' sid) = [] \<or> buffers w' sid = buffers w sid"
    and "next_session_id (shared (proxy w)) < sid \<Longrightarrow> buffers w' sid = [] \<or> buffers w' sid = buffers w sid" by blast+
qed

lemma session_over_moves_on:
  "moves_on s t \<Longrightarrow> sid \<le> next_session_id (shared s) \<Longrightarrow> session_over sid s \<Longrightarrow> session_over sid t"
  using finished_later [of sid s t] by (simp add: finished_def session_over_state)

lemma net_step_backlog:
  assumes "stable_reader reader" and "reachable e (proxy w)" and "no_backlog reader w" and "net_step reader e ev w w'"
  shows "no_backlog reader w'"
  using assms(4)
proof cases
  case (net_step system realtime)
  let ?w = "w\<lparr>proxy := at_time system realtime (proxy w)\<rparr>"
  note g = reachable_good [OF assms(2)]
  then have "good (proxy ?w)" using effects_good [OF at_time_effects] by simp
  note kept = net_handle_buffers [OF assms(1) this net_step(2)]
  have moves: "moves_on (proxy w) (proxy w')" by (rule history.in_step [OF net_step_step [OF assms(4)] g])
  have "next_session_id (shared (proxy w)) \<le> next_session_id (shared (proxy w'))"
    using moves by (simp add: moves_on_def)
  moreover have "session_over sid (proxy w') \<or> frames_in reader (buffers w sid) = []" for sid
    using assms(3) session_over_moves_on [OF moves, of sid] by (cases "sid \<le> next_session_id (shared (proxy w))")
      (auto simp: no_backlog_def)
  ultimately show ?thesis
    using kept assms(3) unfolding no_backlog_def by (fastforce simp: at_time_def)
qed

section \<open>Properties\<close>

text \<open>
  A reader for the witnesses: a frame is a test request id and a bar after it, and a bar without an id is an
  error.
\<close>

definition demo_test_frame :: "string \<Rightarrow> frame_in" where
  "demo_test_frame i = frame ''ALICE'' 2 (Test_Request \<lparr>tr_test_req_id = i\<rparr>)"

definition demo_reader :: "string \<Rightarrow> found" where
  "demo_reader b =
     (let i = takeWhile (\<lambda>c. c \<noteq> CHR ''|'') b
      in if i = b then Incomplete else if i = [] then Broken else Found (demo_test_frame i) (Suc (length i)))"

lemma demo_reader_stable: "stable_reader demo_reader"
proof -
  have "CHR ''|'' \<in> set b" if "takeWhile (\<lambda>c. c \<noteq> CHR ''|'') b \<noteq> b" for b
    using that takeWhile_eq_all_conv by blast
  moreover have "length (takeWhile (\<lambda>c. c \<noteq> CHR ''|'') b) < length b" if "takeWhile (\<lambda>c. c \<noteq> CHR ''|'') b \<noteq> b" for b
    using that length_takeWhile_le [of "\<lambda>c. c \<noteq> CHR ''|''" b] takeWhile_eq_take [of "\<lambda>c. c \<noteq> CHR ''|''" b]
    by (metis le_neq_implies_less take_all_iff order_refl)
  ultimately show ?thesis
    by (auto simp: stable_reader_def demo_reader_def Let_def Suc_le_eq split: if_splits)
qed

text \<open>
  C5. The bytes of a connection are handled like the frames that are in them: whatever the reader is, a
  handler of \<open>Read\<close> does with the bytes what it does with the frames at the front of the buffer, with the same
  outcome, and so every state that the proxy gets to is one that it gets to with frames.
\<close>

theorem bytes_refine_events:
  "map_result proxy (net_handle reader e ev w) = handle_event e (event_of reader w ev) (proxy w) \<and>
   (net_reachable reader e w \<longrightarrow> reachable e (proxy w))"
proof -
  have "map_result proxy (net_handle reader e ev w) = handle_event e (event_of reader w ev) (proxy w)"
  proof (cases ev)
    case (Client_Bytes sid arrived)
    with session_bytes_frames [of reader e sid arrived "buffers w sid" "proxy w", symmetric] show ?thesis
      by (simp add: result.map_comp comp_def split_def)
  next
    case (Server_Bytes buffer)
    with server_bytes_frames [of reader e buffer "proxy w", symmetric] show ?thesis
      by (simp add: result.map_comp comp_def split_def)
  next
    case (Other_Event v)
    then show ?thesis by (simp add: result.map_comp comp_def result.map_ident)
  qed
  then show ?thesis using net_reachable_reachable by blast
qed

text \<open>A client connects and sends the beginning of a frame.\<close>

definition demo_net :: "char net" where
  "demo_net =
     (case net_handle demo_reader demo_env (Other_Event Client_Connected) \<lparr>proxy = at_time 0 0 demo_start, buffers = \<lambda>_. []\<rparr> of
        Ok w \<Rightarrow> w)"

definition demo_half :: "char net" where
  "demo_half =
     (case net_handle demo_reader demo_env (Client_Bytes 1 ''ab'') (demo_net\<lparr>proxy := at_time 0 0 (proxy demo_net)\<rparr>) of
        Ok w \<Rightarrow> w)"

lemma demo_half_reachable: "net_reachable demo_reader demo_env demo_half"
proof -
  let ?start = "\<lparr>proxy = demo_start, buffers = \<lambda>_. []\<rparr> :: char net"
  have "net_reachable demo_reader demo_env ?start" unfolding demo_start_def by (rule net_start)
  moreover have "net_step demo_reader demo_env (Other_Event Client_Connected) ?start demo_net"
    by (rule net_step [where system = 0 and realtime = 0])
      (simp_all add: demo_net_def demo_start_def create_sys_def new_sys_def new_shared_def)
  moreover have "net_step demo_reader demo_env (Client_Bytes 1 ''ab'') demo_net demo_half"
  proof (rule net_step [where system = 0 and realtime = 0])
    have "case net_handle demo_reader demo_env (Client_Bytes 1 ''ab'') (demo_net\<lparr>proxy := at_time 0 0 (proxy demo_net)\<rparr>) of
        Ok w \<Rightarrow> True | _ \<Rightarrow> False" by code_simp
    then show "net_handle demo_reader demo_env (Client_Bytes 1 ''ab'') (demo_net\<lparr>proxy := at_time 0 0 (proxy demo_net)\<rparr>) =
        Ok demo_half" by (simp add: demo_half_def split: result.splits)
  qed simp
  ultimately show ?thesis by (blast intro: net_turn)
qed

theorem bytes_refine_events_witness:
  "reachable demo_env (proxy demo_half) \<and>
   map_result proxy (net_handle demo_reader demo_env (Client_Bytes 1 ''|c|'') demo_half) =
     session_read demo_env [demo_test_frame ''ab'', demo_test_frame ''c''] 1 (proxy demo_half)"
proof -
  have "frames_in demo_reader (buffers demo_half 1 @ ''|c|'') = [demo_test_frame ''ab'', demo_test_frame ''c'']" by code_simp
  then show ?thesis
    using bytes_refine_events [of demo_reader demo_env "Client_Bytes 1 ''|c|''" demo_half] demo_half_reachable by simp
qed

text \<open>
  C6. It does not matter how the bytes of a connection are cut up on their way: arrivals in any number of
  pieces have the same outcome and leave the proxy in the same state as all of them at once.
\<close>

theorem pieces_do_not_matter:
  assumes "stable_reader reader" and "reachable e s"
  shows "map_result snd (in_order (map (session_bytes reader e sid) (piece # pieces)) (buffer, s)) =
      map_result snd (session_bytes reader e sid (concat (piece # pieces)) (buffer, s)) \<and>
    map_result snd (in_order (map (\<lambda>x (b, s). server_bytes reader e (b @ x, s)) (piece # pieces)) (buffer, s)) =
      map_result snd (server_bytes reader e (buffer @ concat (piece # pieces), s))"
proof
  show "map_result snd (in_order (map (session_bytes reader e sid) (piece # pieces)) (buffer, s)) =
      map_result snd (session_bytes reader e sid (concat (piece # pieces)) (buffer, s))"
  proof (rule arrivals [where keep = good])
    show "leaves (good \<circ> snd) (session_bytes reader e sid xs p)" if "good (snd p)" for xs p
      using session_bytes_leaves [of "snd p" reader e sid xs "fst p"] that by simp
    show "map_result snd (and_then (session_bytes reader e sid xs p) (session_bytes reader e sid ys)) =
        map_result snd (session_bytes reader e sid (xs @ ys) p)" if "good (snd p)" for xs ys p
      using session_bytes_twice [OF assms(1) that, of e sid xs "fst p" ys] by simp
    show "good (snd (buffer, s))" using reachable_good [OF assms(2)] by simp
  qed
  have "map_result snd (in_order (map (\<lambda>x (b, s). server_bytes reader e (b @ x, s)) (piece # pieces)) (buffer, s)) =
      map_result snd ((\<lambda>x (b, s). server_bytes reader e (b @ x, s)) (concat (piece # pieces)) (buffer, s))"
    using server_bytes_twice [OF assms(1), of e]
    by (intro arrivals [where keep = "\<lambda>_. True"]) (auto simp: leaves_True comp_def)
  then show "map_result snd (in_order (map (\<lambda>x (b, s). server_bytes reader e (b @ x, s)) (piece # pieces)) (buffer, s)) =
      map_result snd (server_bytes reader e (buffer @ concat (piece # pieces), s))" by simp
qed

theorem pieces_do_not_matter_witness:
  "map_result snd (in_order (map (session_bytes demo_reader demo_env 1) [''a'', ''|b'', ''|c'']) ([], state_after demo_ready)) =
     session_read demo_env [demo_test_frame ''a'', demo_test_frame ''b''] 1 (state_after demo_ready)"
proof -
  have "frames_in demo_reader ''a|b|c'' = [demo_test_frame ''a'', demo_test_frame ''b'']" by code_simp
  then show ?thesis
    using pieces_do_not_matter [OF demo_reader_stable state_after_reachable, of 1 "''a''" "[''|b'', ''|c'']" "[]" demo_ready]
      session_bytes_frames [of demo_reader demo_env 1 "''a|b|c''" "[]" "state_after demo_ready"]
    by simp
qed

text \<open>
  C17. No complete frame is left in the buffer of a session that goes on, and a session starts with an empty
  buffer: the bytes that are not of the session's own frames are never read by it.
\<close>

theorem no_frame_waits:
  assumes "stable_reader reader" and "net_reachable reader e w"
  shows "no_backlog reader w"
  using assms(2)
proof (induction rule: net_reachable.induct)
  case (net_start users symbols now)
  then show ?case by (simp add: no_backlog_def)
next
  case (net_turn w ev w')
  then show ?case using net_step_backlog [OF assms(1) net_reachable_reachable] by blast
qed

theorem no_frame_waits_witness:
  "frames_in demo_reader (buffers demo_half 1) = [] \<and> buffers demo_half 1 = ''ab''"
proof -
  have "\<not> session_over 1 (proxy demo_half) \<and> buffers demo_half 1 = ''ab''" by code_simp
  with no_frame_waits [OF demo_reader_stable demo_half_reachable] show ?thesis by (auto simp: no_backlog_def)
qed

end
