(* ===== verification/Isolation.thy ===== *)
theory Isolation
  imports Framing Request_Replies
begin

text \<open>
  The clients share one proxy and one upstream session, and are kept apart nevertheless: what one client sends,
  or its going away, does not touch the session of another, its connection or its buffer, and what the bridge
  answers goes to the one client it is for.
\<close>

section \<open>What concerns a client\<close>

fun concerns :: "u64 \<Rightarrow> wire \<Rightarrow> bool" where
  "concerns sid (To_Client i h m) \<longleftrightarrow> i = sid"
| "concerns sid (Close_Client i) \<longleftrightarrow> i = sid"
| "concerns sid _ \<longleftrightarrow> False"

definition spares :: "u64 \<Rightarrow> sys \<Rightarrow> sys \<Rightarrow> bool" where
  "spares sid s t \<longleftrightarrow>
     (\<forall>i. i \<noteq> sid \<longrightarrow> session_of i t = session_of i s \<and>
        filter (concerns i) (out t) = filter (concerns i) (out s)) \<and>
     controller_ready t = controller_ready s \<and> sv_state (server t) = sv_state (server s)"

lemma session_of_parties: "session_of i (s\<lparr>client_to_session := c, session_to_client := d\<rparr>) = session_of i s"
  by (simp add: session_of_def)

interpretation others: answered_relation "spares sid" sid for sid
  by unfold_locales
    (auto simp: spares_def out_client_send session_of_client_send session_of_parties split: option.split)

section \<open>The property\<close>

text \<open>
  C7. Clients are isolated from each other: whatever bytes a client sends and however it goes away, the session
  of every other client is as before, with its buffer, nothing is sent to it, its connection is not closed, and
  the state of the upstream session has not changed.
\<close>

theorem clients_are_isolated:
  assumes "ev = Client_Bytes sid arrived \<or> ev = Other_Event (Client_Disconnected sid)"
    and "net_handle reader e ev w = Ok w'" and "other \<noteq> sid"
  shows "session_of other (proxy w') = session_of other (proxy w) \<and> buffers w' other = buffers w other \<and>
    filter (concerns other) (out (proxy w')) = filter (concerns other) (out (proxy w)) \<and>
    sv_state (server (proxy w')) = sv_state (server (proxy w))"
proof -
  have "handle_event e (event_of reader w ev) (proxy w) = Ok (proxy w')" by (rule net_handle_event [OF assms(2)])
  moreover have "leaves (spares sid (proxy w)) (handle_event e (event_of reader w ev) (proxy w))"
    using assms(1) by (auto simp: others.read others.gone)
  ultimately have "spares sid (proxy w) (proxy w')" by simp
  moreover have "buffers w' other = buffers w other"
    using assms
    by (cases "session_bytes reader e sid arrived (buffers w sid, proxy w)"; cases "session_disconnected e sid (proxy w)") auto
  ultimately show ?thesis using assms(3) by (simp add: spares_def)
qed

definition demo_two :: "char net" where
  "demo_two = \<lparr>proxy = state_after (demo_ready @ [(6, Client_Connected)]), buffers = (\<lambda>_. [])(2 := ''x'')\<rparr>"

theorem clients_are_isolated_witness:
  "\<exists>w'. net_handle demo_reader demo_env (Client_Bytes 2 ''||'') demo_two = Ok w' \<and>
     state_of 2 (proxy w') = Some ZOMBIE \<and> session_of 1 (proxy w') = session_of 1 (proxy demo_two)"
proof -
  have "case net_handle demo_reader demo_env (Client_Bytes 2 ''||'') demo_two of
      Ok w' \<Rightarrow> state_of 2 (proxy w') = Some ZOMBIE | _ \<Rightarrow> False" by code_simp
  then obtain w' where w': "net_handle demo_reader demo_env (Client_Bytes 2 ''||'') demo_two = Ok w'"
    "state_of 2 (proxy w') = Some ZOMBIE" by (auto split: result.splits)
  then show ?thesis using clients_are_isolated [OF _ w'(1), of 2 "''||''" 1] by auto
qed

section \<open>Replies\<close>

text \<open>The session with a route, and the one session that a message of the bridge is for.\<close>

definition owner :: "mapping_ref \<Rightarrow> string \<Rightarrow> sys \<Rightarrow> u64 option" where
  "owner r rid s = map_option fst (find_req_id r rid s)"

fun addressee :: "sys \<Rightarrow> msg \<Rightarrow> u64 option" where
  "addressee s (User_Response v) = user_server_to_client s (urs_user_request_id v)"
| "addressee s (Business_Message_Reject v) =
     (case business_reject_mapping (bmr_ref_msg_type v) of
        None \<Rightarrow> None | Some r \<Rightarrow> owner r (bmr_business_reject_ref_id v) s)"
| "addressee s (Security_List v) = owner SECURITY_REQ_ID (sl_security_req_id v) s"
| "addressee s (Security_Definition v) = owner SECURITY_REQ_ID (sd_security_req_id v) s"
| "addressee s (Security_Status v) = owner SECURITY_STATUS_REQ_ID (ss_security_status_req_id v) s"
| "addressee s (Market_Data_Request_Reject v) = owner MD_REQ_ID (mrj_md_req_id v) s"
| "addressee s (Market_Data_Snapshot_Full_Refresh v) = owner MD_REQ_ID (mds_md_req_id v) s"
| "addressee s (Market_Data_Incremental_Refresh v) = owner MD_REQ_ID (mdi_md_req_id v) s"
| "addressee s (Order_Cancel_Reject v) = owner CL_ORD_ID (ocj_cl_ord_id v) s"
| "addressee s (Order_Mass_Cancel_Report v) = owner MASS_CANCEL_CL_ORD_ID (omr_cl_ord_id v) s"
| "addressee s (Execution_Report v) =
     (if er_ord_status_req_id v \<noteq> [] then owner ORD_STATUS_REQ_ID (er_ord_status_req_id v) s
      else if er_mass_status_req_id v \<noteq> [] then owner MASS_STATUS_REQ_ID (er_mass_status_req_id v) s
      else if er_exec_type v = EXEC_REJECTED then owner CL_ORD_ID (er_cl_ord_id v) s
      else client_to_session s (get_client_from_parties (er_no_party_ids v)))"
| "addressee s (Request_For_Positions_Ack v) = owner POS_REQ_ID (rpa_pos_req_id v) s"
| "addressee s (Position_Report v) = owner POS_REQ_ID (prp_pos_req_id v) s"
| "addressee s (Trade_Capture_Report_Request_Ack v) = owner TRADE_REQUEST_ID (tca_trade_request_id v) s"
| "addressee s (Trade_Capture_Report v) = owner TRADE_REQUEST_ID (tcr_trade_request_id v) s"
| "addressee s _ = None"

text \<open>Every session but this one is as before, and nothing has gone out to it.\<close>

definition reaches :: "u64 option \<Rightarrow> sys \<Rightarrow> sys \<Rightarrow> bool" where
  "reaches a s t \<longleftrightarrow> (\<forall>i. a \<noteq> Some i \<longrightarrow> session_of i t = session_of i s \<and>
     filter (concerns i) (out t) = filter (concerns i) (out s))"

lemma reaches_refl [simp]: "reaches a s s"
  by (simp add: reaches_def)

lemma session_of_counters [simp]:
  "session_of i (s\<lparr>cl_ord_state := x\<rparr>) = session_of i s" "session_of i (s\<lparr>total_num_pos_reports := n\<rparr>) = session_of i s"
  "session_of i (s\<lparr>server := sv\<rparr>) = session_of i s" "session_of i (s\<lparr>controller_ready := b\<rparr>) = session_of i s"
  by (simp_all add: session_of_def)

lemma reaches_simps [simp]:
  "reaches a s (forget_req_id r rid t) = reaches a s t"
  "reaches a s (ensure_cl_ord_id k st t) = reaches a s t"
  "reaches a s (remove_cl_ord_id e k t) = reaches a s t"
  "reaches a s (t\<lparr>total_num_pos_reports := n\<rparr>) = reaches a s t"
  "reaches a s (server_send_helper e m t) = reaches a s t"
  "reaches a s (emit Close_Server t) = reaches a s t"
  "reaches a s (t\<lparr>server := sv\<rparr>) = reaches a s t"
  "reaches a s (t\<lparr>controller_ready := b\<rparr>) = reaches a s t"
  by (simp_all add: reaches_def forget_req_id_def ensure_cl_ord_id_def remove_cl_ord_id_def)

lemma reaches_dispatch: "a = Some sid \<Longrightarrow> reaches a s t \<Longrightarrow> reaches a s (dispatch_to_client e m sid t)"
  by (auto simp: reaches_def dispatch_to_client_sends out_client_send session_of_client_send split: option.split)

lemma reaches_spares: "spares sid s t \<Longrightarrow> reaches (Some sid) s t"
  by (auto simp: spares_def reaches_def)

lemma owner_simps [simp]:
  "find_req_id r rid s = None \<Longrightarrow> owner r rid s = None"
  "find_req_id r rid s = Some (sid, cid, ka) \<Longrightarrow> owner r rid s = Some sid"
  by (simp_all add: owner_def)

lemma find_counters [simp]:
  "find_req_id r rid (ensure_cl_ord_id k st s) = find_req_id r rid s"
  "find_req_id r rid (s\<lparr>total_num_pos_reports := n\<rparr>) = find_req_id r rid s"
  "client_to_session (ensure_cl_ord_id k st s) = client_to_session s"
  "client_to_session (remove_cl_ord_id e k s) = client_to_session s"
  by (simp_all add: find_req_id_def ensure_cl_ord_id_def remove_cl_ord_id_def)

lemma user_response_reaches:
  "leaves (reaches (user_server_to_client s (urs_user_request_id v)) s) (on_user_response e v s)"
proof (cases "user_server_to_client s (urs_user_request_id v)")
  case (Some sid)
  from leaves_mono [OF others.decided [OF Some] reaches_spares] Some show ?thesis by simp
qed (simp add: on_user_response_def)

lemma broadcast_reaches:
  "reaches a s u \<Longrightarrow> client_to_session u client_id = a \<Longrightarrow> reaches a s (broadcast e m client_id u)"
  by (auto simp: broadcast_def intro: reaches_dispatch split: option.split)

lemma order_action_reaches:
  "reaches (if er_exec_type v = EXEC_REJECTED then owner CL_ORD_ID cl_ord_id s else client_to_session s client_id) s
     (on_order_action_report e client_id cl_ord_id orig_cl_ord_id v s)"
proof (cases "er_exec_type v = EXEC_REJECTED")
  case True
  then show ?thesis
    by (auto simp: on_order_action_report_def Let_def is_pending_def intro: reaches_dispatch split: option.split)
qed (simp add: on_order_action_report_def Let_def broadcast_reaches)

lemma status_reports_reach:
  "reaches (owner ORD_STATUS_REQ_ID (er_ord_status_req_id v) s) s (on_order_status_report e cl_ord_id v s)"
  "reaches (owner MASS_STATUS_REQ_ID (er_mass_status_req_id v) s) s (on_mass_status_report e cl_ord_id v s)"
  by (auto simp: on_order_status_report_def on_mass_status_report_def Let_def intro: reaches_dispatch split: option.split)

lemma execution_report_reaches: "reaches (addressee s (Execution_Report v)) s (on_execution_report e v s)"
proof -
  let ?v = "v\<lparr>er_cl_ord_id := get_client_cl_ord_id (er_cl_ord_id v), er_orig_cl_ord_id := get_client_cl_ord_id (er_orig_cl_ord_id v)\<rparr>"
  show ?thesis
    using status_reports_reach [of ?v s e] order_action_reaches [of ?v]
    by (simp add: on_execution_report_def Let_def)
qed

lemma controller_reaches: "leaves (reaches (addressee s m) s) (controller_from_server e m s)"
proof (cases m)
  case (Execution_Report v)
  with execution_report_reaches [of s v e] show ?thesis by (simp del: addressee.simps)
qed (use user_response_reaches in
    \<open>auto simp: on_business_message_reject_def on_security_list_def on_security_definition_def on_security_status_def
      on_market_data_request_reject_def on_market_data_snapshot_def on_market_data_incremental_def
      on_order_cancel_reject_def on_order_mass_cancel_report_def on_request_for_positions_ack_def
      on_position_report_def on_trade_capture_report_request_ack_def on_trade_capture_report_def Let_def
      intro!: reaches_dispatch split: option.split\<close>)

lemma server_frame_reaches: "leaves (reaches (addressee s m) s) (server_frame e (Decoded h m) s)"
proof -
  let ?s = "server_check h s"
  have same: "addressee ?s m = addressee s m"
    by (cases m) (simp_all add: server_check_def owner_def find_req_id_def split: option.split)
  have s: "reaches a ?s t = reaches a s t" for a t
    by (simp add: reaches_def server_check_def)
  have "leaves (reaches (addressee s m) s) (controller_from_server e m ?s)"
    using controller_reaches [of ?s m e] by (simp add: same s [abs_def])
  moreover have "reaches a s ?s" for a by (simp add: server_check_def)
  ultimately show ?thesis
    by (cases m) (simp_all add: server_frame_def server_logon_def on_server_ready_def set_server_state_def server_heartbeat_def
        server_test_request_def server_send_heartbeat_def del: controller_from_server.simps addressee.simps)
qed

text \<open>
  C8. Replies stay private: a message of the bridge reaches one client at most, the one that the request tables,
  the table of logons in progress or the table of parties have under the id or party in the message. Every other
  session is as before, and nothing has been sent to it.
\<close>

theorem replies_stay_private:
  assumes "server_frame e (Decoded h m) s = Ok t" and "addressee s m \<noteq> Some sid"
  shows "session_of sid t = session_of sid s \<and> filter (concerns sid) (out t) = filter (concerns sid) (out s)"
  using server_frame_reaches [of s m e h] assms by (simp add: reaches_def)

theorem replies_stay_private_witness:
  "\<exists>t. server_frame demo_env (frame ''BRIDGE'' 3 (Market_Data_Snapshot_Full_Refresh \<lparr>mds_md_req_id = ''r1'', mds_rest = []\<rparr>))
      (demo_with MD_REQ_ID ''m1'' ''r1'' True) = Ok t \<and>
    addressee (demo_with MD_REQ_ID ''m1'' ''r1'' True)
      (Market_Data_Snapshot_Full_Refresh \<lparr>mds_md_req_id = ''r1'', mds_rest = []\<rparr>) = Some 1 \<and>
    filter (concerns 2) (out t) = filter (concerns 2) (out (demo_with MD_REQ_ID ''m1'' ''r1'' True))"
proof -
  let ?m = "Market_Data_Snapshot_Full_Refresh \<lparr>mds_md_req_id = ''r1'', mds_rest = []\<rparr>" and ?s = "demo_with MD_REQ_ID ''m1'' ''r1'' True"
  obtain t where t: "server_frame demo_env (frame ''BRIDGE'' 3 ?m) ?s = Ok t"
    by (simp add: server_frame_def frame_def)
  have a: "addressee ?s ?m = Some 1" by (simp add: owner_def demo_with_others)
  with replies_stay_private [OF t [unfolded frame_def], of 2] t show ?thesis by auto
qed

end
