(* ===== verification/Answers.thy ===== *)
theory Answers
  imports Scenario
begin

text \<open>
  The history of a route: whatever the request tables lead back to a client has been asked upstream before, with
  the very id that the table knows it by, and on the connection that is up.
\<close>

section \<open>What has been asked on this connection\<close>

text \<open>A connection to the bridge starts with the proxy's logon.\<close>

fun upstream_logon :: "wire \<Rightarrow> bool" where
  "upstream_logon (To_Server h (Logon l)) \<longleftrightarrow> True"
| "upstream_logon _ \<longleftrightarrow> False"

definition this_connection :: "wire list \<Rightarrow> wire list" where
  "this_connection log = takeWhile (\<lambda>x. \<not> upstream_logon x) (rev log)"

fun asking :: "mapping_ref \<Rightarrow> string \<Rightarrow> wire \<Rightarrow> bool" where
  "asking r rid (To_Server h m) \<longleftrightarrow> asks r rid m"
| "asking r rid _ \<longleftrightarrow> False"

definition asked_upstream :: "mapping_ref \<Rightarrow> string \<Rightarrow> wire list \<Rightarrow> bool" where
  "asked_upstream r rid log \<longleftrightarrow> list_ex (asking r rid) (this_connection log)"

lemma asked_upstream_snoc [simp]:
  "asked_upstream r rid (log @ [x]) \<longleftrightarrow> \<not> upstream_logon x \<and> (asking r rid x \<or> asked_upstream r rid log)"
  by (simp add: asked_upstream_def this_connection_def)

lemma asks_no_logon: "asks r rid m \<Longrightarrow> \<not> upstream_logon (To_Server h m)"
  by (cases m) simp_all

lemma requests_are_no_logon: "upstream_keep_alive m \<or> upstream_request m \<Longrightarrow> \<not> upstream_logon (To_Server h m)"
  by (cases m) simp_all

lemma just_asked_upstream: "just_asked r rid s \<Longrightarrow> asked_upstream r rid (out s)"
  using asks_no_logon by (auto simp: just_asked_def)

section \<open>The invariant\<close>

definition all_asked :: "sys \<Rightarrow> bool" where
  "all_asked s \<longleftrightarrow> (\<forall>r rid sid cid ka. server_to_client (mappings s r) rid = Some (sid, cid, ka) \<longrightarrow>
     r = ORD_STATUS_REQ_ID \<and> cid = [] \<or> asked_upstream r rid (out s))"

lemma all_askedI:
  assumes "all_asked s"
    and "\<And>r rid sid cid ka. server_to_client (mappings t r) rid = Some (sid, cid, ka) \<Longrightarrow>
      (\<exists>ka'. server_to_client (mappings s r) rid = Some (sid, cid, ka')) \<or> r = ORD_STATUS_REQ_ID \<and> cid = [] \<or>
      asked_upstream r rid (out t)"
    and "\<And>r rid. asked_upstream r rid (out s) \<Longrightarrow> asked_upstream r rid (out t)"
  shows "all_asked t"
  using assms unfolding all_asked_def by blast

lemma all_asked_effect:
  assumes "effect e s t" and "good s" and "all_asked s"
  shows "all_asked t"
  using assms(1)
proof (cases rule: effect.cases)
  case (to_client sid st m)
  then show ?thesis by (intro all_askedI [OF assms(3)]) (auto simp: out_client_send split: option.split)
next
  case (to_server m)
  then show ?thesis
    using requests_are_no_logon [of m] by (intro all_askedI [OF assms(3)]) auto
next
  case (table r m)
  then show ?thesis by (intro all_askedI [OF assms(3)]) (auto simp: no_new_routes_def split: if_splits)
next
  case (route sid cid r rid ka)
  then show ?thesis
    by (intro all_askedI [OF assms(3)]) (auto simp: add_route_def table_simps try_emplace_def dest: just_asked_upstream split: if_splits)
next
  case (anonymous_route sid rid ka)
  then show ?thesis
    by (intro all_askedI [OF assms(3)]) (auto simp: emplace_server_def try_emplace_def dest: just_asked_upstream split: if_splits)
next
  case connected
  have "r = ORD_STATUS_REQ_ID \<and> cid = []" if "server_to_client (mappings s r) rid = Some (sid, cid, ka)" for r rid sid cid ka
    using routedD(2) [OF goodD(2) [OF assms(2)] that] linkedD(2) [OF goodD(1) [OF assms(2)], of sid] connected
    by (auto simp: server_ready_def)
  with connected show ?thesis by (auto simp: all_asked_def event_defs)
qed (rule all_askedI [OF assms(3)]; simp add: event_defs shared_op_fields)+

lemma all_asked_create: "all_asked (create_sys users symbols now)"
  by (simp add: all_asked_def create_sys_def new_sys_def empty_mapping_def)

interpretation asked: effect_invariant all_asked
  by unfold_locales (auto intro: all_asked_create all_asked_effect)

section \<open>The property\<close>

text \<open>
  C15. A reply that is routed answers a request: in every reachable state, what the tables have under an upstream
  id was sent to the bridge with this id, after the logon of the connection that is up. The only lines that
  outlive their connection are those of order status requests without an id.
\<close>

theorem routes_were_asked:
  assumes "reachable e s" and "find_req_id r rid s = Some (sid, cid, keep_alive)"
  shows "r = ORD_STATUS_REQ_ID \<and> cid = [] \<or> asked_upstream r rid (out s)"
  using asked.always [OF assms(1)] assms(2) by (auto simp: all_asked_def find_req_id_def)

theorem routes_were_asked_witness:
  "asked_upstream MD_REQ_ID ''proxy-2'' (out (state_after demo_trading)) \<and>
   \<not> asked_upstream CL_ORD_ID ''proxy-2'' (out (state_after demo_trading))"
proof -
  have "let s = state_after demo_trading in
      find_req_id MD_REQ_ID ''proxy-2'' s = Some (1, ''m1'', True) \<and> \<not> asked_upstream CL_ORD_ID ''proxy-2'' (out s)"
    by code_simp
  with routes_were_asked [OF state_after_reachable, of MD_REQ_ID "''proxy-2''" demo_trading] show ?thesis by (simp add: Let_def)
qed

section \<open>Status requests without an id\<close>

text \<open>
  C38. Status requests without an id share one line of the table: their upstream id has nothing but the party in
  it, and the line of the first one stays. While it is there, which may be after its session has gone, the next
  request of the party goes upstream all the same, and the reply to it does not reach the one who asked.
\<close>

theorem status_reply_goes_to_first:
  assumes "find_req_id ORD_STATUS_REQ_ID rid s = Some (old, [], ka)" and "old \<noteq> sid"
    and "rid = client_request_id (get_client_from_parties (osr_no_party_ids v)) []"
    and "osr_ord_status_req_id v = []" and "is_valid e (Order_Status_Request v)" and "server_ready s"
    and "er_ord_status_req_id reply = rid"
  shows "\<exists>t. on_order_status_request e v sid s = Ok t \<and> length (sent_upstream (out t)) = Suc (length (sent_upstream (out s))) \<and>
    sent_to sid (out (on_execution_report e reply t)) = sent_to sid (out t) \<and>
    find_req_id ORD_STATUS_REQ_ID rid (on_execution_report e reply t) = None"
proof -
  let ?w = "v\<lparr>osr_ord_status_req_id := rid,
    osr_cl_ord_id := client_request_id (get_client_from_parties (osr_no_party_ids v)) (osr_cl_ord_id v)\<rparr>"
  let ?t = "update_mapping ORD_STATUS_REQ_ID (emplace_server rid (sid, [], False))
    (server_send_helper e (Order_Status_Request ?w) (open_table ORD_STATUS_REQ_ID sid s))"
  have t: "on_order_status_request e v sid s = Ok ?t"
    using assms(3-6) by (simp add: on_order_status_request_def Let_def dispatch_to_server_ready)
  have first: "find_req_id ORD_STATUS_REQ_ID rid ?t = Some (old, [], ka)"
    using assms(1) by (simp add: find_req_id_def emplace_server_def try_emplace_def open_table_def table_simps)
  have rid: "rid \<noteq> []" using assms(3) by (simp add: client_request_id_def)
  have "sent_to sid (out (dispatch_to_client e m old u)) = sent_to sid (out u)" for m u
    using assms(2) by (simp add: dispatch_to_client_sends out_client_send split: option.split)
  moreover have "find_req_id ORD_STATUS_REQ_ID rid (forget_req_id ORD_STATUS_REQ_ID rid u) = None" for u
    using rid by (simp add: find_req_id_def forget_req_id_def remove_req_id_def table_simps split: option.split)
  ultimately show ?thesis
    using t first rid assms(7)
    by (auto simp: on_execution_report_def on_order_status_report_def Let_def ensure_cl_ord_id_def find_req_id_def
        forget_req_id_def open_table_def)
qed

definition demo_status :: order_status_request where
  "demo_status =
     \<lparr>osr_ord_status_req_id = [], osr_cl_ord_id = ''o1'',
      osr_no_party_ids = [\<lparr>party_id = ''42'', party_id_source = PROPRIETARY_CUSTOM_CODE, party_role = CLIENT_ID\<rparr>],
      osr_account = [], osr_symbol = ''BTC'', osr_security_exchange = ''X'', osr_side = [], osr_rest = []\<rparr>"

text \<open>Session 1 has asked without an id; session 2 asks for the same party.\<close>

theorem status_reply_goes_to_first_witness:
  "\<exists>s t. on_order_status_request demo_env demo_status 1 (state_after demo_ready) = Ok s \<and>
     on_order_status_request demo_env demo_status 2 s = Ok t \<and>
     sent_to 2 (out (on_execution_report demo_env ((demo_report [] EXEC_ORDER_STATUS (Other_ord_status ''0''))\<lparr>er_ord_status_req_id := ''proxy-42:''\<rparr>) t)) =
       sent_to 2 (out t)"
proof -
  have "case on_order_status_request demo_env demo_status 1 (state_after demo_ready) of
      Ok s \<Rightarrow> find_req_id ORD_STATUS_REQ_ID ''proxy-42:'' s = Some (1, [], False) \<and> server_ready s | _ \<Rightarrow> False"
    by code_simp
  then obtain s where s: "on_order_status_request demo_env demo_status 1 (state_after demo_ready) = Ok s"
    "find_req_id ORD_STATUS_REQ_ID ''proxy-42:'' s = Some (1, [], False)" "server_ready s"
    by (auto split: result.splits)
  then show ?thesis
    using status_reply_goes_to_first [OF s(2), where sid = 2 and v = demo_status and e = demo_env
        and reply = "(demo_report [] EXEC_ORDER_STATUS (Other_ord_status ''0''))\<lparr>er_ord_status_req_id := ''proxy-42:''\<rparr>"]
    by (auto simp: demo_status_def client_request_id_def get_client_from_parties_def demo_env_def)
qed

end
