(* ===== verification/Party_Lock.thy ===== *)
theory Party_Lock
  imports Scenario
begin

text \<open>
  The table of parties when the bridge answers too late. A client that goes away while its route is being created
  leaves a session that has ended and, for a while, can still be found; the bridge's answer is entered for it. The party
  then stays locked, and a second answer for the party ends the process.
\<close>

section \<open>Whose party an operation can touch\<close>

text \<open>No party but the one of the session \<open>i\<close> changes, and the session gets no other.\<close>

definition party_kept :: "u64 \<Rightarrow> sys \<Rightarrow> sys \<Rightarrow> bool" where
  "party_kept i s t \<longleftrightarrow>
     (\<forall>u. session_to_client s i \<noteq> Some u \<longrightarrow> client_to_session t u = client_to_session s u) \<and>
     (session_to_client t i = session_to_client s i \<or> session_to_client t i = None)"

interpretation parties: client_relation "party_kept sid" sid for sid
  by unfold_locales (auto simp: party_kept_def)

text \<open>A session that has ended does nothing.\<close>

lemma finished_cases:
  assumes "finished sid s"
  shows "session_of sid s = None \<or> (\<exists>c. session_of sid s = Some c \<and> cs_state c = ZOMBIE)"
  using assms by (auto simp: finished_def state_of_def)

lemma finished_inert:
  assumes "finished sid s"
  shows "session_read e fs sid s = Ok s" "session_disconnected e sid s = Ok s" "session_timer e now sid s = Ok s"
    "force_disconnect e sid s = Ok s"
  using finished_cases [OF assms]
  by (auto simp: session_read_def session_disconnected_def make_zombie_def session_timer_def force_disconnect_def Let_def)

section \<open>A locked party\<close>

text \<open>The party \<open>u\<close> is entered for a session that has ended.\<close>

definition locked :: "string \<Rightarrow> u64 \<Rightarrow> sys \<Rightarrow> bool" where
  "locked u sid s \<longleftrightarrow> good s \<and> finished sid s \<and> client_to_session s u = Some sid"

lemma locked_effects:
  assumes "locked u sid s" and "effects e s t" and "client_to_session t u = client_to_session s u"
  shows "locked u sid t"
  using assms effects_good [OF assms(2)] finished_later [OF _ history.changes [OF assms(2)]] by (auto simp: locked_def)

lemma locked_other:
  assumes "locked u sid s" and "effects e s t" and "party_kept i s t" and "i \<noteq> sid"
  shows "locked u sid t"
proof (rule locked_effects [OF assms(1,2)])
  have "converse_maps (client_to_session s) (session_to_client s)"
    using assms(1) goodD(3) [of s] by (simp add: locked_def known_users_def)
  with assms(1,4) have "session_to_client s i \<noteq> Some u" by (auto simp: locked_def converse_mapsD [symmetric])
  with assms(3) show "client_to_session t u = client_to_session s u" by (simp add: party_kept_def)
qed

lemma locked_session:
  assumes "locked u sid s" and "x = Ok t" and "leaves (effects e s) x" and "leaves (party_kept i s) x"
    and "i = sid \<Longrightarrow> x = Ok s"
  shows "locked u sid t"
  using assms locked_other [OF assms(1)] by (cases "i = sid") auto

lemma locked_each_session:
  assumes "\<And>i s. good s \<Longrightarrow> leaves (effects e s) (f i s)" and "\<And>i s. leaves (party_kept i s) (f i s)"
    and "\<And>s. finished sid s \<Longrightarrow> f sid s = Ok s"
  shows "locked u sid s \<Longrightarrow> in_order (map f sids) s = Ok t \<Longrightarrow> locked u sid t"
proof (induction sids arbitrary: s)
  case (Cons i sids)
  then obtain v where v: "f i s = Ok v" "in_order (map f sids) v = Ok t" by auto
  have "good s" "finished sid s" using Cons.prems(1) by (simp_all add: locked_def)
  then have "locked u sid v"
    using assms by (intro locked_session [OF Cons.prems(1) v(1), of e i]) auto
  with Cons.IH v(2) show ?case by blast
qed simp

section \<open>Messages of the bridge\<close>

lemma parties_dispatch [simp]:
  "client_to_session (dispatch_to_client e m i s) = client_to_session s"
  "client_to_session (forget_req_id r rid s) = client_to_session s"
  "client_to_session (ensure_cl_ord_id k st s) = client_to_session s"
  "client_to_session (remove_cl_ord_id e k s) = client_to_session s"
  "client_to_session (broadcast e m k s) = client_to_session s"
  by (simp_all add: dispatch_to_client_sends forget_req_id_def ensure_cl_ord_id_def remove_cl_ord_id_def broadcast_def
      split: option.split)

lemma parties_handlers [simp]:
  "client_to_session (on_business_message_reject e v1 s) = client_to_session s"
  "client_to_session (on_security_list e v2 s) = client_to_session s"
  "client_to_session (on_security_definition e v3 s) = client_to_session s"
  "client_to_session (on_security_status e v4 s) = client_to_session s"
  "client_to_session (on_market_data_request_reject e v5 s) = client_to_session s"
  "client_to_session (on_market_data_snapshot e v6 s) = client_to_session s"
  "client_to_session (on_market_data_incremental e v7 s) = client_to_session s"
  "client_to_session (on_order_cancel_reject e v8 s) = client_to_session s"
  "client_to_session (on_order_mass_cancel_report e v9 s) = client_to_session s"
  "client_to_session (on_request_for_positions_ack e v10 s) = client_to_session s"
  "client_to_session (on_position_report e v11 s) = client_to_session s"
  "client_to_session (on_trade_capture_report_request_ack e v12 s) = client_to_session s"
  "client_to_session (on_trade_capture_report e v13 s) = client_to_session s"
  by (auto simp: on_business_message_reject_def on_security_list_def on_security_definition_def
      on_security_status_def on_market_data_request_reject_def on_market_data_snapshot_def
      on_market_data_incremental_def on_order_cancel_reject_def on_order_mass_cancel_report_def
      on_request_for_positions_ack_def on_position_report_def on_trade_capture_report_request_ack_def
      on_trade_capture_report_def Let_def split: option.split)

lemma parties_execution_report [simp]: "client_to_session (on_execution_report e v s) = client_to_session s"
  by (simp add: on_execution_report_def on_order_status_report_def on_mass_status_report_def
      on_order_action_report_def Let_def split: option.split)

text \<open>The answer to a request of a user changes the party that it names, and the party of a session it ends.\<close>

lemma user_response_parties:
  assumes "on_user_response e v s = Ok t" and "user_server_to_client s (urs_user_request_id v) = Some i"
    and "urs_username v \<noteq> u" and "session_to_client s i = Some u \<Longrightarrow> finished i s"
  shows "client_to_session t u = client_to_session s u"
proof (cases "session_of i s")
  case None
  with assms show ?thesis by (auto simp: on_user_response_def user_remove_def split: option.splits)
next
  case (Some c)
  let ?x = "case urs_user_status v of LOGGED_IN \<Rightarrow> user_add (urs_username v) i s
    | NOT_LOGGED_IN \<Rightarrow> user_remove (urs_username v) (session_ready c) s | _ \<Rightarrow> Ok s"
  let ?settled = "\<lambda>w. w\<lparr>user_client_to_server := erase_key (user_client_to_server w) i,
    user_server_to_client := erase_key (user_server_to_client w) (urs_user_request_id v)\<rparr>"
  from assms(1,2) Some obtain w where w: "?x = Ok w" "session_user_response e v i (?settled w) = Ok t"
    by (auto simp: on_user_response_def)
  have party: "client_to_session w u = client_to_session s u" "session_to_client s i \<noteq> Some u \<Longrightarrow> session_to_client w i \<noteq> Some u"
    "sessions w = sessions s"
    using w(1) assms(3) by (auto simp: user_add_def user_remove_def split: user_status.splits option.splits if_splits)
  show ?thesis
  proof (cases "session_to_client s i = Some u")
    case True
    with assms(4) Some have "cs_state c = ZOMBIE" by (auto dest: finished_cases)
    with Some party(3) w(2) have "t = update_session i (\<lambda>c. c\<lparr>cs_user_response_timeout := 0\<rparr>) (?settled w)"
      by (simp add: session_user_response_def session_of_def Let_def)
    with party(1) show ?thesis by simp
  next
    case False
    have "party_kept i (?settled w) t" using parties.answered [where s = "?settled w" and e = e and v = v and sid = i] w(2) by simp
    with party False show ?thesis by (simp add: party_kept_def)
  qed
qed

text \<open>The event brings an answer of the bridge that names the party.\<close>

definition answers :: "string \<Rightarrow> event \<Rightarrow> bool" where
  "answers u ev \<longleftrightarrow> (\<exists>fs h v. ev = Server_Read fs \<and> Decoded h (User_Response v) \<in> set fs \<and> urs_username v = u)"

lemma locked_frame:
  assumes "locked u sid s" and "connected s" and "server_frame e f s = Ok t"
    and "\<And>h v. f = Decoded h (User_Response v) \<Longrightarrow> urs_username v \<noteq> u"
  shows "locked u sid t \<and> connected t"
proof -
  have g: "good s" using assms(1) by (simp add: locked_def)
  have t: "effects e s t" "connected t" using server_frame_leaves(1) [OF g assms(2), of e f] assms(3) by simp_all
  have "client_to_session t u = client_to_session s u"
  proof (cases f)
    case (Decoded h m)
    show ?thesis
    proof (cases "\<exists>v. m = User_Response v")
      case True
      then obtain v where v: "m = User_Response v" by blast
      let ?s = "server_check h s"
      have r: "on_user_response e v ?s = Ok t" using assms(3) Decoded v by (simp add: server_frame_def)
      then obtain i where i: "user_server_to_client ?s (urs_user_request_id v) = Some i"
        by (auto simp: on_user_response_def split: option.splits)
      have "finished i ?s" if "session_to_client ?s i = Some u"
      proof -
        have "converse_maps (client_to_session s) (session_to_client s)"
          using g goodD(3) [of s] by (simp add: known_users_def)
        with that assms(1) have "i = sid" by (auto simp: locked_def server_check_def converse_mapsD [symmetric])
        with assms(1) show ?thesis by (simp add: locked_def finished_def server_check_def)
      qed
      with user_response_parties [OF r i, of u] assms(4) [of h v] Decoded v show ?thesis by (simp add: server_check_def)
    next
      case False
      with assms(3) Decoded show ?thesis
        by (cases m) (auto simp: server_frame_def server_check_def server_heartbeat_def server_test_request_def
            server_send_heartbeat_def server_logon_def set_server_state_def on_server_ready_def)
    qed
  qed (use assms(3) in \<open>simp_all add: server_frame_def\<close>)
  with t show ?thesis using locked_effects [OF assms(1)] by blast
qed

lemma locked_frames:
  "locked u sid s \<Longrightarrow> connected s \<Longrightarrow> server_read e fs s = Ok t \<Longrightarrow> \<not> answers u (Server_Read fs) \<Longrightarrow> locked u sid t"
proof (induction fs arbitrary: s)
  case (Cons f fs)
  then obtain v where v: "server_frame e f s = Ok v" "server_read e fs v = Ok t" by (auto simp: server_read_def)
  from Cons.prems(4) have "\<not> answers u (Server_Read fs)" and f: "\<And>h v. f = Decoded h (User_Response v) \<Longrightarrow> urs_username v \<noteq> u"
    by (auto simp: answers_def)
  moreover have "locked u sid v \<and> connected v" by (rule locked_frame [OF Cons.prems(1,2) v(1)]) (rule f)
  ultimately show ?case using Cons.IH [OF _ _ v(2)] by blast
qed (simp add: server_read_def)

section \<open>Events\<close>

lemma auth_parties: "auth_text payload s = Ok t \<Longrightarrow> client_to_session t = client_to_session s"
proof (cases payload)
  case (Some entries)
  have "leaves (\<lambda>t. client_to_session t = client_to_session s) (in_order (map auth_apply entries) s)"
    by (rule leaves_in_order) (auto simp: auth_apply_def on_auth_insert_def on_auth_remove_def split: option.split)
  then show "auth_text payload s = Ok t \<Longrightarrow> client_to_session t = client_to_session s"
    using Some by (auto simp: auth_text_def)
qed (simp add: auth_text_def)

lemma locked_event:
  assumes "locked u sid s" and "enabled ev s" and "handle_event e ev s = Ok t" and "\<not> answers u ev"
  shows "locked u sid t"
proof -
  have g: "good s" and fin: "finished sid s" using assms(1) by (simp_all add: locked_def)
  have t: "effects e s t" using handle_event_leaves [OF g assms(2), of e] assms(3) by simp
  show ?thesis
  proof (cases ev)
    case (Timer_Event now)
    let ?s = "server_timer e now s"
    have "locked u sid ?s"
      by (rule locked_effects [OF assms(1) server_timer_effects])
        (simp add: server_timer_def server_send_test_request_def)
    moreover obtain v where v: "in_order (map (session_timer e now) (map fst (sessions ?s))) ?s = Ok v" "t = remove_zombies now v"
      using assms(3) Timer_Event by (auto simp: controller_timer_def manager_timer_def)
    ultimately have "locked u sid v"
      by (intro locked_each_session [OF _ _ _ _ v(1)])
        (auto intro: returns_lands lands_leaves session_timer_returns simp: parties.timed finished_inert)
    then show ?thesis unfolding v(2)
      by (rule locked_effects [OF _ effect_effects [OF effect.collected]])
        (simp add: remove_zombies_def Let_def split: prod.split)
  next
    case (Client_Read i fs)
    have "leaves (effects e s) (session_read e fs i s)" using lands_leaves [OF session_read_lands [OF g]] .
    from locked_session [OF assms(1) _ this parties.read] show ?thesis
      using Client_Read assms(3) finished_inert(1) [OF fin] by simp
  next
    case (Client_Disconnected i)
    have "leaves (effects e s) (session_disconnected e i s)"
      by (intro lands_leaves returns_lands session_disconnected_returns [OF g])
    from locked_session [OF assms(1) _ this parties.gone] show ?thesis
      using Client_Disconnected assms(3) finished_inert(2) [OF fin] by simp
  next
    case Server_Disconnected
    let ?s = "s\<lparr>controller_ready := False\<rparr>"
    have forced: "leaves (effects e v) (force_disconnect e i v)" if "good v" for i v
    proof (cases "state_of i v")
      case None
      then show ?thesis by (simp add: force_disconnect_def state_of_def)
    next
      case (Some st)
      with force_disconnect_returns [OF that, of i e] show ?thesis by (cases "force_disconnect e i v") auto
    qed
    have "locked u sid ?s" by (rule locked_effects [OF assms(1) effect_effects [OF effect.lost]]) simp
    moreover obtain v where v: "in_order (map (force_disconnect e) (map fst (sessions ?s))) ?s = Ok v"
      "client_to_session t = client_to_session v"
      using assms(3) Server_Disconnected by (auto simp: server_disconnected_def on_server_disconnected_def set_server_state_def)
    ultimately have "locked u sid v"
      by (intro locked_each_session [OF forced _ _ _ v(1)]) (auto simp: parties.forced finished_inert)
    with v(2) assms(1) show ?thesis by (intro locked_effects [OF assms(1) t]) (simp add: locked_def)
  next
    case (Server_Read fs)
    with assms(2) have "connected s" by (auto simp: connected_def)
    with assms(3,4) locked_frames [OF assms(1), of e fs t] Server_Read show ?thesis by simp
  next
    case Client_Connected
    with assms(3) show ?thesis by (intro locked_effects [OF assms(1) t]) (auto simp: manager_add_session_def Let_def)
  next
    case Server_Connected
    with assms(3) show ?thesis
      by (intro locked_effects [OF assms(1) t]) (auto simp: server_connected_def server_send_logon_def set_server_state_def)
  next
    case Auth_Ready
    with assms(3) show ?thesis by (intro locked_effects [OF assms(1) t]) (auto simp: auth_ready_def)
  next
    case (Auth_Text payload)
    with assms(3) show ?thesis by (intro locked_effects [OF assms(1) t]) (simp add: auth_parties)
  qed
qed

lemma locked_run:
  "locked u sid s \<Longrightarrow> run e tes s = Some t \<Longrightarrow> \<forall>te \<in> set tes. \<not> answers u (snd te) \<Longrightarrow> locked u sid t"
proof (induction tes arbitrary: s)
  case (Cons te tes)
  then obtain v where v: "enabled (snd te) s" "handle_event e (snd te) (at_time (fst te) (fst te) s) = Ok v" "run e tes v = Some t"
    by (auto simp: turn_of_def split: option.splits result.splits if_splits)
  have "locked u sid (at_time (fst te) (fst te) s)"
    by (rule locked_effects [OF Cons.prems(1) at_time_effects]) (simp add: at_time_def)
  then have "locked u sid v"
    by (rule locked_event [OF _ _ v(2)]) (use v(1) Cons.prems(3) in simp_all)
  with Cons.IH v(3) Cons.prems(3) show ?case by simp
qed simp

section \<open>The late answer\<close>

lemma late_answer_locks:
  assumes "reachable e s" and "state_of sid s = Some ZOMBIE"
    and "user_server_to_client s (urs_user_request_id v) = Some sid" and "urs_user_status v = LOGGED_IN"
    and "turn_of e (now, Server_Read [Decoded h (User_Response v)]) s = Some t"
  shows "locked (urs_username v) sid t"
proof -
  let ?s = "at_time now now s"
  from assms(5) have en: "enabled (Server_Read [Decoded h (User_Response v)]) s"
    and t: "handle_event e (Server_Read [Decoded h (User_Response v)]) ?s = Ok t"
    by (auto simp: turn_of_def split: if_splits result.splits)
  have g: "good s" by (rule reachable_good [OF assms(1)])
  have e: "effects e s ?s" "effects e ?s t"
    using handle_event_leaves [OF effects_good [OF at_time_effects g], of "Server_Read [Decoded h (User_Response v)]" now now e] en t
    by (auto intro: at_time_effects)
  have "finished sid s"
    using assms(2) numbered_sessionsD [OF goodD(6) [OF g]] by (auto simp: finished_def)
  then have "finished sid t" using finished_later history.changes [OF effects_trans [OF e] g] by blast
  moreover have "client_to_session t (urs_username v) = Some sid"
  proof -
    obtain c where c: "session_of sid s = Some c" "cs_state c = ZOMBIE" using assms(2) by (auto simp: state_of_def)
    let ?c = "server_check h ?s"
    have "on_user_response e v ?c = Ok t" using t by (auto simp: server_read_def server_frame_def)
    moreover have "session_of sid ?c = Some c" "user_server_to_client ?c (urs_user_request_id v) = Some sid"
      using c assms(3) by (simp_all add: server_check_def at_time_def session_of_def)
    ultimately show ?thesis using c(2) assms(4)
      by (auto simp: on_user_response_def user_add_def session_user_response_def session_of_def Let_def split: if_splits)
  qed
  ultimately show ?thesis using effects_good [OF effects_trans [OF e] g] by (simp add: locked_def)
qed

text \<open>
  C40. A client that disconnects while its route is being created can lock its party for good. The bridge's answer, when
  it comes before the garbage collection, enters the party for the session that has ended. It stays entered whatever
  happens, the loss of the upstream connection included, until the bridge sends another user response for the party;
  and while it is, every logon of a user of the party ends the session that asks, so the proxy never asks for the
  party again.
\<close>

theorem ended_session_locks_party:
  assumes "reachable e s" and "state_of sid s = Some ZOMBIE"
    and "user_server_to_client s (urs_user_request_id v) = Some sid" and "urs_user_status v = LOGGED_IN"
    and "run e ((now, Server_Read [Decoded h (User_Response v)]) # tes) s = Some t"
    and "\<forall>te \<in> set tes. \<not> answers (urs_username v) (snd te)"
  shows "client_to_session t (urs_username v) = Some sid \<and> finished sid t \<and>
    (\<forall>other (w :: logon) k secret strategy_id. state_of other t = Some WAITING_LOGON \<longrightarrow>
      user_table (shared t) (lg_username w) = Some (secret, strategy_id) \<longrightarrow> decimal (unat strategy_id) = urs_username v \<longrightarrow>
      (\<exists>u. session_logon_request e w k other t = Ok u \<and> state_of other u = Some ZOMBIE))"
proof (intro conjI allI impI)
  from assms(5) obtain u where "turn_of e (now, Server_Read [Decoded h (User_Response v)]) s = Some u" "run e tes u = Some t"
    by (auto split: option.splits)
  then have l: "locked (urs_username v) sid t"
    using late_answer_locks [OF assms(1-4)] locked_run assms(6) by blast
  then show "client_to_session t (urs_username v) = Some sid" "finished sid t" by (simp_all add: locked_def)
  fix other and w :: logon and k secret strategy_id
  assume st: "state_of other t = Some WAITING_LOGON" and user: "user_table (shared t) (lg_username w) = Some (secret, strategy_id)"
    and party: "decimal (unat strategy_id) = urs_username v"
  have "\<not> acceptable e w k t" using l user party by (auto simp: acceptable_def user_is_locked_def locked_def)
  with logon_request_decides [OF _ st, of e w k] l
  show "\<exists>u. session_logon_request e w k other t = Ok u \<and> state_of other u = Some ZOMBIE"
    by (cases "session_logon_request e w k other t") (auto simp: locked_def)
qed

definition demo_left :: "(nanos \<times> event) list" where
  "demo_left = demo_asked @ [(5, Client_Disconnected 1)]"

definition demo_grant :: "u64 \<Rightarrow> string \<Rightarrow> event" where
  "demo_grant n request = Server_Read [frame ''BRIDGE'' n (demo_user_response request ''42'' LOGGED_IN)]"

definition demo_later :: "(nanos \<times> event) list" where
  "demo_later = [(7, Timer_Event 7), (8, Client_Connected)]"

theorem ended_session_locks_party_witness:
  "\<exists>t u. run demo_env ((6, demo_grant 2 ''proxy-1'') # demo_later) (state_after demo_left) = Some t \<and>
     session_of 1 t = None \<and> client_to_session t ''42'' = Some 1 \<and>
     session_logon_request demo_env (demo_logon_of ''alice'' ''secret'') (demo_header ''ALICE'' 1 (demo_logon ''alice'' ''secret'')) 2 t = Ok u \<and>
     state_of 2 u = Some ZOMBIE"
proof -
  let ?v = "\<lparr>urs_user_request_id = ''proxy-1'', urs_username = ''42'', urs_user_status = LOGGED_IN, urs_rest = []\<rparr>"
  have left: "state_of 1 (state_after demo_left) = Some ZOMBIE \<and>
      user_server_to_client (state_after demo_left) ''proxy-1'' = Some 1" by code_simp
  have "case run demo_env ((6, demo_grant 2 ''proxy-1'') # demo_later) (state_after demo_left) of None \<Rightarrow> False
    | Some t \<Rightarrow> session_of 1 t = None \<and> state_of 2 t = Some WAITING_LOGON \<and>
        user_table (shared t) ''alice'' = Some (''secret'', 42) \<and> decimal (unat (42 :: u32)) = ''42''" by code_simp
  then obtain t where t: "run demo_env ((6, demo_grant 2 ''proxy-1'') # demo_later) (state_after demo_left) = Some t"
    "session_of 1 t = None" "state_of 2 t = Some WAITING_LOGON" "user_table (shared t) ''alice'' = Some (''secret'', 42)"
    "decimal (unat (42 :: u32)) = ''42''" by (auto split: option.splits)
  have grant: "demo_grant 2 ''proxy-1'' =
      Server_Read [Decoded (demo_header ''BRIDGE'' 2 (demo_user_response ''proxy-1'' ''42'' LOGGED_IN)) (User_Response ?v)]"
    by (simp add: demo_grant_def frame_def demo_user_response_def)
  have quiet: "\<forall>te \<in> set demo_later. \<not> answers ''42'' (snd te)" by (simp add: demo_later_def answers_def)
  from ended_session_locks_party [where s = "state_after demo_left" and sid = 1 and v = ?v and now = 6 and tes = demo_later
      and t = t and e = demo_env, OF state_after_reachable] left t(1) quiet
  have "client_to_session t ''42'' = Some 1 \<and> (\<forall>other w k secret strategy_id. state_of other t = Some WAITING_LOGON \<longrightarrow>
      user_table (shared t) (lg_username w) = Some (secret, strategy_id) \<longrightarrow> decimal (unat strategy_id) = ''42'' \<longrightarrow>
      (\<exists>u. session_logon_request demo_env w k other t = Ok u \<and> state_of other u = Some ZOMBIE))"
    unfolding grant by simp
  with t show ?thesis by (auto simp: demo_logon_of_def)
qed

text \<open>
  C39. When that client logs on again at once, before the garbage collection, the process can end for everybody. The
  bridge's answer to the first request enters the party for the session that has ended; and if the bridge then grants the
  party to any session that is still there, the handler finds it entered and runs into \<open>log::fatal\<close>, whatever
  has happened in between other than a user response for the party.
\<close>

theorem relogon_ends_process:
  assumes "reachable e s" and "state_of sid s = Some ZOMBIE"
    and "user_server_to_client s (urs_user_request_id v) = Some sid" and "urs_user_status v = LOGGED_IN"
    and "run e ((now, Server_Read [Decoded h (User_Response v)]) # tes) s = Some t"
    and "\<forall>te \<in> set tes. \<not> answers (urs_username v) (snd te)"
    and "user_server_to_client t (urs_user_request_id w) = Some other" and "state_of other t \<noteq> None"
    and "urs_user_status w = LOGGED_IN" and "urs_username w = urs_username v"
  shows "handle_event e (Server_Read [Decoded k (User_Response w)]) (at_time system realtime t) = Fatal ''Unexpected''"
proof -
  from assms(5) obtain u where "turn_of e (now, Server_Read [Decoded h (User_Response v)]) s = Some u" "run e tes u = Some t"
    by (auto split: option.splits)
  then have l: "locked (urs_username v) sid t"
    using late_answer_locks [OF assms(1-4)] locked_run assms(6) by blast
  obtain c where "session_of other t = Some c" using assms(8) by (auto simp: state_of_def)
  with l assms(7,9,10) show ?thesis
    by (simp add: locked_def server_read_def server_frame_def on_user_response_def user_add_def server_check_def at_time_def
        session_of_def)
qed

definition demo_back :: "(nanos \<times> event) list" where
  "demo_back = demo_left @ [(6, Client_Connected), (7, Client_Read 2 [frame ''ALICE'' 1 (demo_logon ''alice'' ''secret'')])]"

theorem relogon_ends_process_witness:
  "\<exists>t. run demo_env [(8, demo_grant 2 ''proxy-1''), (9, Auth_Ready)] (state_after demo_back) = Some t \<and>
     state_of 2 t = Some WAITING_CREATE_ROUTE \<and>
     handle_event demo_env (demo_grant 3 ''proxy-2'') (at_time 10 10 t) = Fatal ''Unexpected''"
proof -
  let ?v = "\<lambda>i. \<lparr>urs_user_request_id = i, urs_username = ''42'', urs_user_status = LOGGED_IN, urs_rest = []\<rparr>"
  have pending: "state_of 1 (state_after demo_back) = Some ZOMBIE \<and>
      user_server_to_client (state_after demo_back) ''proxy-1'' = Some 1" by code_simp
  have "case run demo_env [(8, demo_grant 2 ''proxy-1''), (9, Auth_Ready)] (state_after demo_back) of None \<Rightarrow> False
    | Some t \<Rightarrow> state_of 2 t = Some WAITING_CREATE_ROUTE \<and> user_server_to_client t ''proxy-2'' = Some 2" by code_simp
  then obtain t where t: "run demo_env [(8, demo_grant 2 ''proxy-1''), (9, Auth_Ready)] (state_after demo_back) = Some t"
    "state_of 2 t = Some WAITING_CREATE_ROUTE" "user_server_to_client t ''proxy-2'' = Some 2" by (auto split: option.splits)
  have grant: "demo_grant n i =
      Server_Read [Decoded (demo_header ''BRIDGE'' n (demo_user_response i ''42'' LOGGED_IN)) (User_Response (?v i))]" for n i
    by (simp add: demo_grant_def frame_def demo_user_response_def)
  have "\<forall>te \<in> set [(9 :: nanos, Auth_Ready)]. \<not> answers ''42'' (snd te)" by (simp add: answers_def)
  with relogon_ends_process [where s = "state_after demo_back" and sid = 1 and v = "?v ''proxy-1''" and now = 8 and
      tes = "[(9, Auth_Ready)]" and t = t and w = "?v ''proxy-2''" and other = 2 and e = demo_env, OF state_after_reachable] pending t
  have "handle_event demo_env (demo_grant 3 ''proxy-2'') (at_time 10 10 t) = Fatal ''Unexpected''"
    unfolding grant by simp
  with t show ?thesis by blast
qed

end
