(* ===== verification/Spec2Isabelle.thy ===== *)
theory Spec2Isabelle
  imports Logout Protocol Application Isolation Answers Party_Lock
begin

text \<open>
  The FIX proxy (\<open>src/src/roq/proxy/fix\<close>) stands between many FIX clients and one upstream FIX server (the
  bridge). Clients log on with their own users; the proxy shares one upstream session among them, gives
  every request an id that is unique upstream, and routes the replies back under the client's own id.

  The parts of the program and the theories that model them, in the order of the imports:

  \<^item> \<open>Prelude\<close>: the outcome of an operation (returned, threw, ended the process), tables, decimal
    numbers. \<open>Fix_Messages\<close>: the codec structs and enumerations as far as the proxy reads or writes
    them; fields that are only copied are one component \<open>rest\<close>.
  \<^item> \<open>Crypto\<close> (\<open>tools/crypto.cpp\<close>): the check of a password. \<open>Settings\<close> (\<open>settings.cpp\<close>, \<open>flags\<close>): the
    settings from the flags, and the configuration of the connections. \<open>Config\<close> (\<open>config.cpp\<close>): users and symbols
    from the parsed TOML document. \<open>Shared_State\<close> (\<open>shared.cpp\<close>): users, logons, the sessions to remove,
    the request counter. \<open>Req_Ids\<close> (\<open>controller.hpp\<close>, helpers of \<open>controller.cpp\<close>): upstream ids and the
    two-way request tables.
  \<^item> \<open>Proxy_State\<close>: the record \<open>sys\<close> of the whole state, with the log \<open>out\<close> of everything put on a
    connection. The C++ objects refer to each other; here every operation takes the state and returns it.
  \<^item> \<open>Client_Link\<close>, \<open>Client_Session\<close> (\<open>client/session.cpp\<close>), \<open>Server_Session\<close> (\<open>server/session.cpp\<close>),
    \<open>Controller_Upstream\<close> and \<open>Controller_Requests\<close> (\<open>controller.cpp\<close>): one definition per handler,
    with its guards and early returns in the order of the code. An exception \<open>NotReady\<close> is \<open>Throw\<close> with
    the state reached, \<open>log::fatal\<close> is \<open>Fatal\<close>.
  \<^item> \<open>Proxy\<close>: the manager of the sessions (\<open>client/manager.cpp\<close>), the updates of the authentication
    service (\<open>auth/session.cpp\<close>), and the event loop as the step relation \<open>step\<close> with its reachable
    states. The guard \<open>enabled\<close> is the order of events that the connection manager keeps to.
  \<^item> \<open>Framing\<close>: the bytes below the frames, that is the session's \<open>buffer_\<close> and the loops of the two handlers
    of \<open>Read\<close> (\<open>client/session.cpp\<close>, \<open>server/session.cpp\<close>), with events that carry bytes. The events of \<open>Proxy\<close>
    carry the frames that these loops find.
  \<^item> \<open>Application\<close> (\<open>application.cpp\<close>, the constructor and \<open>run\<close> of \<open>controller.cpp\<close>): from the flags and the
    configuration file over the constructors, which may fail (\<open>built\<close>), and the event loop to the exit code.

  What is shown, and where:

  \<^item> \<open>Effects\<close> is an abstract specification: the relation \<open>effect\<close> lists every change that a part of the
    proxy may make to the state, with the condition under which it may, down to the kinds of messages that it
    may send to whom. \<open>Invariants\<close> shows that the changes keep the invariants (\<open>good\<close>): routes lead to live sessions only, the tables agree, logons
    belong to live sessions, ids are not reused. \<open>Handler_Effects\<close>, \<open>Client_Effects\<close> and \<open>Event_Effects\<close>
    show that every handler, and so every event, refines a sequence of these changes, and which handlers
    can throw. The locales \<open>effect_invariant\<close> and \<open>effect_relation\<close> carry anything that every change
    keeps over to the events; \<open>Lifecycle\<close> interprets them for the numbering of messages in both
    directions, the order of session states, and authentication; \<open>Protocol\<close> for the types of the messages
    and the order in which a client gets them.
  \<^item> \<open>Client_Relation\<close> holds the contract of a relation that the primitive operations of one client session keep
    (\<open>client_relation\<close>, and \<open>answered_relation\<close> for one that leaves the parties open), with the lemma that all handlers of
    the session keep it then. \<open>Isolation\<close> interprets it for the other clients, and shows that no client touches them and
    that an answer of the bridge reaches none but the one it is for; \<open>Event_Effects\<close> interprets it for the state of
    the upstream session, \<open>Party_Lock\<close> for the parties of the other sessions, and shows that an answer which comes
    too late locks the party for good and can end the process.
  \<^item> \<open>Framing\<close> shows that reading bytes refines reading frames, for any reader, and for a reader that is stable
    that it does not matter in which pieces the bytes arrive and that no frame is left behind. \<open>Answers\<close> shows
    that what the tables lead back to a client was asked upstream, and what is different about status requests
    without an id.
  \<^item> \<open>Scenario\<close> runs the proxy on a small configuration; the properties are applied to the states the
    runs end in. \<open>Request_Replies\<close> and \<open>Subscriptions\<close> follow a request and its replies from end to
    end; \<open>Routing\<close> holds the abstract routing tables, one line for each kind of request and reply, that all
    handlers together implement; \<open>No_Abort\<close> what can end the process; \<open>Session_Life\<close> a session from connection to removal, \<open>Logout\<close> its regular end, and this theory
    holds what spans them. \<open>Config\<close> compares the parser with a separate definition of a well-formed document
    and reads back what it writes; \<open>Application\<close> shows what ends the program, and how.

  The locales \<open>id_scheme\<close> and \<open>request_table\<close> (\<open>Req_Ids\<close>) are the contracts of the upstream ids and of
  the request tables, interpreted on the code's own functions. The interfaces between the parts are functions
  of the message: \<open>controller_from_server\<close> and \<open>controller_from_client\<close> are the overloads of the controller that
  the two kinds of sessions call, \<open>upstream_request\<close> and \<open>downstream_reply\<close> the messages that it calls them with.

  Bounds: sequence numbers, session ids and the request counter are 64-bit words that wrap as in the code;
  \<open>enabled\<close> assumes fewer than 2^64 connections, so that session ids do not wrap. Times are integers of
  nanoseconds, but for \<open>Crypto\<close>, where the 64-bit width decides the result. No definition needs fuel:
  every loop of the code runs over a list that is given, and the loops over the bytes of a buffer end because
  each turn takes some of them (the measure of \<open>read_loop\<close>).

  Foreign code is an argument: \<open>is_valid\<close>, \<open>valid_req_id\<close>, \<open>is_order_complete\<close>, the signature and the
  number parser are fields of \<open>env\<close>, the TOML parser and the conversions of its values are fields of \<open>library\<close>, as is
  whether the library accepts a regular expression or an address and whether it can create, start and stop the event
  loop, the signals, the timer, the connections and the listener. Once they have started, calls of these return.
  A signed overflow, which C++ leaves undefined, is two's complement (theory \<open>Crypto\<close>, in the check of a timestamp only).
  \<open>roq::fix::Reader\<close>, which finds a frame in the bytes, is the argument \<open>reader\<close> of \<open>Framing\<close>, and what the proxy
  relies on of it the hypothesis \<open>stable_reader\<close>. The codecs, the JSON parser and the network library do not occur,
  their results are the inputs of the events (\<open>Decoded\<close>, \<open>Undecodable\<close> or \<open>Unreadable\<close> frames, \<open>auth_entry\<close>). What the generated flag classes have read from the
  command line is the record \<open>flags\<close>. The order in which the code walks over an unordered container is the
  order of a list.

  Not modelled: logging, latency measurement and tracing; the inside of connections, timers and signals, of regular
  expressions and addresses; \<open>main.cpp\<close>, which only constructs the service, and the printing of settings and
  configuration; the test and benchmark programs, which check the
  codec and the HMAC of foreign libraries.
\<close>

section \<open>Routes, sessions and the upstream connection\<close>

text \<open>
  C1. In every reachable state a reply that is routed goes to a session that is alive, while the upstream session is
  ready, and the client's own id leads back to the same request. This excepts the lines of order status requests without
  an id, which are not entered in the other direction and may outlive their session.
\<close>

theorem replies_reach_live_sessions:
  assumes "reachable e s" and "find_req_id r rid s = Some (sid, cid, keep_alive)"
  shows "live sid s \<and> server_ready s \<and> find_client_req_id sid cid (mappings s r) = Some rid \<or>
    r = ORD_STATUS_REQ_ID \<and> cid = []"
proof -
  note g = reachable_good [OF assms(1)]
  from assms(2) have r: "server_to_client (mappings s r) rid = Some (sid, cid, keep_alive)"
    by (simp add: find_req_id_def)
  from backedD [OF routedD(1) [OF goodD(2) [OF g]] r] routedD(2) [OF goodD(2) [OF g] r] linkedD(2) [OF goodD(1) [OF g], of sid]
  show ?thesis by auto
qed

theorem replies_reach_live_sessions_witness:
  "live 1 (state_after demo_trading) \<and>
   find_client_req_id 1 ''m1'' (mappings (state_after demo_trading) MD_REQ_ID) = Some ''proxy-2''"
proof -
  have "find_req_id MD_REQ_ID ''proxy-2'' (state_after demo_trading) = Some (1, ''m1'', True)" by code_simp
  from replies_reach_live_sessions [OF state_after_reachable this] show ?thesis by simp
qed

text \<open>
  The controller believes the upstream session to be ready only when it is, a session is alive only
  then, and the two tables of parties are each other's converse.
\<close>

theorem proxy_is_consistent:
  assumes "reachable e s"
  shows "(controller_ready s \<longrightarrow> server_ready s) \<and> (\<forall>sid. live sid s \<longrightarrow> server_ready s) \<and>
    (\<forall>u sid. client_to_session s u = Some sid \<longleftrightarrow> session_to_client s sid = Some u)"
  using goodD(1,3) [OF reachable_good [OF assms]] by (auto simp: linked_def known_users_def converse_maps_def)

theorem proxy_is_consistent_witness:
  "server_ready (state_after demo_ready)"
  using proxy_is_consistent [OF state_after_reachable, of demo_ready] demo_ready_state(4) by blast

text \<open>
  C19. A session that asks for a route or has one belongs to a user who has logged on, and this user has
  no other session.
\<close>

theorem one_session_per_user:
  assumes "reachable e s" and "state_of sid s = Some WAITING_CREATE_ROUTE \<or> state_of sid s = Some READY"
  shows "\<exists>u. session_to_username (shared s) sid = Some u \<and> username_to_session (shared s) u = Some sid \<and>
    (\<forall>sid'. session_to_username (shared s) sid' = Some u \<longrightarrow> sid' = sid)"
proof -
  from users.always [OF assms(1)] assms(2) obtain u where u: "session_to_username (shared s) sid = Some u"
    by (auto simp: authenticated_def)
  have "logons_agree (shared s)" by (rule logged_onD(1) [OF goodD(4) [OF reachable_good [OF assms(1)]]])
  then have "username_to_session (shared s) u = Some sid' \<longleftrightarrow> session_to_username (shared s) sid' = Some u" for sid'
    by (simp add: logons_agree_def converse_mapsD)
  with u show ?thesis by (metis option.inject)
qed

theorem one_session_per_user_witness:
  "\<exists>u. session_to_username (shared (state_after demo_ready)) 1 = Some u"
  using one_session_per_user [OF state_after_reachable, of 1 demo_ready] demo_ready_state(1,2) by (auto simp: state_of_def)

text \<open>
  C9. Nothing a client, a timer or a connection does throws out of the event loop. What does is input
  that is not what it should be, a frame of the server that cannot be decoded or an update of the
  authentication service that does not parse or lacks a field, and no event with such input is handled to
  its end.
\<close>

theorem only_bad_input_throws:
  assumes "reachable e s" and "enabled ev s"
  shows "(throws (handle_event e ev s) \<longrightarrow> bad_input ev) \<and> (\<forall>t. handle_event e ev s = Ok t \<longrightarrow> \<not> bad_input ev)"
  by (rule handle_event_throws [OF reachable_good [OF assms(1)] assms(2)])

theorem only_bad_input_throws_witness:
  "\<not> throws (handle_event demo_env (Timer_Event 7) demo_start) \<and>
   (\<forall>t. handle_event demo_env (Auth_Text None) demo_start \<noteq> Ok t)"
  using only_bad_input_throws [OF demo_start_reachable, of "Timer_Event 7"]
    only_bad_input_throws [OF demo_start_reachable, of "Auth_Text None"]
  by simp

text \<open>
  C27. When the upstream connection is lost every session is ended, nobody is logged on any more, and no request is
  waiting for a reply, but for order status requests without an id, whose lines stay.
\<close>

theorem upstream_loss_ends_all_sessions:
  assumes "reachable e s"
  shows "\<exists>t. server_disconnected e s = Ok t \<and> \<not> controller_ready t \<and> sv_state (server t) = DISCONNECTED \<and>
    (\<forall>sid. state_of sid t = (if state_of sid s = None then None else Some ZOMBIE)) \<and>
    (\<forall>sid. session_to_username (shared t) sid = None) \<and>
    (\<forall>r rid sid cid keep_alive. find_req_id r rid t = Some (sid, cid, keep_alive) \<longrightarrow> r = ORD_STATUS_REQ_ID \<and> cid = [])"
proof -
  note g = reachable_good [OF assms]
  obtain t where t: "server_disconnected e s = Ok t" "effects e s t" "\<not> controller_ready t" "server t = new_server_session"
    "\<And>sid. state_of sid t = (if state_of sid s = None then None else Some ZOMBIE)"
    using server_disconnected_returns [OF g, of e] by (cases "server_disconnected e s") auto
  note gt = effects_good [OF t(2) g]
  have dead: "\<not> live sid t" for sid using t(5) by (simp add: live_iff)
  have "session_to_username (shared t) sid = None" for sid
    using logged_onD(2) [OF goodD(4) [OF gt], of sid] dead by (cases "session_to_username (shared t) sid") auto
  with t no_routes_of_dead [OF gt dead] show ?thesis
    by (auto simp: no_routes_def find_req_id_def new_server_session_def)
qed

theorem upstream_loss_ends_all_sessions_witness:
  "\<exists>t. server_disconnected demo_env (state_after demo_trading) = Ok t \<and> state_of 1 t = Some ZOMBIE"
  using upstream_loss_ends_all_sessions [OF state_after_reachable, of demo_trading] demo_trading_state by auto

section \<open>What happens over time\<close>

text \<open>
  C18. A session passes its states in their order and never goes back, an id is never given to another
  session, and what has been sent is not taken back.
\<close>

theorem sessions_only_move_on:
  assumes "reachable e s" and "step e ev s t" and "sid \<le> next_session_id (shared s)"
  shows "later (state_of sid s) (state_of sid t) \<and> next_session_id (shared s) \<le> next_session_id (shared t) \<and>
    (\<exists>sent. out t = out s @ sent)"
  using history.in_step [OF assms(2) reachable_good [OF assms(1)]] assms(3) by (auto simp: moves_on_def)

theorem sessions_only_move_on_witness:
  "\<exists>t. later (state_of 1 (state_after demo_ready)) (state_of 1 t) \<and> step demo_env Client_Connected (state_after demo_ready) t"
proof -
  have n: "next_session_id (shared (state_after demo_ready)) = 1" by code_simp
  have "step demo_env Client_Connected (state_after demo_ready) (manager_add_session demo_env (at_time 0 0 (state_after demo_ready)))"
    using n by (intro step.step [where system = 0 and realtime = 0]) simp_all
  with sessions_only_move_on [OF state_after_reachable this, of 1] n show ?thesis by auto
qed

text \<open>
  C11. A session that has come to its end stays there, and nothing is sent to it any more, whatever
  happens afterwards.
\<close>

theorem nothing_is_sent_after_the_end:
  assumes "reachable e s" and "finished sid s" and "run e tes s = Some t"
  shows "finished sid t \<and> sent_to sid (out t) = sent_to sid (out s)"
  using run_moves_on [OF assms(3,1)] finished_later [OF assms(2)] assms(2) by (auto simp: moves_on_def)

theorem nothing_is_sent_after_the_end_witness:
  "\<exists>t. run demo_env [(7, Client_Connected)] (state_after (demo_ready @ [(6, Client_Disconnected 1)])) = Some t \<and>
     finished 1 t \<and> sent_to 1 (out t) = sent_to 1 (out (state_after (demo_ready @ [(6, Client_Disconnected 1)])))"
proof -
  let ?s = "state_after (demo_ready @ [(6, Client_Disconnected 1)])"
  have f: "finished 1 ?s \<and> next_session_id (shared ?s) \<noteq> - 1" by code_simp
  then obtain t where t: "run demo_env [(7, Client_Connected)] ?s = Some t" by (simp add: turn_of_def)
  from nothing_is_sent_after_the_end [OF state_after_reachable conjunct1 [OF f] t] t show ?thesis by simp
qed

text \<open>
  C21. The messages to a client are numbered from 1 without a gap, and the session's counter is the
  number of the last one.
\<close>

theorem client_messages_are_numbered:
  assumes "reachable e s"
  shows "map hd_msg_seq_num (sent_to sid (out s)) = numbers (length (sent_to sid (out s))) \<and>
    (case session_of sid s of None \<Rightarrow> True | Some c \<Rightarrow> cs_outbound c = of_nat (length (sent_to sid (out s))))"
  using to_clients.always [OF assms, rule_format, of sid]
  by (auto simp: numbered_to_def Let_def outbound_of_def split: option.splits)

theorem client_messages_are_numbered_witness:
  "map hd_msg_seq_num (sent_to 1 (out (state_after demo_ready))) = [1]"
proof -
  have "length (sent_to 1 (out (state_after demo_ready))) = 1" by code_simp
  with client_messages_are_numbered [OF state_after_reachable, of 1 demo_ready] show ?thesis by (simp add: numbers_def)
qed

text \<open>
  C22. The messages to the server are numbered without a gap, and start again at 1 only with the logon of
  a new connection.
\<close>

theorem server_messages_are_numbered:
  assumes "reachable e s"
  shows "gapless 0 (sent_upstream (out s)) \<and>
    sv_outbound (server s) = (if sv_state (server s) = DISCONNECTED then 0 else last_number 0 (sent_upstream (out s)))"
  using to_server.always [OF assms] by (auto simp: numbered_upstream_def connected_def)

theorem server_messages_are_numbered_witness:
  "gapless 0 (sent_upstream (out (state_after demo_trading)))"
  using server_messages_are_numbered [OF state_after_reachable, of demo_trading] by simp

section \<open>Sessions that are left behind\<close>

text \<open>
  When it is due, the garbage collection removes exactly the sessions that have ended, and leaves the
  others as they are.
\<close>

theorem garbage_collection_removes_the_ended:
  assumes "reachable e s" and "next_garbage_collection s \<le> now"
  shows "session_of sid (remove_zombies now s) =
      (if state_of sid s = Some ZOMBIE then None else session_of sid s) \<and>
    sessions_to_remove (shared (remove_zombies now s)) = []"
  using numbered_sessionsD(4) [OF goodD(6) [OF reachable_good [OF assms(1)]], of sid] assms(2)
  by (auto simp: remove_zombies_def session_cleanup_def Let_def session_of_def map_of_fold_delete)

theorem garbage_collection_removes_the_ended_witness:
  "session_of 1 (remove_zombies 100 (state_after (demo_ready @ [(6, Client_Disconnected 1)]))) = None"
proof -
  let ?s = "state_after (demo_ready @ [(6, Client_Disconnected 1)])"
  have "state_of 1 ?s = Some ZOMBIE \<and> next_garbage_collection ?s \<le> 100" by code_simp
  with garbage_collection_removes_the_ended [OF state_after_reachable, of "demo_ready @ [(6, Client_Disconnected 1)]" 100 1]
  show ?thesis by simp
qed

section \<open>The upstream session\<close>

text \<open>
  A logout of the server is not answered: the session decodes it as a heartbeat, nothing is sent, the
  connection is not closed and the state stays the same.
\<close>

theorem server_logout_is_ignored:
  "\<exists>t. server_frame e (Decoded h (Logout v)) s = Ok t \<and> out t = out s \<and> server_ready t = server_ready s \<and>
     sessions t = sessions s \<and> controller_ready t = controller_ready s"
  by (simp add: server_frame_def Let_def server_heartbeat_def server_check_def server_ready_def)

text \<open>
  A business reject of the server comes back under the client's own id, except for an order mass
  cancel request: that one is dropped, although the proxy has its route.
\<close>

theorem business_reject_returns:
  assumes "business_reject_mapping (bmr_ref_msg_type v) = Some r"
    and "find_req_id r (bmr_business_reject_ref_id v) s = Some (sid, cid, keep_alive)"
    and "bmr_ref_msg_type w = MT_ORDER_MASS_CANCEL_REQUEST"
  shows "out (on_business_message_reject e v s) =
      out s @ delivered e (Business_Message_Reject (v\<lparr>bmr_business_reject_ref_id := cid\<rparr>)) sid s \<and>
    on_business_message_reject e w s = s"
  using assms by (simp add: on_business_message_reject_def)

definition demo_reject :: "msg_type \<Rightarrow> string \<Rightarrow> business_message_reject" where
  "demo_reject t rid = \<lparr>bmr_ref_seq_num = 1, bmr_ref_msg_type = t, bmr_business_reject_ref_id = rid,
     bmr_business_reject_reason = BUSINESS_REJECT_OTHER, bmr_text = []\<rparr>"

theorem business_reject_returns_witness:
  "on_business_message_reject demo_env (demo_reject MT_ORDER_MASS_CANCEL_REQUEST ''r1'') (demo_with MD_REQ_ID ''m1'' ''r1'' True) =
     demo_with MD_REQ_ID ''m1'' ''r1'' True"
  using business_reject_returns [of "demo_reject MT_MARKET_DATA_REQUEST ''r1''" MD_REQ_ID "demo_with MD_REQ_ID ''m1'' ''r1'' True" 1 "''m1''" True
      "demo_reject MT_ORDER_MASS_CANCEL_REQUEST ''r1''" demo_env]
  by (simp add: demo_reject_def demo_with_others)

end
